(* ===== verification/Prelude.thy ===== *)
theory Prelude
  imports Main "HOL-Library.Word"
begin

text \<open>
  Shared vocabulary of the development: bytes, the error codes that the protocol packages
  raise, a result type for fallible code, splicing into a byte buffer, and big- and
  little-endian unsigned integers written and read by the loops the sources use.

  A thrown \<^verbatim>\<open>BlindProtocolError\<close> is a value \<open>Inl code\<close>; the human-readable message of an
  error is diagnostic text and is not modelled.  A JavaScript \<^verbatim>\<open>TypeError\<close> or plain
  \<^verbatim>\<open>Error\<close> thrown by the same code is the code \<open>TYPE_ERROR\<close>.  \<open>OUT_OF_FUEL\<close> is no error of the
  source: it is the result of a loop that the model follows for a bounded number of rounds
  and that has not ended by then.
\<close>

unbundle bit_operations_syntax

named_theorems codec_simps \<open>equations of the codec combinators\<close>
named_theorems lawful_intros \<open>combinators keep the codec laws\<close>

subsection \<open>Bytes, errors, results\<close>

type_synonym byte = "8 word"
type_synonym bytes = "byte list"

datatype perr = BAD_ENCODING | BAD_VERSION | TOO_LARGE | BUSY | CONFLICT | EXPIRED
  | RETRY_TERMINAL | TYPE_ERROR | OUT_OF_FUEL

type_synonym 'a res = "perr + 'a"

definition rbind :: "'a res \<Rightarrow> ('a \<Rightarrow> 'b res) \<Rightarrow> 'b res" where
  "rbind m f = (case m of Inl e \<Rightarrow> Inl e | Inr x \<Rightarrow> f x)"

lemma rbind_simps [simp]: "rbind (Inl e) f = Inl e" "rbind (Inr x) f = f x"
  by (simp_all add: rbind_def)

lemma rbind_Inr_iff: "rbind m f = Inr y \<longleftrightarrow> (\<exists>x. m = Inr x \<and> f x = Inr y)"
  by (cases m) simp_all

lemma rbind_assoc: "rbind (rbind m f) g = rbind m (\<lambda>x. rbind (f x) g)"
  by (cases m) simp_all

lemma rbind_case_prod:
  "rbind (case x of (a, b) \<Rightarrow> f a b) g = (case x of (a, b) \<Rightarrow> rbind (f a b) g)"
  by (cases x) simp

lemma rbind_Inr_right [simp]: "rbind m Inr = m"
  by (cases m) simp_all

lemma rbind_cong [fundef_cong]:
  "m = m' \<Longrightarrow> (\<And>x. m' = Inr x \<Longrightarrow> f x = g x) \<Longrightarrow> rbind m f = rbind m' g"
  by (cases m') simp_all

text \<open>A sequence of \<^verbatim>\<open>if (c) fail(...)\<close> statements: the first condition that holds rejects.\<close>

definition reject_if :: "bool list \<Rightarrow> unit res" where
  "reject_if cs = (if list_ex (\<lambda>c. c) cs then Inl BAD_ENCODING else Inr ())"

lemma reject_if_Inr [simp]: "reject_if cs = Inr u \<longleftrightarrow> (\<forall>c\<in>set cs. \<not> c)"
  by (auto simp: reject_if_def list_ex_iff)

text \<open>Statements that may throw, one after the other.\<close>

fun checks :: "unit res list \<Rightarrow> unit res" where
  "checks [] = Inr ()"
| "checks (c # cs) = rbind c (\<lambda>_. checks cs)"

lemma checks_Inr [simp]: "checks cs = Inr u \<longleftrightarrow> (\<forall>c\<in>set cs. c = Inr ())"
  by (induction cs) (auto simp: rbind_Inr_iff)

definition raise_if :: "bool \<Rightarrow> perr \<Rightarrow> unit res" where
  "raise_if c e = (if c then Inl e else Inr ())"

lemma raise_if_Inr [simp]: "raise_if c e = Inr u \<longleftrightarrow> \<not> c"
  by (simp add: raise_if_def)

subsection \<open>Writing into a buffer\<close>

definition put_bytes :: "'a list \<Rightarrow> nat \<Rightarrow> 'a list \<Rightarrow> 'a list" where
  "put_bytes buf off bs = take off buf @ bs @ drop (off + length bs) buf"

lemma length_put_bytes [simp]:
  "off + length bs \<le> length buf \<Longrightarrow> length (put_bytes buf off bs) = length buf"
  by (simp add: put_bytes_def)

lemma put_bytes_Nil [simp]: "off \<le> length buf \<Longrightarrow> put_bytes buf off [] = buf"
  by (simp add: put_bytes_def)

lemma put_bytes_append:
  assumes "off + length xs + length ys \<le> length buf"
  shows "put_bytes (put_bytes buf off xs) (off + length xs) ys = put_bytes buf off (xs @ ys)"
  using assms by (simp add: put_bytes_def ac_simps)

lemma put_bytes_single: "off < length buf \<Longrightarrow> buf[off := x] = put_bytes buf off [x]"
  by (simp add: put_bytes_def upd_conv_take_nth_drop)

lemma put_bytes_all [simp]: "length bs = length buf \<Longrightarrow> put_bytes buf 0 bs = bs"
  by (simp add: put_bytes_def)

lemma take_drop_put_bytes [simp]:
  "off + length bs \<le> length buf \<Longrightarrow> take (length bs) (drop off (put_bytes buf off bs)) = bs"
  by (simp add: put_bytes_def)

lemma put_bytes_update_after:
  assumes "off + length bs = k" "k < length buf"
  shows "put_bytes (buf[k := x]) off bs = put_bytes buf off (bs @ [x])"
  using assms by (simp add: put_bytes_def drop_update_cancel upd_conv_take_nth_drop take_drop min_def)

subsection \<open>Big-endian unsigned integers\<close>

fun be_val :: "bytes \<Rightarrow> int" where
  "be_val [] = 0"
| "be_val (b # bs) = uint b * 256 ^ length bs + be_val bs"

fun be_bytes :: "nat \<Rightarrow> int \<Rightarrow> bytes" where
  "be_bytes 0 v = []"
| "be_bytes (Suc n) v = be_bytes n (v div 256) @ [word_of_int (v mod 256)]"

lemma length_be_bytes [simp]: "length (be_bytes n v) = n"
  by (induction n arbitrary: v) simp_all

lemma be_val_snoc: "be_val (bs @ [b]) = be_val bs * 256 + uint b"
  by (induction bs) (simp_all add: algebra_simps)

lemma uint_byte_range: "0 \<le> uint (b::byte)" "uint (b::byte) < 256"
  using uint_range_size [of b] by (simp_all add: word_size)

lemma be_val_range: "0 \<le> be_val bs" "be_val bs < 256 ^ length bs"
proof (induction bs rule: rev_induct)
  case (snoc b bs)
  { case 1 then show ?case using snoc uint_byte_range [of b] by (simp add: be_val_snoc) }
  { case 2
    have "be_val bs + 1 \<le> 256 ^ length bs" using snoc by simp
    then have "be_val bs * 256 + 256 \<le> 256 ^ length bs * 256" by simp
    then show ?case using uint_byte_range [of b] by (simp add: be_val_snoc) }
qed simp_all

lemma uint_word_of_int_byte: "0 \<le> v \<Longrightarrow> v < 256 \<Longrightarrow> uint (word_of_int v :: byte) = v"
  by (simp add: uint_word_of_int)

lemma be_val_be_bytes: "0 \<le> v \<Longrightarrow> v < 256 ^ n \<Longrightarrow> be_val (be_bytes n v) = v"
proof (induction n arbitrary: v)
  case (Suc n)
  have "v div 256 < 256 ^ n"
  proof (rule ccontr)
    assume "\<not> ?thesis"
    then have "256 * 256 ^ n \<le> 256 * (v div 256)" by simp
    also have "\<dots> \<le> v" by simp
    finally show False using Suc.prems by simp
  qed
  with Suc have "be_val (be_bytes n (v div 256)) = v div 256" by simp
  then show ?case by (simp add: be_val_snoc uint_word_of_int_byte)
qed simp

lemma be_bytes_be_val: "be_bytes (length bs) (be_val bs) = bs"
proof (induction bs rule: rev_induct)
  case (snoc b bs)
  have "(be_val bs * 256 + uint b) div 256 = be_val bs" "(be_val bs * 256 + uint b) mod 256 = uint b"
    using uint_byte_range [of b] by simp_all
  with snoc show ?case by (simp add: be_val_snoc)
qed simp

lemma be_bytes_be_val_eq: "length bs = n \<Longrightarrow> be_bytes n (be_val bs) = bs"
  using be_bytes_be_val by blast

end
