(* ===== verification/Js_Value.thy ===== *)
theory Js_Value
  imports Prelude
begin

text \<open>
  The JavaScript values that reach the protocol packages, the property read \<^verbatim>\<open>value[name]\<close>,
  the numeric predicates the sources use (\<^verbatim>\<open>Number.isSafeInteger\<close>, \<^verbatim>\<open>typeof\<close>), the 32-bit
  bitwise operators of JavaScript numbers, and the platform services that the packages call
  but that are not part of the repository.

  \<open>JNum\<close> is a number with an integral value, \<open>JBig\<close> a bigint, \<open>JBytes\<close> any byte container
  (Buffer, typed array, ArrayBuffer).  \<open>JOther\<close> stands for every value that is neither of
  the others nor an object: non-integral numbers, symbols, functions.
\<close>

datatype jsval =
    JUndef
  | JNull
  | JBool bool
  | JNum int
  | JBig int
  | JStr string
  | JBytes bytes
  | JArr "jsval list"
  | JObj "(string \<times> jsval) list"
  | JOther

type_synonym obj = "(string \<times> jsval) list"

definition MAX_SAFE_INTEGER :: int where
  "MAX_SAFE_INTEGER = 9007199254740991"

definition MAX_U64 :: int where
  "MAX_U64 = 18446744073709551615"

fun isSafeInteger :: "jsval \<Rightarrow> bool" where
  "isSafeInteger (JNum i) = (\<bar>i\<bar> \<le> MAX_SAFE_INTEGER)"
| "isSafeInteger _ = False"

text \<open>\<^verbatim>\<open>value == null\<close>\<close>

fun is_nullish :: "jsval \<Rightarrow> bool" where
  "is_nullish JUndef = True"
| "is_nullish JNull = True"
| "is_nullish _ = False"

text \<open>\<^verbatim>\<open>value && typeof value === 'object'\<close>\<close>

fun is_object :: "jsval \<Rightarrow> bool" where
  "is_object (JBytes _) = True"
| "is_object (JArr _) = True"
| "is_object (JObj _) = True"
| "is_object _ = False"

text \<open>\<^verbatim>\<open>value[name]\<close>\<close>

fun getf :: "jsval \<Rightarrow> string \<Rightarrow> jsval" where
  "getf (JObj fs) n = (case map_of fs n of None \<Rightarrow> JUndef | Some x \<Rightarrow> x)"
| "getf (JArr xs) n = (if n = ''length'' then JNum (int (length xs)) else JUndef)"
| "getf (JBytes bs) n =
     (if n = ''length'' \<or> n = ''byteLength'' then JNum (int (length bs)) else JUndef)"
| "getf _ n = JUndef"

text \<open>\<^verbatim>\<open>value[name] = x\<close> on an object under construction: a new name is appended.\<close>

fun obj_set :: "obj \<Rightarrow> string \<Rightarrow> jsval \<Rightarrow> obj" where
  "obj_set [] n x = [(n, x)]"
| "obj_set ((m, y) # fs) n x = (if m = n then (m, x) # fs else (m, y) # obj_set fs n x)"

lemma obj_set_fresh [simp]: "n \<notin> fst ` set fs \<Longrightarrow> obj_set fs n x = fs @ [(n, x)]"
  by (induction fs n x rule: obj_set.induct) auto

lemma map_of_obj_set [simp]: "map_of (obj_set fs n x) = (map_of fs)(n \<mapsto> x)"
  by (induction fs n x rule: obj_set.induct) auto

lemma getf_append_fresh: "n \<in> fst ` set fs \<Longrightarrow> getf (JObj (fs @ gs)) n = getf (JObj fs) n"
  by (auto simp: map_add_def dest: weak_map_of_SomeI split: option.splits)

text \<open>
  Typed reads used by the schema validators.  A validator runs only after every field of
  the object passed its own codec, so the default branches are never taken there.
\<close>

fun as_num :: "jsval \<Rightarrow> int" where
  "as_num (JNum i) = i"
| "as_num _ = 0"

fun as_big :: "jsval \<Rightarrow> int" where
  "as_big (JNum i) = i"
| "as_big (JBig i) = i"
| "as_big _ = 0"

fun as_bytes :: "jsval \<Rightarrow> bytes" where
  "as_bytes (JBytes bs) = bs"
| "as_bytes _ = []"

fun as_arr :: "jsval \<Rightarrow> jsval list" where
  "as_arr (JArr xs) = xs"
| "as_arr _ = []"

abbreviation numf :: "jsval \<Rightarrow> string \<Rightarrow> int" where
  "numf v n \<equiv> as_num (getf v n)"

abbreviation bigf :: "jsval \<Rightarrow> string \<Rightarrow> int" where
  "bigf v n \<equiv> as_big (getf v n)"

abbreviation bytesf :: "jsval \<Rightarrow> string \<Rightarrow> bytes" where
  "bytesf v n \<equiv> as_bytes (getf v n)"

abbreviation arrf :: "jsval \<Rightarrow> string \<Rightarrow> jsval list" where
  "arrf v n \<equiv> as_arr (getf v n)"

abbreviation absent :: "jsval \<Rightarrow> string \<Rightarrow> bool" where
  "absent v n \<equiv> is_nullish (getf v n)"

subsection \<open>Bitwise operators of JavaScript numbers\<close>

definition to_int32 :: "int \<Rightarrow> int" where
  "to_int32 x = signed_take_bit 31 x"

definition js_and :: "int \<Rightarrow> int \<Rightarrow> int" where
  "js_and a b = to_int32 a AND to_int32 b"

definition js_or :: "int \<Rightarrow> int \<Rightarrow> int" where
  "js_or a b = to_int32 a OR to_int32 b"

definition js_not :: "int \<Rightarrow> int" where
  "js_not a = NOT (to_int32 a)"

definition js_shl :: "int \<Rightarrow> int \<Rightarrow> int" where
  "js_shl a n = to_int32 (push_bit (nat (n mod 32)) (to_int32 a))"

subsection \<open>Platform services\<close>

text \<open>
  \<open>crypto_generichash\<close> is libsodium's BLAKE2b with a 32-byte output, \<open>is_nfc\<close> says that
  the UTF-8 text is unchanged by \<^verbatim>\<open>String.prototype.normalize('NFC')\<close>, \<open>parse_url\<close> is the
  WHATWG parser behind \<^verbatim>\<open>new URL(text)\<close> (\<open>None\<close> where the constructor throws).
\<close>

record url_parts =
  url_username :: string
  url_password :: string
  url_search :: string
  url_hash :: string
  url_hostname :: string
  url_pathname :: string

record platform =
  crypto_generichash :: "bytes \<Rightarrow> bytes"
  is_nfc :: "bytes \<Rightarrow> bool"
  parse_url :: "string \<Rightarrow> url_parts option"

text \<open>\<^verbatim>\<open>b4a.from(text, 'ascii')\<close> and \<^verbatim>\<open>b4a.toString(bytes)\<close> on bytes read as characters.\<close>

definition ascii :: "string \<Rightarrow> bytes" where
  "ascii s = map (\<lambda>c. of_nat (of_char c)) s"

definition text_of :: "bytes \<Rightarrow> string" where
  "text_of bs = map (\<lambda>b. char_of (unat b)) bs"

lemma length_ascii [simp]: "length (ascii s) = length s"
  by (simp add: ascii_def)

end
