(* ===== verification/Codec.thy ===== *)
theory Codec
  imports Js_Value
begin

text \<open>
  The canonical codec combinators of \<^verbatim>\<open>packages/blind-protocol/codec.js\<close>.  A codec is the
  object \<^verbatim>\<open>{ preencode, encode, decode }\<close>: a record of three functions on the state
  \<^verbatim>\<open>{ start, end, buffer, copyBytes }\<close>.  Each operation gets the value (or nothing, for
  decode) and the enclosing object, which \<^verbatim>\<open>struct\<close> passes as a third argument and every
  other caller leaves undefined.  A combinator whose construction throws is the codec all of
  whose operations raise that error.
\<close>

subsection \<open>State, codecs, range checks\<close>

record cstate =
  st_start :: nat
  st_end :: nat
  st_buffer :: bytes
  st_copyBytes :: bool

record codec =
  preencode :: "cstate \<Rightarrow> jsval \<Rightarrow> jsval \<Rightarrow> cstate res"
  encode :: "cstate \<Rightarrow> jsval \<Rightarrow> jsval \<Rightarrow> cstate res"
  decode :: "cstate \<Rightarrow> jsval \<Rightarrow> (jsval \<times> cstate) res"
  schemaName :: "string option"
  schemaFields :: "string list option"

definition raising :: "perr \<Rightarrow> codec" where
  "raising e = \<lparr>preencode = (\<lambda>st v p. Inl e), encode = (\<lambda>st v p. Inl e),
     decode = (\<lambda>st p. Inl e), schemaName = None, schemaFields = None\<rparr>"

definition grow :: "cstate \<Rightarrow> nat \<Rightarrow> cstate" where
  "grow st n = st\<lparr>st_end := st_end st + n\<rparr>"

definition advance :: "cstate \<Rightarrow> nat \<Rightarrow> cstate" where
  "advance st n = st\<lparr>st_start := st_start st + n\<rparr>"

definition slice :: "cstate \<Rightarrow> nat \<Rightarrow> bytes" where
  "slice st n = take n (drop (st_start st) (st_buffer st))"

definition asBuffer :: "jsval \<Rightarrow> bytes res" where
  "asBuffer v = (case v of JBytes bs \<Rightarrow> Inr bs | _ \<Rightarrow> Inl BAD_ENCODING)"

definition assertAvailable :: "cstate \<Rightarrow> nat \<Rightarrow> unit res" where
  "assertAvailable st n = (if st_end st < st_start st + n then Inl BAD_ENCODING else Inr ())"

definition assertUnsignedNumber :: "jsval \<Rightarrow> int \<Rightarrow> int res" where
  "assertUnsignedNumber v maximum =
     (if isSafeInteger v \<and> 0 \<le> as_num v \<and> as_num v \<le> maximum then Inr (as_num v)
      else Inl BAD_ENCODING)"

definition asU64 :: "jsval \<Rightarrow> int res" where
  "asU64 v = (case v of
       JNum i \<Rightarrow> if \<not> isSafeInteger v \<or> i < 0 then Inl BAD_ENCODING
                 else if i > MAX_U64 then Inl BAD_ENCODING else Inr i
     | JBig i \<Rightarrow> if i < 0 \<or> i > MAX_U64 then Inl BAD_ENCODING else Inr i
     | _ \<Rightarrow> Inl BAD_ENCODING)"

subsection \<open>Integer loops over the buffer\<close>

fun write_be :: "nat \<Rightarrow> int \<Rightarrow> nat \<Rightarrow> bytes \<Rightarrow> bytes" where
  "write_be 0 v off buf = buf"
| "write_be (Suc i) v off buf = write_be i (v div 256) off (buf[off + i := word_of_int (v mod 256)])"

fun write_le :: "nat \<Rightarrow> int \<Rightarrow> nat \<Rightarrow> bytes \<Rightarrow> bytes" where
  "write_le 0 v off buf = buf"
| "write_le (Suc n) v off buf = write_le n (v div 256) (Suc off) (buf[off := word_of_int (v mod 256)])"

fun read_be :: "nat \<Rightarrow> nat \<Rightarrow> bytes \<Rightarrow> int \<Rightarrow> int" where
  "read_be 0 off buf v = v"
| "read_be (Suc n) off buf v = read_be n (Suc off) buf (v * 256 + uint (buf ! off))"

fun read_le :: "nat \<Rightarrow> nat \<Rightarrow> bytes \<Rightarrow> int \<Rightarrow> int" where
  "read_le 0 off buf v = v"
| "read_le (Suc i) off buf v = read_le i off buf (v * 256 + uint (buf ! (off + i)))"

definition readU16LE :: "bytes \<Rightarrow> nat \<Rightarrow> int" where
  "readU16LE buf off = uint (buf ! off) + uint (buf ! (off + 1)) * 256"

definition readU32LE :: "bytes \<Rightarrow> nat \<Rightarrow> int" where
  "readU32LE buf off = uint (buf ! off) + uint (buf ! (off + 1)) * 0x100
     + uint (buf ! (off + 2)) * 0x10000 + uint (buf ! (off + 3)) * 0x1000000"

definition writeU16LE :: "bytes \<Rightarrow> int \<Rightarrow> nat \<Rightarrow> bytes" where
  "writeU16LE buf v off = buf[off := word_of_int v, off + 1 := word_of_int (v div 256)]"

definition writeU32LE :: "bytes \<Rightarrow> int \<Rightarrow> nat \<Rightarrow> bytes" where
  "writeU32LE buf v off = buf[off := word_of_int v, off + 1 := word_of_int (v div 256),
     off + 2 := word_of_int (v div 65536), off + 3 := word_of_int (v div 16777216)]"

definition readU64 :: "bytes \<Rightarrow> nat \<Rightarrow> bool \<Rightarrow> int" where
  "readU64 buf off littleEndian =
     (if littleEndian then read_le 8 off buf 0 else read_be 8 off buf 0)"

definition writeU64 :: "bytes \<Rightarrow> int \<Rightarrow> nat \<Rightarrow> bool \<Rightarrow> bytes" where
  "writeU64 buf v off littleEndian =
     (if littleEndian then write_le 8 v off buf else write_be 8 v off buf)"

subsection \<open>Integers\<close>

definition fixedUnsigned :: "nat \<Rightarrow> int \<Rightarrow> codec" where
  "fixedUnsigned n maximum = \<lparr>
     preencode = (\<lambda>st v p. rbind (assertUnsignedNumber v maximum) (\<lambda>_. Inr (grow st n))),
     encode = (\<lambda>st v p. rbind (assertUnsignedNumber v maximum) (\<lambda>i.
        rbind (assertAvailable st n) (\<lambda>_.
        Inr (advance (st\<lparr>st_buffer := write_be n i (st_start st) (st_buffer st)\<rparr>) n)))),
     decode = (\<lambda>st p. rbind (assertAvailable st n) (\<lambda>_.
        Inr (JNum (read_be n (st_start st) (st_buffer st) 0), advance st n))),
     schemaName = None, schemaFields = None\<rparr>"

definition u8 :: codec where "u8 = fixedUnsigned 1 0xff"
definition u16be :: codec where "u16be = fixedUnsigned 2 0xffff"
definition u32be :: codec where "u32be = fixedUnsigned 4 0xffffffff"

definition u64be :: codec where
  "u64be = \<lparr>
     preencode = (\<lambda>st v p. rbind (asU64 v) (\<lambda>_. Inr (grow st 8))),
     encode = (\<lambda>st v p. rbind (asU64 v) (\<lambda>i. rbind (assertAvailable st 8) (\<lambda>_.
        Inr (advance (st\<lparr>st_buffer := writeU64 (st_buffer st) i (st_start st) False\<rparr>) 8)))),
     decode = (\<lambda>st p. rbind (assertAvailable st 8) (\<lambda>_.
        Inr (JBig (readU64 (st_buffer st) (st_start st) False), advance st 8))),
     schemaName = None, schemaFields = None\<rparr>"

definition compact_size :: "int \<Rightarrow> nat" where
  "compact_size v = (if v \<le> 0xfc then 1 else if v \<le> 0xffff then 3 else if v \<le> 0xffffffff then 5 else 9)"

definition compact_preencode :: "cstate \<Rightarrow> jsval \<Rightarrow> cstate res" where
  "compact_preencode st v =
     rbind (assertUnsignedNumber v MAX_SAFE_INTEGER) (\<lambda>i. Inr (grow st (compact_size i)))"

definition compact_encode :: "cstate \<Rightarrow> jsval \<Rightarrow> cstate res" where
  "compact_encode st v =
     rbind (assertUnsignedNumber v MAX_SAFE_INTEGER) (\<lambda>i.
     let n = compact_size i; off = st_start st; buf = st_buffer st in
     rbind (assertAvailable st n) (\<lambda>_.
       if n = 1 then Inr (advance (st\<lparr>st_buffer := buf[off := word_of_int i]\<rparr>) 1)
       else if n = 3 then
         Inr (advance (st\<lparr>st_buffer := writeU16LE (buf[off := 0xfd]) i (off + 1)\<rparr>) 3)
       else if n = 5 then
         Inr (advance (st\<lparr>st_buffer := writeU32LE (buf[off := 0xfe]) i (off + 1)\<rparr>) 5)
       else
         Inr (advance (st\<lparr>st_buffer := writeU64 (buf[off := 0xff]) i (off + 1) True\<rparr>) 9)))"

definition compact_decode :: "cstate \<Rightarrow> (int \<times> cstate) res" where
  "compact_decode st =
     rbind (assertAvailable st 1) (\<lambda>_.
     let marker = uint (st_buffer st ! st_start st); st = advance st 1 in
     if marker \<le> 0xfc then Inr (marker, st)
     else if marker = 0xfd then
       rbind (assertAvailable st 2) (\<lambda>_.
       let value = readU16LE (st_buffer st) (st_start st) in
       if value \<le> 0xfc then Inl BAD_ENCODING else Inr (value, advance st 2))
     else if marker = 0xfe then
       rbind (assertAvailable st 4) (\<lambda>_.
       let value = readU32LE (st_buffer st) (st_start st) in
       if value \<le> 0xffff then Inl BAD_ENCODING else Inr (value, advance st 4))
     else
       rbind (assertAvailable st 8) (\<lambda>_.
       let value = readU64 (st_buffer st) (st_start st) True in
       if value \<le> 0xffffffff \<or> value > MAX_SAFE_INTEGER then Inl BAD_ENCODING
       else Inr (value, advance st 8)))"

definition compactUint :: codec where
  "compactUint = \<lparr>
     preencode = (\<lambda>st v p. compact_preencode st v),
     encode = (\<lambda>st v p. compact_encode st v),
     decode = (\<lambda>st p. rbind (compact_decode st) (\<lambda>(i, st). Inr (JNum i, st))),
     schemaName = None, schemaFields = None\<rparr>"

subsection \<open>Bytes\<close>

definition copy_in :: "cstate \<Rightarrow> bytes \<Rightarrow> cstate" where
  "copy_in st bs = advance (st\<lparr>st_buffer := put_bytes (st_buffer st) (st_start st) bs\<rparr>) (length bs)"

definition fixedBytes :: "nat \<Rightarrow> codec" where
  "fixedBytes n = (if int n > MAX_SAFE_INTEGER then raising TYPE_ERROR else \<lparr>
     preencode = (\<lambda>st v p. rbind (asBuffer v) (\<lambda>bs.
        if length bs \<noteq> n then Inl BAD_ENCODING else Inr (grow st n))),
     encode = (\<lambda>st v p. rbind (asBuffer v) (\<lambda>bs.
        if length bs \<noteq> n then Inl BAD_ENCODING else
        rbind (assertAvailable st n) (\<lambda>_. Inr (copy_in st bs)))),
     decode = (\<lambda>st p. rbind (assertAvailable st n) (\<lambda>_.
        Inr (JBytes (slice st n), advance st n))),
     schemaName = None, schemaFields = None\<rparr>)"

definition constant_value :: "bytes \<Rightarrow> jsval \<Rightarrow> bytes res" where
  "constant_value expected v =
     rbind (asBuffer (if is_nullish v then JBytes expected else v)) (\<lambda>bs.
     if bs \<noteq> expected then Inl BAD_ENCODING else Inr expected)"

definition constantBytes :: "bytes \<Rightarrow> codec" where
  "constantBytes expected = (let encoding = fixedBytes (length expected) in \<lparr>
     preencode = (\<lambda>st v p. rbind (constant_value expected v) (\<lambda>bs.
        preencode encoding st (JBytes bs) JUndef)),
     encode = (\<lambda>st v p. rbind (constant_value expected v) (\<lambda>bs.
        encode encoding st (JBytes bs) JUndef)),
     decode = (\<lambda>st p. rbind (decode encoding st JUndef) (\<lambda>(v, st).
        if as_bytes v \<noteq> expected then Inl BAD_ENCODING else Inr (v, st))),
     schemaName = None, schemaFields = None\<rparr>)"

definition selectedLength :: "string \<Rightarrow> (int \<Rightarrow> nat option) \<Rightarrow> jsval \<Rightarrow> nat res" where
  "selectedLength classField classLengths parent = (case getf parent classField of
       JNum i \<Rightarrow> (case classLengths i of Some n \<Rightarrow> Inr n | None \<Rightarrow> Inl BAD_ENCODING)
     | _ \<Rightarrow> Inl BAD_ENCODING)"

definition exactBytesByClass :: "string \<Rightarrow> (int \<Rightarrow> nat option) \<Rightarrow> codec" where
  "exactBytesByClass classField classLengths = \<lparr>
     preencode = (\<lambda>st v p. rbind (asBuffer v) (\<lambda>bs.
        rbind (selectedLength classField classLengths p) (\<lambda>n.
        if length bs \<noteq> n then Inl BAD_ENCODING else Inr (grow st n)))),
     encode = (\<lambda>st v p. rbind (asBuffer v) (\<lambda>bs.
        rbind (selectedLength classField classLengths p) (\<lambda>n.
        if length bs \<noteq> n then Inl BAD_ENCODING else
        rbind (assertAvailable st n) (\<lambda>_. Inr (copy_in st bs))))),
     decode = (\<lambda>st p. rbind (selectedLength classField classLengths p) (\<lambda>n.
        rbind (assertAvailable st n) (\<lambda>_. Inr (JBytes (slice st n), advance st n)))),
     schemaName = None, schemaFields = None\<rparr>"

definition boundedBytes :: "nat \<Rightarrow> nat \<Rightarrow> codec" where
  "boundedBytes minimum maximum = (if maximum < minimum then raising TYPE_ERROR else \<lparr>
     preencode = (\<lambda>st v p. rbind (asBuffer v) (\<lambda>bs.
        if length bs < minimum \<or> length bs > maximum then Inl BAD_ENCODING else
        rbind (compact_preencode st (JNum (int (length bs)))) (\<lambda>st. Inr (grow st (length bs))))),
     encode = (\<lambda>st v p. rbind (asBuffer v) (\<lambda>bs.
        if length bs < minimum \<or> length bs > maximum then Inl BAD_ENCODING else
        rbind (compact_encode st (JNum (int (length bs)))) (\<lambda>st.
        rbind (assertAvailable st (length bs)) (\<lambda>_. Inr (copy_in st bs))))),
     decode = (\<lambda>st p. rbind (compact_decode st) (\<lambda>(len, st).
        if len < int minimum \<or> len > int maximum then Inl BAD_ENCODING else
        rbind (assertAvailable st (nat len)) (\<lambda>_.
        Inr (JBytes (slice st (nat len)), advance st (nat len))))),
     schemaName = None, schemaFields = None\<rparr>)"

subsection \<open>Text and URLs\<close>

abbreviation cont :: "byte \<Rightarrow> bool" where
  "cont b \<equiv> 0x80 \<le> b \<and> b \<le> 0xbf"

text \<open>
  Well-formed UTF-8.  Decoding with replacement characters and encoding again gives the same
  bytes exactly on these sequences, which is what \<^verbatim>\<open>canonicalTextValue\<close> tests.
\<close>

fun utf8_valid :: "bytes \<Rightarrow> bool" where
  "utf8_valid [] = True"
| "utf8_valid (b # bs) =
     (if b < 0x80 then utf8_valid bs
      else if 0xc2 \<le> b \<and> b \<le> 0xdf then
        (case bs of c # bs' \<Rightarrow> cont c \<and> utf8_valid bs' | _ \<Rightarrow> False)
      else if 0xe0 \<le> b \<and> b \<le> 0xef then
        (case bs of c # d # bs' \<Rightarrow> cont c \<and> cont d \<and> (b = 0xe0 \<longrightarrow> 0xa0 \<le> c) \<and>
            (b = 0xed \<longrightarrow> c \<le> 0x9f) \<and> utf8_valid bs' | _ \<Rightarrow> False)
      else if 0xf0 \<le> b \<and> b \<le> 0xf4 then
        (case bs of c # d # e # bs' \<Rightarrow> cont c \<and> cont d \<and> cont e \<and> (b = 0xf0 \<longrightarrow> 0x90 \<le> c) \<and>
            (b = 0xf4 \<longrightarrow> c \<le> 0x8f) \<and> utf8_valid bs' | _ \<Rightarrow> False)
      else False)"

definition canonicalTextValue :: "platform \<Rightarrow> jsval \<Rightarrow> nat \<Rightarrow> nat \<Rightarrow> bool \<Rightarrow> bytes res" where
  "canonicalTextValue E v minimum maximum asciiOnly =
     rbind (asBuffer v) (\<lambda>bs.
     rbind (reject_if [
        length bs < minimum \<or> length bs > maximum,
        list_ex (\<lambda>b. b = 0 \<or> asciiOnly \<and> (b < 0x20 \<or> b > 0x7e)) bs,
        \<not> utf8_valid bs,
        \<not> is_nfc E bs]) (\<lambda>_. Inr bs))"

definition canonicalTextBytes :: "platform \<Rightarrow> nat \<Rightarrow> nat \<Rightarrow> bool \<Rightarrow> codec" where
  "canonicalTextBytes E minimum maximum asciiOnly = (let encoding = boundedBytes minimum maximum in \<lparr>
     preencode = (\<lambda>st v p. rbind (canonicalTextValue E v minimum maximum asciiOnly) (\<lambda>bs.
        preencode encoding st (JBytes bs) JUndef)),
     encode = (\<lambda>st v p. rbind (canonicalTextValue E v minimum maximum asciiOnly) (\<lambda>bs.
        encode encoding st (JBytes bs) JUndef)),
     decode = (\<lambda>st p. rbind (decode encoding st JUndef) (\<lambda>(v, st).
        rbind (canonicalTextValue E v minimum maximum asciiOnly) (\<lambda>_. Inr (v, st)))),
     schemaName = None, schemaFields = None\<rparr>)"

definition canonicalUtf8Bytes :: "platform \<Rightarrow> nat \<Rightarrow> nat \<Rightarrow> codec" where
  "canonicalUtf8Bytes E minimum maximum = canonicalTextBytes E minimum maximum False"

definition canonicalAsciiBytes :: "platform \<Rightarrow> nat \<Rightarrow> nat \<Rightarrow> codec" where
  "canonicalAsciiBytes E minimum maximum = canonicalTextBytes E minimum maximum True"

text \<open>
  \<^verbatim>\<open>/^(https?):\/\/([^/?#]+)(\/[^?#]*)$/\<close>: the scheme, the authority and the path.
\<close>

definition after_scheme :: "string \<Rightarrow> (string \<times> string) option" where
  "after_scheme text =
     (if take 8 text = ''https://'' then Some (''https'', drop 8 text)
      else if take 7 text = ''http://'' then Some (''http'', drop 7 text)
      else None)"

definition match_url :: "string \<Rightarrow> (string \<times> string \<times> string) option" where
  "match_url text = (case after_scheme text of None \<Rightarrow> None | Some (scheme, rest) \<Rightarrow>
     let authority = takeWhile (\<lambda>c. c \<notin> set ''/?#'') rest;
         path = dropWhile (\<lambda>c. c \<notin> set ''/?#'') rest in
     if authority = [] \<or> path = [] \<or> hd path \<noteq> CHR ''/'' \<or>
        list_ex (\<lambda>c. c \<in> set ''?#'') path then None
     else Some (scheme, authority, path))"

fun index_of :: "char \<Rightarrow> string \<Rightarrow> nat option" where
  "index_of c [] = None"
| "index_of c (x # xs) = (if x = c then Some 0 else map_option Suc (index_of c xs))"

definition split_authority :: "string \<Rightarrow> (string \<times> string) option" where
  "split_authority authority =
     (if take 1 authority = ''['' then
        (case index_of CHR '']'' authority of None \<Rightarrow> None
         | Some e \<Rightarrow> if take 1 (drop (e + 1) authority) \<noteq> '':'' then None
                     else Some (take (e + 1) authority, drop (e + 2) authority))
      else (case index_of CHR '':'' authority of None \<Rightarrow> None
         | Some colon \<Rightarrow> if colon = 0 \<or> index_of CHR '':'' (drop (colon + 1) authority) \<noteq> None then None
                     else Some (take colon authority, drop (colon + 1) authority)))"

definition is_upper :: "char \<Rightarrow> bool" where
  "is_upper c = (65 \<le> (of_char c :: nat) \<and> (of_char c :: nat) \<le> 90)"

definition is_digit :: "char \<Rightarrow> bool" where
  "is_digit c = (48 \<le> (of_char c :: nat) \<and> (of_char c :: nat) \<le> 57)"

definition is_HEX :: "char \<Rightarrow> bool" where
  "is_HEX c = (is_digit c \<or> 65 \<le> (of_char c :: nat) \<and> (of_char c :: nat) \<le> 70)"

definition is_base32 :: "char \<Rightarrow> bool" where
  "is_base32 c = (97 \<le> (of_char c :: nat) \<and> (of_char c :: nat) \<le> 122 \<or>
     50 \<le> (of_char c :: nat) \<and> (of_char c :: nat) \<le> 55)"

definition decimal :: "string \<Rightarrow> nat" where
  "decimal s = foldl (\<lambda>n c. n * 10 + (of_char c - 48)) 0 s"

definition port_ok :: "string \<Rightarrow> bool" where
  "port_ok s = (s \<noteq> [] \<and> length s \<le> 5 \<and> list_all is_digit s \<and> hd s \<noteq> CHR ''0'' \<and> decimal s \<le> 65535)"

fun percent_ok :: "string \<Rightarrow> bool" where
  "percent_ok [] = True"
| "percent_ok (c # cs) = ((c = CHR ''%'' \<longrightarrow> length cs \<ge> 2 \<and> list_all is_HEX (take 2 cs)) \<and> percent_ok cs)"

definition is_onion :: "string \<Rightarrow> bool" where
  "is_onion host = (length host = 62 \<and> list_all is_base32 (take 56 host) \<and> drop 56 host = ''.onion'')"

definition ends_with :: "string \<Rightarrow> string \<Rightarrow> bool" where
  "ends_with s suffix = (length suffix \<le> length s \<and> drop (length s - length suffix) s = suffix)"

definition validateCanonicalUrl :: "platform \<Rightarrow> jsval \<Rightarrow> bool \<Rightarrow> unit res" where
  "validateCanonicalUrl E v requireOnion =
     rbind (canonicalTextValue E v 1 512 False) (\<lambda>bs. let text = text_of bs in
     case match_url text of None \<Rightarrow> Inl BAD_ENCODING | Some (scheme, authority, path) \<Rightarrow>
     if CHR ''@'' \<in> set authority then Inl BAD_ENCODING else
     case split_authority authority of None \<Rightarrow> Inl BAD_ENCODING | Some (host, portText) \<Rightarrow>
     rbind (reject_if [list_ex is_upper host, \<not> port_ok portText, \<not> percent_ok path]) (\<lambda>_.
     case parse_url E text of None \<Rightarrow> Inl BAD_ENCODING | Some parsed \<Rightarrow>
     reject_if [
       url_username parsed \<noteq> [] \<or> url_password parsed \<noteq> [] \<or> url_search parsed \<noteq> [] \<or>
         url_hash parsed \<noteq> [] \<or> url_hostname parsed \<noteq> host \<or> url_pathname parsed \<noteq> path,
       if requireOnion then \<not> is_onion host
       else scheme \<noteq> ''https'' \<or> is_onion host \<or> ends_with host ''.onion'']))"

definition canonicalHttpsUrlBytes :: "platform \<Rightarrow> codec" where
  "canonicalHttpsUrlBytes E = (let encoding = canonicalUtf8Bytes E 1 512 in \<lparr>
     preencode = (\<lambda>st v p. rbind (validateCanonicalUrl E v False) (\<lambda>_. preencode encoding st v JUndef)),
     encode = (\<lambda>st v p. rbind (validateCanonicalUrl E v False) (\<lambda>_. encode encoding st v JUndef)),
     decode = (\<lambda>st p. rbind (decode encoding st JUndef) (\<lambda>(v, st).
        rbind (validateCanonicalUrl E v False) (\<lambda>_. Inr (v, st)))),
     schemaName = None, schemaFields = None\<rparr>)"

subsection \<open>Optional values, arrays, structures\<close>

definition optional :: "codec \<Rightarrow> codec" where
  "optional encoding = \<lparr>
     preencode = (\<lambda>st v p.
        rbind (preencode u8 st (JNum (if is_nullish v then 0 else 1)) JUndef) (\<lambda>st.
        if is_nullish v then Inr st else preencode encoding st v JUndef)),
     encode = (\<lambda>st v p.
        rbind (encode u8 st (JNum (if is_nullish v then 0 else 1)) JUndef) (\<lambda>st.
        if is_nullish v then Inr st else encode encoding st v JUndef)),
     decode = (\<lambda>st p. rbind (decode u8 st JUndef) (\<lambda>(tag, st).
        if tag = JNum 0 then Inr (JNull, st)
        else if tag \<noteq> JNum 1 then Inl BAD_ENCODING
        else decode encoding st JUndef)),
     schemaName = None, schemaFields = None\<rparr>"

fun each :: "(cstate \<Rightarrow> jsval \<Rightarrow> jsval \<Rightarrow> cstate res) \<Rightarrow> cstate \<Rightarrow> jsval list \<Rightarrow> cstate res" where
  "each f st [] = Inr st"
| "each f st (x # xs) = rbind (f st x JUndef) (\<lambda>st. each f st xs)"

fun decode_n :: "codec \<Rightarrow> nat \<Rightarrow> cstate \<Rightarrow> (jsval list \<times> cstate) res" where
  "decode_n c 0 st = Inr ([], st)"
| "decode_n c (Suc n) st = rbind (decode c st JUndef) (\<lambda>(x, st).
     rbind (decode_n c n st) (\<lambda>(xs, st). Inr (x # xs, st)))"

definition array_values :: "nat \<Rightarrow> nat \<Rightarrow> jsval \<Rightarrow> jsval list res" where
  "array_values minimum maximum v = (case v of
       JArr xs \<Rightarrow> if length xs < minimum \<or> length xs > maximum then Inl BAD_ENCODING else Inr xs
     | _ \<Rightarrow> Inl BAD_ENCODING)"

definition arrayOf :: "codec \<Rightarrow> nat \<Rightarrow> nat \<Rightarrow> codec" where
  "arrayOf encoding minimum maximum = (if maximum < minimum then raising TYPE_ERROR else \<lparr>
     preencode = (\<lambda>st v p. rbind (array_values minimum maximum v) (\<lambda>xs.
        rbind (compact_preencode st (JNum (int (length xs)))) (\<lambda>st. each (preencode encoding) st xs))),
     encode = (\<lambda>st v p. rbind (array_values minimum maximum v) (\<lambda>xs.
        rbind (compact_encode st (JNum (int (length xs)))) (\<lambda>st. each (encode encoding) st xs))),
     decode = (\<lambda>st p. rbind (compact_decode st) (\<lambda>(count, st).
        if count < int minimum \<or> count > int maximum then Inl BAD_ENCODING else
        rbind (decode_n encoding (nat count) st) (\<lambda>(xs, st). Inr (JArr xs, st)))),
     schemaName = None, schemaFields = None\<rparr>)"

fun preencode_fields :: "(string \<times> codec) list \<Rightarrow> cstate \<Rightarrow> jsval \<Rightarrow> cstate res" where
  "preencode_fields [] st v = Inr st"
| "preencode_fields ((n, c) # fs) st v =
     rbind (preencode c st (getf v n) v) (\<lambda>st. preencode_fields fs st v)"

fun encode_fields :: "(string \<times> codec) list \<Rightarrow> cstate \<Rightarrow> jsval \<Rightarrow> cstate res" where
  "encode_fields [] st v = Inr st"
| "encode_fields ((n, c) # fs) st v =
     rbind (encode c st (getf v n) v) (\<lambda>st. encode_fields fs st v)"

fun decode_fields :: "(string \<times> codec) list \<Rightarrow> cstate \<Rightarrow> obj \<Rightarrow> (obj \<times> cstate) res" where
  "decode_fields [] st value = Inr (value, st)"
| "decode_fields ((n, c) # fs) st value =
     rbind (decode c st (JObj value)) (\<lambda>(x, st). decode_fields fs st (obj_set value n x))"

definition struct :: "string \<Rightarrow> (string \<times> codec) list \<Rightarrow> (jsval \<Rightarrow> unit res) \<Rightarrow> codec" where
  "struct name flds validate = (if flds = [] then raising TYPE_ERROR else \<lparr>
     preencode = (\<lambda>st v p. if \<not> is_object v then Inl BAD_ENCODING else
        rbind (preencode_fields flds st v) (\<lambda>st. rbind (validate v) (\<lambda>_. Inr st))),
     encode = (\<lambda>st v p. if \<not> is_object v then Inl BAD_ENCODING else encode_fields flds st v),
     decode = (\<lambda>st p. rbind (decode_fields flds st []) (\<lambda>(value, st).
        rbind (validate (JObj value)) (\<lambda>_. Inr (JObj value, st)))),
     schemaName = Some name, schemaFields = Some (map fst flds)\<rparr>)"

text \<open>\<^verbatim>\<open>options.validate\<close> left out.\<close>

definition no_validate :: "jsval \<Rightarrow> unit res" where
  "no_validate v = Inr ()"

definition constantOf :: "codec \<Rightarrow> jsval \<Rightarrow> codec" where
  "constantOf encoding expected = \<lparr>
     preencode = (\<lambda>st v p. if \<not> is_nullish v \<and> v \<noteq> expected then Inl BAD_ENCODING
        else preencode encoding st expected JUndef),
     encode = (\<lambda>st v p. if \<not> is_nullish v \<and> v \<noteq> expected then Inl BAD_ENCODING
        else encode encoding st expected JUndef),
     decode = (\<lambda>st p. rbind (decode encoding st JUndef) (\<lambda>(v, st).
        if v \<noteq> expected then Inl BAD_ENCODING else Inr (v, st))),
     schemaName = None, schemaFields = None\<rparr>"

definition out_of_range :: "int \<Rightarrow> int \<Rightarrow> jsval \<Rightarrow> bool" where
  "out_of_range minimum maximum v = (as_big v < minimum \<or> as_big v > maximum)"

fun is_number :: "jsval \<Rightarrow> bool" where
  "is_number (JNum _) = True"
| "is_number _ = False"

definition ranged :: "codec \<Rightarrow> int \<Rightarrow> int \<Rightarrow> codec" where
  "ranged encoding minimum maximum = \<lparr>
     preencode = (\<lambda>st v p. if \<not> is_number v \<or> out_of_range minimum maximum v then Inl BAD_ENCODING
        else preencode encoding st v JUndef),
     encode = (\<lambda>st v p. if \<not> is_number v \<or> out_of_range minimum maximum v then Inl BAD_ENCODING
        else encode encoding st v JUndef),
     decode = (\<lambda>st p. rbind (decode encoding st JUndef) (\<lambda>(v, st).
        if out_of_range minimum maximum v then Inl BAD_ENCODING else Inr (v, st))),
     schemaName = None, schemaFields = None\<rparr>"

subsection \<open>Whole values\<close>

definition encodeCanonical :: "codec \<Rightarrow> jsval \<Rightarrow> bytes res" where
  "encodeCanonical encoding v =
     rbind (preencode encoding \<lparr>st_start = 0, st_end = 0, st_buffer = [], st_copyBytes = False\<rparr> v JUndef) (\<lambda>st.
     rbind (encode encoding (st\<lparr>st_buffer := replicate (st_end st) 0, st_start := 0\<rparr>) v JUndef) (\<lambda>st.
     if st_start st \<noteq> st_end st then Inl BAD_ENCODING else Inr (st_buffer st)))"

definition decodeCanonical :: "codec \<Rightarrow> jsval \<Rightarrow> bool \<Rightarrow> jsval res" where
  "decodeCanonical encoding input copyBytes =
     rbind (asBuffer input) (\<lambda>bs.
     rbind (decode encoding
        \<lparr>st_start = 0, st_end = length bs, st_buffer = bs, st_copyBytes = copyBytes\<rparr> JUndef) (\<lambda>(v, st).
     if st_start st \<noteq> st_end st then Inl BAD_ENCODING else Inr v))"

end
