(* ===== verification/Codec_Laws.thy ===== *)
theory Codec_Laws
  imports Codec
begin

text \<open>
  The contract of a canonical codec, stated as a locale and proved for every combinator of
  \<^verbatim>\<open>codec.js\<close>.  A value that \<^verbatim>\<open>preencode\<close> accepts has exactly one byte string that
  \<^verbatim>\<open>encode\<close> writes, of exactly the length that \<^verbatim>\<open>preencode\<close> counted; and the bytes that
  \<^verbatim>\<open>decode\<close> consumes are exactly that byte string for the value it returns, wherever they
  stand in the buffer.  \<open>needs\<close> names the fields of the enclosing object on which a codec
  depends (the class field of \<^verbatim>\<open>exactBytesByClass\<close>, empty for all others).
\<close>

subsection \<open>Positions in a buffer\<close>

definition room :: "cstate \<Rightarrow> nat \<Rightarrow> bool" where
  "room st n \<longleftrightarrow> st_start st + n \<le> st_end st \<and> st_end st \<le> length (st_buffer st)"

definition reads :: "cstate \<Rightarrow> bytes \<Rightarrow> bool" where
  "reads st bs \<longleftrightarrow> room st (length bs) \<and> slice st (length bs) = bs"

lemma grow_grow [simp]: "grow (grow st a) b = grow st (a + b)"
  by (simp add: grow_def add.assoc)

lemma grow_0 [simp]: "grow st 0 = st" "advance st 0 = st"
  by (simp_all add: grow_def advance_def)

lemma advance_advance [simp]: "advance (advance st a) b = advance st (a + b)"
  by (simp add: advance_def add.assoc)

lemma advance_sel [simp]:
  "st_start (advance st n) = st_start st + n" "st_end (advance st n) = st_end st"
  "st_buffer (advance st n) = st_buffer st"
  by (simp_all add: advance_def)

lemma copy_in_sel [simp]:
  "st_start (copy_in st bs) = st_start st + length bs" "st_end (copy_in st bs) = st_end st"
  "st_buffer (copy_in st bs) = put_bytes (st_buffer st) (st_start st) bs"
  by (simp_all add: copy_in_def)

lemma room_less: "room st (m + n) \<Longrightarrow> room st m" "room st (m + n) \<Longrightarrow> room st n"
  by (simp_all add: room_def)

lemma room_0: "room st n \<Longrightarrow> room st 0"
  by (simp add: room_def)

lemma room_advance [simp]: "room (advance st m) n \<longleftrightarrow> room st (m + n)"
  by (simp add: room_def add.assoc)

lemma room_copy_in: "room st (length xs + n) \<Longrightarrow> room (copy_in st xs) n"
  by (simp add: room_def add.assoc)

lemma copy_in_copy_in:
  "room st (length xs + length ys) \<Longrightarrow> copy_in (copy_in st xs) ys = copy_in st (xs @ ys)"
  by (simp add: copy_in_def advance_def room_def put_bytes_append)

lemma copy_in_Nil [simp]: "room st 0 \<Longrightarrow> copy_in st [] = st"
  by (simp add: copy_in_def room_def)

lemma assertAvailable_room: "room st n \<Longrightarrow> assertAvailable st n = Inr ()"
  by (simp add: assertAvailable_def room_def)

lemma assertAvailable_Inr: "room st 0 \<Longrightarrow> assertAvailable st n = Inr u \<longleftrightarrow> room st n"
  by (auto simp: assertAvailable_def room_def split: if_splits)

lemma length_slice [simp]: "room st n \<Longrightarrow> length (slice st n) = n"
  by (auto simp: slice_def room_def)

lemma reads_slice: "room st n \<Longrightarrow> reads st (slice st n)"
  by (simp add: reads_def)

lemma reads_room: "reads st bs \<Longrightarrow> room st (length bs)"
  by (simp add: reads_def)

lemma reads_append: "reads st (xs @ ys) \<longleftrightarrow> reads st xs \<and> reads (advance st (length xs)) ys"
proof -
  let ?b = "drop (st_start st) (st_buffer st)"
  have "take (length xs + length ys) ?b = xs @ ys \<longleftrightarrow>
      take (length xs) ?b = xs \<and> take (length ys) (drop (length xs) ?b) = ys"
    if "length xs + length ys \<le> length ?b"
    using that by (simp add: take_add append_eq_append_conv)
  then show ?thesis
    by (auto simp: reads_def slice_def room_def drop_drop add.commute)
qed

lemma reads_Nil [simp]: "reads st [] \<longleftrightarrow> room st 0"
  by (simp add: reads_def slice_def)

subsection \<open>The loops\<close>

lemma write_be_put:
  "off + n \<le> length buf \<Longrightarrow> write_be n v off buf = put_bytes buf off (be_bytes n v)"
proof (induction n arbitrary: v buf)
  case (Suc n)
  then have "write_be (Suc n) v off buf
      = put_bytes (buf[off + n := word_of_int (v mod 256)]) off (be_bytes n (v div 256))" by simp
  also have "\<dots> = put_bytes buf off (be_bytes (Suc n) v)"
    using Suc.prems by (simp add: put_bytes_update_after)
  finally show ?case .
qed simp

lemma put_bytes_Cons:
  "off < length buf \<Longrightarrow> put_bytes (buf[off := x]) (Suc off) bs = put_bytes buf off (x # bs)"
  by (simp add: put_bytes_def take_Suc_conv_app_nth)

lemma write_le_put:
  "off + n \<le> length buf \<Longrightarrow> write_le n v off buf = put_bytes buf off (rev (be_bytes n v))"
  by (induction n arbitrary: v buf off) (simp_all add: put_bytes_Cons)

lemma read_be_val:
  "off + n \<le> length buf \<Longrightarrow> read_be n off buf v = v * 256 ^ n + be_val (take n (drop off buf))"
proof (induction n arbitrary: v off)
  case (Suc n)
  then have "take (Suc n) (drop off buf) = buf ! off # take n (drop (Suc off) buf)"
    by (simp add: Cons_nth_drop_Suc [symmetric])
  with Suc show ?case by (simp add: algebra_simps)
qed simp

lemma read_le_val:
  "off + n \<le> length buf \<Longrightarrow> read_le n off buf v = v * 256 ^ n + be_val (rev (take n (drop off buf)))"
proof (induction n arbitrary: v)
  case (Suc n)
  then have "take (Suc n) (drop off buf) = take n (drop off buf) @ [buf ! (off + n)]"
    by (simp add: take_Suc_conv_app_nth)
  with Suc show ?case by (simp add: algebra_simps)
qed simp

lemma room_bounds: "room st n \<Longrightarrow> st_start st + n \<le> length (st_buffer st)"
  by (simp add: room_def)

lemma read_be_slice: "room st n \<Longrightarrow> read_be n (st_start st) (st_buffer st) 0 = be_val (slice st n)"
  by (simp add: read_be_val room_bounds slice_def)

lemma copy_in_write_be:
  "room st n \<Longrightarrow> advance (st\<lparr>st_buffer := write_be n i (st_start st) (st_buffer st)\<rparr>) n
     = copy_in st (be_bytes n i)"
  by (simp add: copy_in_def write_be_put room_bounds)

subsection \<open>The contract\<close>

definition agree :: "string set \<Rightarrow> jsval \<Rightarrow> jsval \<Rightarrow> bool" where
  "agree needs p q \<longleftrightarrow> (\<forall>n\<in>needs. getf p n = getf q n)"

text \<open>\<open>encodes c v p bs\<close>: the codec counts and writes exactly \<open>bs\<close> for \<open>v\<close>.\<close>

definition encodes :: "codec \<Rightarrow> jsval \<Rightarrow> jsval \<Rightarrow> bytes \<Rightarrow> bool" where
  "encodes c v p bs \<longleftrightarrow>
     (\<forall>st. preencode c st v p = Inr (grow st (length bs))) \<and>
     (\<forall>st. room st (length bs) \<longrightarrow> encode c st v p = Inr (copy_in st bs))"

text \<open>\<open>decodes c v p bs\<close>: the codec reads \<open>v\<close> from \<open>bs\<close>, whatever surrounds them.\<close>

definition decodes :: "codec \<Rightarrow> jsval \<Rightarrow> jsval \<Rightarrow> bytes \<Rightarrow> bool" where
  "decodes c v p bs \<longleftrightarrow> (\<forall>st. reads st bs \<longrightarrow> decode c st p = Inr (v, advance st (length bs)))"

locale canonical_codec =
  fixes c :: codec and needs :: "string set"
  assumes preencode_total: "preencode c st v p = Inr st1 \<Longrightarrow> \<exists>bs. encodes c v p bs"
    and decode_canonical: "room st 0 \<Longrightarrow> decode c st p = Inr (v, st1) \<Longrightarrow>
      \<exists>bs. reads st bs \<and> st1 = advance st (length bs) \<and>
        (\<forall>q. agree needs p q \<longrightarrow> encodes c v q bs \<and> decodes c v q bs)"
begin

lemma encodeCanonical_iff: "encodeCanonical c v = Inr bs \<longleftrightarrow> encodes c v JUndef bs"
proof
  assume "encodes c v JUndef bs"
  then show "encodeCanonical c v = Inr bs"
    by (simp add: encodes_def encodeCanonical_def grow_def room_def)
next
  assume enc: "encodeCanonical c v = Inr bs"
  then obtain st1 where
    "preencode c \<lparr>st_start = 0, st_end = 0, st_buffer = [], st_copyBytes = False\<rparr> v JUndef = Inr st1"
    by (auto simp: encodeCanonical_def rbind_Inr_iff)
  then obtain bs' where bs': "encodes c v JUndef bs'" using preencode_total by blast
  then have "encodeCanonical c v = Inr bs'"
    by (simp add: encodes_def encodeCanonical_def grow_def room_def)
  with enc bs' show "encodes c v JUndef bs" by simp
qed

text \<open>The allocation is always filled: nothing fails once \<^verbatim>\<open>preencode\<close> succeeded.\<close>

lemma encode_after_preencode:
  "preencode c st v JUndef = Inr st1 \<Longrightarrow> \<exists>bs. encodeCanonical c v = Inr bs"
  using preencode_total encodeCanonical_iff by blast

lemma encodeCanonical_length:
  assumes "preencode c st v JUndef = Inr st1"
  shows "\<exists>bs. encodeCanonical c v = Inr bs \<and> st_end st1 = st_end st + length bs"
proof -
  from preencode_total [OF assms] obtain bs where e: "encodes c v JUndef bs" ..
  then have "st_end st1 = st_end st + length bs" using assms by (auto simp: encodes_def grow_def)
  with e encodeCanonical_iff show ?thesis by blast
qed

lemma decodeCanonical_decodes:
  assumes "decodeCanonical c (JBytes bs) cp = Inr v"
  shows "encodes c v JUndef bs \<and> decodes c v JUndef bs"
proof -
  let ?st = "\<lparr>st_start = 0, st_end = length bs, st_buffer = bs, st_copyBytes = cp\<rparr>"
  from assms obtain st1 where st1: "decode c ?st JUndef = Inr (v, st1)" "st_start st1 = st_end st1"
    by (auto simp: decodeCanonical_def asBuffer_def rbind_Inr_iff split: if_splits)
  have "room ?st 0" by (simp add: room_def)
  from decode_canonical [OF this st1(1)] obtain bs' where bs': "reads ?st bs'"
      "st1 = advance ?st (length bs')" "encodes c v JUndef bs'" "decodes c v JUndef bs'"
    by (auto simp: agree_def)
  from bs'(2) st1(2) have "length bs' = length bs" by simp
  with bs'(1) have "bs' = bs" by (simp add: reads_def slice_def)
  with bs' show ?thesis by simp
qed

lemma decode_encode:
  "decodeCanonical c (JBytes bs) cp = Inr v \<Longrightarrow> encodeCanonical c v = Inr bs"
  using decodeCanonical_decodes encodeCanonical_iff by blast

lemma decode_injective:
  "decodeCanonical c (JBytes bs) cp = Inr v \<Longrightarrow> decodeCanonical c (JBytes bs') cp' = Inr v \<Longrightarrow> bs = bs'"
  using decode_encode [of bs cp v] decode_encode [of bs' cp' v] by simp

lemma decodes_append:
  assumes "decodes c v JUndef bs"
  shows "decodeCanonical c (JBytes (bs @ xs)) cp = (if xs = [] then Inr v else Inl BAD_ENCODING)"
proof -
  let ?st = "\<lparr>st_start = 0, st_end = length (bs @ xs), st_buffer = bs @ xs, st_copyBytes = cp\<rparr>"
  have "reads ?st bs" by (simp add: reads_def room_def slice_def)
  with assms have "decode c ?st JUndef = Inr (v, advance ?st (length bs))"
    by (simp add: decodes_def)
  then show ?thesis
    by (simp add: decodeCanonical_def asBuffer_def)
qed

lemma decode_copy_irrelevant:
  "decodeCanonical c (JBytes bs) cp = Inr v \<Longrightarrow> decodeCanonical c (JBytes bs) cp' = Inr v"
  using decodes_append [of v bs "[]"] decodeCanonical_decodes by simp

lemma decode_prefix_free:
  "decodeCanonical c (JBytes bs) cp = Inr v \<Longrightarrow> xs \<noteq> [] \<Longrightarrow>
     decodeCanonical c (JBytes (bs @ xs)) cp' = Inl BAD_ENCODING"
  using decodes_append [of v bs xs] decodeCanonical_decodes by simp

end

lemma canonical_codec_raising [lawful_intros]: "canonical_codec (raising e) needs"
  by unfold_locales (simp_all add: raising_def)

subsection \<open>Integers\<close>

lemma assertUnsignedNumber_Inr:
  "assertUnsignedNumber v m = Inr i \<longleftrightarrow> v = JNum i \<and> 0 \<le> i \<and> i \<le> m \<and> i \<le> MAX_SAFE_INTEGER"
  by (cases v) (auto simp: assertUnsignedNumber_def)

lemma encodes_fixedUnsigned:
  assumes "0 \<le> i" "i \<le> m" "m \<le> MAX_SAFE_INTEGER"
  shows "encodes (fixedUnsigned n m) (JNum i) p (be_bytes n i)"
  using assms
  by (simp add: encodes_def fixedUnsigned_def assertUnsignedNumber_def assertAvailable_room copy_in_write_be)

lemma decodes_fixedUnsigned:
  "length bs = n \<Longrightarrow> decodes (fixedUnsigned n m) (JNum (be_val bs)) p bs"
  by (auto simp: decodes_def fixedUnsigned_def assertAvailable_room read_be_slice reads_def)

lemma decode_fixedUnsigned_Inr:
  "room st 0 \<Longrightarrow> decode (fixedUnsigned n m) st p = Inr (v, st1) \<longleftrightarrow>
     room st n \<and> v = JNum (be_val (slice st n)) \<and> st1 = advance st n"
  by (auto simp: fixedUnsigned_def rbind_Inr_iff assertAvailable_Inr read_be_slice)

lemma canonical_fixedUnsigned:
  assumes m: "m = 256 ^ n - 1" "m \<le> MAX_SAFE_INTEGER"
  shows "canonical_codec (fixedUnsigned n m) {}"
proof
  fix st v p st1
  assume "preencode (fixedUnsigned n m) st v p = Inr st1"
  then obtain i where "v = JNum i" "0 \<le> i" "i \<le> m"
    by (auto simp: fixedUnsigned_def rbind_Inr_iff assertUnsignedNumber_Inr)
  then show "\<exists>bs. encodes (fixedUnsigned n m) v p bs"
    using encodes_fixedUnsigned m(2) by blast
next
  fix st p v st1
  assume st: "room st 0" "decode (fixedUnsigned n m) st p = Inr (v, st1)"
  let ?bs = "slice st n"
  from st have r: "room st n" and v: "v = JNum (be_val ?bs)" and st1: "st1 = advance st n"
    by (auto simp: decode_fixedUnsigned_Inr)
  have "be_bytes n (be_val ?bs) = ?bs" using r by (simp add: be_bytes_be_val_eq)
  moreover have "0 \<le> be_val ?bs" "be_val ?bs \<le> m"
    using be_val_range [of ?bs] r m by simp_all
  ultimately have "encodes (fixedUnsigned n m) v q ?bs \<and> decodes (fixedUnsigned n m) v q ?bs" for q
    using encodes_fixedUnsigned [of "be_val ?bs" m n q] decodes_fixedUnsigned [of ?bs n] m(2) v r
    by simp
  with r st1 show "\<exists>bs. reads st bs \<and> st1 = advance st (length bs) \<and>
      (\<forall>q. agree {} p q \<longrightarrow> encodes (fixedUnsigned n m) v q bs \<and> decodes (fixedUnsigned n m) v q bs)"
    by (intro exI [of _ ?bs]) (simp add: reads_slice)
qed

interpretation u8: canonical_codec u8 "{}"
  unfolding u8_def by (rule canonical_fixedUnsigned) (simp_all add: MAX_SAFE_INTEGER_def)

interpretation u16be: canonical_codec u16be "{}"
  unfolding u16be_def by (rule canonical_fixedUnsigned) (simp_all add: MAX_SAFE_INTEGER_def)

interpretation u32be: canonical_codec u32be "{}"
  unfolding u32be_def by (rule canonical_fixedUnsigned) (simp_all add: MAX_SAFE_INTEGER_def)

lemmas unsigned_canonical [lawful_intros] =
  u8.canonical_codec_axioms u16be.canonical_codec_axioms u32be.canonical_codec_axioms

subsection \<open>64-bit integers\<close>

lemma asU64_Inr: "asU64 v = Inr i \<Longrightarrow> 0 \<le> i \<and> i \<le> MAX_U64 \<and> as_big v = i"
  by (cases v) (auto simp: asU64_def split: if_splits)

lemma encodes_u64be: "asU64 v = Inr i \<Longrightarrow> encodes u64be v p (be_bytes 8 i)"
  by (simp add: encodes_def u64be_def assertAvailable_room writeU64_def copy_in_write_be)

lemma decodes_u64be: "length bs = 8 \<Longrightarrow> decodes u64be (JBig (be_val bs)) p bs"
  by (auto simp: decodes_def u64be_def assertAvailable_room readU64_def read_be_slice reads_def)

lemma asU64_be_val: "length bs = 8 \<Longrightarrow> asU64 (JBig (be_val bs)) = Inr (be_val bs)"
  using be_val_range [of bs] by (simp add: asU64_def MAX_U64_def)

interpretation u64be: canonical_codec u64be "{}"
proof
  fix st v p st1
  assume "preencode u64be st v p = Inr st1"
  then show "\<exists>bs. encodes u64be v p bs"
    by (auto simp: u64be_def rbind_Inr_iff dest: encodes_u64be [unfolded u64be_def])
next
  fix st p v st1
  assume st: "room st 0" "decode u64be st p = Inr (v, st1)"
  let ?bs = "slice st 8"
  from st have r: "room st 8" and v: "v = JBig (be_val ?bs)" and st1: "st1 = advance st 8"
    by (auto simp: u64be_def rbind_Inr_iff assertAvailable_Inr readU64_def read_be_slice)
  have "encodes u64be v q ?bs \<and> decodes u64be v q ?bs" for q
    using encodes_u64be [OF asU64_be_val, of ?bs q] decodes_u64be [of ?bs] r v
    by (simp add: be_bytes_be_val_eq)
  with r st1 show "\<exists>bs. reads st bs \<and> st1 = advance st (length bs) \<and>
      (\<forall>q. agree {} p q \<longrightarrow> encodes u64be v q bs \<and> decodes u64be v q bs)"
    by (intro exI [of _ ?bs]) (simp add: reads_slice)
qed

lemmas u64be_canonical [lawful_intros] = u64be.canonical_codec_axioms

subsection \<open>Compact lengths\<close>

definition compact_bytes :: "int \<Rightarrow> bytes" where
  "compact_bytes i =
     (if i \<le> 0xfc then [word_of_int i] else if i \<le> 0xffff then 0xfd # rev (be_bytes 2 i)
      else if i \<le> 0xffffffff then 0xfe # rev (be_bytes 4 i) else 0xff # rev (be_bytes 8 i))"

lemma length_compact_bytes: "length (compact_bytes i) = compact_size i"
  by (simp add: compact_bytes_def compact_size_def)

lemma word_of_int_mod_byte: "(word_of_int (v mod 256) :: byte) = word_of_int v"
  by (simp add: word_of_int_eq_iff take_bit_eq_mod)

lemma writeU16LE_write_le: "writeU16LE buf v off = write_le 2 v off buf"
  by (simp add: writeU16LE_def word_of_int_mod_byte numeral_2_eq_2)

lemma writeU32LE_write_le: "writeU32LE buf v off = write_le 4 v off buf"
  by (simp add: writeU32LE_def word_of_int_mod_byte eval_nat_numeral zdiv_zmult2_eq [symmetric])

lemma readU16LE_read_le: "readU16LE buf off = read_le 2 off buf 0"
  by (simp add: readU16LE_def eval_nat_numeral)

lemma readU32LE_read_le: "readU32LE buf off = read_le 4 off buf 0"
  by (simp add: readU32LE_def eval_nat_numeral)

lemma writeU64_write_le: "writeU64 buf v off True = write_le 8 v off buf"
  by (simp add: writeU64_def)

lemma readU64_read_le: "readU64 buf off True = read_le 8 off buf 0"
  by (simp add: readU64_def)

lemmas le_loops = writeU16LE_write_le writeU32LE_write_le readU16LE_read_le readU32LE_read_le
  writeU64_write_le readU64_read_le

lemma compact_preencode_ok:
  "0 \<le> i \<Longrightarrow> i \<le> MAX_SAFE_INTEGER \<Longrightarrow>
     compact_preencode st (JNum i) = Inr (grow st (length (compact_bytes i)))"
  by (simp add: compact_preencode_def assertUnsignedNumber_def length_compact_bytes)

lemma compact_encode_ok:
  assumes i: "0 \<le> i" "i \<le> MAX_SAFE_INTEGER" and r: "room st (length (compact_bytes i))"
  shows "compact_encode st (JNum i) = Inr (copy_in st (compact_bytes i))"
proof -
  have un: "assertUnsignedNumber (JNum i) MAX_SAFE_INTEGER = Inr i"
    using i by (simp add: assertUnsignedNumber_def)
  have av: "assertAvailable st (compact_size i) = Inr ()"
    using r by (simp add: assertAvailable_room length_compact_bytes)
  have len: "st_start st + compact_size i \<le> length (st_buffer st)"
    using r by (simp add: room_def length_compact_bytes)
  consider "i \<le> 0xfc" | "0xfc < i" "i \<le> 0xffff" | "0xffff < i" "i \<le> 0xffffffff" | "0xffffffff < i"
    by linarith
  then show ?thesis
  proof cases
    case 1
    with un av len show ?thesis
      by (simp add: compact_encode_def compact_size_def compact_bytes_def copy_in_def put_bytes_single)
  next
    case 2
    with un av len show ?thesis
      by (simp add: compact_encode_def compact_size_def compact_bytes_def copy_in_def le_loops
        write_le_put put_bytes_Cons)
  next
    case 3
    with un av len show ?thesis
      by (simp add: compact_encode_def compact_size_def compact_bytes_def copy_in_def le_loops
        write_le_put put_bytes_Cons)
  next
    case 4
    with un av len show ?thesis
      by (simp add: compact_encode_def compact_size_def compact_bytes_def copy_in_def le_loops
        write_le_put put_bytes_Cons)
  qed
qed

lemma compact_bytes_marker:
  assumes "0 \<le> i"
  shows "uint (hd (compact_bytes i)) =
    (if i \<le> 0xfc then i else if i \<le> 0xffff then 0xfd else if i \<le> 0xffffffff then 0xfe else 0xff)"
  using assms by (simp add: compact_bytes_def uint_word_of_int_byte)

lemma reads_Cons: "reads st (b # bs) \<longleftrightarrow>
    room st 1 \<and> st_buffer st ! st_start st = b \<and> reads (advance st 1) bs"
proof -
  have "room st 1 \<Longrightarrow> slice st 1 = [st_buffer st ! st_start st]"
    by (simp add: slice_def room_def take_Suc_conv_app_nth [of 0, simplified] hd_drop_conv_nth)
  then show ?thesis
    using reads_append [of st "[b]" bs] by (auto simp: reads_def)
qed

lemma read_le_reads:
  "reads st (rev (be_bytes n i)) \<Longrightarrow> 0 \<le> i \<Longrightarrow> i < 256 ^ n \<Longrightarrow>
     read_le n (st_start st) (st_buffer st) 0 = i"
  by (simp add: read_le_val reads_def room_bounds slice_def be_val_be_bytes)

lemma read_marked:
  assumes r: "reads st (m # rev (be_bytes n i))" and i: "0 \<le> i" "i < 256 ^ n"
  shows "assertAvailable st 1 = Inr ()" "st_buffer st ! st_start st = m"
    "assertAvailable (advance st 1) n = Inr ()" "read_le n (Suc (st_start st)) (st_buffer st) 0 = i"
proof -
  from r have r1: "room st 1" and m: "st_buffer st ! st_start st = m"
    and rd: "reads (advance st 1) (rev (be_bytes n i))" by (simp_all add: reads_Cons)
  show "assertAvailable st 1 = Inr ()" "st_buffer st ! st_start st = m"
    using r1 m by (simp_all add: assertAvailable_room)
  show "assertAvailable (advance st 1) n = Inr ()"
    using reads_room [OF rd] by (simp only: assertAvailable_room length_rev length_be_bytes)
  show "read_le n (Suc (st_start st)) (st_buffer st) 0 = i"
    using read_le_reads [OF rd i] by simp
qed

lemma compact_decode_reads:
  assumes i: "0 \<le> i" "i \<le> MAX_SAFE_INTEGER" and r: "reads st (compact_bytes i)"
  shows "compact_decode st = Inr (i, advance st (length (compact_bytes i)))"
proof -
  consider "i \<le> 0xfc" | "0xfc < i" "i \<le> 0xffff" | "0xffff < i" "i \<le> 0xffffffff" | "0xffffffff < i"
    by linarith
  then show ?thesis
  proof cases
    case 1
    with i r have "room st 1" "st_buffer st ! st_start st = word_of_int i"
      by (simp_all add: compact_bytes_def reads_Cons)
    with 1 i show ?thesis
      by (simp add: compact_decode_def compact_bytes_def assertAvailable_room uint_word_of_int_byte)
  next
    case 2
    then have cb: "compact_bytes i = 0xfd # rev (be_bytes 2 i)" by (simp add: compact_bytes_def)
    from 2 i read_marked [OF r [unfolded cb]] show ?thesis
      by (simp add: compact_decode_def cb le_loops numeral_3_eq_3)
  next
    case 3
    then have cb: "compact_bytes i = 0xfe # rev (be_bytes 4 i)" by (simp add: compact_bytes_def)
    from 3 i read_marked [OF r [unfolded cb]] show ?thesis
      by (simp add: compact_decode_def cb le_loops)
  next
    case 4
    then have cb: "compact_bytes i = 0xff # rev (be_bytes 8 i)" by (simp add: compact_bytes_def)
    from 4 i read_marked [OF r [unfolded cb]] show ?thesis
      by (simp add: compact_decode_def cb le_loops MAX_SAFE_INTEGER_def)
  qed
qed

lemma read_le_slice:
  assumes "room st n"
  shows "rev (be_bytes n (read_le n (st_start st) (st_buffer st) 0)) = slice st n"
    and "0 \<le> read_le n (st_start st) (st_buffer st) 0"
    and "read_le n (st_start st) (st_buffer st) 0 < 256 ^ n"
proof -
  have v: "read_le n (st_start st) (st_buffer st) 0 = be_val (rev (slice st n))"
    using assms by (simp add: read_le_val room_bounds slice_def)
  have l: "length (rev (slice st n)) = n" using assms by simp
  show "rev (be_bytes n (read_le n (st_start st) (st_buffer st) 0)) = slice st n"
    by (simp add: v be_bytes_be_val_eq [OF l])
  show "0 \<le> read_le n (st_start st) (st_buffer st) 0"
    and "read_le n (st_start st) (st_buffer st) 0 < 256 ^ n"
    using be_val_range [of "rev (slice st n)"] l by (simp_all add: v)
qed

lemma reads_marker:
  assumes "room st (Suc n)" "uint (st_buffer st ! st_start st) = uint m"
  shows "reads st (m # rev (be_bytes n (read_le n (Suc (st_start st)) (st_buffer st) 0)))"
proof -
  have r: "room (advance st 1) n" using assms by simp
  then have "reads (advance st 1) (rev (be_bytes n (read_le n (Suc (st_start st)) (st_buffer st) 0)))"
    using read_le_slice(1) [OF r] reads_slice [OF r] by simp
  moreover have "st_buffer st ! st_start st = m" using assms(2) by (rule word_uint_eqI)
  ultimately show ?thesis using assms by (simp add: reads_Cons room_def)
qed

lemma guarded_Inr: "(if P then Inl e else Inr (x, y)) = Inr (i, s) \<longleftrightarrow> \<not> P \<and> i = x \<and> s = y"
  by auto

lemma compact_decode_Inr:
  assumes st: "room st 0" and d: "compact_decode st = Inr (i, st1)"
  shows "0 \<le> i" "i \<le> MAX_SAFE_INTEGER" "reads st (compact_bytes i)"
    "st1 = advance st (length (compact_bytes i))"
proof -
  let ?m = "st_buffer st ! st_start st"
  let ?le = "\<lambda>n. read_le n (Suc (st_start st)) (st_buffer st) 0"
  from d st have r1: "room st 1"
    by (auto simp: compact_decode_def rbind_Inr_iff assertAvailable_Inr)
  then have av1: "assertAvailable st 1 = Inr ()" by (rule assertAvailable_room)
  have av: "room st (Suc n)" if "assertAvailable (advance st 1) n = Inr u" for n u
    using that r1 by (simp add: assertAvailable_Inr)
  have mr: "uint ?m \<le> 252 \<or> uint ?m = 253 \<or> uint ?m = 254 \<or> uint ?m = 255"
    using uint_byte_range [of ?m] by linarith
  note D = d [unfolded compact_decode_def av1 rbind_simps Let_def le_loops]
  from mr consider (b1) "i = uint ?m" "uint ?m \<le> 0xfc" "st1 = advance st 1"
    | (b3) "room st 3" "uint ?m = 0xfd" "i = ?le 2" "0xfc < i" "st1 = advance st 3"
    | (b5) "room st 5" "uint ?m = 0xfe" "i = ?le 4" "0xffff < i" "st1 = advance st 5"
    | (b9) "room st 9" "uint ?m = 0xff" "i = ?le 8" "0xffffffff < i" "i \<le> MAX_SAFE_INTEGER" "st1 = advance st 9"
  proof (elim disjE)
    assume "uint ?m \<le> 252"
    with D show thesis by (intro b1) simp_all
  next
    assume m: "uint ?m = 253"
    with D obtain u where u: "assertAvailable (advance st 1) 2 = Inr u" "0xfc < ?le 2"
        "i = ?le 2" "st1 = advance st 3"
      by (simp add: rbind_Inr_iff guarded_Inr numeral_3_eq_3)
    from av [OF u(1)] m u show thesis by (intro b3) simp_all
  next
    assume m: "uint ?m = 254"
    with D obtain u where u: "assertAvailable (advance st 1) 4 = Inr u" "0xffff < ?le 4"
        "i = ?le 4" "st1 = advance st 5"
      by (simp add: rbind_Inr_iff guarded_Inr)
    from av [OF u(1)] m u show thesis by (intro b5) simp_all
  next
    assume m: "uint ?m = 255"
    with D obtain u where u: "assertAvailable (advance st 1) 8 = Inr u" "0xffffffff < ?le 8"
        "?le 8 \<le> MAX_SAFE_INTEGER" "i = ?le 8" "st1 = advance st 9"
      by (auto simp: rbind_Inr_iff guarded_Inr)
    from av [OF u(1)] m u show thesis by (intro b9) simp_all
  qed
  then have "0 \<le> i \<and> i \<le> MAX_SAFE_INTEGER \<and> reads st (compact_bytes i) \<and>
      st1 = advance st (length (compact_bytes i))"
  proof cases
    case b1
    with uint_byte_range [of ?m] r1 show ?thesis
      by (simp add: compact_bytes_def MAX_SAFE_INTEGER_def reads_Cons room_def)
  next
    case b3
    then have "room (advance st 1) 2" by (simp add: numeral_3_eq_3)
    from read_le_slice(2,3) [OF this] b3 reads_marker [of st 2 "0xfd"] show ?thesis
      by (simp add: compact_bytes_def MAX_SAFE_INTEGER_def numeral_3_eq_3)
  next
    case b5
    then have "room (advance st 1) 4" by simp
    from read_le_slice(2,3) [OF this] b5 reads_marker [of st 4 "0xfe"] show ?thesis
      by (simp add: compact_bytes_def MAX_SAFE_INTEGER_def)
  next
    case b9
    then have "room (advance st 1) 8" by simp
    from read_le_slice(2,3) [OF this] b9 reads_marker [of st 8 "0xff"] show ?thesis
      by (simp add: compact_bytes_def)
  qed
  then show "0 \<le> i" "i \<le> MAX_SAFE_INTEGER" "reads st (compact_bytes i)"
    "st1 = advance st (length (compact_bytes i))" by simp_all
qed

end
