(* ===== verification/Codec_Combinators.thy ===== *)
theory Codec_Combinators
  imports Codec_Laws
begin

text \<open>
  Every combinator of \<^verbatim>\<open>codec.js\<close> keeps the contract \<^verbatim>\<open>canonical_codec\<close>.  The rules are
  collected in \<^verbatim>\<open>lawful_intros\<close>, so that the contract of a message schema follows from its
  field list alone.
\<close>

subsection \<open>Introduction rules\<close>

lemma canonical_codecI:
  assumes "\<And>st v p st1. preencode c st v p = Inr st1 \<Longrightarrow> \<exists>bs. encodes c v p bs"
    and "\<And>st p v st1. room st 0 \<Longrightarrow> decode c st p = Inr (v, st1) \<Longrightarrow>
      \<exists>bs. reads st bs \<and> st1 = advance st (length bs) \<and>
        (\<forall>q. agree needs p q \<longrightarrow> encodes c v q bs \<and> decodes c v q bs)"
  shows "canonical_codec c needs"
  using assms by unfold_locales blast+

lemma canonical_codec_mono:
  "canonical_codec c needs \<Longrightarrow> needs \<subseteq> needs' \<Longrightarrow> canonical_codec c needs'"
  unfolding canonical_codec_def agree_def by (meson subsetD)

lemma encodesD: "encodes c v p bs \<Longrightarrow> preencode c st v p = Inr (grow st (length bs))"
    "encodes c v p bs \<Longrightarrow> room st (length bs) \<Longrightarrow> encode c st v p = Inr (copy_in st bs)"
  by (simp_all add: encodes_def)

lemma decodesD: "decodes c v p bs \<Longrightarrow> reads st bs \<Longrightarrow> decode c st p = Inr (v, advance st (length bs))"
  by (simp add: decodes_def)

lemma reads_advance_room: "reads st bs \<Longrightarrow> room (advance st (length bs)) 0"
  by (simp add: reads_def)

lemma compact_preencode_Inr:
  "compact_preencode st (JNum (int n)) = Inr st1 \<Longrightarrow> int n \<le> MAX_SAFE_INTEGER"
  by (auto simp: compact_preencode_def rbind_Inr_iff assertUnsignedNumber_Inr)

text \<open>A wrapper that checks values before it encodes them and after it decoded them.\<close>

lemma canonical_checked:
  assumes c: "canonical_codec c {}"
    and pre: "\<And>st v p. preencode c' st v p = rbind (chkE v) (\<lambda>_. preencode c st v JUndef)"
    and enc: "\<And>st v p. encode c' st v p = rbind (chkE v) (\<lambda>_. encode c st v JUndef)"
    and dec: "\<And>st p. decode c' st p = rbind (decode c st JUndef) (\<lambda>(v, st).
        rbind (chkD v) (\<lambda>_. Inr (v, st)))"
    and chk: "\<And>st v st1 x. room st 0 \<Longrightarrow> decode c st JUndef = Inr (v, st1) \<Longrightarrow> chkD v = Inr x \<Longrightarrow>
        \<exists>y. chkE v = Inr y"
  shows "canonical_codec c' {}"
proof (rule canonical_codecI)
  fix st v p st1
  assume "preencode c' st v p = Inr st1"
  then obtain x where "chkE v = Inr x" "preencode c st v JUndef = Inr st1"
    by (auto simp: pre rbind_Inr_iff)
  then show "\<exists>bs. encodes c' v p bs"
    using canonical_codec.preencode_total [OF c] by (fastforce simp: encodes_def pre enc)
next
  fix st p v st1
  assume st: "room st 0" and "decode c' st p = Inr (v, st1)"
  then obtain x where d: "decode c st JUndef = Inr (v, st1)" and x: "chkD v = Inr x"
    by (auto simp: dec rbind_Inr_iff)
  from chk [OF st d x] obtain y where y: "chkE v = Inr y" ..
  from canonical_codec.decode_canonical [OF c st d] obtain bs where bs: "reads st bs"
      "st1 = advance st (length bs)" "encodes c v JUndef bs" "decodes c v JUndef bs"
    by (auto simp: agree_def)
  from bs(3,4) x y have "encodes c' v q bs \<and> decodes c' v q bs" for q
    by (simp add: encodes_def decodes_def pre enc dec)
  with bs show "\<exists>bs. reads st bs \<and> st1 = advance st (length bs) \<and>
      (\<forall>q. agree {} p q \<longrightarrow> encodes c' v q bs \<and> decodes c' v q bs)" by blast
qed

subsection \<open>Bytes\<close>

lemma asBuffer_Inr [simp]: "asBuffer v = Inr bs \<longleftrightarrow> v = JBytes bs"
  by (cases v) (auto simp: asBuffer_def)

lemma encodes_fixedBytes:
  "length bs = n \<Longrightarrow> int n \<le> MAX_SAFE_INTEGER \<Longrightarrow> encodes (fixedBytes n) (JBytes bs) p bs"
  by (simp add: encodes_def fixedBytes_def asBuffer_def assertAvailable_room)

lemma decodes_fixedBytes:
  "length bs = n \<Longrightarrow> int n \<le> MAX_SAFE_INTEGER \<Longrightarrow> decodes (fixedBytes n) (JBytes bs) p bs"
  by (auto simp: decodes_def fixedBytes_def assertAvailable_room reads_def)

lemma canonical_fixedBytes [lawful_intros]: "canonical_codec (fixedBytes n) {}"
proof (cases "int n > MAX_SAFE_INTEGER")
  case True
  then show ?thesis by (simp add: fixedBytes_def canonical_codec_raising)
next
  case False
  show ?thesis
  proof (rule canonical_codecI)
    fix st v p st1
    assume "preencode (fixedBytes n) st v p = Inr st1"
    with False obtain bs where "v = JBytes bs" "length bs = n"
      by (auto simp: fixedBytes_def rbind_Inr_iff split: if_splits)
    with False encodes_fixedBytes [of bs n p] show "\<exists>bs. encodes (fixedBytes n) v p bs" by auto
  next
    fix st p v st1
    assume "room st 0" "decode (fixedBytes n) st p = Inr (v, st1)"
    with False have r: "room st n" and v: "v = JBytes (slice st n)" and st1: "st1 = advance st n"
      by (auto simp: fixedBytes_def rbind_Inr_iff assertAvailable_Inr)
    with False show "\<exists>bs. reads st bs \<and> st1 = advance st (length bs) \<and>
        (\<forall>q. agree {} p q \<longrightarrow> encodes (fixedBytes n) v q bs \<and> decodes (fixedBytes n) v q bs)"
      by (intro exI [of _ "slice st n"]) (simp add: reads_slice encodes_fixedBytes decodes_fixedBytes)
  qed
qed

lemma constant_value_Inr:
  "constant_value expected v = Inr bs \<longleftrightarrow> bs = expected \<and> (is_nullish v \<or> v = JBytes expected)"
  by (cases v) (auto simp: constant_value_def asBuffer_def)

lemma canonical_constantBytes [lawful_intros]: "canonical_codec (constantBytes expected) {}"
proof (cases "int (length expected) > MAX_SAFE_INTEGER")
  case True
  then show ?thesis
    by (intro canonical_codecI)
      (auto simp: constantBytes_def fixedBytes_def raising_def Let_def rbind_Inr_iff)
next
  case False
  let ?c = "fixedBytes (length expected)"
  have E: "encodes ?c (JBytes expected) JUndef expected" and D: "decodes ?c (JBytes expected) JUndef expected"
    using False by (simp_all add: encodes_fixedBytes decodes_fixedBytes)
  have enc: "encodes (constantBytes expected) v p expected" if "is_nullish v \<or> v = JBytes expected" for v p
  proof -
    from that have "constant_value expected v = Inr expected" by (simp add: constant_value_Inr)
    with E show ?thesis by (simp add: encodes_def constantBytes_def Let_def)
  qed
  have dec: "decodes (constantBytes expected) (JBytes expected) p expected" for p
    using D by (simp add: decodes_def constantBytes_def Let_def)
  show ?thesis
  proof (rule canonical_codecI)
    fix st v p st1
    assume "preencode (constantBytes expected) st v p = Inr st1"
    then show "\<exists>bs. encodes (constantBytes expected) v p bs"
      using enc by (auto simp: constantBytes_def Let_def rbind_Inr_iff constant_value_Inr)
  next
    fix st p v st1
    assume st: "room st 0" and "decode (constantBytes expected) st p = Inr (v, st1)"
    then have d: "decode ?c st JUndef = Inr (v, st1)" and v: "as_bytes v = expected"
      by (auto simp: constantBytes_def Let_def rbind_Inr_iff guarded_Inr)
    let ?s = "slice st (length expected)"
    from d False st have r: "room st (length expected)" and w: "v = JBytes ?s"
        and st1: "st1 = advance st (length expected)"
      by (simp_all add: fixedBytes_def rbind_Inr_iff assertAvailable_Inr)
    from v have "?s = expected" unfolding w by simp
    with r w st1 show "\<exists>bs. reads st bs \<and> st1 = advance st (length bs) \<and>
        (\<forall>q. agree {} p q \<longrightarrow> encodes (constantBytes expected) v q bs \<and> decodes (constantBytes expected) v q bs)"
      by (intro exI [of _ expected]) (simp add: reads_def enc dec)
  qed
qed

lemma selectedLength_agree:
  "agree {f} p q \<Longrightarrow> selectedLength f cl p = selectedLength f cl q"
  by (simp add: selectedLength_def agree_def)

lemma canonical_exactBytesByClass [lawful_intros]: "canonical_codec (exactBytesByClass f cl) {f}"
proof (rule canonical_codecI)
  let ?c = "exactBytesByClass f cl"
  have enc: "encodes ?c (JBytes bs) p bs" if "selectedLength f cl p = Inr (length bs)" for bs p
    using that by (simp add: encodes_def exactBytesByClass_def asBuffer_def assertAvailable_room)
  have dec: "decodes ?c (JBytes bs) p bs" if "selectedLength f cl p = Inr (length bs)" for bs p
    using that by (auto simp: decodes_def exactBytesByClass_def assertAvailable_room reads_def)
  show "\<exists>bs. encodes ?c v p bs" if "preencode ?c st v p = Inr st1" for st v p st1
    using that enc by (auto simp: exactBytesByClass_def rbind_Inr_iff split: if_splits)
  show "\<exists>bs. reads st bs \<and> st1 = advance st (length bs) \<and>
      (\<forall>q. agree {f} p q \<longrightarrow> encodes ?c v q bs \<and> decodes ?c v q bs)"
    if "room st 0" "decode ?c st p = Inr (v, st1)" for st p v st1
  proof -
    from that obtain n where n: "selectedLength f cl p = Inr n" and r: "room st n"
        and v: "v = JBytes (slice st n)" "st1 = advance st n"
      by (auto simp: exactBytesByClass_def rbind_Inr_iff assertAvailable_Inr)
    have "selectedLength f cl q = Inr (length (slice st n))" if "agree {f} p q" for q
      using that n r selectedLength_agree [of f p q cl] by simp
    with r v show ?thesis
      by (intro exI [of _ "slice st n"]) (simp add: reads_slice enc dec)
  qed
qed

lemma encodes_boundedBytes:
  assumes "minimum \<le> length bs" "length bs \<le> maximum" "int (length bs) \<le> MAX_SAFE_INTEGER"
  shows "encodes (boundedBytes minimum maximum) (JBytes bs) p (compact_bytes (int (length bs)) @ bs)"
proof -
  let ?h = "compact_bytes (int (length bs))"
  have "encode (boundedBytes minimum maximum) st (JBytes bs) p = Inr (copy_in st (?h @ bs))"
    if r: "room st (length ?h + length bs)" for st
  proof -
    have "compact_encode st (JNum (int (length bs))) = Inr (copy_in st ?h)"
      using compact_encode_ok assms(3) room_less(1) [OF r] by simp
    moreover have "assertAvailable (copy_in st ?h) (length bs) = Inr ()"
      using room_copy_in [OF r] by (rule assertAvailable_room)
    ultimately show ?thesis
      using assms r by (simp add: boundedBytes_def asBuffer_def copy_in_copy_in)
  qed
  then show ?thesis
    using assms by (simp add: encodes_def boundedBytes_def asBuffer_def compact_preencode_ok)
qed

lemma decodes_boundedBytes:
  assumes "minimum \<le> length bs" "length bs \<le> maximum" "int (length bs) \<le> MAX_SAFE_INTEGER"
  shows "decodes (boundedBytes minimum maximum) (JBytes bs) p (compact_bytes (int (length bs)) @ bs)"
  unfolding decodes_def
proof (intro allI impI)
  fix st
  let ?h = "compact_bytes (int (length bs))"
  assume "reads st (?h @ bs)"
  then have h: "reads st ?h" and r: "reads (advance st (length ?h)) bs" by (simp_all add: reads_append)
  then have "compact_decode st = Inr (int (length bs), advance st (length ?h))"
    using assms by (simp add: compact_decode_reads)
  with assms r show "decode (boundedBytes minimum maximum) st p
      = Inr (JBytes bs, advance st (length (?h @ bs)))"
    using reads_room [OF r] by (simp add: boundedBytes_def assertAvailable_room reads_def del: room_advance)
qed

lemma canonical_boundedBytes [lawful_intros]: "canonical_codec (boundedBytes minimum maximum) {}"
proof (cases "maximum < minimum")
  case True
  then show ?thesis by (simp add: boundedBytes_def canonical_codec_raising)
next
  case False
  let ?c = "boundedBytes minimum maximum"
  show ?thesis
  proof (rule canonical_codecI)
    fix st v p st1
    assume "preencode ?c st v p = Inr st1"
    with False obtain bs st2 where "v = JBytes bs" "minimum \<le> length bs" "length bs \<le> maximum"
        "compact_preencode st (JNum (int (length bs))) = Inr st2"
      by (auto simp: boundedBytes_def rbind_Inr_iff split: if_splits)
    then show "\<exists>bs. encodes ?c v p bs"
      using encodes_boundedBytes compact_preencode_Inr by blast
  next
    fix st p v st1
    assume st: "room st 0" and d: "decode ?c st p = Inr (v, st1)"
    from d False obtain len st2 u where c: "compact_decode st = Inr (len, st2)"
        and len: "int minimum \<le> len" "len \<le> int maximum"
        and av: "assertAvailable st2 (nat len) = Inr u"
        and v: "v = JBytes (slice st2 (nat len))" "st1 = advance st2 (nat len)"
      by (auto simp: boundedBytes_def rbind_Inr_iff split: if_splits)
    note C = compact_decode_Inr [OF st c]
    let ?h = "compact_bytes len" and ?bs = "slice st2 (nat len)"
    have r2: "room st2 (nat len)"
      using av reads_advance_room [OF C(3)] C(4) by (simp add: assertAvailable_Inr)
    then have l: "int (length ?bs) = len" using C(1) by simp
    have rd: "reads st (?h @ ?bs)"
      using C reads_slice [OF r2] by (simp add: reads_append)
    have b: "minimum \<le> length ?bs" "length ?bs \<le> maximum" using len l by simp_all
    have "encodes ?c v q (?h @ ?bs) \<and> decodes ?c v q (?h @ ?bs)" for q
      using encodes_boundedBytes [OF b, of q] decodes_boundedBytes [OF b, of q] l C(2) v by simp
    with rd r2 v C(4) show "\<exists>bs. reads st bs \<and> st1 = advance st (length bs) \<and>
        (\<forall>q. agree {} p q \<longrightarrow> encodes ?c v q bs \<and> decodes ?c v q bs)"
      by (intro exI [of _ "?h @ ?bs"]) simp
  qed
qed

interpretation compactUint: canonical_codec compactUint "{}"
proof (rule canonical_codecI)
  have enc: "encodes compactUint (JNum i) p (compact_bytes i)"
    if "0 \<le> i" "i \<le> MAX_SAFE_INTEGER" for i p
    using that by (simp add: encodes_def compactUint_def compact_preencode_ok compact_encode_ok)
  have dec: "decodes compactUint (JNum i) p (compact_bytes i)"
    if "0 \<le> i" "i \<le> MAX_SAFE_INTEGER" for i p
    using that by (simp add: decodes_def compactUint_def compact_decode_reads)
  show "\<exists>bs. encodes compactUint v p bs" if "preencode compactUint st v p = Inr st1" for st v p st1
    using that enc
    by (auto simp: compactUint_def compact_preencode_def rbind_Inr_iff assertUnsignedNumber_Inr)
  show "\<exists>bs. reads st bs \<and> st1 = advance st (length bs) \<and>
      (\<forall>q. agree {} p q \<longrightarrow> encodes compactUint v q bs \<and> decodes compactUint v q bs)"
    if st: "room st 0" and "decode compactUint st p = Inr (v, st1)" for st p v st1
  proof -
    from that obtain i where d: "compact_decode st = Inr (i, st1)" and v: "v = JNum i"
      by (auto simp: compactUint_def rbind_Inr_iff)
    from compact_decode_Inr [OF st d] enc dec v show ?thesis by blast
  qed
qed

subsection \<open>Text and URLs\<close>

lemma canonicalTextValue_Inr: "canonicalTextValue E v lo hi a = Inr bs \<Longrightarrow> v = JBytes bs"
  by (auto simp: canonicalTextValue_def rbind_Inr_iff)

lemma rbind_text:
  "rbind (canonicalTextValue E v lo hi a) (\<lambda>bs. f (JBytes bs))
     = rbind (canonicalTextValue E v lo hi a) (\<lambda>_. f v)"
  by (rule rbind_cong) (auto dest: canonicalTextValue_Inr)

lemma canonical_canonicalTextBytes: "canonical_codec (canonicalTextBytes E lo hi a) {}"
proof (rule canonical_checked [OF canonical_boundedBytes,
      where chkE = "\<lambda>v. canonicalTextValue E v lo hi a" and chkD = "\<lambda>v. canonicalTextValue E v lo hi a"])
  show "preencode (canonicalTextBytes E lo hi a) st v p =
      rbind (canonicalTextValue E v lo hi a) (\<lambda>_. preencode (boundedBytes lo hi) st v JUndef)" for st v p
    using rbind_text [of E v lo hi a "\<lambda>v. preencode (boundedBytes lo hi) st v JUndef"]
    by (simp add: canonicalTextBytes_def Let_def)
  show "encode (canonicalTextBytes E lo hi a) st v p =
      rbind (canonicalTextValue E v lo hi a) (\<lambda>_. encode (boundedBytes lo hi) st v JUndef)" for st v p
    using rbind_text [of E v lo hi a "\<lambda>v. encode (boundedBytes lo hi) st v JUndef"]
    by (simp add: canonicalTextBytes_def Let_def)
qed (simp_all add: canonicalTextBytes_def Let_def)

lemma canonical_text [lawful_intros]:
  "canonical_codec (canonicalUtf8Bytes E lo hi) {}" "canonical_codec (canonicalAsciiBytes E lo hi) {}"
  by (simp_all add: canonicalUtf8Bytes_def canonicalAsciiBytes_def canonical_canonicalTextBytes)

lemma canonical_httpsUrl [lawful_intros]: "canonical_codec (canonicalHttpsUrlBytes E) {}"
  by (rule canonical_checked [OF canonical_text(1), where chkE = "\<lambda>v. validateCanonicalUrl E v False"
        and chkD = "\<lambda>v. validateCanonicalUrl E v False"])
    (simp_all add: canonicalHttpsUrlBytes_def Let_def)

subsection \<open>Constants and ranges\<close>

lemma canonical_constantOf:
  assumes c: "canonical_codec c {}"
  shows "canonical_codec (constantOf c e) {}"
proof (rule canonical_codecI)
  fix st v p st1
  assume "preencode (constantOf c e) st v p = Inr st1"
  then have v: "is_nullish v \<or> v = e" and "preencode c st e JUndef = Inr st1"
    by (auto simp: constantOf_def split: if_splits)
  then obtain bs where "encodes c e JUndef bs"
    using canonical_codec.preencode_total [OF c] by blast
  with v show "\<exists>bs. encodes (constantOf c e) v p bs"
    by (auto simp: encodes_def constantOf_def)
next
  fix st p v st1
  assume st: "room st 0" and "decode (constantOf c e) st p = Inr (v, st1)"
  then have v: "v = e" and d: "decode c st JUndef = Inr (e, st1)"
    by (auto simp: constantOf_def rbind_Inr_iff guarded_Inr)
  from canonical_codec.decode_canonical [OF c st d] obtain bs where bs: "reads st bs"
      "st1 = advance st (length bs)" "encodes c e JUndef bs" "decodes c e JUndef bs"
    by (auto simp: agree_def)
  from bs(3,4) have "encodes (constantOf c e) e q bs \<and> decodes (constantOf c e) e q bs" for q
    by (simp add: encodes_def decodes_def constantOf_def)
  with bs v show "\<exists>bs. reads st bs \<and> st1 = advance st (length bs) \<and>
      (\<forall>q. agree {} p q \<longrightarrow> encodes (constantOf c e) v q bs \<and> decodes (constantOf c e) v q bs)" by blast
qed

lemma canonical_ranged:
  assumes c: "canonical_codec c {}"
    and num: "\<And>st v st1. room st 0 \<Longrightarrow> decode c st JUndef = Inr (v, st1) \<Longrightarrow> is_number v"
  shows "canonical_codec (ranged c lo hi) {}"
  by (rule canonical_checked [OF c,
        where chkE = "\<lambda>v. if \<not> is_number v \<or> out_of_range lo hi v then Inl BAD_ENCODING else Inr v"
          and chkD = "\<lambda>v. if out_of_range lo hi v then Inl BAD_ENCODING else Inr v"])
    (auto simp: ranged_def num rbind_def fun_eq_iff split: sum.splits if_splits)

lemma fixedUnsigned_number:
  "room st 0 \<Longrightarrow> decode (fixedUnsigned n m) st p = Inr (v, st1) \<Longrightarrow> is_number v"
  by (auto simp: decode_fixedUnsigned_Inr)

lemma canonical_ranged_unsigned [lawful_intros]:
  "canonical_codec (ranged u8 lo hi) {}" "canonical_codec (ranged u16be lo hi) {}"
  "canonical_codec (ranged u32be lo hi) {}"
  using unsigned_canonical by (auto intro!: canonical_ranged simp: u8_def u16be_def u32be_def
      dest: fixedUnsigned_number)

lemmas canonical_constant_unsigned [lawful_intros] =
  canonical_constantOf [OF u8.canonical_codec_axioms] canonical_constantOf [OF u16be.canonical_codec_axioms]

subsection \<open>Optional values\<close>

lemma u8_tag: "encodes u8 (JNum 0) p [0]" "encodes u8 (JNum 1) p [1]"
    "decodes u8 (JNum 0) p [0]" "decodes u8 (JNum 1) p [1]"
  using encodes_fixedUnsigned [of 0 255 1 p] encodes_fixedUnsigned [of 1 255 1 p]
    decodes_fixedUnsigned [of "[0]" 1 255 p] decodes_fixedUnsigned [of "[1]" 1 255 p]
  by (simp_all add: u8_def MAX_SAFE_INTEGER_def)

lemma encodes_optional_some:
  assumes e: "encodes c v JUndef bs" and n: "\<not> is_nullish v"
  shows "encodes (optional c) v p (1 # bs)"
proof -
  have "encode (optional c) st v p = Inr (copy_in st (1 # bs))" if "room st (Suc (length bs))" for st
  proof -
    from that have r: "room st (length [1::byte])" "room (copy_in st [1]) (length bs)"
      by (simp_all add: room_def)
    show ?thesis
      using n that encodesD(2) [OF u8_tag(2) r(1), of JUndef] encodesD(2) [OF e r(2)]
        copy_in_copy_in [of st "[1]" bs] by (simp add: optional_def)
  qed
  with n encodesD(1) [OF u8_tag(2), of _ JUndef] encodesD(1) [OF e] show ?thesis
    by (simp add: encodes_def optional_def)
qed

lemma encodes_optional_none: "is_nullish v \<Longrightarrow> encodes (optional c) v p [0]"
  using encodesD(1) [OF u8_tag(1), of _ JUndef] encodesD(2) [OF u8_tag(1), of _ JUndef]
  by (simp add: encodes_def optional_def)

lemma reads_tag: "reads st (b # bs) \<longleftrightarrow> reads st [b] \<and> reads (advance st 1) bs"
  using reads_append [of st "[b]" bs] by simp

lemma decodes_optional_none: "decodes (optional c) JNull p [0]"
  using decodesD [OF u8_tag(3), of _ JUndef] by (simp add: decodes_def optional_def)

lemma decodes_optional_some:
  assumes "decodes c v JUndef bs"
  shows "decodes (optional c) v p (1 # bs)"
  unfolding decodes_def
proof (intro allI impI)
  fix st
  assume "reads st (1 # bs)"
  then have r: "reads st [1]" "reads (advance st 1) bs" using reads_tag [of st 1 bs] by simp_all
  show "decode (optional c) st p = Inr (v, advance st (length (1 # bs)))"
    using decodesD [OF u8_tag(4) r(1), of JUndef] decodesD [OF assms r(2)]
    by (simp add: optional_def)
qed

lemma decode_u8_Inr:
  assumes "room st 0" "decode u8 st p = Inr (v, st1)"
  obtains b where "v = JNum (uint b)" "reads st [b]" "st1 = advance st 1"
proof -
  from assms have r: "room st 1" and v: "v = JNum (be_val (slice st 1))" "st1 = advance st 1"
    by (auto simp: u8_def decode_fixedUnsigned_Inr)
  have "length (slice st 1) = Suc 0" using length_slice [OF r] by simp
  then obtain b where b: "slice st 1 = [b]" by (auto simp only: length_Suc_conv length_0_conv)
  with r v that [of b] show thesis by (simp add: reads_def)
qed

text \<open>A codec that never decodes to null or undefined, as \<^verbatim>\<open>optional\<close> needs of its argument.\<close>

definition never_null :: "codec \<Rightarrow> bool" where
  "never_null c \<longleftrightarrow> (\<forall>st v st1. decode c st JUndef = Inr (v, st1) \<longrightarrow> \<not> is_nullish v)"

lemma canonical_optional [lawful_intros]:
  assumes c: "canonical_codec c {}" and nn: "never_null c"
  shows "canonical_codec (optional c) {}"
proof (rule canonical_codecI)
  fix st v p st1
  assume pre: "preencode (optional c) st v p = Inr st1"
  show "\<exists>bs. encodes (optional c) v p bs"
  proof (cases "is_nullish v")
    case True
    then show ?thesis using encodes_optional_none by blast
  next
    case False
    with pre obtain st2 where "preencode c st2 v JUndef = Inr st1"
      by (auto simp: optional_def rbind_Inr_iff)
    then show ?thesis
      using canonical_codec.preencode_total [OF c] encodes_optional_some False by blast
  qed
next
  fix st p v st1
  assume st: "room st 0" and d: "decode (optional c) st p = Inr (v, st1)"
  then obtain t st2 where t: "decode u8 st JUndef = Inr (t, st2)"
    by (auto simp: optional_def rbind_Inr_iff)
  from decode_u8_Inr [OF st t] obtain b where b: "t = JNum (uint b)" "reads st [b]" "st2 = advance st 1" .
  show "\<exists>bs. reads st bs \<and> st1 = advance st (length bs) \<and>
      (\<forall>q. agree {} p q \<longrightarrow> encodes (optional c) v q bs \<and> decodes (optional c) v q bs)"
  proof (cases "uint b = 0")
    case True
    then have "b = 0" by (simp add: word_uint_eq_iff)
    with b d t have "v = JNull" "st1 = advance st 1" by (simp_all add: optional_def)
    with b \<open>b = 0\<close> show ?thesis
      by (intro exI [of _ "[0]"]) (simp add: encodes_optional_none decodes_optional_none)
  next
    case False
    with b d t have "uint b = 1" and d2: "decode c st2 JUndef = Inr (v, st1)"
      by (simp_all add: optional_def split: if_splits)
    then have b1: "b = 1" by (simp add: word_uint_eq_iff)
    have st2: "room st2 0" using b reads_advance_room by fastforce
    from canonical_codec.decode_canonical [OF c st2 d2] obtain bs where bs: "reads st2 bs"
        "st1 = advance st2 (length bs)" "encodes c v JUndef bs" "decodes c v JUndef bs"
      by (auto simp: agree_def)
    from nn d2 have "\<not> is_nullish v" unfolding never_null_def by blast
    with b b1 bs show ?thesis
      by (intro exI [of _ "1 # bs"])
        (simp add: encodes_optional_some decodes_optional_some reads_tag [of st 1 bs])
  qed
qed

lemma never_null_wrap:
  assumes "never_null c"
    and "\<And>st v st1. decode c' st JUndef = Inr (v, st1) \<Longrightarrow> \<exists>st2. decode c st JUndef = Inr (v, st2)"
  shows "never_null c'"
  using assms unfolding never_null_def by blast

lemma never_null_basic [lawful_intros]:
  "never_null (fixedBytes n)" "never_null (boundedBytes lo hi)" "never_null u32be" "never_null u64be"
  by (auto simp: never_null_def fixedBytes_def boundedBytes_def raising_def u32be_def u64be_def
      fixedUnsigned_def rbind_Inr_iff split: if_splits)

lemma never_null_text [lawful_intros]:
  "never_null (canonicalUtf8Bytes E lo hi)" "never_null (canonicalHttpsUrlBytes E)"
proof -
  show tx: "never_null (canonicalUtf8Bytes E lo hi)" for lo hi
    by (rule never_null_wrap [OF never_null_basic(2) [of lo hi]])
      (auto simp: canonicalUtf8Bytes_def canonicalTextBytes_def Let_def rbind_Inr_iff)
  show "never_null (canonicalHttpsUrlBytes E)"
    by (rule never_null_wrap [OF tx [of 1 512]])
      (auto simp: canonicalHttpsUrlBytes_def Let_def rbind_Inr_iff)
qed

subsection \<open>Arrays\<close>

lemma each_preencode:
  "list_all2 (\<lambda>x bs. encodes c x JUndef bs) xs bss \<Longrightarrow>
     each (preencode c) st xs = Inr (grow st (length (concat bss)))"
  by (induction xs bss arbitrary: st rule: list_all2_induct) (simp_all add: encodesD(1))

lemma each_encode:
  "list_all2 (\<lambda>x bs. encodes c x JUndef bs) xs bss \<Longrightarrow> room st (length (concat bss)) \<Longrightarrow>
     each (encode c) st xs = Inr (copy_in st (concat bss))"
proof (induction xs bss arbitrary: st rule: list_all2_induct)
  case (Cons x xs bs bss)
  then have r: "room st (length bs + length (concat bss))" by simp
  from encodesD(2) [OF Cons.hyps(1) room_less(1) [OF r]] Cons.IH [OF room_copy_in [OF r]] r
  show ?case by (simp add: copy_in_copy_in)
qed simp

lemma each_preencode_Inr:
  assumes c: "canonical_codec c {}" and "each (preencode c) st xs = Inr st1"
  shows "\<exists>bss. list_all2 (\<lambda>x bs. encodes c x JUndef bs) xs bss"
  using assms(2)
proof (induction xs arbitrary: st)
  case (Cons x xs)
  then obtain st2 where "preencode c st x JUndef = Inr st2" "each (preencode c) st2 xs = Inr st1"
    by (auto simp: rbind_Inr_iff)
  with Cons.IH canonical_codec.preencode_total [OF c] obtain bs bss where "encodes c x JUndef bs"
      "list_all2 (\<lambda>x bs. encodes c x JUndef bs) xs bss" by blast
  then show ?case by (intro exI [of _ "bs # bss"]) simp
qed auto

lemma decode_n_reads:
  "list_all2 (\<lambda>x bs. decodes c x JUndef bs) xs bss \<Longrightarrow> reads st (concat bss) \<Longrightarrow>
     decode_n c (length xs) st = Inr (xs, advance st (length (concat bss)))"
proof (induction xs bss arbitrary: st rule: list_all2_induct)
  case (Cons x xs bs bss)
  then have r: "reads st bs" "reads (advance st (length bs)) (concat bss)"
    by (simp_all add: reads_append)
  from decodesD [OF Cons.hyps(1) r(1)] Cons.IH [OF r(2)] show ?case by simp
qed simp

lemma decode_n_Inr:
  assumes c: "canonical_codec c {}" and "room st 0" "decode_n c n st = Inr (xs, st1)"
  shows "\<exists>bss. length xs = n \<and> reads st (concat bss) \<and> st1 = advance st (length (concat bss)) \<and>
    list_all2 (\<lambda>x bs. encodes c x JUndef bs) xs bss \<and> list_all2 (\<lambda>x bs. decodes c x JUndef bs) xs bss"
  using assms(2,3)
proof (induction n arbitrary: st xs)
  case (Suc n)
  then obtain x st2 ys where x: "decode c st JUndef = Inr (x, st2)"
      and ys: "decode_n c n st2 = Inr (ys, st1)" and xs: "xs = x # ys"
    by (auto simp: rbind_Inr_iff)
  from canonical_codec.decode_canonical [OF c Suc.prems(1) x] obtain bs where bs: "reads st bs"
      "st2 = advance st (length bs)" "encodes c x JUndef bs" "decodes c x JUndef bs"
    by (auto simp: agree_def)
  then have "room st2 0" using reads_advance_room by simp
  from Suc.IH [OF this ys] obtain bss where "length ys = n" "reads st2 (concat bss)"
      "st1 = advance st2 (length (concat bss))" "list_all2 (\<lambda>x bs. encodes c x JUndef bs) ys bss"
      "list_all2 (\<lambda>x bs. decodes c x JUndef bs) ys bss" by blast
  with bs xs show ?case by (intro exI [of _ "bs # bss"]) (simp add: reads_append)
qed (auto intro: exI [of _ "[]"])

lemma array_values_Inr: "array_values lo hi v = Inr xs \<longleftrightarrow> v = JArr xs \<and> lo \<le> length xs \<and> length xs \<le> hi"
  by (cases v) (auto simp: array_values_def)

lemma encodes_arrayOf:
  assumes e: "list_all2 (\<lambda>x bs. encodes c x JUndef bs) xs bss"
    and n: "lo \<le> length xs" "length xs \<le> hi" "int (length xs) \<le> MAX_SAFE_INTEGER"
  shows "encodes (arrayOf c lo hi) (JArr xs) p (compact_bytes (int (length xs)) @ concat bss)"
proof -
  let ?h = "compact_bytes (int (length xs))"
  have a: "array_values lo hi (JArr xs) = Inr xs" using n by (simp add: array_values_Inr)
  have "encode (arrayOf c lo hi) st (JArr xs) p = Inr (copy_in st (?h @ concat bss))"
    if r: "room st (length ?h + length (concat bss))" for st
  proof -
    have "compact_encode st (JNum (int (length xs))) = Inr (copy_in st ?h)"
      using compact_encode_ok n(3) room_less(1) [OF r] by simp
    with each_encode [OF e room_copy_in [OF r]] a n r show ?thesis
      by (simp add: arrayOf_def copy_in_copy_in)
  qed
  with a n show ?thesis
    by (simp add: encodes_def arrayOf_def compact_preencode_ok each_preencode [OF e])
qed

lemma decodes_arrayOf:
  assumes d: "list_all2 (\<lambda>x bs. decodes c x JUndef bs) xs bss"
    and n: "lo \<le> length xs" "length xs \<le> hi" "int (length xs) \<le> MAX_SAFE_INTEGER"
  shows "decodes (arrayOf c lo hi) (JArr xs) p (compact_bytes (int (length xs)) @ concat bss)"
  unfolding decodes_def
proof (intro allI impI)
  fix st
  let ?h = "compact_bytes (int (length xs))"
  assume "reads st (?h @ concat bss)"
  then have r: "reads st ?h" "reads (advance st (length ?h)) (concat bss)" by (simp_all add: reads_append)
  with n have "compact_decode st = Inr (int (length xs), advance st (length ?h))"
    by (simp add: compact_decode_reads)
  with decode_n_reads [OF d r(2)] n
  show "decode (arrayOf c lo hi) st p = Inr (JArr xs, advance st (length (?h @ concat bss)))"
    by (simp add: arrayOf_def)
qed

lemma canonical_arrayOf [lawful_intros]:
  assumes c: "canonical_codec c {}"
  shows "canonical_codec (arrayOf c lo hi) {}"
proof (cases "hi < lo")
  case True
  then show ?thesis by (simp add: arrayOf_def canonical_codec_raising)
next
  case False
  show ?thesis
  proof (rule canonical_codecI)
    fix st v p st1
    assume "preencode (arrayOf c lo hi) st v p = Inr st1"
    with False obtain xs st2 where v: "v = JArr xs" "lo \<le> length xs" "length xs \<le> hi"
        and "compact_preencode st (JNum (int (length xs))) = Inr st2" "each (preencode c) st2 xs = Inr st1"
      by (auto simp: arrayOf_def rbind_Inr_iff array_values_Inr)
    with each_preencode_Inr [OF c] compact_preencode_Inr show "\<exists>bs. encodes (arrayOf c lo hi) v p bs"
      by (blast intro: encodes_arrayOf)
  next
    fix st p v st1
    assume st: "room st 0" and d: "decode (arrayOf c lo hi) st p = Inr (v, st1)"
    from d False obtain n st2 xs where cd: "compact_decode st = Inr (n, st2)"
        and n: "int lo \<le> n" "n \<le> int hi" and dn: "decode_n c (nat n) st2 = Inr (xs, st1)" and v: "v = JArr xs"
      by (auto simp: arrayOf_def rbind_Inr_iff split: if_splits)
    note C = compact_decode_Inr [OF st cd]
    have "room st2 0" using C(3,4) reads_advance_room by simp
    from decode_n_Inr [OF c this dn] obtain bss where B: "length xs = nat n" "reads st2 (concat bss)"
        "st1 = advance st2 (length (concat bss))" "list_all2 (\<lambda>x bs. encodes c x JUndef bs) xs bss"
        "list_all2 (\<lambda>x bs. decodes c x JUndef bs) xs bss" by blast
    from C(1) B(1) have l: "int (length xs) = n" by simp
    then have b: "lo \<le> length xs" "length xs \<le> hi" "int (length xs) \<le> MAX_SAFE_INTEGER"
      using n C(2) by simp_all
    have "encodes (arrayOf c lo hi) v q (compact_bytes n @ concat bss) \<and>
        decodes (arrayOf c lo hi) v q (compact_bytes n @ concat bss)" for q
      using encodes_arrayOf [OF B(4) b, of q] decodes_arrayOf [OF B(5) b, of q] l v by simp
    with B(2,3) C show "\<exists>bs. reads st bs \<and> st1 = advance st (length bs) \<and>
        (\<forall>q. agree {} p q \<longrightarrow> encodes (arrayOf c lo hi) v q bs \<and> decodes (arrayOf c lo hi) v q bs)"
      by (intro exI [of _ "compact_bytes n @ concat bss"]) (simp add: reads_append)
  qed
qed

subsection \<open>Structures\<close>

text \<open>
  A field list keeps the contract when its names are distinct, every field codec keeps it, and
  a codec that depends on a sibling field stands after that field.
\<close>

fun lawful_fields :: "string set \<Rightarrow> (string \<times> codec) list \<Rightarrow> bool" where
  "lawful_fields S [] = True"
| "lawful_fields S ((n, c) # fs) =
     (n \<notin> S \<and> (\<exists>needs. needs \<subseteq> S \<and> canonical_codec c needs) \<and> lawful_fields (insert n S) fs)"

lemma lawful_fields_Nil [lawful_intros]: "lawful_fields S []"
  by simp

lemma lawful_fields_Cons [lawful_intros]:
  "n \<notin> S \<Longrightarrow> canonical_codec c needs \<Longrightarrow> needs \<subseteq> S \<Longrightarrow> lawful_fields (insert n S) fs \<Longrightarrow>
     lawful_fields S ((n, c) # fs)"
  by auto

definition encodes_fields :: "(string \<times> codec) list \<Rightarrow> jsval \<Rightarrow> bytes \<Rightarrow> bool" where
  "encodes_fields fs v bs \<longleftrightarrow>
     (\<forall>st. preencode_fields fs st v = Inr (grow st (length bs))) \<and>
     (\<forall>st. room st (length bs) \<longrightarrow> encode_fields fs st v = Inr (copy_in st bs))"

lemma encodes_fields_Nil: "encodes_fields [] v []"
  by (simp add: encodes_fields_def)

lemma encodes_fields_Cons:
  assumes e: "encodes c (getf v n) v xs" and f: "encodes_fields fs v ys"
  shows "encodes_fields ((n, c) # fs) v (xs @ ys)"
proof -
  have "encode_fields ((n, c) # fs) st v = Inr (copy_in st (xs @ ys))"
    if r: "room st (length xs + length ys)" for st
    using encodesD(2) [OF e room_less(1) [OF r]] f room_copy_in [OF r] r
    by (simp add: encodes_fields_def copy_in_copy_in)
  then show ?thesis using encodesD(1) [OF e] f by (simp add: encodes_fields_def)
qed

lemma preencode_fields_Inr:
  assumes "preencode_fields fs st v = Inr st1" "lawful_fields S fs"
  shows "\<exists>bs. encodes_fields fs v bs"
  using assms
proof (induction fs arbitrary: st S)
  case Nil
  show ?case using encodes_fields_Nil by blast
next
  case (Cons f fs)
  obtain n c where f: "f = (n, c)" by force
  with Cons.prems obtain st2 needs where pre: "preencode c st (getf v n) v = Inr st2"
      and rest: "preencode_fields fs st2 v = Inr st1"
      and c: "canonical_codec c needs" and S: "lawful_fields (insert n S) fs"
    by (auto simp: rbind_Inr_iff)
  from canonical_codec.preencode_total [OF c pre] Cons.IH [OF rest S] show ?case
    using encodes_fields_Cons f by blast
qed

lemma decode_fields_Inr:
  assumes "decode_fields fs st vs = Inr (vs', st1)" "lawful_fields (fst ` set vs) fs" "room st 0"
  shows "\<exists>bs gs. vs' = vs @ gs \<and> map fst gs = map fst fs \<and> reads st bs \<and>
    st1 = advance st (length bs) \<and> encodes_fields fs (JObj vs') bs \<and>
    (\<forall>st'. reads st' bs \<longrightarrow> decode_fields fs st' vs = Inr (vs', advance st' (length bs)))"
  using assms
proof (induction fs arbitrary: st vs)
  case Nil
  then show ?case by (intro exI [of _ "[]"]) (simp add: encodes_fields_Nil)
next
  case (Cons f fs)
  obtain n c where f: "f = (n, c)" by force
  with Cons.prems obtain x st2 needs where d: "decode c st (JObj vs) = Inr (x, st2)"
      and fresh: "n \<notin> fst ` set vs"
      and rest: "decode_fields fs st2 (vs @ [(n, x)]) = Inr (vs', st1)"
      and c: "canonical_codec c needs" and sub: "needs \<subseteq> fst ` set vs"
      and S: "lawful_fields (fst ` set (vs @ [(n, x)])) fs"
    by (auto simp: rbind_Inr_iff)
  from canonical_codec.decode_canonical [OF c Cons.prems(3) d] obtain bs where bs: "reads st bs"
      "st2 = advance st (length bs)"
      and law: "\<And>q. agree needs (JObj vs) q \<Longrightarrow> encodes c x q bs \<and> decodes c x q bs" by blast
  have "room st2 0" using bs reads_advance_room by simp
  from Cons.IH [OF rest S this] obtain cs gs where gs: "vs' = (vs @ [(n, x)]) @ gs"
      "map fst gs = map fst fs" "reads st2 cs" "st1 = advance st2 (length cs)"
      "encodes_fields fs (JObj vs') cs"
      "\<And>st'. reads st' cs \<Longrightarrow>
        decode_fields fs st' (vs @ [(n, x)]) = Inr (vs', advance st' (length cs))" by blast
  have "getf (JObj vs') n = x"
    using fresh gs(1) by (simp add: map_add_def map_of_eq_None_iff [THEN iffD2])
  moreover have "agree needs (JObj vs) (JObj vs')"
    unfolding agree_def
  proof
    fix m assume "m \<in> needs"
    then have "m \<in> fst ` set vs" using sub by blast
    then show "getf (JObj vs) m = getf (JObj vs') m"
      using getf_append_fresh [of m vs "(n, x) # gs"] gs(1) by simp
  qed
  ultimately have e: "encodes_fields (f # fs) (JObj vs') (bs @ cs)"
    using law gs(5) encodes_fields_Cons f by simp
  have "decode_fields (f # fs) st' vs = Inr (vs', advance st' (length (bs @ cs)))"
    if "reads st' (bs @ cs)" for st'
  proof -
    from that have r: "reads st' bs" "reads (advance st' (length bs)) cs" by (simp_all add: reads_append)
    have "decode c st' (JObj vs) = Inr (x, advance st' (length bs))"
      using law [of "JObj vs"] r(1) by (simp add: agree_def decodes_def)
    with gs(6) [OF r(2)] f fresh show ?thesis by simp
  qed
  with e bs gs f show ?case
    by (intro exI [of _ "bs @ cs"] exI [of _ "(n, x) # gs"]) (simp add: reads_append)
qed

lemma canonical_struct [lawful_intros]:
  assumes fs: "lawful_fields {} fs"
  shows "canonical_codec (struct name fs validate) {}"
proof (cases "fs = []")
  case True
  then show ?thesis by (simp add: struct_def canonical_codec_raising)
next
  case False
  let ?c = "struct name fs validate"
  have enc: "encodes ?c v p bs"
    if "encodes_fields fs v bs" "is_object v" "validate v = Inr u" for v p bs u
    using that False by (simp add: encodes_def encodes_fields_def struct_def)
  show ?thesis
  proof (rule canonical_codecI)
    fix st v p st1
    assume "preencode ?c st v p = Inr st1"
    with False obtain st2 u where "is_object v" "preencode_fields fs st v = Inr st2" "validate v = Inr u"
      by (auto simp: struct_def rbind_Inr_iff split: if_splits)
    with preencode_fields_Inr [OF _ fs] enc show "\<exists>bs. encodes ?c v p bs" by blast
  next
    fix st p v st1
    assume st: "room st 0" and d: "decode ?c st p = Inr (v, st1)"
    from d False obtain vs u where df: "decode_fields fs st [] = Inr (vs, st1)"
        and val: "validate (JObj vs) = Inr u" and v: "v = JObj vs"
      by (auto simp: struct_def rbind_Inr_iff)
    from decode_fields_Inr [OF df _ st] fs obtain bs where bs: "reads st bs" "st1 = advance st (length bs)"
        "encodes_fields fs (JObj vs) bs"
        "\<And>st'. reads st' bs \<Longrightarrow> decode_fields fs st' [] = Inr (vs, advance st' (length bs))" by auto
    then have "encodes ?c v q bs \<and> decodes ?c v q bs" for q
      using enc [OF bs(3) _ val] v val False by (simp add: decodes_def struct_def)
    with bs show "\<exists>bs. reads st bs \<and> st1 = advance st (length bs) \<and>
        (\<forall>q. agree {} p q \<longrightarrow> encodes ?c v q bs \<and> decodes ?c v q bs)" by blast
  qed
qed

lemma never_null_struct [lawful_intros]: "never_null (struct name fs validate)"
  by (auto simp: never_null_def struct_def raising_def rbind_Inr_iff split: if_splits)

text \<open>What a decoded structure looks like: the fields of the schema, in its order, validated.\<close>

lemma decode_struct_Inr:
  assumes "canonical_codec (struct name fs validate) {}" "lawful_fields {} fs"
    and "decodeCanonical (struct name fs validate) (JBytes bs) cp = Inr v"
  shows "\<exists>vs. v = JObj vs \<and> map fst vs = map fst fs \<and> validate v = Inr ()"
proof -
  let ?st = "\<lparr>st_start = 0, st_end = length bs, st_buffer = bs, st_copyBytes = cp\<rparr>"
  from assms(3) obtain vs st1 where df: "decode_fields fs ?st [] = Inr (vs, st1)"
      and "validate (JObj vs) = Inr ()" "v = JObj vs"
    by (auto simp: decodeCanonical_def asBuffer_def struct_def raising_def rbind_Inr_iff split: if_splits)
  moreover have "room ?st 0" by (simp add: room_def)
  ultimately show ?thesis using decode_fields_Inr [OF df] assms(2) by auto
qed

end
