(* ===== verification/Wire_Authority.thy ===== *)
theory Wire_Authority
  imports Js_Value
begin

text \<open>
  The frozen wire registry that the protocol packages import: the constants, class tables,
  domain registry, error profile and operation profile of
  \<^verbatim>\<open>packages/blind-protocol/wire-runtime-authority.js\<close>, and its lookup functions.  An object of
  named numeric codes is one constant per member; a table of rows is a list of records in the
  order of the source.
\<close>

subsection \<open>Codes and limits\<close>

definition FRAME_KIND_REQUEST :: int where "FRAME_KIND_REQUEST = 1"
definition FRAME_KIND_RESPONSE :: int where "FRAME_KIND_RESPONSE = 2"
definition FRAME_KIND_ERROR :: int where "FRAME_KIND_ERROR = 3"
definition FRAME_KIND_STREAM :: int where "FRAME_KIND_STREAM = 4"

definition FAMILY_DESCRIBE :: int where "FAMILY_DESCRIBE = 1"
definition FAMILY_CELL :: int where "FAMILY_CELL = 2"
definition FAMILY_INBOX :: int where "FAMILY_INBOX = 3"
definition FAMILY_CORE :: int where "FAMILY_CORE = 4"
definition FAMILY_FORWARD :: int where "FAMILY_FORWARD = 5"

definition OPERATION_DESCRIBE_GET :: int where "OPERATION_DESCRIBE_GET = 1"
definition OPERATION_DESCRIBE_CHALLENGE :: int where "OPERATION_DESCRIBE_CHALLENGE = 2"
definition OPERATION_DESCRIBE_ADMISSION_PARAMETERS :: int where "OPERATION_DESCRIBE_ADMISSION_PARAMETERS = 3"
definition OPERATION_CELL_PUT :: int where "OPERATION_CELL_PUT = 1"
definition OPERATION_CELL_GET :: int where "OPERATION_CELL_GET = 2"
definition OPERATION_CELL_RENEW :: int where "OPERATION_CELL_RENEW = 3"
definition OPERATION_CELL_DROP :: int where "OPERATION_CELL_DROP = 4"
definition OPERATION_CELL_PROVE :: int where "OPERATION_CELL_PROVE = 5"
definition OPERATION_CELL_BATCH_GET :: int where "OPERATION_CELL_BATCH_GET = 6"
definition OPERATION_INBOX_CREATE :: int where "OPERATION_INBOX_CREATE = 1"
definition OPERATION_INBOX_RENEW :: int where "OPERATION_INBOX_RENEW = 2"
definition OPERATION_INBOX_CLOSE :: int where "OPERATION_INBOX_CLOSE = 3"
definition OPERATION_INBOX_APPEND :: int where "OPERATION_INBOX_APPEND = 4"
definition OPERATION_INBOX_READ :: int where "OPERATION_INBOX_READ = 5"
definition OPERATION_INBOX_WATCH :: int where "OPERATION_INBOX_WATCH = 6"
definition OPERATION_CORE_MIRROR :: int where "OPERATION_CORE_MIRROR = 1"
definition OPERATION_CORE_PROVE :: int where "OPERATION_CORE_PROVE = 2"
definition OPERATION_CORE_OPEN_REPLICATION :: int where "OPERATION_CORE_OPEN_REPLICATION = 3"
definition OPERATION_FORWARD_OPEN :: int where "OPERATION_FORWARD_OPEN = 1"
definition OPERATION_FORWARD_DATA :: int where "OPERATION_FORWARD_DATA = 2"
definition OPERATION_FORWARD_WINDOW :: int where "OPERATION_FORWARD_WINDOW = 3"
definition OPERATION_FORWARD_CLOSE :: int where "OPERATION_FORWARD_CLOSE = 4"

definition TRANSPORT_ID_HTTPS_DIRECT :: int where "TRANSPORT_ID_HTTPS_DIRECT = 1"
definition TRANSPORT_ID_DIRECT_PROTOMUX_NOISE :: int where "TRANSPORT_ID_DIRECT_PROTOMUX_NOISE = 2"
definition TRANSPORT_ID_OHTTP_INGRESS :: int where "TRANSPORT_ID_OHTTP_INGRESS = 3"
definition TRANSPORT_ID_OHTTP_GATEWAY :: int where "TRANSPORT_ID_OHTTP_GATEWAY = 4"
definition TRANSPORT_ID_SPLIT_PROTOMUX_NOISE :: int where "TRANSPORT_ID_SPLIT_PROTOMUX_NOISE = 5"
definition TRANSPORT_ID_HTTP3_MASQUE :: int where "TRANSPORT_ID_HTTP3_MASQUE = 6"
definition TRANSPORT_ID_TOR_V3_ONION :: int where "TRANSPORT_ID_TOR_V3_ONION = 7"
definition TRANSPORT_ID_WEBTRANSPORT_WEBSOCKET_TUNNEL :: int where "TRANSPORT_ID_WEBTRANSPORT_WEBSOCKET_TUNNEL = 8"
definition TRANSPORT_ID_MIX_PACKET_INGRESS :: int where "TRANSPORT_ID_MIX_PACKET_INGRESS = 9"

definition TRANSPORT_SUPPORT_DIRECT_HTTP :: int where "TRANSPORT_SUPPORT_DIRECT_HTTP = 1"
definition TRANSPORT_SUPPORT_DIRECT_NATIVE :: int where "TRANSPORT_SUPPORT_DIRECT_NATIVE = 2"
definition TRANSPORT_SUPPORT_OHTTP :: int where "TRANSPORT_SUPPORT_OHTTP = 4"
definition TRANSPORT_SUPPORT_TOR_HTTP :: int where "TRANSPORT_SUPPORT_TOR_HTTP = 8"
definition TRANSPORT_SUPPORT_TOR_NATIVE :: int where "TRANSPORT_SUPPORT_TOR_NATIVE = 16"
definition TRANSPORT_SUPPORT_MASQUE_NATIVE :: int where "TRANSPORT_SUPPORT_MASQUE_NATIVE = 32"

definition ENDPOINT_LIMITS_ROLE_BITS_MASK :: int where "ENDPOINT_LIMITS_ROLE_BITS_MASK = 127"
definition ENDPOINT_LIMITS_PRIVACY_PROFILE_BITS_MASK :: int where "ENDPOINT_LIMITS_PRIVACY_PROFILE_BITS_MASK = 255"
definition ENDPOINT_LIMITS_ENVELOPE_CLASS_BITS_MASK :: int where "ENDPOINT_LIMITS_ENVELOPE_CLASS_BITS_MASK = 126"
definition ENDPOINT_LIMITS_WIRE_CLASS_BITS_MASK :: int where "ENDPOINT_LIMITS_WIRE_CLASS_BITS_MASK = 14"

definition PUBLIC_PROFILE_LIMITS_CELL_SIZE_CLASS_BITS_MASK :: int where "PUBLIC_PROFILE_LIMITS_CELL_SIZE_CLASS_BITS_MASK = 62"
definition PUBLIC_PROFILE_LIMITS_LEASE_CLASS_BITS_MASK :: int where "PUBLIC_PROFILE_LIMITS_LEASE_CLASS_BITS_MASK = 30"
definition PUBLIC_PROFILE_LIMITS_ENABLED_OPERATION_BITS_MASK :: int where "PUBLIC_PROFILE_LIMITS_ENABLED_OPERATION_BITS_MASK = 4194303"
definition PUBLIC_PROFILE_LIMITS_TRANSPORT_BITS_MASK :: int where "PUBLIC_PROFILE_LIMITS_TRANSPORT_BITS_MASK = 1022"
definition PUBLIC_PROFILE_LIMITS_MAX_DESCRIPTOR_BYTES :: int where "PUBLIC_PROFILE_LIMITS_MAX_DESCRIPTOR_BYTES = 16384"
definition PUBLIC_PROFILE_LIMITS_MAX_DHT_POINTER_BYTES :: int where "PUBLIC_PROFILE_LIMITS_MAX_DHT_POINTER_BYTES = 1000"
definition PUBLIC_PROFILE_LIMITS_MAX_RESPONSE_BYTES :: int where "PUBLIC_PROFILE_LIMITS_MAX_RESPONSE_BYTES = 4194304"
definition PUBLIC_PROFILE_LIMITS_MAX_BATCH_COUNT :: int where "PUBLIC_PROFILE_LIMITS_MAX_BATCH_COUNT = 64"
definition PUBLIC_PROFILE_LIMITS_MAX_ADMISSION_TOKEN_BYTES :: int where "PUBLIC_PROFILE_LIMITS_MAX_ADMISSION_TOKEN_BYTES = 4096"
definition PUBLIC_PROFILE_LIMITS_MAX_ADMISSION_RESOURCE_COST_ROWS :: int where "PUBLIC_PROFILE_LIMITS_MAX_ADMISSION_RESOURCE_COST_ROWS = 512"
definition PUBLIC_PROFILE_LIMITS_MAX_OHTTP_CONFIG_EPOCHS :: int where "PUBLIC_PROFILE_LIMITS_MAX_OHTTP_CONFIG_EPOCHS = 120"

definition ADMISSION_CONFORMANCE_CLASS_OPEN :: int where "ADMISSION_CONFORMANCE_CLASS_OPEN = 1"
definition ADMISSION_CONFORMANCE_CLASS_PRIVATE :: int where "ADMISSION_CONFORMANCE_CLASS_PRIVATE = 2"

definition CELL_RECEIPT_RESULT_STORED :: int where "CELL_RECEIPT_RESULT_STORED = 1"
definition CELL_RECEIPT_RESULT_SERVED :: int where "CELL_RECEIPT_RESULT_SERVED = 2"
definition CELL_RECEIPT_RESULT_RENEWED :: int where "CELL_RECEIPT_RESULT_RENEWED = 3"
definition CELL_RECEIPT_RESULT_DROPPED :: int where "CELL_RECEIPT_RESULT_DROPPED = 4"

definition INBOX_MANAGE_OPERATION_RENEW :: int where "INBOX_MANAGE_OPERATION_RENEW = 1"
definition INBOX_MANAGE_OPERATION_CLOSE :: int where "INBOX_MANAGE_OPERATION_CLOSE = 2"

definition INBOX_APPEND_AUTH_MODE_OPEN_CAPABILITY :: int where "INBOX_APPEND_AUTH_MODE_OPEN_CAPABILITY = 0"
definition INBOX_APPEND_AUTH_MODE_SIGNATURE_REQUIRED :: int where "INBOX_APPEND_AUTH_MODE_SIGNATURE_REQUIRED = 1"

definition INBOX_RECEIPT_RESULT_CREATED :: int where "INBOX_RECEIPT_RESULT_CREATED = 1"
definition INBOX_RECEIPT_RESULT_RENEWED :: int where "INBOX_RECEIPT_RESULT_RENEWED = 2"
definition INBOX_RECEIPT_RESULT_CLOSED :: int where "INBOX_RECEIPT_RESULT_CLOSED = 3"

definition INBOX_APPEND_RESULT_STORED :: int where "INBOX_APPEND_RESULT_STORED = 1"

definition CORE_ACK_RESULT_MIRROR_ACCEPTED :: int where "CORE_ACK_RESULT_MIRROR_ACCEPTED = 1"
definition CORE_ACK_RESULT_RECENTLY_SERVED :: int where "CORE_ACK_RESULT_RECENTLY_SERVED = 2"

definition FORWARD_CLOSE_KIND_FIN :: int where "FORWARD_CLOSE_KIND_FIN = 1"
definition FORWARD_CLOSE_KIND_ABORT :: int where "FORWARD_CLOSE_KIND_ABORT = 2"

definition STORE_LIFECYCLE_STATE_ACTIVE :: int where "STORE_LIFECYCLE_STATE_ACTIVE = 1"
definition STORE_LIFECYCLE_STATE_DRAINING :: int where "STORE_LIFECYCLE_STATE_DRAINING = 2"
definition STORE_LIFECYCLE_STATE_RETIRED :: int where "STORE_LIFECYCLE_STATE_RETIRED = 3"

definition HEALTH_CLOCK_STATE_READY :: int where "HEALTH_CLOCK_STATE_READY = 1"
definition HEALTH_CLOCK_STATE_UNSAFE :: int where "HEALTH_CLOCK_STATE_UNSAFE = 2"
definition HEALTH_CLOCK_STATE_VERIFYING :: int where "HEALTH_CLOCK_STATE_VERIFYING = 3"

definition HEALTH_INTEGRITY_STATE_VERIFIED :: int where "HEALTH_INTEGRITY_STATE_VERIFIED = 1"
definition HEALTH_INTEGRITY_STATE_DEGRADED :: int where "HEALTH_INTEGRITY_STATE_DEGRADED = 2"
definition HEALTH_INTEGRITY_STATE_FAILED :: int where "HEALTH_INTEGRITY_STATE_FAILED = 3"

definition HEALTH_REBALANCE_STATE_STABLE :: int where "HEALTH_REBALANCE_STATE_STABLE = 0"
definition HEALTH_REBALANCE_STATE_COPYING :: int where "HEALTH_REBALANCE_STATE_COPYING = 1"
definition HEALTH_REBALANCE_STATE_CATCHING_UP :: int where "HEALTH_REBALANCE_STATE_CATCHING_UP = 2"
definition HEALTH_REBALANCE_STATE_FENCED :: int where "HEALTH_REBALANCE_STATE_FENCED = 3"

definition STREAM_TRANSITION_UNARY :: int where "STREAM_TRANSITION_UNARY = 0"
definition STREAM_TRANSITION_CORE_CHILD :: int where "STREAM_TRANSITION_CORE_CHILD = 1"
definition STREAM_TRANSITION_FORWARD_OPEN :: int where "STREAM_TRANSITION_FORWARD_OPEN = 2"
definition STREAM_TRANSITION_FORWARD_ACTIVE :: int where "STREAM_TRANSITION_FORWARD_ACTIVE = 3"

definition DOMAIN_PURPOSE_REQUEST_COMMITMENT :: int where "DOMAIN_PURPOSE_REQUEST_COMMITMENT = 1"
definition DOMAIN_PURPOSE_RESULT_SIGNATURE :: int where "DOMAIN_PURPOSE_RESULT_SIGNATURE = 2"
definition DOMAIN_PURPOSE_AUXILIARY_SIGNATURE :: int where "DOMAIN_PURPOSE_AUXILIARY_SIGNATURE = 3"

definition DOMAIN_RECIPE_OPERATION_DEFINED_COMMITMENT_PREIMAGE :: int where "DOMAIN_RECIPE_OPERATION_DEFINED_COMMITMENT_PREIMAGE = 1"
definition DOMAIN_RECIPE_ED25519_DOMAIN_LEN64_PAYLOAD :: int where "DOMAIN_RECIPE_ED25519_DOMAIN_LEN64_PAYLOAD = 2"

definition REQUEST_COMMITMENT_DOMAIN_ID_CELL_PUT :: int where "REQUEST_COMMITMENT_DOMAIN_ID_CELL_PUT = 1"
definition REQUEST_COMMITMENT_DOMAIN_ID_CELL_GET :: int where "REQUEST_COMMITMENT_DOMAIN_ID_CELL_GET = 2"
definition REQUEST_COMMITMENT_DOMAIN_ID_CELL_RENEW :: int where "REQUEST_COMMITMENT_DOMAIN_ID_CELL_RENEW = 3"
definition REQUEST_COMMITMENT_DOMAIN_ID_CELL_DROP :: int where "REQUEST_COMMITMENT_DOMAIN_ID_CELL_DROP = 4"
definition REQUEST_COMMITMENT_DOMAIN_ID_CELL_PROVE :: int where "REQUEST_COMMITMENT_DOMAIN_ID_CELL_PROVE = 5"
definition REQUEST_COMMITMENT_DOMAIN_ID_CELL_BATCH_GET :: int where "REQUEST_COMMITMENT_DOMAIN_ID_CELL_BATCH_GET = 6"
definition REQUEST_COMMITMENT_DOMAIN_ID_INBOX_CREATE :: int where "REQUEST_COMMITMENT_DOMAIN_ID_INBOX_CREATE = 7"
definition REQUEST_COMMITMENT_DOMAIN_ID_INBOX_RENEW :: int where "REQUEST_COMMITMENT_DOMAIN_ID_INBOX_RENEW = 8"
definition REQUEST_COMMITMENT_DOMAIN_ID_INBOX_CLOSE :: int where "REQUEST_COMMITMENT_DOMAIN_ID_INBOX_CLOSE = 9"
definition REQUEST_COMMITMENT_DOMAIN_ID_INBOX_APPEND :: int where "REQUEST_COMMITMENT_DOMAIN_ID_INBOX_APPEND = 10"
definition REQUEST_COMMITMENT_DOMAIN_ID_INBOX_READ :: int where "REQUEST_COMMITMENT_DOMAIN_ID_INBOX_READ = 11"
definition REQUEST_COMMITMENT_DOMAIN_ID_INBOX_WATCH :: int where "REQUEST_COMMITMENT_DOMAIN_ID_INBOX_WATCH = 12"
definition REQUEST_COMMITMENT_DOMAIN_ID_CORE_MIRROR :: int where "REQUEST_COMMITMENT_DOMAIN_ID_CORE_MIRROR = 13"
definition REQUEST_COMMITMENT_DOMAIN_ID_CORE_SERVE :: int where "REQUEST_COMMITMENT_DOMAIN_ID_CORE_SERVE = 14"
definition REQUEST_COMMITMENT_DOMAIN_ID_CORE_OPEN_REPLICATION :: int where "REQUEST_COMMITMENT_DOMAIN_ID_CORE_OPEN_REPLICATION = 15"
definition REQUEST_COMMITMENT_DOMAIN_ID_FORWARD_OPEN :: int where "REQUEST_COMMITMENT_DOMAIN_ID_FORWARD_OPEN = 16"

definition AUXILIARY_SIGNATURE_DOMAIN_ID_OHTTP_KEY_CONFIG :: int where "AUXILIARY_SIGNATURE_DOMAIN_ID_OHTTP_KEY_CONFIG = 201"
definition AUXILIARY_SIGNATURE_DOMAIN_ID_IDENTITY_TRANSITION :: int where "AUXILIARY_SIGNATURE_DOMAIN_ID_IDENTITY_TRANSITION = 202"
definition AUXILIARY_SIGNATURE_DOMAIN_ID_DHT_POINTER :: int where "AUXILIARY_SIGNATURE_DOMAIN_ID_DHT_POINTER = 203"
definition AUXILIARY_SIGNATURE_DOMAIN_ID_TRANSPORT_ROUTE :: int where "AUXILIARY_SIGNATURE_DOMAIN_ID_TRANSPORT_ROUTE = 204"
definition AUXILIARY_SIGNATURE_DOMAIN_ID_FORWARD_HOP_OPEN :: int where "AUXILIARY_SIGNATURE_DOMAIN_ID_FORWARD_HOP_OPEN = 205"
definition AUXILIARY_SIGNATURE_DOMAIN_ID_FORWARD_HOP_ACCEPT :: int where "AUXILIARY_SIGNATURE_DOMAIN_ID_FORWARD_HOP_ACCEPT = 206"
definition AUXILIARY_SIGNATURE_DOMAIN_ID_EXTERNAL_JOURNAL_TOPOLOGY :: int where "AUXILIARY_SIGNATURE_DOMAIN_ID_EXTERNAL_JOURNAL_TOPOLOGY = 207"
definition AUXILIARY_SIGNATURE_DOMAIN_ID_EXTERNAL_COMMIT_WITNESS :: int where "AUXILIARY_SIGNATURE_DOMAIN_ID_EXTERNAL_COMMIT_WITNESS = 208"
definition AUXILIARY_SIGNATURE_DOMAIN_ID_RESTORE_EVIDENCE_HEAD :: int where "AUXILIARY_SIGNATURE_DOMAIN_ID_RESTORE_EVIDENCE_HEAD = 209"
definition AUXILIARY_SIGNATURE_DOMAIN_ID_BACKUP_MANIFEST :: int where "AUXILIARY_SIGNATURE_DOMAIN_ID_BACKUP_MANIFEST = 210"
definition AUXILIARY_SIGNATURE_DOMAIN_ID_CLEAN_RESTORE_EVIDENCE :: int where "AUXILIARY_SIGNATURE_DOMAIN_ID_CLEAN_RESTORE_EVIDENCE = 211"
definition AUXILIARY_SIGNATURE_DOMAIN_ID_BACKUP_RETENTION_TRANSITION :: int where "AUXILIARY_SIGNATURE_DOMAIN_ID_BACKUP_RETENTION_TRANSITION = 212"
definition AUXILIARY_SIGNATURE_DOMAIN_ID_FORWARD_ROUTE_SCOPE :: int where "AUXILIARY_SIGNATURE_DOMAIN_ID_FORWARD_ROUTE_SCOPE = 213"

definition ERROR_PROFILE_ID_CANONICAL_V1 :: int where "ERROR_PROFILE_ID_CANONICAL_V1 = 1"

definition ERROR_RETRY_AFTER_MODE_MUST_BE_ABSENT :: int where "ERROR_RETRY_AFTER_MODE_MUST_BE_ABSENT = 0"
definition ERROR_RETRY_AFTER_MODE_MUST_BE_PRESENT :: int where "ERROR_RETRY_AFTER_MODE_MUST_BE_PRESENT = 1"

definition DISPATCH_LIMITS_PREFIX_BYTES :: int where "DISPATCH_LIMITS_PREFIX_BYTES = 4"
definition DISPATCH_LIMITS_HEADER_BYTES :: int where "DISPATCH_LIMITS_HEADER_BYTES = 41"
definition DISPATCH_LIMITS_REQUEST_ID_BYTES :: int where "DISPATCH_LIMITS_REQUEST_ID_BYTES = 16"
definition DISPATCH_LIMITS_MAX_BODY_BYTES :: int where "DISPATCH_LIMITS_MAX_BODY_BYTES = 4194304"
definition DISPATCH_LIMITS_MAX_FRAME_AFTER_PREFIX_BYTES :: int where "DISPATCH_LIMITS_MAX_FRAME_AFTER_PREFIX_BYTES = 4194368"
definition DISPATCH_LIMITS_MAX_WIRE_BYTES :: int where "DISPATCH_LIMITS_MAX_WIRE_BYTES = 4194372"
definition DISPATCH_LIMITS_MAX_FORWARD_DATA_BYTES :: int where "DISPATCH_LIMITS_MAX_FORWARD_DATA_BYTES = 65535"
definition DISPATCH_LIMITS_MAX_FORWARD_WINDOW_BYTES :: int where "DISPATCH_LIMITS_MAX_FORWARD_WINDOW_BYTES = 1048576"

definition FAMILY_ROUTES :: "int \<Rightarrow> string option" where
  "FAMILY_ROUTES = map_of [(1, ''/api/blind/v1/describe''),
     (2, ''/api/blind/v1/cell''),
     (3, ''/api/blind/v1/inbox''),
     (4, ''/api/blind/v1/core''),
     (5, ''/api/blind/v1/forward'')]"

subsection \<open>Size classes\<close>

definition CELL_SIZE_CLASS :: "int \<Rightarrow> nat option" where
  "CELL_SIZE_CLASS = map_of [(1, 4096), (2, 16384), (3, 65536), (4, 262144), (5, 1048576)]"

definition INBOX_FRAME_CLASS :: "int \<Rightarrow> nat option" where
  "INBOX_FRAME_CLASS = map_of [(1, 4096), (2, 16384), (3, 65536)]"

text \<open>\<^verbatim>\<open>Object.entries(OUTER_CLASS)\<close>: integer keys in ascending order.\<close>

definition OUTER_CLASS_ENTRIES :: "(int \<times> nat) list" where
  "OUTER_CLASS_ENTRIES = [(1, 4096), (2, 16384), (3, 65536), (4, 262144), (5, 1048576), (6, 8388608)]"

definition OUTER_CLASS :: "int \<Rightarrow> nat option" where
  "OUTER_CLASS = map_of OUTER_CLASS_ENTRIES"

definition STREAM_WIRE_CLASS :: "int \<Rightarrow> nat option" where
  "STREAM_WIRE_CLASS = map_of [(1, 4096), (2, 16384), (3, 65535)]"

record circuit_class =
  cc_grantedInitialWindow :: int
  cc_maxCircuitBytes :: int
  cc_idleMillis :: int
  cc_lifetimeMillis :: int

definition FORWARD_CIRCUIT_CLASS :: "int \<Rightarrow> circuit_class option" where
  "FORWARD_CIRCUIT_CLASS = map_of [(1, \<lparr>cc_grantedInitialWindow = 65536, cc_maxCircuitBytes = 16777216, cc_idleMillis = 30000, cc_lifetimeMillis = 600000\<rparr>),
     (2, \<lparr>cc_grantedInitialWindow = 262144, cc_maxCircuitBytes = 67108864, cc_idleMillis = 60000, cc_lifetimeMillis = 1800000\<rparr>),
     (3, \<lparr>cc_grantedInitialWindow = 1048576, cc_maxCircuitBytes = 268435456, cc_idleMillis = 120000, cc_lifetimeMillis = 3600000\<rparr>)]"

record session_class =
  sc_maxSessionBytes :: int
  sc_idleMillis :: int
  sc_lifetimeMillis :: int

definition CORE_SESSION_CLASS :: "int \<Rightarrow> session_class option" where
  "CORE_SESSION_CLASS = map_of [(1, \<lparr>sc_maxSessionBytes = 16777216, sc_idleMillis = 30000, sc_lifetimeMillis = 600000\<rparr>),
     (2, \<lparr>sc_maxSessionBytes = 67108864, sc_idleMillis = 60000, sc_lifetimeMillis = 1800000\<rparr>),
     (3, \<lparr>sc_maxSessionBytes = 268435456, sc_idleMillis = 120000, sc_lifetimeMillis = 3600000\<rparr>)]"

subsection \<open>Registries\<close>

record domain_entry =
  domainId :: int
  purpose :: int
  recipeId :: int
  exactAsciiBytes :: string

abbreviation domain_row :: "int \<Rightarrow> int \<Rightarrow> int \<Rightarrow> string \<Rightarrow> domain_entry" where
  "domain_row i p r s \<equiv> \<lparr>domainId = i, purpose = p, recipeId = r, exactAsciiBytes = s\<rparr>"

definition DOMAIN_REGISTRY :: "domain_entry list" where
  "DOMAIN_REGISTRY = [
     domain_row 1 1 1 ''hiverelay.blind.request.v1cell-put'',
     domain_row 2 1 1 ''hiverelay.blind.request.v1cell-get'',
     domain_row 3 1 1 ''hiverelay.blind.request.v1cell-renew'',
     domain_row 4 1 1 ''hiverelay.blind.request.v1cell-drop'',
     domain_row 5 1 1 ''hiverelay.blind.request.v1cell-prove'',
     domain_row 6 1 1 ''hiverelay.blind.request.v1cell-batch-get'',
     domain_row 7 1 1 ''hiverelay.blind.request.v1inbox-create'',
     domain_row 8 1 1 ''hiverelay.blind.request.v1inbox-renew'',
     domain_row 9 1 1 ''hiverelay.blind.request.v1inbox-close'',
     domain_row 10 1 1 ''hiverelay.blind.request.v1inbox-append'',
     domain_row 11 1 1 ''hiverelay.blind.request.v1inbox-read'',
     domain_row 12 1 1 ''hiverelay.blind.request.v1inbox-watch'',
     domain_row 13 1 1 ''hiverelay.blind.request.v1core-mirror'',
     domain_row 14 1 1 ''hiverelay.blind.request.v1core-serve'',
     domain_row 15 1 1 ''hiverelay.blind.request.v1core-open-replication'',
     domain_row 16 1 1 ''hiverelay.blind.forward-open.v1'',
     domain_row 101 2 2 ''hiverelay.blind.descriptor.v1'',
     domain_row 102 2 2 ''hiverelay.blind.health-result.v1'',
     domain_row 103 2 2 ''hiverelay.blind.admission-parameters.v1'',
     domain_row 104 2 2 ''hiverelay.blind.cell-receipt.v1'',
     domain_row 105 2 2 ''hiverelay.blind.batch-get-result.v1'',
     domain_row 106 2 2 ''hiverelay.blind.inbox-receipt.v1'',
     domain_row 107 2 2 ''hiverelay.blind.inbox-append-ack.v1'',
     domain_row 108 2 2 ''hiverelay.blind.inbox-read-result.v1'',
     domain_row 109 2 2 ''hiverelay.blind.core-ack.v1'',
     domain_row 110 2 2 ''hiverelay.blind.core-open-result.v1'',
     domain_row 111 2 2 ''hiverelay.blind.forward-open-result.v1'',
     domain_row 201 3 2 ''hiverelay.blind.ohttp-key-config.v1'',
     domain_row 202 3 2 ''hiverelay.blind.identity-transition.v1'',
     domain_row 203 3 2 ''hiverelay.blind.dht-pointer.v1'',
     domain_row 204 3 2 ''hiverelay.blind.transport-route.v1'',
     domain_row 205 3 2 ''hiverelay.blind.forward-hop-open.v1'',
     domain_row 206 3 2 ''hiverelay.blind.forward-hop-accept.v1'',
     domain_row 207 3 2 ''hiverelay.blind.external-journal-topology.v1'',
     domain_row 208 3 2 ''hiverelay.blind.external-commit-witness.v1'',
     domain_row 209 3 2 ''hiverelay.blind.restore-evidence-head.v1'',
     domain_row 210 3 2 ''hiverelay.blind.backup-manifest.v1'',
     domain_row 211 3 2 ''hiverelay.blind.clean-restore-evidence.v1'',
     domain_row 212 3 2 ''hiverelay.blind.backup-retention-transition.v1'',
     domain_row 213 3 2 ''hiverelay.blind.forward-route-scope.v1'']"

definition ADMISSION_COST_RULES :: "(int \<times> int) list" where
  \<comment> \<open>\<^verbatim>\<open>costClassRuleId\<close> and \<^verbatim>\<open>ruleKind\<close>\<close>
  "ADMISSION_COST_RULES = [(1, 1), (2, 2), (3, 3), (4, 4), (5, 5), (6, 6), (7, 7), (8, 8), (9, 9), (10, 10), (11, 11)]"

record error_row =
  er_errorProfileId :: int
  er_code :: int
  er_directCorrelatedStatus :: int
  er_protectedInnerStatus :: int
  er_retryable :: int
  er_retryAfterMode :: int

abbreviation error_row_of :: "int \<Rightarrow> int \<Rightarrow> int \<Rightarrow> int \<Rightarrow> int \<Rightarrow> int \<Rightarrow> error_row" where
  "error_row_of a b c d e f \<equiv> \<lparr>er_errorProfileId = a, er_code = b, er_directCorrelatedStatus = c, er_protectedInnerStatus = d, er_retryable = e, er_retryAfterMode = f\<rparr>"

definition ERROR_PROFILE_ROWS :: "error_row list" where
  "ERROR_PROFILE_ROWS = [
     error_row_of 1 1 200 200 0 0,
     error_row_of 1 2 200 200 0 0,
     error_row_of 1 3 200 200 0 0,
     error_row_of 1 4 200 200 0 0,
     error_row_of 1 5 200 200 0 0,
     error_row_of 1 6 200 200 0 0,
     error_row_of 1 7 200 200 0 0,
     error_row_of 1 8 200 200 0 0,
     error_row_of 1 9 200 200 1 0,
     error_row_of 1 10 200 200 0 0,
     error_row_of 1 11 200 200 0 0,
     error_row_of 1 12 200 200 0 0,
     error_row_of 1 13 200 200 0 0,
     error_row_of 1 14 200 200 0 0,
     error_row_of 1 15 200 200 0 0,
     error_row_of 1 16 200 200 1 0,
     error_row_of 1 17 200 200 1 0,
     error_row_of 1 18 200 200 1 1,
     error_row_of 1 19 200 200 0 0,
     error_row_of 1 20 200 200 0 0]"

record op_profile =
  op_familyId :: int
  op_operationId :: int
  op_requestSchemaId :: int
  op_resultSchemaId :: int
  op_allowedRequestKindBits :: int
  op_allowedResultKindBits :: int
  op_streamTransition :: int
  op_maxRequestBodyBytes :: int
  op_maxResultBodyBytes :: int
  op_admissionMode :: int
  op_costClassRuleId :: int
  op_requestCommitmentDomainId :: int
  op_resultSignatureDomainId :: int
  op_errorProfileId :: int
  op_transportSupportBits :: int

definition op_row :: "int list \<Rightarrow> op_profile" where
  "op_row xs = \<lparr>op_familyId = xs ! 0,
     op_operationId = xs ! 1,
     op_requestSchemaId = xs ! 2,
     op_resultSchemaId = xs ! 3,
     op_allowedRequestKindBits = xs ! 4,
     op_allowedResultKindBits = xs ! 5,
     op_streamTransition = xs ! 6,
     op_maxRequestBodyBytes = xs ! 7,
     op_maxResultBodyBytes = xs ! 8,
     op_admissionMode = xs ! 9,
     op_costClassRuleId = xs ! 10,
     op_requestCommitmentDomainId = xs ! 11,
     op_resultSignatureDomainId = xs ! 12,
     op_errorProfileId = xs ! 13,
     op_transportSupportBits = xs ! 14\<rparr>"

definition OPERATION_PROFILE_ROWS :: "op_profile list" where
  "OPERATION_PROFILE_ROWS = map op_row [
     [1, 1, 16, 39, 1, 6, 0, 16384, 16384, 0, 0, 0, 101, 1, 31],
     [1, 2, 31, 32, 1, 6, 0, 16384, 16384, 0, 0, 0, 102, 1, 31],
     [1, 3, 9, 2, 1, 6, 0, 16384, 16384, 0, 0, 0, 103, 1, 31],
     [2, 1, 68, 36, 1, 6, 0, 1056768, 16384, 2, 1, 1, 104, 1, 31],
     [2, 2, 54, 53, 1, 6, 0, 16384, 1048832, 1, 2, 2, 0, 1, 31],
     [2, 3, 71, 36, 1, 6, 0, 16384, 16384, 2, 3, 3, 104, 1, 31],
     [2, 4, 49, 36, 1, 6, 0, 16384, 16384, 0, 0, 4, 104, 1, 31],
     [2, 5, 67, 66, 1, 6, 0, 16384, 1049600, 1, 2, 5, 104, 1, 31],
     [2, 6, 8, 6, 1, 6, 0, 16384, 4194304, 1, 4, 6, 105, 1, 31],
     [3, 1, 57, 62, 1, 6, 0, 16384, 16384, 2, 5, 7, 106, 1, 31],
     [3, 2, 58, 62, 1, 6, 0, 16384, 16384, 2, 6, 8, 106, 1, 31],
     [3, 3, 58, 62, 1, 6, 0, 16384, 16384, 0, 0, 9, 106, 1, 31],
     [3, 4, 56, 55, 1, 6, 0, 70656, 16384, 2, 7, 10, 107, 1, 31],
     [3, 5, 61, 59, 1, 6, 0, 16384, 4194304, 1, 4, 11, 108, 1, 31],
     [3, 6, 63, 59, 1, 6, 0, 16384, 4194304, 2, 8, 12, 108, 1, 31],
     [4, 1, 43, 15, 1, 6, 0, 16384, 16384, 2, 9, 13, 109, 1, 31],
     [4, 2, 46, 47, 1, 6, 0, 16384, 4194304, 1, 4, 14, 109, 1, 31],
     [4, 3, 45, 44, 1, 6, 1, 16384, 16384, 2, 10, 15, 110, 1, 18],
     [5, 1, 27, 26, 1, 6, 2, 131072, 131072, 2, 11, 16, 111, 1, 50],
     [5, 2, 23, 0, 8, 8, 3, 66000, 66000, 0, 0, 0, 0, 1, 50],
     [5, 3, 30, 0, 8, 8, 3, 1024, 1024, 0, 0, 0, 0, 1, 50],
     [5, 4, 22, 0, 8, 12, 3, 1024, 16384, 0, 0, 0, 0, 1, 50]]"

definition RESERVED_OPERATION_PAIRS :: "(int \<times> int) list" where
  "RESERVED_OPERATION_PAIRS = [(4, 3), (5, 1), (5, 2), (5, 3), (5, 4)]"

definition ADVERTISED_OPERATION_BITS :: int where "ADVERTISED_OPERATION_BITS = 131071"
definition RESERVED_OPERATION_BITS :: int where "RESERVED_OPERATION_BITS = 4063232"

subsection \<open>Lookups\<close>

definition domainRegistryEntry :: "int \<Rightarrow> domain_entry option" where
  "domainRegistryEntry i = find (\<lambda>e. domainId e = i) DOMAIN_REGISTRY"

definition admissionCostRule :: "int \<Rightarrow> (int \<times> int) option" where
  "admissionCostRule i = find (\<lambda>(k, _). k = i) ADMISSION_COST_RULES"

definition errorProfileEntry :: "int \<Rightarrow> int \<Rightarrow> error_row option" where
  "errorProfileEntry p c = find (\<lambda>e. er_errorProfileId e = p \<and> er_code e = c) ERROR_PROFILE_ROWS"

fun findIndex :: "('a \<Rightarrow> bool) \<Rightarrow> 'a list \<Rightarrow> int" where
  "findIndex P [] = -1"
| "findIndex P (x # xs) = (if P x then 0 else let i = findIndex P xs in if i < 0 then i else i + 1)"

definition operationOrdinal :: "int \<Rightarrow> int \<Rightarrow> int" where
  "operationOrdinal f i = findIndex (\<lambda>r. op_familyId r = f \<and> op_operationId r = i) OPERATION_PROFILE_ROWS"

definition operationBit :: "int \<Rightarrow> int \<Rightarrow> int" where
  "operationBit f i = (let ordinal = operationOrdinal f i in if ordinal < 0 then 0 else js_shl 1 ordinal)"

definition operationProfile :: "int \<Rightarrow> int \<Rightarrow> op_profile option" where
  "operationProfile f i = find (\<lambda>r. op_familyId r = f \<and> op_operationId r = i) OPERATION_PROFILE_ROWS"

definition isKnownOperation :: "int \<Rightarrow> int \<Rightarrow> bool" where
  "isKnownOperation f i = (operationProfile f i \<noteq> None)"

definition isReservedOperation :: "int \<Rightarrow> int \<Rightarrow> bool" where
  "isReservedOperation f i = list_ex (\<lambda>(g, j). g = f \<and> j = i) RESERVED_OPERATION_PAIRS"

definition isAdvertisedOperation :: "int \<Rightarrow> int \<Rightarrow> bool" where
  "isAdvertisedOperation f i = (isKnownOperation f i \<and> \<not> isReservedOperation f i)"

definition routeForFamily :: "int \<Rightarrow> string option" where
  "routeForFamily f = FAMILY_ROUTES f"

end
