(* ===== verification/Hashes.thy ===== *)
theory Hashes
  imports Codec_Combinators Wire_Authority
begin

text \<open>
  The hash recipes of \<^verbatim>\<open>packages/blind-protocol/hashes.js\<close>: domain-separated hashes, the
  self-certifying addresses of cells and inboxes, the request commitments of every operation
  and the signature payloads.  BLAKE2b itself is the platform parameter.  Every recipe is a
  function to the hash input, followed by the hash, so that what a commitment binds can be
  stated without assumptions on the hash function.
\<close>

subsection \<open>Field encoders\<close>

definition hBuffer :: "jsval \<Rightarrow> bytes res" where
  "hBuffer v = (case v of JStr s \<Rightarrow> Inr (ascii s) | JBytes bs \<Rightarrow> Inr bs | _ \<Rightarrow> Inl BAD_ENCODING)"

definition encodeU64 :: "jsval \<Rightarrow> bytes res" where
  "encodeU64 v = rbind (asU64 v) (\<lambda>i. Inr (write_be 8 i 0 (replicate 8 0)))"

definition encodeUnsigned :: "jsval \<Rightarrow> nat \<Rightarrow> int \<Rightarrow> bytes res" where
  "encodeUnsigned v n maximum =
     rbind (assertUnsignedNumber v maximum) (\<lambda>i. Inr (write_be n i 0 (replicate n 0)))"

definition encodeU8 :: "jsval \<Rightarrow> bytes res" where "encodeU8 v = encodeUnsigned v 1 0xff"
definition encodeU16 :: "jsval \<Rightarrow> bytes res" where "encodeU16 v = encodeUnsigned v 2 0xffff"
definition encodeU32 :: "jsval \<Rightarrow> bytes res" where "encodeU32 v = encodeUnsigned v 4 0xffffffff"

definition fixedBytesInput :: "jsval \<Rightarrow> nat \<Rightarrow> bytes res" where
  "fixedBytesInput v n = rbind (hBuffer v) (\<lambda>bs. if length bs \<noteq> n then Inl BAD_ENCODING else Inr bs)"

definition isAllZero :: "bytes \<Rightarrow> bool" where
  "isAllZero bs = list_all (\<lambda>b. b = 0) bs"

definition nonzeroFixedBytesInput :: "jsval \<Rightarrow> nat \<Rightarrow> bytes res" where
  "nonzeroFixedBytesInput v n =
     rbind (fixedBytesInput v n) (\<lambda>bs. if isAllZero bs then Inl BAD_ENCODING else Inr bs)"

definition int_between :: "jsval \<Rightarrow> int \<Rightarrow> int \<Rightarrow> bool" where
  "int_between v lo hi = (isSafeInteger v \<and> lo \<le> as_num v \<and> as_num v \<le> hi)"

text \<open>\<^verbatim>\<open>b4a.concat([...])\<close> of encoded fields, evaluated from left to right.\<close>

fun concat_fields :: "bytes res list \<Rightarrow> bytes res" where
  "concat_fields [] = Inr []"
| "concat_fields (r # rs) = rbind r (\<lambda>b. rbind (concat_fields rs) (\<lambda>bs. Inr (b @ bs)))"

subsection \<open>Hashes\<close>

definition blake2b256 :: "platform \<Rightarrow> bytes \<Rightarrow> bytes" where
  "blake2b256 E bs = crypto_generichash E bs"

definition hash_domain_ok :: "string \<Rightarrow> bool" where
  "hash_domain_ok d = (d \<noteq> [] \<and> list_all (\<lambda>c. 0x20 \<le> (of_char c :: nat) \<and> (of_char c :: nat) \<le> 0x7e) d)"

definition domainLengthHash :: "platform \<Rightarrow> string \<Rightarrow> jsval \<Rightarrow> bytes res" where
  "domainLengthHash E d v =
     (if \<not> hash_domain_ok d then Inl BAD_ENCODING else
      rbind (hBuffer v) (\<lambda>bs.
      rbind (concat_fields [Inr (ascii d), encodeU64 (JNum (int (length bs))), Inr bs]) (\<lambda>pre.
      Inr (blake2b256 E pre))))"

definition domainHash :: "platform \<Rightarrow> string \<Rightarrow> jsval \<Rightarrow> bytes res" where
  "domainHash E d v =
     (if \<not> hash_domain_ok d then Inl BAD_ENCODING else
      rbind (hBuffer v) (\<lambda>bs. Inr (blake2b256 E (ascii d @ bs))))"

definition persistentResultCommitment :: "platform \<Rightarrow> jsval \<Rightarrow> jsval \<Rightarrow> jsval \<Rightarrow> bytes res" where
  "persistentResultCommitment E familyId operationId resultBytes =
     (if \<not> isKnownOperation (as_num familyId) (as_num operationId) then Inl BAD_ENCODING else
      rbind (hBuffer resultBytes) (\<lambda>bs.
      rbind (concat_fields [Inr (ascii ''hiverelay.blind.persistent-result.v1''), encodeU8 familyId,
         encodeU8 operationId, encodeU64 (JNum (int (length bs))), Inr bs]) (\<lambda>pre.
      Inr (blake2b256 E pre))))"

subsection \<open>Request commitments\<close>

definition requestPreimage :: "int \<Rightarrow> bytes res list \<Rightarrow> bytes res" where
  "requestPreimage did fs =
     rbind (concat_fields fs) (\<lambda>bs.
     case domainRegistryEntry did of None \<Rightarrow> Inl BAD_ENCODING | Some entry \<Rightarrow>
     if purpose entry \<noteq> DOMAIN_PURPOSE_REQUEST_COMMITMENT \<or>
        recipeId entry \<noteq> DOMAIN_RECIPE_OPERATION_DEFINED_COMMITMENT_PREIMAGE then Inl BAD_ENCODING
     else Inr (ascii (exactAsciiBytes entry) @ bs))"

definition requestCommitment :: "platform \<Rightarrow> int \<Rightarrow> bytes res list \<Rightarrow> bytes res" where
  "requestCommitment E did fs = rbind (requestPreimage did fs) (\<lambda>pre. Inr (blake2b256 E pre))"

definition coreOpenReplicationRequestCommitment :: "platform \<Rightarrow> jsval \<Rightarrow> bytes res" where
  "coreOpenReplicationRequestCommitment E v =
     rbind (reject_if [\<not> is_object v, \<not> int_between (getf v ''sessionClass'') 1 3]) (\<lambda>_.
     rbind (nonzeroFixedBytesInput (getf v ''parentChannelBinding'') 32) (\<lambda>parentChannelBinding.
     rbind (encodeU64 (getf v ''controlChannelId'')) (\<lambda>controlChannelId.
     if isAllZero controlChannelId then Inl BAD_ENCODING else
     requestCommitment E REQUEST_COMMITMENT_DOMAIN_ID_CORE_OPEN_REPLICATION [
       fixedBytesInput (getf v ''relayPublicKey'') 32,
       fixedBytesInput (getf v ''wireProfileHash'') 32,
       Inr [word_of_int (numf v ''sessionClass'')],
       Inr controlChannelId,
       Inr parentChannelBinding,
       fixedBytesInput (getf v ''clientNonce'') 32])))"

definition coreMirrorRequestCommitment :: "platform \<Rightarrow> jsval \<Rightarrow> bytes res" where
  "coreMirrorRequestCommitment E v =
     rbind (reject_if [\<not> is_object v, \<not> int_between (getf v ''leaseClass'') 1 4]) (\<lambda>_.
     rbind (encodeU64 (getf v ''length'')) (\<lambda>len.
     if isAllZero len then Inl BAD_ENCODING else
     requestCommitment E REQUEST_COMMITMENT_DOMAIN_ID_CORE_MIRROR [
       nonzeroFixedBytesInput (getf v ''relayPublicKey'') 32,
       nonzeroFixedBytesInput (getf v ''corePublicKey'') 32,
       encodeU64 (getf v ''fork''),
       Inr len,
       nonzeroFixedBytesInput (getf v ''signedHeadHash'') 32,
       encodeU8 (getf v ''leaseClass''),
       fixedBytesInput (getf v ''clientNonce'') 32]))"

definition blockIndexEncoding :: codec where
  "blockIndexEncoding = \<lparr>
     preencode = (\<lambda>st v p. rbind (encodeU64 v) (\<lambda>bs. Inr (grow st (length bs)))),
     encode = (\<lambda>st v p. rbind (encodeU64 v) (\<lambda>bs. Inr (copy_in st bs))),
     decode = (\<lambda>st p. Inl TYPE_ERROR), schemaName = None, schemaFields = None\<rparr>"

definition coreCommitmentBlockIndices :: codec where
  "coreCommitmentBlockIndices = arrayOf blockIndexEncoding 1 16"

fun check_block_indices :: "jsval list \<Rightarrow> int \<Rightarrow> int \<Rightarrow> unit res" where
  "check_block_indices [] previous len = Inr ()"
| "check_block_indices (x # xs) previous len = rbind (encodeU64 x) (\<lambda>encoded.
     let current = be_val encoded in
     if current \<le> previous then Inl BAD_ENCODING
     else if current \<ge> len then Inl BAD_ENCODING
     else check_block_indices xs current len)"

definition coreServeRequestCommitment :: "platform \<Rightarrow> jsval \<Rightarrow> bytes res" where
  "coreServeRequestCommitment E v =
     (if \<not> is_object v then Inl BAD_ENCODING else
     rbind (encodeU64 (getf v ''length'')) (\<lambda>len.
     if isAllZero len then Inl BAD_ENCODING else
     case getf v ''blockIndices'' of
       JArr xs \<Rightarrow> rbind (check_block_indices xs (-1) (be_val len)) (\<lambda>_.
         requestCommitment E REQUEST_COMMITMENT_DOMAIN_ID_CORE_SERVE [
           nonzeroFixedBytesInput (getf v ''relayPublicKey'') 32,
           nonzeroFixedBytesInput (getf v ''corePublicKey'') 32,
           encodeU64 (getf v ''fork''),
           Inr len,
           nonzeroFixedBytesInput (getf v ''signedHeadHash'') 32,
           encodeCanonical coreCommitmentBlockIndices (JArr xs),
           fixedBytesInput (getf v ''clientNonce'') 32])
     | _ \<Rightarrow> Inl BAD_ENCODING))"

definition forwardOpenRequestCommitment :: "platform \<Rightarrow> jsval \<Rightarrow> bytes res" where
  "forwardOpenRequestCommitment E v =
     rbind (reject_if [\<not> is_object v, \<not> int_between (getf v ''requestedWireClass'') 1 3,
        \<not> int_between (getf v ''circuitClass'') 1 3]) (\<lambda>_.
     rbind (fixedBytesInput (getf v ''innerHandshake'') 32) (\<lambda>innerHandshake.
     requestCommitment E REQUEST_COMMITMENT_DOMAIN_ID_FORWARD_OPEN [
       nonzeroFixedBytesInput (getf v ''previousRelayKey'') 32,
       nonzeroFixedBytesInput (getf v ''routeId'') 16,
       encodeU64 (getf v ''nextDescriptorSequence''),
       nonzeroFixedBytesInput (getf v ''nextDescriptorHash'') 32,
       encodeU8 (getf v ''requestedWireClass''),
       encodeU8 (getf v ''circuitClass''),
       nonzeroFixedBytesInput (getf v ''circuitNonce'') 32,
       fixedBytesInput (getf v ''parentRouteScopeHash'') 32,
       Inr (blake2b256 E innerHandshake)]))"

subsection \<open>Cells\<close>

definition cellSlotPreimage :: "jsval \<Rightarrow> bytes res" where
  "cellSlotPreimage v = concat_fields [
     Inr (ascii ''hiverelay.blind.slot.v1''),
     encodeU32 (getf v ''allocationEpoch''),
     fixedBytesInput (getf v ''createPublicKey'') 32]"

definition cellStorageSlot :: "platform \<Rightarrow> jsval \<Rightarrow> bytes res" where
  "cellStorageSlot E v = rbind (cellSlotPreimage v) (\<lambda>pre. Inr (blake2b256 E pre))"

definition allocationCommitment :: "platform \<Rightarrow> jsval \<Rightarrow> bytes res" where
  "allocationCommitment E v =
     rbind (reject_if [\<not> is_object v, \<not> int_between (getf v ''sizeClass'') 1 5,
        \<not> int_between (getf v ''leaseClass'') 1 4]) (\<lambda>_.
     rbind (cellStorageSlot E v) (\<lambda>slot. rbind (fixedBytesInput (getf v ''storageSlot'') 32) (\<lambda>storageSlot.
     if slot \<noteq> storageSlot then Inl BAD_ENCODING else
     rbind (concat_fields [
       Inr (ascii ''hiverelay.blind.allocate.v1''),
       fixedBytesInput (getf v ''relayPublicKey'') 32,
       Inr storageSlot,
       encodeU32 (getf v ''allocationEpoch''),
       encodeU8 (getf v ''sizeClass''),
       encodeU8 (getf v ''leaseClass''),
       fixedBytesInput (getf v ''declaredCellBlobHash'') 32,
       fixedBytesInput (getf v ''createPublicKey'') 32,
       fixedBytesInput (getf v ''renewPublicKey'') 32,
       fixedBytesInput (getf v ''dropPublicKey'') 32]) (\<lambda>pre. Inr (blake2b256 E pre)))))"

definition cellPutRequestCommitment :: "platform \<Rightarrow> jsval \<Rightarrow> bytes res" where
  "cellPutRequestCommitment E v = requestCommitment E REQUEST_COMMITMENT_DOMAIN_ID_CELL_PUT [
     fixedBytesInput (getf v ''allocationCommitment'') 32,
     fixedBytesInput (getf v ''clientNonce'') 32]"

definition manage_lease_bad :: "jsval \<Rightarrow> string \<Rightarrow> string \<Rightarrow> bool" where
  "manage_lease_bad v renew drp =
     (\<not> int_between (getf v ''requestedLeaseClass'') 0 4 \<or>
      getf v ''operation'' = JStr renew \<and> getf v ''requestedLeaseClass'' = JNum 0 \<or>
      getf v ''operation'' = JStr drp \<and> getf v ''requestedLeaseClass'' \<noteq> JNum 0)"

definition cellManagePreimage :: "jsval \<Rightarrow> bytes res" where
  "cellManagePreimage v =
     rbind (reject_if [
        getf v ''operation'' \<noteq> JStr ''cell-renew'' \<and> getf v ''operation'' \<noteq> JStr ''cell-drop'',
        manage_lease_bad v ''cell-renew'' ''cell-drop'']) (\<lambda>_.
     requestPreimage (if getf v ''operation'' = JStr ''cell-renew''
         then REQUEST_COMMITMENT_DOMAIN_ID_CELL_RENEW else REQUEST_COMMITMENT_DOMAIN_ID_CELL_DROP) [
       fixedBytesInput (getf v ''relayPublicKey'') 32,
       fixedBytesInput (getf v ''storageSlot'') 32,
       encodeU64 (getf v ''expectedRevision''),
       encodeU32 (getf v ''expectedLeaseEpoch''),
       encodeU8 (getf v ''requestedLeaseClass''),
       fixedBytesInput (getf v ''clientNonce'') 32])"

definition cellManageRequestCommitment :: "platform \<Rightarrow> jsval \<Rightarrow> bytes res" where
  "cellManageRequestCommitment E v = rbind (cellManagePreimage v) (\<lambda>pre. Inr (blake2b256 E pre))"

definition cellReadRequestCommitment :: "platform \<Rightarrow> int \<Rightarrow> jsval \<Rightarrow> bytes res" where
  "cellReadRequestCommitment E operation v = requestCommitment E operation [
     fixedBytesInput (getf v ''relayPublicKey'') 32,
     fixedBytesInput (getf v ''storageSlot'') 32,
     fixedBytesInput (getf v ''clientNonce'') 32]"

definition cellGetRequestCommitment :: "platform \<Rightarrow> jsval \<Rightarrow> bytes res" where
  "cellGetRequestCommitment E v = cellReadRequestCommitment E REQUEST_COMMITMENT_DOMAIN_ID_CELL_GET v"

definition cellProveRequestCommitment :: "platform \<Rightarrow> jsval \<Rightarrow> bytes res" where
  "cellProveRequestCommitment E v = cellReadRequestCommitment E REQUEST_COMMITMENT_DOMAIN_ID_CELL_PROVE v"

definition commitmentSlots :: codec where
  "commitmentSlots = arrayOf (fixedBytes 32) 1 64"

fun check_slots :: "jsval list \<Rightarrow> bytes list \<Rightarrow> unit res" where
  "check_slots [] seen = Inr ()"
| "check_slots (x # xs) seen = rbind (fixedBytesInput x 32) (\<lambda>key.
     if key \<in> set seen then Inl BAD_ENCODING else check_slots xs (key # seen))"

definition cellBatchGetRequestCommitment :: "platform \<Rightarrow> jsval \<Rightarrow> bytes res" where
  "cellBatchGetRequestCommitment E v = (case getf v ''slots'' of
       JArr slots \<Rightarrow> rbind (check_slots slots []) (\<lambda>_.
         requestCommitment E REQUEST_COMMITMENT_DOMAIN_ID_CELL_BATCH_GET [
           fixedBytesInput (getf v ''relayPublicKey'') 32,
           fixedBytesInput (getf v ''clientNonce'') 32,
           encodeCanonical commitmentSlots (JArr slots)])
     | _ \<Rightarrow> Inl BAD_ENCODING)"

subsection \<open>Inboxes\<close>

definition inboxPhysicalTopic :: "platform \<Rightarrow> jsval \<Rightarrow> bytes res" where
  "inboxPhysicalTopic E v = rbind (concat_fields [
     Inr (ascii ''hiverelay.blind.inbox-topic.v1''),
     encodeU32 (getf v ''allocationEpoch''),
     fixedBytesInput (getf v ''createPublicKey'') 32]) (\<lambda>pre. Inr (blake2b256 E pre))"

definition inboxCreateCommitment :: "platform \<Rightarrow> jsval \<Rightarrow> bytes res" where
  "inboxCreateCommitment E v =
     rbind (reject_if [
        \<not> isSafeInteger (getf v ''frameClassBits'') \<or> numf v ''frameClassBits'' = 0 \<or>
          js_and (numf v ''frameClassBits'') (js_not 0x07) \<noteq> 0,
        \<not> int_between (getf v ''appendAuthMode'') 0 1,
        \<not> int_between (getf v ''retentionClass'') 1 4,
        \<not> int_between (getf v ''leaseClass'') 1 4]) (\<lambda>_.
     rbind (inboxPhysicalTopic E v) (\<lambda>topic. rbind (fixedBytesInput (getf v ''physicalTopic'') 32) (\<lambda>physicalTopic.
     if topic \<noteq> physicalTopic then Inl BAD_ENCODING else
     rbind (if absent v ''appendPublicKey'' then Inr (replicate 32 0)
        else fixedBytesInput (getf v ''appendPublicKey'') 32) (\<lambda>appendPublicKey.
     if (numf v ''appendAuthMode'' = 1) \<noteq> (\<not> absent v ''appendPublicKey'') then Inl BAD_ENCODING else
     rbind (concat_fields [
       Inr (ascii ''hiverelay.blind.inbox-create.v1''),
       fixedBytesInput (getf v ''relayPublicKey'') 32,
       Inr physicalTopic,
       encodeU32 (getf v ''allocationEpoch''),
       encodeU8 (getf v ''frameClassBits''),
       encodeU8 (getf v ''appendAuthMode''),
       Inr appendPublicKey,
       fixedBytesInput (getf v ''createPublicKey'') 32,
       fixedBytesInput (getf v ''renewPublicKey'') 32,
       fixedBytesInput (getf v ''closePublicKey'') 32,
       encodeU8 (getf v ''retentionClass''),
       encodeU8 (getf v ''leaseClass'')]) (\<lambda>pre. Inr (blake2b256 E pre))))))"

definition inboxCreateRequestCommitment :: "platform \<Rightarrow> jsval \<Rightarrow> bytes res" where
  "inboxCreateRequestCommitment E v = requestCommitment E REQUEST_COMMITMENT_DOMAIN_ID_INBOX_CREATE [
     fixedBytesInput (getf v ''inboxCreateCommitment'') 32,
     fixedBytesInput (getf v ''clientNonce'') 32]"

definition inboxManageRequestCommitment :: "platform \<Rightarrow> jsval \<Rightarrow> bytes res" where
  "inboxManageRequestCommitment E v =
     rbind (reject_if [
        getf v ''operation'' \<noteq> JStr ''inbox-renew'' \<and> getf v ''operation'' \<noteq> JStr ''inbox-close'',
        manage_lease_bad v ''inbox-renew'' ''inbox-close'']) (\<lambda>_.
     requestCommitment E (if getf v ''operation'' = JStr ''inbox-renew''
         then REQUEST_COMMITMENT_DOMAIN_ID_INBOX_RENEW else REQUEST_COMMITMENT_DOMAIN_ID_INBOX_CLOSE) [
       fixedBytesInput (getf v ''relayPublicKey'') 32,
       fixedBytesInput (getf v ''physicalTopic'') 32,
       encodeU64 (getf v ''expectedRevision''),
       encodeU32 (getf v ''expectedLeaseEpoch''),
       encodeU8 (getf v ''requestedLeaseClass''),
       fixedBytesInput (getf v ''clientNonce'') 32])"

definition inboxAppendRequestCommitment :: "platform \<Rightarrow> jsval \<Rightarrow> bytes res" where
  "inboxAppendRequestCommitment E v =
     rbind (reject_if [\<not> int_between (getf v ''frameClass'') 1 3]) (\<lambda>_.
     requestCommitment E REQUEST_COMMITMENT_DOMAIN_ID_INBOX_APPEND [
       fixedBytesInput (getf v ''relayPublicKey'') 32,
       fixedBytesInput (getf v ''physicalTopic'') 32,
       encodeU8 (getf v ''frameClass''),
       fixedBytesInput (getf v ''frameHash'') 32,
       fixedBytesInput (getf v ''clientNonce'') 32])"

definition inboxReadRequestCommitment :: "platform \<Rightarrow> jsval \<Rightarrow> bytes res" where
  "inboxReadRequestCommitment E v =
     rbind (hBuffer (getf v ''cursor'')) (\<lambda>cursor.
     rbind (reject_if [length cursor > 128, \<not> int_between (getf v ''limit'') 1 64]) (\<lambda>_.
     requestCommitment E REQUEST_COMMITMENT_DOMAIN_ID_INBOX_READ [
       fixedBytesInput (getf v ''relayPublicKey'') 32,
       fixedBytesInput (getf v ''physicalTopic'') 32,
       Inr (blake2b256 E cursor),
       encodeU16 (getf v ''limit''),
       fixedBytesInput (getf v ''clientNonce'') 32]))"

definition inboxWatchRequestCommitment :: "platform \<Rightarrow> jsval \<Rightarrow> bytes res" where
  "inboxWatchRequestCommitment E v =
     rbind (reject_if [\<not> int_between (getf v ''limit'') 1 64,
        \<not> int_between (getf v ''maxWaitMillis'') 1 30000]) (\<lambda>_.
     requestCommitment E REQUEST_COMMITMENT_DOMAIN_ID_INBOX_WATCH [
       fixedBytesInput (getf v ''relayPublicKey'') 32,
       fixedBytesInput (getf v ''physicalTopic'') 32,
       encodeU64 (getf v ''afterRevision''),
       encodeU16 (getf v ''limit''),
       encodeU16 (getf v ''maxWaitMillis''),
       fixedBytesInput (getf v ''clientNonce'') 32])"

subsection \<open>Signature payloads\<close>

definition signaturePayloadForPurpose :: "int \<Rightarrow> jsval \<Rightarrow> int \<Rightarrow> bytes res" where
  "signaturePayloadForPurpose d v p =
     (case domainRegistryEntry d of None \<Rightarrow> Inl BAD_ENCODING | Some entry \<Rightarrow>
      if purpose entry \<noteq> p \<or> recipeId entry \<noteq> DOMAIN_RECIPE_ED25519_DOMAIN_LEN64_PAYLOAD
      then Inl BAD_ENCODING else
      rbind (hBuffer v) (\<lambda>payload.
      concat_fields [Inr (ascii (exactAsciiBytes entry)), encodeU64 (JNum (int (length payload))), Inr payload]))"

definition resultSignaturePayload :: "int \<Rightarrow> jsval \<Rightarrow> bytes res" where
  "resultSignaturePayload d v = signaturePayloadForPurpose d v DOMAIN_PURPOSE_RESULT_SIGNATURE"

definition auxiliarySignaturePayload :: "int \<Rightarrow> jsval \<Rightarrow> bytes res" where
  "auxiliarySignaturePayload d v = signaturePayloadForPurpose d v DOMAIN_PURPOSE_AUXILIARY_SIGNATURE"

end
