(* ===== verification/Result_Binding.thy ===== *)
theory Result_Binding
  imports Hashes
begin

text \<open>
  \<^verbatim>\<open>packages/blind-protocol/result-binding.js\<close>: the commit witness of an external journal and
  the binding of every signed result to a relay, a store, a descriptor and a durability
  profile.  The validators of the schemas use the typed reads of \<^verbatim>\<open>Js_Value\<close>.
\<close>

abbreviation zero_bytes :: "jsval \<Rightarrow> string \<Rightarrow> bool" where
  "zero_bytes v n \<equiv> isAllZero (bytesf v n)"

abbreviation bytes32 :: codec where "bytes32 \<equiv> fixedBytes 32"
abbreviation bytes64 :: codec where "bytes64 \<equiv> fixedBytes 64"

definition validate_externalCommitWitness :: "jsval \<Rightarrow> unit res" where
  "validate_externalCommitWitness v = reject_if [
     list_ex (zero_bytes v) [''relayPublicKey'', ''storeId'', ''externalJournalId'',
       ''durabilityContinuityHash'', ''durabilityProfileHash'', ''requestCommitment'', ''resultCommitment'',
       ''commitWalHash'', ''coveringFloorHash'', ''coveringFloorWalHash'', ''writerFenceTokenHash'',
       ''witnessPublicKey''],
     \<not> isKnownOperation (numf v ''familyId'') (numf v ''operationId''),
     bigf v ''coveringFloorWalSequence'' < bigf v ''commitWalSequence'',
     bigf v ''coveringFloorRevision'' = 0 \<or> bigf v ''writerEpoch'' = 0 \<or>
       bigf v ''externalLeaseRevision'' = 0 \<or> bigf v ''witnessedUnixMillis'' = 0,
     (bigf v ''restoreEvidenceHeadSequence'' = 0) \<noteq> zero_bytes v ''restoreEvidenceHeadHash'']"

definition blindExternalCommitWitnessV1 :: codec where
  "blindExternalCommitWitnessV1 = struct ''BlindExternalCommitWitnessV1'' [
     (''version'', ranged u8 1 1),
     (''relayPublicKey'', bytes32),
     (''storeId'', bytes32),
     (''externalJournalId'', bytes32),
     (''durabilityContinuityHash'', bytes32),
     (''durabilityProfileHash'', bytes32),
     (''restoreEvidenceHeadSequence'', u64be),
     (''restoreEvidenceHeadHash'', bytes32),
     (''familyId'', ranged u8 1 5),
     (''operationId'', ranged u8 1 255),
     (''requestCommitment'', bytes32),
     (''resultCommitment'', bytes32),
     (''commitWalSequence'', u64be),
     (''commitWalHash'', bytes32),
     (''coveringFloorRevision'', u64be),
     (''coveringFloorHash'', bytes32),
     (''coveringFloorWalSequence'', u64be),
     (''coveringFloorWalHash'', bytes32),
     (''writerEpoch'', u64be),
     (''writerFenceTokenHash'', bytes32),
     (''externalLeaseRevision'', u64be),
     (''witnessedUnixMillis'', u64be),
     (''witnessPublicKey'', bytes32),
     (''signature'', bytes64)] validate_externalCommitWitness"

definition validate_relayResultBinding :: "jsval \<Rightarrow> unit res" where
  "validate_relayResultBinding v =
     rbind (reject_if [
       list_ex (zero_bytes v) [''relayPublicKey'', ''storeId'', ''descriptorHash'',
         ''durabilityContinuityHash'', ''durabilityProfileHash''],
       (bigf v ''restoreEvidenceHeadSequence'' = 0) \<noteq> zero_bytes v ''restoreEvidenceHeadHash'']) (\<lambda>_.
     if numf v ''durabilityProfileId'' = 1 then
       reject_if [bigf v ''restoreEvidenceHeadSequence'' \<noteq> 0 \<or> \<not> absent v ''externalCommitWitness'']
     else let witness = getf v ''externalCommitWitness'' in
       if is_nullish witness then Inr () else reject_if [
         list_ex (\<lambda>f. bytesf v f \<noteq> bytesf witness f) [''relayPublicKey'', ''storeId'',
           ''durabilityContinuityHash'', ''durabilityProfileHash'', ''restoreEvidenceHeadHash''],
         bigf v ''restoreEvidenceHeadSequence'' \<noteq> bigf witness ''restoreEvidenceHeadSequence''])"

definition relayResultBindingV1 :: codec where
  "relayResultBindingV1 = struct ''RelayResultBindingV1'' [
     (''version'', ranged u8 1 1),
     (''relayPublicKey'', bytes32),
     (''storeId'', bytes32),
     (''descriptorSequence'', u64be),
     (''descriptorHash'', bytes32),
     (''durabilityProfileId'', ranged u8 1 2),
     (''durabilityContinuityHash'', bytes32),
     (''durabilityProfileHash'', bytes32),
     (''restoreEvidenceHeadSequence'', u64be),
     (''restoreEvidenceHeadHash'', bytes32),
     (''externalCommitWitness'', optional blindExternalCommitWitnessV1)] validate_relayResultBinding"

definition batchGetSignaturePayloadV1 :: codec where
  "batchGetSignaturePayloadV1 = struct ''BatchGetSignaturePayloadV1'' [
     (''version'', ranged u8 1 1),
     (''relayBinding'', relayResultBindingV1),
     (''requestNonce'', bytes32),
     (''requestCommitment'', bytes32),
     (''entriesCommitment'', bytes32)] no_validate"

definition inboxReadSignaturePayloadV1 :: codec where
  "inboxReadSignaturePayloadV1 = struct ''InboxReadSignaturePayloadV1'' [
     (''version'', ranged u8 1 1),
     (''relayBinding'', relayResultBindingV1),
     (''requestNonce'', bytes32),
     (''requestCommitment'', bytes32),
     (''snapshotRevision'', u64be),
     (''entriesCommitment'', bytes32),
     (''nextCursor'', optional (boundedBytes 0 128))] no_validate"

subsection \<open>The schemas keep the codec contract\<close>

lemma canonical_externalCommitWitness [lawful_intros]:
  "canonical_codec blindExternalCommitWitnessV1 {}" "never_null blindExternalCommitWitnessV1"
  unfolding blindExternalCommitWitnessV1_def by (rule lawful_intros | simp)+

lemma canonical_relayResultBinding [lawful_intros]: "canonical_codec relayResultBindingV1 {}"
  unfolding relayResultBindingV1_def by (rule lawful_intros | simp)+

interpretation batchGetSignaturePayloadV1: canonical_codec batchGetSignaturePayloadV1 "{}"
  unfolding batchGetSignaturePayloadV1_def by (rule lawful_intros | simp)+

interpretation inboxReadSignaturePayloadV1: canonical_codec inboxReadSignaturePayloadV1 "{}"
  unfolding inboxReadSignaturePayloadV1_def by (rule lawful_intros | simp)+

end
