(* ===== verification/Schema_Common.thy ===== *)
theory Schema_Common
  imports Result_Binding
begin

text \<open>
  The helpers and shared field codecs at the head of \<^verbatim>\<open>packages/blind-protocol/schemas.js\<close>, and
  the registry entries.  A \<^verbatim>\<open>validate\<close> function of the source is a definition
  \<^verbatim>\<open>validate_X\<close> that returns the first error of its checks; it runs after the codecs of all
  fields accepted the object, so \<^verbatim>\<open>bigint(value.f)\<close> is the typed read \<open>bigf v f\<close>.
\<close>

subsection \<open>Checks\<close>

definition KiB :: nat where "KiB = 1024"
definition MiB :: nat where "MiB = 1024 * KiB"

definition validateEpochWindow :: "jsval \<Rightarrow> unit res" where
  "validateEpochWindow v = reject_if [
     numf v ''issuedEpoch'' \<ge> numf v ''expiresEpoch'' \<or> numf v ''expiresEpoch'' - numf v ''issuedEpoch'' > 4]"

definition validateForwardTuple :: "jsval \<Rightarrow> unit res" where
  "validateForwardTuple v = (case FORWARD_CIRCUIT_CLASS (numf v ''circuitClass'') of
       None \<Rightarrow> Inl BAD_ENCODING
     | Some tuple \<Rightarrow> reject_if [
         numf v ''grantedInitialWindow'' \<noteq> cc_grantedInitialWindow tuple \<or>
         bigf v ''maxCircuitBytes'' \<noteq> cc_maxCircuitBytes tuple \<or>
         numf v ''idleMillis'' \<noteq> cc_idleMillis tuple \<or> numf v ''lifetimeMillis'' \<noteq> cc_lifetimeMillis tuple,
         Some (numf v ''maxDataBytes'') \<noteq> map_option int (STREAM_WIRE_CLASS
           (if absent v ''grantedWireClass'' then numf v ''requestedWireClass''
            else numf v ''grantedWireClass''))])"

definition validateCoreTuple :: "jsval \<Rightarrow> unit res" where
  "validateCoreTuple v = (case CORE_SESSION_CLASS (numf v ''sessionClass'') of
       None \<Rightarrow> Inl BAD_ENCODING
     | Some tuple \<Rightarrow> reject_if [
         bigf v ''maxSessionBytes'' \<noteq> sc_maxSessionBytes tuple \<or>
         numf v ''idleMillis'' \<noteq> sc_idleMillis tuple \<or> numf v ''lifetimeMillis'' \<noteq> sc_lifetimeMillis tuple])"

fun distinct_from :: "bytes list \<Rightarrow> bytes list \<Rightarrow> unit res" where
  "distinct_from seen [] = Inr ()"
| "distinct_from seen (key # rest) =
     (if key \<in> set seen then Inl BAD_ENCODING else distinct_from (key # seen) rest)"

definition assertDistinctBytes :: "bytes list \<Rightarrow> unit res" where
  "assertDistinctBytes vs = distinct_from [] vs"

fun compareBytes :: "bytes \<Rightarrow> bytes \<Rightarrow> int" where
  "compareBytes [] [] = 0"
| "compareBytes [] (y # ys) = -1"
| "compareBytes (x # xs) [] = 1"
| "compareBytes (x # xs) (y # ys) = (if x \<noteq> y then (if x < y then -1 else 1) else compareBytes xs ys)"

definition compareScalar :: "int \<Rightarrow> int \<Rightarrow> int" where
  "compareScalar a b = (if a = b then 0 else if a < b then -1 else 1)"

text \<open>\<^verbatim>\<open>a || b\<close> on the results of comparisons.\<close>

definition or_else :: "int \<Rightarrow> int \<Rightarrow> int" where
  "or_else a b = (if a \<noteq> 0 then a else b)"

fun assertStrictlySorted :: "('a \<Rightarrow> 'a \<Rightarrow> int) \<Rightarrow> 'a list \<Rightarrow> unit res" where
  "assertStrictlySorted compare (x # y # rest) =
     (if compare x y \<ge> 0 then Inl BAD_ENCODING else assertStrictlySorted compare (y # rest))"
| "assertStrictlySorted compare vs = Inr ()"

definition assertNonzeroBytes :: "bytes \<Rightarrow> unit res" where
  "assertNonzeroBytes bs = reject_if [isAllZero bs]"

definition cappedEncoding :: "codec \<Rightarrow> nat \<Rightarrow> string \<Rightarrow> codec" where
  "cappedEncoding encoding maximum name = \<lparr>
     preencode = (\<lambda>st v p. rbind (preencode encoding st v JUndef) (\<lambda>st'.
        if st_end st' - st_end st > maximum then Inl BAD_ENCODING else Inr st')),
     encode = (\<lambda>st v p. encode encoding st v JUndef),
     decode = (\<lambda>st p. rbind (decode encoding st JUndef) (\<lambda>(v, st').
        if st_start st' - st_start st > maximum then Inl BAD_ENCODING else Inr (v, st'))),
     schemaName = (case schemaFields encoding of None \<Rightarrow> None | Some _ \<Rightarrow>
        (case schemaName encoding of None \<Rightarrow> Some name | Some n \<Rightarrow> Some n)),
     schemaFields = schemaFields encoding\<rparr>"

subsection \<open>Shared fields\<close>

definition bytes16 :: codec where "bytes16 = fixedBytes 16"
definition bytes96 :: codec where "bytes96 = fixedBytes 96"
definition version1 :: codec where "version1 = constantOf u8 (JNum 1)"
definition profileId :: codec where "profileId = ranged u16be 1 0xffff"
definition schemeId :: codec where "schemeId = ranged u16be 1 0xffff"
definition endpointId :: codec where "endpointId = ranged u8 1 0xff"
definition transportSupportBit :: codec where "transportSupportBit = ranged u16be 1 0x3f"
definition wireClass :: codec where "wireClass = ranged u8 1 3"
definition circuitClass :: codec where "circuitClass = ranged u8 1 3"
definition sessionClass :: codec where "sessionClass = ranged u8 1 3"
definition protocolId :: codec where "protocolId = ranged u16be 1 5"
definition transportId :: codec where "transportId = ranged u8 1 9"
definition cellSizeClass :: codec where "cellSizeClass = ranged u8 1 5"
definition inboxFrameClass :: codec where "inboxFrameClass = ranged u8 1 3"
definition leaseClass :: codec where "leaseClass = ranged u8 1 4"
definition optionalLeaseClass :: codec where "optionalLeaseClass = ranged u8 0 4"
definition cellBlob :: codec where "cellBlob = exactBytesByClass ''sizeClass'' CELL_SIZE_CLASS"
definition inboxFrame :: codec where "inboxFrame = exactBytesByClass ''frameClass'' INBOX_FRAME_CLASS"
definition profileName :: "platform \<Rightarrow> codec" where "profileName E = canonicalAsciiBytes E 1 64"
definition endpointUrl :: "platform \<Rightarrow> codec" where "endpointUrl E = canonicalUtf8Bytes E 1 512"
definition cellProtocol :: codec where "cellProtocol = constantBytes (ascii ''hiverelay-blind-cell-v1'')"

subsection \<open>Registry entries\<close>

definition validate_admissionCostRule :: "jsval \<Rightarrow> unit res" where
  "validate_admissionCostRule v = (case admissionCostRule (numf v ''costClassRuleId'') of
       None \<Rightarrow> Inl BAD_ENCODING
     | Some (_, ruleKind) \<Rightarrow> reject_if [ruleKind \<noteq> numf v ''ruleKind''])"

definition admissionCostRuleV1 :: codec where
  "admissionCostRuleV1 = struct ''AdmissionCostRuleV1'' [
     (''costClassRuleId'', ranged u16be 1 11),
     (''ruleKind'', ranged u8 1 11)] validate_admissionCostRule"

definition validate_domainRegistryEntry :: "jsval \<Rightarrow> unit res" where
  "validate_domainRegistryEntry v = (case domainRegistryEntry (numf v ''domainId'') of
       None \<Rightarrow> Inl BAD_ENCODING
     | Some expected \<Rightarrow> reject_if [purpose expected \<noteq> numf v ''purpose'' \<or>
         recipeId expected \<noteq> numf v ''recipeId'' \<or>
         ascii (exactAsciiBytes expected) \<noteq> bytesf v ''exactAsciiBytes''])"

definition domainRegistryEntryV1 :: "platform \<Rightarrow> codec" where
  "domainRegistryEntryV1 E = struct ''DomainRegistryEntryV1'' [
     (''domainId'', ranged u16be 1 0xffff),
     (''purpose'', ranged u8 DOMAIN_PURPOSE_REQUEST_COMMITMENT DOMAIN_PURPOSE_AUXILIARY_SIGNATURE),
     (''recipeId'', ranged u8 DOMAIN_RECIPE_OPERATION_DEFINED_COMMITMENT_PREIMAGE
        DOMAIN_RECIPE_ED25519_DOMAIN_LEN64_PAYLOAD),
     (''exactAsciiBytes'', canonicalAsciiBytes E 1 96)] validate_domainRegistryEntry"

definition validate_errorProfileEntry :: "jsval \<Rightarrow> unit res" where
  "validate_errorProfileEntry v = (case errorProfileEntry (numf v ''errorProfileId'') (numf v ''code'') of
       None \<Rightarrow> Inl BAD_ENCODING
     | Some expected \<Rightarrow> reject_if [
         er_directCorrelatedStatus expected \<noteq> numf v ''directCorrelatedStatus'' \<or>
         er_protectedInnerStatus expected \<noteq> numf v ''protectedInnerStatus'' \<or>
         er_retryable expected \<noteq> numf v ''retryable'' \<or>
         er_retryAfterMode expected \<noteq> numf v ''retryAfterMode''])"

definition errorProfileEntryV1 :: codec where
  "errorProfileEntryV1 = struct ''ErrorProfileEntryV1'' [
     (''errorProfileId'', constantOf u8 (JNum ERROR_PROFILE_ID_CANONICAL_V1)),
     (''code'', ranged u8 1 20),
     (''directCorrelatedStatus'', constantOf u16be (JNum 200)),
     (''protectedInnerStatus'', constantOf u16be (JNum 200)),
     (''retryable'', ranged u8 0 1),
     (''retryAfterMode'', ranged u8 ERROR_RETRY_AFTER_MODE_MUST_BE_ABSENT
        ERROR_RETRY_AFTER_MODE_MUST_BE_PRESENT)] validate_errorProfileEntry"

definition admissionV1 :: codec where
  "admissionV1 = struct ''AdmissionV1'' [
     (''profileId'', profileId),
     (''schemeId'', schemeId),
     (''parameterHash'', bytes32),
     (''token'', boundedBytes 1 4096)] no_validate"

subsection \<open>Laws of the helpers\<close>

lemma distinct_from_Inr:
  "distinct_from seen vs = Inr () \<longleftrightarrow> distinct vs \<and> set seen \<inter> set vs = {}"
  by (induction seen vs rule: distinct_from.induct) auto

lemma assertDistinctBytes_Inr: "assertDistinctBytes vs = Inr () \<longleftrightarrow> distinct vs"
  by (simp add: assertDistinctBytes_def distinct_from_Inr)

lemma assertNonzeroBytes_Inr [simp]: "assertNonzeroBytes bs = Inr () \<longleftrightarrow> \<not> isAllZero bs"
  by (simp add: assertNonzeroBytes_def)

lemma assertStrictlySorted_Inr:
  assumes "transp (\<lambda>a b. compare a b < 0)"
  shows "assertStrictlySorted compare vs = Inr () \<longleftrightarrow> sorted_wrt (\<lambda>a b. compare a b < 0) vs"
  using assms
proof (induction compare vs rule: assertStrictlySorted.induct)
  case (1 compare x y rest)
  have "compare x z < 0" if "compare x y < 0" "sorted_wrt (\<lambda>a b. compare a b < 0) (y # rest)" "z \<in> set rest" for z
    using that transpD [OF "1.prems"] by auto
  with 1 show ?case by (auto simp: not_le)
qed simp_all

lemma compareScalar_less [simp]: "compareScalar a b < 0 \<longleftrightarrow> a < b"
  by (simp add: compareScalar_def)

lemma compareBytes_eq_0 [simp]: "compareBytes a b = 0 \<longleftrightarrow> a = b"
  by (induction a b rule: compareBytes.induct) auto

lemma compareBytes_trans: "compareBytes a b < 0 \<Longrightarrow> compareBytes b c < 0 \<Longrightarrow> compareBytes a c < 0"
proof (induction a b arbitrary: c rule: compareBytes.induct)
  case (2 y ys)
  then show ?case by (cases c) (auto split: if_splits)
next
  case (4 x xs y ys)
  then show ?case by (cases c) (auto split: if_splits)
qed auto

text \<open>A capped codec is the codec restricted to encodings of at most the cap.\<close>

lemma canonical_capped [lawful_intros]:
  assumes c: "canonical_codec c {}"
  shows "canonical_codec (cappedEncoding c m n) {}"
proof (rule canonical_codecI)
  let ?c = "cappedEncoding c m n"
  have enc: "encodes ?c v p bs" if "encodes c v JUndef bs" "length bs \<le> m" for v p bs
    using that by (simp add: encodes_def cappedEncoding_def grow_def)
  fix st v p st1
  assume "preencode ?c st v p = Inr st1"
  then obtain st2 where pre: "preencode c st v JUndef = Inr st2" and cap: "st_end st2 - st_end st \<le> m"
    by (auto simp: cappedEncoding_def rbind_Inr_iff split: if_splits)
  from canonical_codec.preencode_total [OF c pre] obtain bs where bs: "encodes c v JUndef bs" ..
  with pre have "st2 = grow st (length bs)" by (simp add: encodes_def)
  with cap have "length bs \<le> m" by (simp add: grow_def)
  with bs enc show "\<exists>bs. encodes ?c v p bs" by blast
next
  let ?c = "cappedEncoding c m n"
  fix st p v st1
  assume st: "room st 0" and "decode ?c st p = Inr (v, st1)"
  then have d: "decode c st JUndef = Inr (v, st1)" and cap: "st_start st1 - st_start st \<le> m"
    by (auto simp: cappedEncoding_def rbind_Inr_iff split: if_splits)
  from canonical_codec.decode_canonical [OF c st d] obtain bs where bs: "reads st bs"
      "st1 = advance st (length bs)" "encodes c v JUndef bs" "decodes c v JUndef bs"
    by (auto simp: agree_def)
  with cap have "encodes ?c v q bs \<and> decodes ?c v q bs" for q
    by (auto simp: encodes_def decodes_def cappedEncoding_def grow_def)
  with bs show "\<exists>bs. reads st bs \<and> st1 = advance st (length bs) \<and>
      (\<forall>q. agree {} p q \<longrightarrow> encodes ?c v q bs \<and> decodes ?c v q bs)" by blast
qed

lemma capped_length:
  assumes c: "canonical_codec c {}" and d: "decodeCanonical (cappedEncoding c m n) (JBytes bs) cp = Inr v"
  shows "length bs \<le> m"
proof -
  have "encodes (cappedEncoding c m n) v JUndef bs"
    using canonical_codec.decodeCanonical_decodes [OF canonical_capped [OF c] d] by simp
  then have "preencode (cappedEncoding c m n) st v JUndef = Inr (grow st (length bs))" for st
    by (simp add: encodes_def)
  from this [of undefined] show ?thesis
    by (auto simp: cappedEncoding_def rbind_Inr_iff grow_def split: if_splits)
qed

lemmas shared_field_defs = bytes16_def bytes96_def version1_def profileId_def schemeId_def endpointId_def
  transportSupportBit_def wireClass_def circuitClass_def sessionClass_def protocolId_def transportId_def
  cellSizeClass_def inboxFrameClass_def leaseClass_def optionalLeaseClass_def profileName_def
  endpointUrl_def cellProtocol_def

lemma canonical_shared_fields [lawful_intros]:
  "canonical_codec bytes16 {}" "canonical_codec bytes96 {}" "canonical_codec version1 {}"
  "canonical_codec profileId {}" "canonical_codec schemeId {}" "canonical_codec endpointId {}"
  "canonical_codec transportSupportBit {}" "canonical_codec wireClass {}" "canonical_codec circuitClass {}"
  "canonical_codec sessionClass {}" "canonical_codec protocolId {}" "canonical_codec transportId {}"
  "canonical_codec cellSizeClass {}" "canonical_codec inboxFrameClass {}" "canonical_codec leaseClass {}"
  "canonical_codec optionalLeaseClass {}" "canonical_codec (profileName E) {}"
  "canonical_codec (endpointUrl E) {}" "canonical_codec cellProtocol {}"
  by (simp_all add: shared_field_defs lawful_intros)

lemma canonical_class_fields [lawful_intros]:
  "canonical_codec cellBlob {''sizeClass''}" "canonical_codec inboxFrame {''frameClass''}"
  unfolding cellBlob_def inboxFrame_def by (rule lawful_intros)+

lemma never_null_endpointUrl [lawful_intros]: "never_null (endpointUrl E)"
  unfolding endpointUrl_def by (rule lawful_intros)

interpretation admissionCostRuleV1: canonical_codec admissionCostRuleV1 "{}"
  unfolding admissionCostRuleV1_def by (rule lawful_intros | simp)+

interpretation domainRegistryEntryV1: canonical_codec "domainRegistryEntryV1 E" "{}"
  unfolding domainRegistryEntryV1_def by (rule lawful_intros | simp)+

interpretation errorProfileEntryV1: canonical_codec errorProfileEntryV1 "{}"
  unfolding errorProfileEntryV1_def by (rule lawful_intros | simp)+

interpretation admissionV1: canonical_codec admissionV1 "{}"
  unfolding admissionV1_def by (rule lawful_intros | simp)+

lemma never_null_admission [lawful_intros]: "never_null admissionV1"
  unfolding admissionV1_def by (rule lawful_intros)

lemmas registry_canonical [lawful_intros] = admissionCostRuleV1.canonical_codec_axioms
  domainRegistryEntryV1.canonical_codec_axioms errorProfileEntryV1.canonical_codec_axioms
  admissionV1.canonical_codec_axioms

subsection \<open>What a codec guarantees of the values it handles\<close>

text \<open>\<open>prepared c v p\<close>: the codec counts the bytes of \<open>v\<close> without an error.  Every value that it
  encodes or decodes is of this kind.\<close>

definition prepared :: "codec \<Rightarrow> jsval \<Rightarrow> jsval \<Rightarrow> bool" where
  "prepared c v p \<longleftrightarrow> (\<exists>st st1. preencode c st v p = Inr st1)"

lemma decoded_prepared:
  assumes c: "canonical_codec c {}" and d: "decodeCanonical c b cp = Inr v"
  shows "prepared c v JUndef"
proof -
  from d obtain bs where "b = JBytes bs" by (auto simp: decodeCanonical_def rbind_Inr_iff)
  with d have "encodes c v JUndef bs" using canonical_codec.decodeCanonical_decodes [OF c] by blast
  then show ?thesis unfolding prepared_def encodes_def by blast
qed

lemma encoded_prepared: "encodeCanonical c v = Inr bs \<Longrightarrow> prepared c v JUndef"
  by (auto simp: encodeCanonical_def prepared_def rbind_Inr_iff)

lemma preparedI: "preencode c st v p = Inr st1 \<Longrightarrow> prepared c v p"
  unfolding prepared_def by blast

lemma prepared_fields:
  "preencode_fields fs st v = Inr st1 \<Longrightarrow> (n, c) \<in> set fs \<Longrightarrow> prepared c (getf v n) v"
  by (induction fs arbitrary: st) (auto simp: rbind_Inr_iff intro: preparedI)

lemma prepared_structE:
  assumes "prepared (struct name fs validate) v p"
  obtains st st1 where "is_object v" "validate v = Inr ()" "preencode_fields fs st v = Inr st1"
  using assms unfolding prepared_def struct_def
  by (auto simp: raising_def rbind_Inr_iff split: if_splits)

lemma prepared_struct:
  assumes "prepared (struct name fs validate) v p"
  shows "is_object v" "validate v = Inr ()" "(n, c) \<in> set fs \<Longrightarrow> prepared c (getf v n) v"
  by (rule prepared_structE [OF assms], assumption)
    (rule prepared_structE [OF assms], assumption, rule prepared_structE [OF assms], erule prepared_fields)

lemma prepared_capped: "prepared (cappedEncoding c m n) v p \<Longrightarrow> prepared c v JUndef"
  by (auto simp: prepared_def cappedEncoding_def rbind_Inr_iff)

lemma prepared_fixedUnsigned: "prepared (fixedUnsigned n m) v p \<Longrightarrow> \<exists>i. v = JNum i \<and> 0 \<le> i \<and> i \<le> m"
  by (auto simp: prepared_def fixedUnsigned_def rbind_Inr_iff assertUnsignedNumber_Inr)

lemma prepared_u8: "prepared u8 v p \<Longrightarrow> \<exists>i. v = JNum i \<and> 0 \<le> i \<and> i \<le> 255"
  and prepared_u16be: "prepared u16be v p \<Longrightarrow> \<exists>i. v = JNum i \<and> 0 \<le> i \<and> i \<le> 0xffff"
  and prepared_u32be: "prepared u32be v p \<Longrightarrow> \<exists>i. v = JNum i \<and> 0 \<le> i \<and> i \<le> 0xffffffff"
  unfolding u8_def u16be_def u32be_def by (drule prepared_fixedUnsigned, simp)+

lemma prepared_u64be: "prepared u64be v p \<Longrightarrow> asU64 v = Inr (as_big v)"
  by (auto simp: prepared_def u64be_def rbind_Inr_iff dest: asU64_Inr)

lemma prepared_ranged: "prepared (ranged c lo hi) v p \<Longrightarrow> \<exists>i. v = JNum i \<and> lo \<le> i \<and> i \<le> hi"
  by (cases v) (auto simp: prepared_def ranged_def out_of_range_def split: if_splits)

lemma prepared_fixedBytes: "prepared (fixedBytes n) v p \<Longrightarrow> \<exists>bs. v = JBytes bs \<and> length bs = n"
  by (auto simp: prepared_def fixedBytes_def raising_def rbind_Inr_iff split: if_splits)

lemma prepared_exactBytesByClass:
  "prepared (exactBytesByClass f cl) v p \<Longrightarrow> \<exists>bs. v = JBytes bs \<and> selectedLength f cl p = Inr (length bs)"
  by (auto simp: prepared_def exactBytesByClass_def rbind_Inr_iff split: if_splits)

lemma prepared_optional: "prepared (optional c) v p \<Longrightarrow> is_nullish v \<or> prepared c v JUndef"
  by (auto simp: prepared_def optional_def rbind_Inr_iff split: if_splits)

lemma prepared_each: "each (preencode c) st xs = Inr st1 \<Longrightarrow> x \<in> set xs \<Longrightarrow> prepared c x JUndef"
  by (induction xs arbitrary: st) (auto simp: rbind_Inr_iff intro: preparedI)

lemma prepared_arrayOf:
  assumes "prepared (arrayOf c lo hi) v p"
  shows "\<exists>xs. v = JArr xs \<and> lo \<le> length xs \<and> length xs \<le> hi \<and> (\<forall>x\<in>set xs. prepared c x JUndef)"
proof -
  from assms obtain st st1 xs where "each (preencode c) st xs = Inr st1" "v = JArr xs" "lo \<le> length xs" "length xs \<le> hi"
    unfolding prepared_def arrayOf_def
    by (auto simp: raising_def rbind_Inr_iff array_values_Inr split: if_splits)
  with prepared_each show ?thesis by blast
qed

end
