(* ===== verification/Schema_Stream.thy ===== *)
theory Schema_Stream
  imports Schema_Common
begin

text \<open>
  The core and forward families of \<^verbatim>\<open>packages/blind-protocol/schemas.js\<close>: transport routes,
  signed route scopes, the forward circuit messages, the padded stream chunk and the core
  replication and serving messages.
\<close>

subsection \<open>Routes\<close>

definition validate_transportRoute :: "jsval \<Rightarrow> unit res" where
  "validate_transportRoute v = checks [
     validateEpochWindow v,
     reject_if [
       js_and (numf v ''envelopeClassBits'') (js_not 0x7e) \<noteq> 0,
       js_and (numf v ''wireClassBits'') (js_not 0x0e) \<noteq> 0,
       numf v ''maxCanonicalDispatchBytes'' > DISPATCH_LIMITS_MAX_WIRE_BYTES,
       numf v ''maxOpenBytes'' > int (128 * KiB),
       numf v ''maxConcurrentStreams'' > 1024],
     (if numf v ''routeKind'' = 1 then reject_if [
        numf v ''envelopeClassBits'' = 0 \<or> numf v ''maxEncapsulatedRequestBytes'' = 0,
        numf v ''wireClassBits'' \<noteq> 0 \<or> numf v ''maxOpenBytes'' \<noteq> 0 \<or> bigf v ''maxCircuitBytes'' \<noteq> 0 \<or>
          numf v ''maxConcurrentStreams'' \<noteq> 0]
      else reject_if [
        numf v ''maxEncapsulatedRequestBytes'' \<noteq> 0,
        numf v ''routeKind'' \<ge> 2 \<and> numf v ''routeKind'' \<le> 5 \<and>
          (numf v ''wireClassBits'' = 0 \<or> numf v ''maxOpenBytes'' = 0 \<or> bigf v ''maxCircuitBytes'' = 0 \<or>
           numf v ''maxConcurrentStreams'' = 0)])]"

definition blindTransportRouteV1 :: codec where
  "blindTransportRouteV1 = struct ''BlindTransportRouteV1'' [
     (''version'', version1),
     (''routeKind'', ranged u8 1 6),
     (''routeId'', bytes16),
     (''previousRelayKey'', bytes32),
     (''previousEndpointId'', endpointId),
     (''nextRelayKey'', bytes32),
     (''nextDescriptorSequence'', u64be),
     (''nextDescriptorHash'', bytes32),
     (''nextEndpointId'', endpointId),
     (''envelopeClassBits'', u16be),
     (''wireClassBits'', u8),
     (''maxCanonicalDispatchBytes'', u32be),
     (''maxEncapsulatedRequestBytes'', u32be),
     (''maxOpenBytes'', u32be),
     (''maxCircuitBytes'', u64be),
     (''maxConcurrentStreams'', u16be),
     (''maxRelayCount'', ranged u8 2 4),
     (''hopAdmissionProfileId'', profileId),
     (''issuedEpoch'', u32be),
     (''expiresEpoch'', u32be),
     (''routeNonce'', bytes32),
     (''previousSignature'', bytes64)] validate_transportRoute"

definition validate_routeHop :: "jsval \<Rightarrow> unit res" where
  "validate_routeHop v = checks [
     assertNonzeroBytes (bytesf v ''relayPublicKey''),
     assertNonzeroBytes (bytesf v ''descriptorHash''),
     assertNonzeroBytes (bytesf v ''scopeHash''),
     reject_if [
       numf v ''hopIndex'' = 0 \<and> \<not> zero_bytes v ''previousScopeHash'',
       numf v ''hopIndex'' \<noteq> 0 \<and> zero_bytes v ''previousScopeHash'']]"

definition blindForwardRouteHopV1 :: codec where
  "blindForwardRouteHopV1 = struct ''BlindForwardRouteHopV1'' [
     (''hopIndex'', ranged u8 0 3),
     (''relayPublicKey'', bytes32),
     (''descriptorSequence'', u64be),
     (''descriptorHash'', bytes32),
     (''previousScopeHash'', bytes32),
     (''scopeHash'', bytes32),
     (''relaySignature'', bytes64)] validate_routeHop"

definition blindForwardRouteHopsV1 :: codec where
  "blindForwardRouteHopsV1 = arrayOf blindForwardRouteHopV1 1 4"

fun check_hops :: "nat \<Rightarrow> jsval option \<Rightarrow> bytes list \<Rightarrow> jsval list \<Rightarrow> unit res" where
  "check_hops index previous relayKeys [] = Inr ()"
| "check_hops index previous relayKeys (hop # hops) =
     rbind (reject_if [
       numf hop ''hopIndex'' \<noteq> int index,
       (case previous of None \<Rightarrow> False
        | Some prev \<Rightarrow> bytesf hop ''previousScopeHash'' \<noteq> bytesf prev ''scopeHash''),
       bytesf hop ''relayPublicKey'' \<in> set relayKeys]) (\<lambda>_.
     check_hops (index + 1) (Some hop) (bytesf hop ''relayPublicKey'' # relayKeys) hops)"

definition validate_routeScope :: "jsval \<Rightarrow> unit res" where
  "validate_routeScope v = checks [
     assertNonzeroBytes (bytesf v ''rootRouteId''),
     assertNonzeroBytes (bytesf v ''rootCircuitNonce''),
     assertNonzeroBytes (bytesf v ''rootRequestCommitment''),
     reject_if [
       numf v ''expiresEpoch'' = 0,
       int (length (arrf v ''hops'')) > numf v ''maxRelayCount''],
     check_hops 0 None [] (arrf v ''hops'')]"

definition blindForwardRouteScopeV1 :: codec where
  "blindForwardRouteScopeV1 = struct ''BlindForwardRouteScopeV1'' [
     (''version'', version1),
     (''rootRouteId'', bytes16),
     (''rootCircuitNonce'', bytes32),
     (''rootRequestCommitment'', bytes32),
     (''maxRelayCount'', ranged u8 2 4),
     (''expiresEpoch'', u32be),
     (''hops'', blindForwardRouteHopsV1)] validate_routeScope"

definition validate_forwardHopOpen :: "jsval \<Rightarrow> unit res" where
  "validate_forwardHopOpen v = (
     let route = getf v ''route''; hops = arrf (getf v ''routeScope'') ''hops'' in
     checks [
       validateForwardTuple v,
       reject_if [
         numf route ''routeKind'' < 2 \<or> numf route ''routeKind'' > 5,
         js_and (numf route ''wireClassBits'') (js_shl 1 (numf v ''requestedWireClass'')) = 0,
         bigf v ''maxCircuitBytes'' > bigf route ''maxCircuitBytes''],
       (case rev hops of [] \<Rightarrow> Inl TYPE_ERROR | lastHop # _ \<Rightarrow> reject_if [
         bytesf lastHop ''relayPublicKey'' \<noteq> bytesf route ''previousRelayKey'' \<or>
         bigf lastHop ''descriptorSequence'' \<noteq> bigf v ''previousDescriptorSequence'' \<or>
         bytesf lastHop ''descriptorHash'' \<noteq> bytesf v ''previousDescriptorHash'']),
       reject_if [int (length hops) > numf route ''maxRelayCount'']])"

definition blindForwardHopOpenV1 :: codec where
  "blindForwardHopOpenV1 = struct ''BlindForwardHopOpenV1'' [
     (''version'', version1),
     (''route'', blindTransportRouteV1),
     (''routeScope'', blindForwardRouteScopeV1),
     (''previousDescriptorSequence'', u64be),
     (''previousDescriptorHash'', bytes32),
     (''circuitNonce'', bytes32),
     (''requestedWireClass'', wireClass),
     (''circuitClass'', circuitClass),
     (''grantedInitialWindow'', u32be),
     (''maxDataBytes'', u32be),
     (''maxCircuitBytes'', u64be),
     (''idleMillis'', u32be),
     (''lifetimeMillis'', u32be),
     (''clientRequestCommitment'', bytes32),
     (''handshakeFlight1'', bytes32),
     (''forwarderSignature'', bytes64)] validate_forwardHopOpen"

definition validate_forwardHopAccept :: "jsval \<Rightarrow> unit res" where
  "validate_forwardHopAccept v = (let binding = getf v ''nextRelayBinding'' in checks [
     validateForwardTuple v,
     reject_if [
       bigf v ''nextStreamId'' = 0,
       bytesf v ''nextRelayKey'' \<noteq> bytesf binding ''relayPublicKey'' \<or>
         bigf v ''nextDescriptorSequence'' \<noteq> bigf binding ''descriptorSequence'' \<or>
         bytesf v ''nextDescriptorHash'' \<noteq> bytesf binding ''descriptorHash'']])"

definition blindForwardHopAcceptV1 :: codec where
  "blindForwardHopAcceptV1 = struct ''BlindForwardHopAcceptV1'' [
     (''version'', version1),
     (''previousRelayKey'', bytes32),
     (''previousDescriptorSequence'', u64be),
     (''previousDescriptorHash'', bytes32),
     (''nextRelayKey'', bytes32),
     (''nextDescriptorSequence'', u64be),
     (''nextDescriptorHash'', bytes32),
     (''nextRelayBinding'', relayResultBindingV1),
     (''routeId'', bytes16),
     (''circuitNonce'', bytes32),
     (''nextStreamId'', u64be),
     (''grantedWireClass'', wireClass),
     (''circuitClass'', circuitClass),
     (''grantedInitialWindow'', u32be),
     (''maxDataBytes'', u32be),
     (''maxCircuitBytes'', u64be),
     (''idleMillis'', u32be),
     (''lifetimeMillis'', u32be),
     (''openedAtEpoch'', u32be),
     (''hopOpenCommitment'', bytes32),
     (''acceptedRouteScopeHash'', bytes32),
     (''acceptedRelayCount'', ranged u8 1 4),
     (''handshakeFlight2'', bytes96),
     (''nextSignature'', bytes64)] validate_forwardHopAccept"

subsection \<open>Core\<close>

definition validate_coreOpenReplication :: "jsval \<Rightarrow> unit res" where
  "validate_coreOpenReplication v = reject_if [
     bigf v ''controlChannelId'' = 0, zero_bytes v ''parentChannelBinding'']"

definition coreOpenReplicationV1 :: codec where
  "coreOpenReplicationV1 = struct ''CoreOpenReplicationV1'' [
     (''version'', version1),
     (''wireProfileHash'', bytes32),
     (''sessionClass'', sessionClass),
     (''controlChannelId'', u64be),
     (''parentChannelBinding'', bytes32),
     (''clientNonce'', bytes32),
     (''admission'', admissionV1)] validate_coreOpenReplication"

definition validate_coreOpenReplicationResult :: "jsval \<Rightarrow> unit res" where
  "validate_coreOpenReplicationResult v = checks [
     validateCoreTuple v,
     reject_if [
       bigf v ''controlChannelId'' = 0,
       bigf v ''streamId'' = 0,
       zero_bytes v ''parentChannelBinding'']]"

definition coreOpenReplicationResultV1 :: codec where
  "coreOpenReplicationResultV1 = struct ''CoreOpenReplicationResultV1'' [
     (''version'', version1),
     (''relayBinding'', relayResultBindingV1),
     (''wireProfileHash'', bytes32),
     (''sessionClass'', sessionClass),
     (''controlChannelId'', u64be),
     (''parentChannelBinding'', bytes32),
     (''streamId'', u64be),
     (''maxSessionBytes'', u64be),
     (''idleMillis'', u32be),
     (''lifetimeMillis'', u32be),
     (''openedAtEpoch'', u32be),
     (''requestNonce'', bytes32),
     (''requestCommitment'', bytes32),
     (''signature'', bytes64)] validate_coreOpenReplicationResult"

definition validate_coreHead :: "jsval \<Rightarrow> unit res" where
  "validate_coreHead v = checks [
     assertNonzeroBytes (bytesf v ''corePublicKey''),
     assertNonzeroBytes (bytesf v ''signedHeadHash'')]"

definition blindCoreAckV1 :: codec where
  "blindCoreAckV1 = struct ''BlindCoreAckV1'' [
     (''version'', version1),
     (''relayBinding'', relayResultBindingV1),
     (''corePublicKey'', bytes32),
     (''fork'', u64be),
     (''length'', u64be),
     (''signedHeadHash'', bytes32),
     (''observedAtEpoch'', u32be),
     (''leaseEpoch'', u32be),
     (''result'', ranged u8 CORE_ACK_RESULT_MIRROR_ACCEPTED CORE_ACK_RESULT_RECENTLY_SERVED),
     (''requestNonce'', bytes32),
     (''requestCommitment'', bytes32),
     (''signature'', bytes64)] validate_coreHead"

definition validate_coreMirrorRequest :: "jsval \<Rightarrow> unit res" where
  "validate_coreMirrorRequest v = checks [validate_coreHead v, reject_if [bigf v ''length'' = 0]]"

definition coreMirrorRequestV1 :: codec where
  "coreMirrorRequestV1 = struct ''CoreMirrorRequestV1'' [
     (''version'', version1),
     (''corePublicKey'', bytes32),
     (''fork'', u64be),
     (''length'', u64be),
     (''signedHeadHash'', bytes32),
     (''leaseClass'', leaseClass),
     (''clientNonce'', bytes32),
     (''admission'', admissionV1)] validate_coreMirrorRequest"

definition coreBlockIndicesV1 :: codec where "coreBlockIndicesV1 = arrayOf u64be 1 16"

definition validate_coreServeChallenge :: "jsval \<Rightarrow> unit res" where
  "validate_coreServeChallenge v = checks [
     validate_coreHead v,
     reject_if [bigf v ''length'' = 0],
     assertStrictlySorted (\<lambda>a b. compareScalar (as_big a) (as_big b)) (arrf v ''blockIndices''),
     reject_if [list_ex (\<lambda>index. as_big index \<ge> bigf v ''length'') (arrf v ''blockIndices'')]]"

definition coreServeChallengeV1 :: codec where
  "coreServeChallengeV1 = struct ''CoreServeChallengeV1'' [
     (''version'', version1),
     (''corePublicKey'', bytes32),
     (''fork'', u64be),
     (''length'', u64be),
     (''signedHeadHash'', bytes32),
     (''blockIndices'', coreBlockIndicesV1),
     (''clientNonce'', bytes32),
     (''admission'', optional admissionV1)] validate_coreServeChallenge"

definition validate_coreServeResult :: "jsval \<Rightarrow> unit res" where
  "validate_coreServeResult v = reject_if [
     numf (getf v ''acknowledgement'') ''result'' \<noteq> CORE_ACK_RESULT_RECENTLY_SERVED]"

definition coreServeResultBaseV1 :: codec where
  "coreServeResultBaseV1 = struct ''CoreServeResultV1'' [
     (''version'', version1),
     (''acknowledgement'', blindCoreAckV1),
     (''proofsAndBlocks'', boundedBytes 1 (4 * MiB - 256))] validate_coreServeResult"

definition coreServeResultV1 :: codec where
  "coreServeResultV1 = cappedEncoding coreServeResultBaseV1 (4 * MiB) ''CoreServeResultV1''"

subsection \<open>Forward circuits\<close>

definition validate_forwardOpen :: "jsval \<Rightarrow> unit res" where
  "validate_forwardOpen v = checks [
     assertNonzeroBytes (bytesf v ''routeId''),
     assertNonzeroBytes (bytesf v ''nextDescriptorHash''),
     assertNonzeroBytes (bytesf v ''circuitNonce'')]"

definition blindForwardOpenV1 :: codec where
  "blindForwardOpenV1 = struct ''BlindForwardOpenV1'' [
     (''version'', version1),
     (''routeId'', bytes16),
     (''nextDescriptorSequence'', u64be),
     (''nextDescriptorHash'', bytes32),
     (''requestedWireClass'', wireClass),
     (''circuitClass'', circuitClass),
     (''circuitNonce'', bytes32),
     (''parentRouteScopeHash'', bytes32),
     (''hopAdmission'', admissionV1),
     (''innerHandshake'', boundedBytes 32 32)] validate_forwardOpen"

definition validate_forwardOpenResult :: "jsval \<Rightarrow> unit res" where
  "validate_forwardOpenResult v = (let nxt = getf v ''nextHopAccept'' in checks ([
     validateForwardTuple v,
     reject_if [bigf v ''streamId'' = 0]] @
     map (\<lambda>f. assertNonzeroBytes (bytesf v f)) [''routeId'', ''nextDescriptorHash'', ''circuitNonce'',
       ''requestCommitment''] @ [
     reject_if [
       bytesf (getf v ''relayBinding'') ''relayPublicKey'' \<noteq> bytesf nxt ''previousRelayKey'' \<or>
       bytesf v ''routeId'' \<noteq> bytesf nxt ''routeId'' \<or>
       bytesf v ''nextDescriptorHash'' \<noteq> bytesf nxt ''nextDescriptorHash'' \<or>
       bytesf v ''circuitNonce'' \<noteq> bytesf nxt ''circuitNonce'' \<or>
       bigf v ''nextDescriptorSequence'' \<noteq> bigf nxt ''nextDescriptorSequence'' \<or>
       numf v ''grantedWireClass'' \<noteq> numf nxt ''grantedWireClass'' \<or>
       numf v ''circuitClass'' \<noteq> numf nxt ''circuitClass'' \<or>
       numf v ''grantedInitialWindow'' \<noteq> numf nxt ''grantedInitialWindow'' \<or>
       numf v ''maxDataBytes'' \<noteq> numf nxt ''maxDataBytes'' \<or>
       bigf v ''maxCircuitBytes'' \<noteq> bigf nxt ''maxCircuitBytes'' \<or>
       numf v ''idleMillis'' \<noteq> numf nxt ''idleMillis'' \<or>
       numf v ''lifetimeMillis'' \<noteq> numf nxt ''lifetimeMillis'' \<or>
       numf v ''openedAtEpoch'' \<noteq> numf nxt ''openedAtEpoch'' \<or>
       bytesf v ''acceptedRouteScopeHash'' \<noteq> bytesf nxt ''acceptedRouteScopeHash'' \<or>
       numf v ''acceptedRelayCount'' \<noteq> numf nxt ''acceptedRelayCount'']]))"

definition blindForwardOpenResultV1 :: codec where
  "blindForwardOpenResultV1 = struct ''BlindForwardOpenResultV1'' [
     (''version'', version1),
     (''relayBinding'', relayResultBindingV1),
     (''routeId'', bytes16),
     (''nextDescriptorSequence'', u64be),
     (''nextDescriptorHash'', bytes32),
     (''circuitNonce'', bytes32),
     (''grantedWireClass'', wireClass),
     (''circuitClass'', circuitClass),
     (''streamId'', u64be),
     (''grantedInitialWindow'', u32be),
     (''maxDataBytes'', u32be),
     (''maxCircuitBytes'', u64be),
     (''idleMillis'', u32be),
     (''lifetimeMillis'', u32be),
     (''openedAtEpoch'', u32be),
     (''requestCommitment'', bytes32),
     (''acceptedRouteScopeHash'', bytes32),
     (''acceptedRelayCount'', ranged u8 1 4),
     (''nextHopAccept'', blindForwardHopAcceptV1),
     (''signature'', bytes64)] validate_forwardOpenResult"

definition validate_circuitNonce :: "jsval \<Rightarrow> unit res" where
  "validate_circuitNonce v = assertNonzeroBytes (bytesf v ''circuitNonce'')"

definition blindForwardDataV1 :: codec where
  "blindForwardDataV1 = struct ''BlindForwardDataV1'' [
     (''version'', version1),
     (''circuitNonce'', bytes32),
     (''offset'', u64be),
     (''bytes'', boundedBytes 1 (nat DISPATCH_LIMITS_MAX_FORWARD_DATA_BYTES))] validate_circuitNonce"

definition blindForwardWindowV1 :: codec where
  "blindForwardWindowV1 = struct ''BlindForwardWindowV1'' [
     (''version'', version1),
     (''circuitNonce'', bytes32),
     (''consumedThrough'', u64be),
     (''creditIncrement'', ranged u32be 1 DISPATCH_LIMITS_MAX_FORWARD_WINDOW_BYTES)] validate_circuitNonce"

definition blindForwardCloseV1 :: codec where
  "blindForwardCloseV1 = struct ''BlindForwardCloseV1'' [
     (''version'', version1),
     (''circuitNonce'', bytes32),
     (''closeKind'', ranged u8 FORWARD_CLOSE_KIND_FIN FORWARD_CLOSE_KIND_ABORT),
     (''finalSendOffset'', u64be),
     (''reasonCode'', u8)] validate_circuitNonce"

subsection \<open>Stream chunks\<close>

definition streamChunkLengths :: "jsval \<Rightarrow> jsval \<Rightarrow> (nat \<times> nat) res" where
  "streamChunkLengths wireClassValue contentLength =
     (case (case wireClassValue of JNum i \<Rightarrow> STREAM_WIRE_CLASS i | _ \<Rightarrow> None) of
        None \<Rightarrow> Inl BAD_ENCODING
      | Some ciphertextLength \<Rightarrow>
        if \<not> isSafeInteger contentLength \<or> as_num contentLength < 0 then Inl BAD_ENCODING
        else let plaintextLength = ciphertextLength - 16;
                 paddingLength = int plaintextLength - 7 - as_num contentLength in
          if paddingLength < 0 then Inl BAD_ENCODING else Inr (plaintextLength, nat paddingLength))"

text \<open>\<^verbatim>\<open>fixedBytes(value.contentLength)\<close>\<close>

definition contentBytes :: "jsval \<Rightarrow> codec" where
  "contentBytes v = fixedBytes (nat (numf v ''contentLength''))"

definition validateStreamChunkPlain :: "jsval \<Rightarrow> (nat \<times> nat) res" where
  "validateStreamChunkPlain v = (
     let st0 = \<lparr>st_start = 0, st_end = 0, st_buffer = [], st_copyBytes = False\<rparr> in
     rbind (reject_if [\<not> is_object v, getf v ''flags'' \<noteq> JNum 0 \<and> getf v ''flags'' \<noteq> JNum 1]) (\<lambda>_.
     rbind (streamChunkLengths (getf v ''wireClass'') (getf v ''contentLength'')) (\<lambda>(plaintextLength, paddingLength).
     rbind (preencode (contentBytes v) st0 (getf v ''content'') JUndef) (\<lambda>_.
     rbind (preencode (fixedBytes paddingLength) st0 (getf v ''randomPadding'') JUndef) (\<lambda>_.
     Inr (plaintextLength, paddingLength))))))"

definition blindStreamChunkPlainV1 :: codec where
  "blindStreamChunkPlainV1 = \<lparr>
     preencode = (\<lambda>st v p. rbind (validateStreamChunkPlain v) (\<lambda>(plaintextLength, paddingLength).
        rbind (preencode version1 st (getf v ''version'') JUndef) (\<lambda>st.
        rbind (preencode wireClass st (getf v ''wireClass'') JUndef) (\<lambda>st.
        rbind (preencode u8 st (getf v ''flags'') JUndef) (\<lambda>st.
        rbind (preencode u32be st (getf v ''contentLength'') JUndef) (\<lambda>st.
        rbind (preencode (contentBytes v) st (getf v ''content'') JUndef) (\<lambda>st.
        preencode (fixedBytes (plaintextLength - 7 - nat (numf v ''contentLength''))) st
          (getf v ''randomPadding'') JUndef))))))),
     encode = (\<lambda>st v p. rbind (validateStreamChunkPlain v) (\<lambda>(plaintextLength, paddingLength).
        rbind (encode version1 st (getf v ''version'') JUndef) (\<lambda>st.
        rbind (encode wireClass st (getf v ''wireClass'') JUndef) (\<lambda>st.
        rbind (encode u8 st (getf v ''flags'') JUndef) (\<lambda>st.
        rbind (encode u32be st (getf v ''contentLength'') JUndef) (\<lambda>st.
        rbind (encode (contentBytes v) st (getf v ''content'') JUndef) (\<lambda>st.
        encode (fixedBytes paddingLength) st (getf v ''randomPadding'') JUndef))))))),
     decode = (\<lambda>st p.
        rbind (decode version1 st JUndef) (\<lambda>(version, st).
        rbind (decode wireClass st JUndef) (\<lambda>(wireClassValue, st).
        rbind (decode u8 st JUndef) (\<lambda>(flags, st).
        rbind (decode u32be st JUndef) (\<lambda>(contentLength, st).
        let v0 = [(''version'', version), (''wireClass'', wireClassValue), (''flags'', flags),
                  (''contentLength'', contentLength)] in
        rbind (streamChunkLengths wireClassValue contentLength) (\<lambda>(plaintextLength, paddingLength).
        rbind (decode (contentBytes (JObj v0)) st JUndef) (\<lambda>(content, st).
        rbind (decode (fixedBytes paddingLength) st JUndef) (\<lambda>(randomPadding, st).
        let v = JObj (v0 @ [(''content'', content), (''randomPadding'', randomPadding)]) in
        rbind (validateStreamChunkPlain v) (\<lambda>_. Inr (v, st)))))))))),
     schemaName = None, schemaFields = None\<rparr>"

subsection \<open>The schemas keep the codec contract\<close>

interpretation blindTransportRouteV1: canonical_codec blindTransportRouteV1 "{}"
  unfolding blindTransportRouteV1_def by (rule lawful_intros | simp)+

interpretation blindForwardRouteHopV1: canonical_codec blindForwardRouteHopV1 "{}"
  unfolding blindForwardRouteHopV1_def by (rule lawful_intros | simp)+

lemmas route_canonical [lawful_intros] = blindTransportRouteV1.canonical_codec_axioms
  blindForwardRouteHopV1.canonical_codec_axioms

interpretation blindForwardRouteHopsV1: canonical_codec blindForwardRouteHopsV1 "{}"
  unfolding blindForwardRouteHopsV1_def by (rule lawful_intros | simp)+

lemmas routeHops_canonical [lawful_intros] = blindForwardRouteHopsV1.canonical_codec_axioms

interpretation blindForwardRouteScopeV1: canonical_codec blindForwardRouteScopeV1 "{}"
  unfolding blindForwardRouteScopeV1_def by (rule lawful_intros | simp)+

lemmas routeScope_canonical [lawful_intros] = blindForwardRouteScopeV1.canonical_codec_axioms

interpretation blindForwardHopOpenV1: canonical_codec blindForwardHopOpenV1 "{}"
  unfolding blindForwardHopOpenV1_def by (rule lawful_intros | simp)+

interpretation blindForwardHopAcceptV1: canonical_codec blindForwardHopAcceptV1 "{}"
  unfolding blindForwardHopAcceptV1_def by (rule lawful_intros | simp)+

lemmas hopAccept_canonical [lawful_intros] = blindForwardHopAcceptV1.canonical_codec_axioms

interpretation coreOpenReplicationV1: canonical_codec coreOpenReplicationV1 "{}"
  unfolding coreOpenReplicationV1_def by (rule lawful_intros | simp)+

interpretation coreOpenReplicationResultV1: canonical_codec coreOpenReplicationResultV1 "{}"
  unfolding coreOpenReplicationResultV1_def by (rule lawful_intros | simp)+

interpretation blindCoreAckV1: canonical_codec blindCoreAckV1 "{}"
  unfolding blindCoreAckV1_def by (rule lawful_intros | simp)+

lemmas coreAck_canonical [lawful_intros] = blindCoreAckV1.canonical_codec_axioms

interpretation coreMirrorRequestV1: canonical_codec coreMirrorRequestV1 "{}"
  unfolding coreMirrorRequestV1_def by (rule lawful_intros | simp)+

interpretation coreBlockIndicesV1: canonical_codec coreBlockIndicesV1 "{}"
  unfolding coreBlockIndicesV1_def by (rule lawful_intros | simp)+

lemmas coreBlockIndices_canonical [lawful_intros] = coreBlockIndicesV1.canonical_codec_axioms

interpretation coreServeChallengeV1: canonical_codec coreServeChallengeV1 "{}"
  unfolding coreServeChallengeV1_def by (rule lawful_intros | simp)+

interpretation coreServeResultBaseV1: canonical_codec coreServeResultBaseV1 "{}"
  unfolding coreServeResultBaseV1_def by (rule lawful_intros | simp)+

lemmas coreServeResult_canonical [lawful_intros] = coreServeResultBaseV1.canonical_codec_axioms

interpretation coreServeResultV1: canonical_codec coreServeResultV1 "{}"
  unfolding coreServeResultV1_def by (rule lawful_intros | simp)+

interpretation blindForwardOpenV1: canonical_codec blindForwardOpenV1 "{}"
  unfolding blindForwardOpenV1_def by (rule lawful_intros | simp)+

interpretation blindForwardOpenResultV1: canonical_codec blindForwardOpenResultV1 "{}"
  unfolding blindForwardOpenResultV1_def by (rule lawful_intros | simp)+

interpretation blindForwardDataV1: canonical_codec blindForwardDataV1 "{}"
  unfolding blindForwardDataV1_def by (rule lawful_intros | simp)+

interpretation blindForwardWindowV1: canonical_codec blindForwardWindowV1 "{}"
  unfolding blindForwardWindowV1_def by (rule lawful_intros | simp)+

interpretation blindForwardCloseV1: canonical_codec blindForwardCloseV1 "{}"
  unfolding blindForwardCloseV1_def by (rule lawful_intros | simp)+

lemma check_hops_Inr:
  "check_hops index previous keys hops = Inr () \<longleftrightarrow>
     map (\<lambda>h. numf h ''hopIndex'') hops = map int [index..<index + length hops] \<and>
     (\<forall>i<length hops. case (if i = 0 then previous else Some (hops ! (i - 1))) of None \<Rightarrow> True
        | Some q \<Rightarrow> bytesf (hops ! i) ''previousScopeHash'' = bytesf q ''scopeHash'') \<and>
     distinct (map (\<lambda>h. bytesf h ''relayPublicKey'') hops) \<and>
     (\<forall>h\<in>set hops. bytesf h ''relayPublicKey'' \<notin> set keys)"
proof (induction hops arbitrary: index previous keys)
  case (Cons hop hops)
  let ?ok = "\<lambda>q h. case q of None \<Rightarrow> True | Some q \<Rightarrow> bytesf h ''previousScopeHash'' = bytesf q ''scopeHash''"
  have step: "check_hops index previous keys (hop # hops) = Inr () \<longleftrightarrow>
      numf hop ''hopIndex'' = int index \<and> ?ok previous hop \<and> bytesf hop ''relayPublicKey'' \<notin> set keys \<and>
      check_hops (index + 1) (Some hop) (bytesf hop ''relayPublicKey'' # keys) hops = Inr ()"
    by (auto simp: rbind_Inr_iff split: option.splits)
  have upt: "[index..<index + length (hop # hops)] = index # [index + 1..<index + 1 + length hops]"
    using upt_conv_Cons [of index "index + length (hop # hops)"] by (simp del: upt_Suc)
  have all_Suc: "(\<forall>i<length (hop # hops). P i) \<longleftrightarrow> P 0 \<and> (\<forall>i<length hops. P (Suc i))" for P
    by (auto simp: less_Suc_eq_0_disj)
  have prev: "(if i = 0 then Some hop else Some (hops ! (i - 1))) = Some ((hop # hops) ! i)" for i
    by (cases i) simp_all
  show ?case unfolding step Cons.IH upt all_Suc prev
    by (cases previous) (auto simp: image_iff simp del: upt_Suc)
qed simp

subsection \<open>The stream chunk is a structure whose byte lengths come from earlier fields\<close>

definition sizedBytes :: "(jsval \<Rightarrow> nat res) \<Rightarrow> codec" where
  "sizedBytes len = \<lparr>
     preencode = (\<lambda>st v p. rbind (len p) (\<lambda>n. preencode (fixedBytes n) st v JUndef)),
     encode = (\<lambda>st v p. rbind (len p) (\<lambda>n. encode (fixedBytes n) st v JUndef)),
     decode = (\<lambda>st p. rbind (len p) (\<lambda>n. decode (fixedBytes n) st JUndef)),
     schemaName = None, schemaFields = None\<rparr>"

lemma canonical_sizedBytes:
  assumes len: "\<And>p q. agree needs p q \<Longrightarrow> len p = len q"
  shows "canonical_codec (sizedBytes len) needs"
proof (rule canonical_codecI)
  fix st v p st1
  assume "preencode (sizedBytes len) st v p = Inr st1"
  then obtain n where n: "len p = Inr n" "preencode (fixedBytes n) st v JUndef = Inr st1"
    by (auto simp: sizedBytes_def rbind_Inr_iff)
  from canonical_codec.preencode_total [OF canonical_fixedBytes n(2)] n(1)
  show "\<exists>bs. encodes (sizedBytes len) v p bs" by (auto simp: encodes_def sizedBytes_def)
next
  fix st p v st1
  assume st: "room st 0" and "decode (sizedBytes len) st p = Inr (v, st1)"
  then obtain n where n: "len p = Inr n" "decode (fixedBytes n) st JUndef = Inr (v, st1)"
    by (auto simp: sizedBytes_def rbind_Inr_iff)
  from canonical_codec.decode_canonical [OF canonical_fixedBytes st n(2)] obtain bs where "reads st bs"
      "st1 = advance st (length bs)" "encodes (fixedBytes n) v JUndef bs" "decodes (fixedBytes n) v JUndef bs"
    by (auto simp: agree_def)
  moreover from this n(1) have "encodes (sizedBytes len) v q bs \<and> decodes (sizedBytes len) v q bs"
    if "agree needs p q" for q
    using len [OF that] by (auto simp: encodes_def decodes_def sizedBytes_def)
  ultimately show "\<exists>bs. reads st bs \<and> st1 = advance st (length bs) \<and>
      (\<forall>q. agree needs p q \<longrightarrow> encodes (sizedBytes len) v q bs \<and> decodes (sizedBytes len) v q bs)"
    by blast
qed

definition chunk_lengths :: "jsval \<Rightarrow> (nat \<times> nat) res" where
  "chunk_lengths p = streamChunkLengths (getf p ''wireClass'') (getf p ''contentLength'')"

definition chunk_struct :: codec where
  "chunk_struct = struct ''BlindStreamChunkPlainV1'' [
     (''version'', version1),
     (''wireClass'', wireClass),
     (''flags'', u8),
     (''contentLength'', u32be),
     (''content'', sizedBytes (\<lambda>p. rbind (chunk_lengths p) (\<lambda>_. Inr (nat (numf p ''contentLength''))))),
     (''randomPadding'', sizedBytes (\<lambda>p. rbind (chunk_lengths p) (\<lambda>(_, pad). Inr pad)))]
     (\<lambda>v. rbind (validateStreamChunkPlain v) (\<lambda>_. Inr ()))"

lemma canonical_chunk_struct: "canonical_codec chunk_struct {}"
proof -
  have sized: "canonical_codec (sizedBytes (\<lambda>p. rbind (chunk_lengths p) (\<lambda>_. Inr (nat (numf p ''contentLength'')))))
      {''wireClass'', ''contentLength''}"
    "canonical_codec (sizedBytes (\<lambda>p. rbind (chunk_lengths p) (\<lambda>(_, pad). Inr pad)))
      {''wireClass'', ''contentLength''}"
    by (rule canonical_sizedBytes; simp add: agree_def chunk_lengths_def)+
  show ?thesis unfolding chunk_struct_def by (rule lawful_intros sized | simp)+
qed

text \<open>A codec with the same decoder that writes what the other writes is canonical as well.\<close>

lemma canonical_same_decode:
  assumes c: "canonical_codec c {}"
    and dec: "\<And>st p. decode c' st p = decode c st p"
    and pre: "\<And>st v p st1. preencode c' st v p = Inr st1 \<Longrightarrow> \<exists>st2. preencode c st v p = Inr st2"
    and enc: "\<And>v p bs. encodes c v p bs \<Longrightarrow> encodes c' v p bs"
  shows "canonical_codec c' {}"
proof (rule canonical_codecI)
  fix st v p st1
  assume "preencode c' st v p = Inr st1"
  then show "\<exists>bs. encodes c' v p bs" using pre enc canonical_codec.preencode_total [OF c] by blast
next
  fix st p v st1
  assume "room st 0" "decode c' st p = Inr (v, st1)"
  then show "\<exists>bs. reads st bs \<and> st1 = advance st (length bs) \<and>
      (\<forall>q. agree {} p q \<longrightarrow> encodes c' v q bs \<and> decodes c' v q bs)"
    using canonical_codec.decode_canonical [OF c, of st p v st1] enc by (simp add: dec decodes_def) blast
qed

lemma decode_ignores_parent:
  "decode version1 st p = decode version1 st JUndef" "decode wireClass st p = decode wireClass st JUndef"
  "decode u8 st p = decode u8 st JUndef" "decode u32be st p = decode u32be st JUndef"
  "preencode version1 st v p = preencode version1 st v JUndef"
  "preencode wireClass st v p = preencode wireClass st v JUndef"
  "preencode u8 st v p = preencode u8 st v JUndef" "preencode u32be st v p = preencode u32be st v JUndef"
  "encode version1 st v p = encode version1 st v JUndef"
  "encode wireClass st v p = encode wireClass st v JUndef"
  "encode u8 st v p = encode u8 st v JUndef" "encode u32be st v p = encode u32be st v JUndef"
  by (simp_all add: version1_def constantOf_def wireClass_def ranged_def u8_def u32be_def fixedUnsigned_def)

lemma validateStreamChunkPlain_Inr:
  assumes "validateStreamChunkPlain v = Inr (plain, pad)"
  shows "chunk_lengths v = Inr (plain, pad)" "pad = plain - 7 - nat (numf v ''contentLength'')" "is_object v"
  using assms by (auto simp: validateStreamChunkPlain_def chunk_lengths_def streamChunkLengths_def Let_def
      rbind_Inr_iff split: option.splits if_splits)

lemmas chunk_simps = sizedBytes_def Let_def contentBytes_def rbind_assoc rbind_case_prod

lemma decode_chunk: "decode blindStreamChunkPlainV1 st p = decode chunk_struct st p"
  unfolding blindStreamChunkPlainV1_def chunk_struct_def struct_def
  apply (simp add: chunk_simps chunk_lengths_def decode_ignores_parent [where p = "JObj x" for x])
  apply (rule rbind_cong, rule refl, clarsimp)+
  done

lemma preencode_chunk:
  "preencode blindStreamChunkPlainV1 st v p = Inr st1 \<longleftrightarrow> preencode chunk_struct st v p = Inr st1"
proof (cases "validateStreamChunkPlain v")
  case (Inl e)
  then show ?thesis
    by (simp add: blindStreamChunkPlainV1_def chunk_struct_def struct_def rbind_Inr_iff)
next
  case (Inr pp)
  obtain plain pad where v: "validateStreamChunkPlain v = Inr (plain, pad)" using Inr by (cases pp) simp
  note facts = validateStreamChunkPlain_Inr [OF v]
  then show ?thesis
    by (simp add: blindStreamChunkPlainV1_def chunk_struct_def struct_def chunk_simps v
        decode_ignores_parent [where p = v] del: diff_diff_left)
qed

lemma encode_chunk:
  assumes "validateStreamChunkPlain v = Inr (plain, pad)"
  shows "encode blindStreamChunkPlainV1 st v p = encode chunk_struct st v p"
  using validateStreamChunkPlain_Inr [OF assms] assms
  by (simp add: blindStreamChunkPlainV1_def chunk_struct_def struct_def chunk_simps
      decode_ignores_parent [where p = v])

interpretation blindStreamChunkPlainV1: canonical_codec blindStreamChunkPlainV1 "{}"
proof (rule canonical_same_decode [OF canonical_chunk_struct decode_chunk])
  fix v p bs
  assume e: "encodes chunk_struct v p bs"
  then have "preencode chunk_struct undefined v p = Inr (grow undefined (length bs))"
    by (simp add: encodes_def)
  then obtain pp where "validateStreamChunkPlain v = Inr pp"
    by (auto simp: chunk_struct_def struct_def rbind_Inr_iff split: if_splits)
  then show "encodes blindStreamChunkPlainV1 v p bs"
    using e by (cases pp) (simp add: encodes_def preencode_chunk encode_chunk)
qed (simp add: preencode_chunk)

lemma fixed_parts_grow:
  "preencode (fixedBytes n) st v p = Inr st1 \<Longrightarrow> st1 = grow st n"
  "preencode (fixedUnsigned n m) st v p = Inr st1 \<Longrightarrow> st1 = grow st n"
  "preencode version1 st v p = Inr st1 \<Longrightarrow> st1 = grow st 1"
  "preencode wireClass st v p = Inr st1 \<Longrightarrow> st1 = grow st 1"
  by (auto simp: fixedBytes_def fixedUnsigned_def version1_def wireClass_def constantOf_def ranged_def u8_def
      raising_def rbind_Inr_iff split: if_splits)

lemma streamChunkLengths_Inr:
  assumes "streamChunkLengths w l = Inr (plain, pad)"
  obtains c i where "w = JNum c" "l = JNum i" "STREAM_WIRE_CLASS c = Some (plain + 16)" "0 \<le> i" "7 + nat i + pad = plain"
  using assms
  by (cases w; cases l) (auto simp: streamChunkLengths_def Let_def split: option.splits if_splits)

end
