(* ===== verification/Forward_Route_Scope.thy ===== *)
theory Forward_Route_Scope
  imports Schema_Stream
begin

text \<open>
  The route-scope hash chain of \<^verbatim>\<open>packages/blind-protocol/forward-route-scope.js\<close>.  Every relay of
  a forward circuit signs the hash of its hop, which covers the hash of the scope before it;
  the genesis hash covers the circuit's root.
\<close>

definition FORWARD_ROUTE_SCOPE_MAX_RELAY_COUNT :: int where "FORWARD_ROUTE_SCOPE_MAX_RELAY_COUNT = 4"
definition FORWARD_ROUTE_SCOPE_GENESIS_DOMAIN :: string where
  "FORWARD_ROUTE_SCOPE_GENESIS_DOMAIN = ''hiverelay.blind.forward-scope-genesis.v1''"
definition FORWARD_ROUTE_SCOPE_HOP_DOMAIN :: string where
  "FORWARD_ROUTE_SCOPE_HOP_DOMAIN = ''hiverelay.blind.forward-scope-hop.v1''"

definition scope_bytes :: "jsval \<Rightarrow> nat \<Rightarrow> bytes res" where
  "scope_bytes v n = rbind (asBuffer v) (\<lambda>bs. if length bs \<noteq> n then Inl BAD_ENCODING else Inr bs)"

definition scope_unsigned :: "jsval \<Rightarrow> nat \<Rightarrow> int \<Rightarrow> bytes res" where
  "scope_unsigned v n maximum =
     (if \<not> isSafeInteger v \<or> as_num v < 0 \<or> as_num v > maximum then Inl BAD_ENCODING
      else Inr (write_be n (as_num v) 0 (replicate n 0)))"

definition scope_u64 :: "jsval \<Rightarrow> bytes res" where
  "scope_u64 v = rbind (asU64 v) (\<lambda>i. Inr (write_be 8 i 0 (replicate 8 0)))"

definition genesisPreimage :: "jsval \<Rightarrow> bytes res" where
  "genesisPreimage v = (if \<not> is_object v then Inl BAD_ENCODING else concat_fields [
     Inr (ascii FORWARD_ROUTE_SCOPE_GENESIS_DOMAIN),
     scope_bytes (getf v ''rootRouteId'') 16,
     scope_bytes (getf v ''rootCircuitNonce'') 32,
     scope_bytes (getf v ''rootRequestCommitment'') 32,
     scope_unsigned (getf v ''maxRelayCount'') 1 FORWARD_ROUTE_SCOPE_MAX_RELAY_COUNT,
     scope_unsigned (getf v ''expiresEpoch'') 4 0xffffffff])"

definition forwardRouteScopeGenesisHash :: "platform \<Rightarrow> jsval \<Rightarrow> bytes res" where
  "forwardRouteScopeGenesisHash E v = rbind (genesisPreimage v) (\<lambda>pre. Inr (blake2b256 E pre))"

definition hopPreimage :: "jsval \<Rightarrow> bytes res" where
  "hopPreimage v = (if \<not> is_object v then Inl BAD_ENCODING else concat_fields [
     Inr (ascii FORWARD_ROUTE_SCOPE_HOP_DOMAIN),
     scope_bytes (getf v ''previousScopeHash'') 32,
     scope_unsigned (getf v ''hopIndex'') 1 (FORWARD_ROUTE_SCOPE_MAX_RELAY_COUNT - 1),
     scope_bytes (getf v ''relayPublicKey'') 32,
     scope_u64 (getf v ''descriptorSequence''),
     scope_bytes (getf v ''descriptorHash'') 32])"

definition forwardRouteScopeHopHash :: "platform \<Rightarrow> jsval \<Rightarrow> bytes res" where
  "forwardRouteScopeHopHash E v = rbind (hopPreimage v) (\<lambda>pre. Inr (blake2b256 E pre))"

definition forwardRouteScopeSignaturePayload :: "jsval \<Rightarrow> bytes res" where
  "forwardRouteScopeSignaturePayload v =
     rbind (scope_bytes v 32) (\<lambda>scopeHash.
     case domainRegistryEntry AUXILIARY_SIGNATURE_DOMAIN_ID_FORWARD_ROUTE_SCOPE of
       None \<Rightarrow> Inl BAD_ENCODING
     | Some domain \<Rightarrow>
       if purpose domain \<noteq> DOMAIN_PURPOSE_AUXILIARY_SIGNATURE \<or>
          recipeId domain \<noteq> DOMAIN_RECIPE_ED25519_DOMAIN_LEN64_PAYLOAD then Inl BAD_ENCODING
       else concat_fields [
         Inr (ascii (exactAsciiBytes domain)),
         scope_u64 (JNum (int (length scopeHash))),
         Inr scopeHash])"

end
