(* ===== verification/Binding.thy ===== *)
theory Binding
  imports Forward_Route_Scope "HOL-Library.Sublist"
begin

text \<open>
  What the hash recipes bind.  All recipes concatenate encoded fields after a domain string, so
  the question is when two concatenations agree: the fields have fixed widths or a length in
  front, and no domain string is a prefix of another.  The lemmas are about the hash inputs and
  assume nothing of the hash function.
\<close>

subsection \<open>Fields of equal width\<close>

definition same_width :: "bytes res \<Rightarrow> bytes res \<Rightarrow> bool" where
  "same_width r s \<longleftrightarrow> (\<forall>a b. r = Inr a \<longrightarrow> s = Inr b \<longrightarrow> length a = length b)"

lemma concat_fields_inj:
  assumes "concat_fields rs = Inr x" "concat_fields ss = Inr x" "list_all2 same_width rs ss"
  shows "rs = ss"
  using assms(3,1,2)
proof (induction rs ss arbitrary: x rule: list_all2_induct)
  case (Cons r rs s ss)
  then obtain a as b bs where "r = Inr a" "concat_fields rs = Inr as" "s = Inr b" "concat_fields ss = Inr bs"
      "a @ as = b @ bs"
    by (auto simp: rbind_Inr_iff)
  with Cons show ?case by (auto simp: same_width_def)
qed simp

lemma length_write_be [simp]: "length (write_be n v off buf) = length buf"
  by (induction n arbitrary: v buf) simp_all

lemma same_width_encoders [simp, intro]:
  "same_width (fixedBytesInput v n) (fixedBytesInput w n)"
  "same_width (nonzeroFixedBytesInput v n) (nonzeroFixedBytesInput w n)"
  "same_width (encodeUnsigned v n m) (encodeUnsigned w n m)"
  "same_width (encodeU8 v) (encodeU8 w)" "same_width (encodeU16 v) (encodeU16 w)"
  "same_width (encodeU32 v) (encodeU32 w)" "same_width (encodeU64 v) (encodeU64 w)"
  "same_width (scope_bytes v n) (scope_bytes w n)" "same_width (scope_unsigned v n m) (scope_unsigned w n m)"
  "same_width (scope_u64 v) (scope_u64 w)"
  by (auto simp: same_width_def fixedBytesInput_def nonzeroFixedBytesInput_def encodeUnsigned_def encodeU8_def
      encodeU16_def encodeU32_def encodeU64_def scope_bytes_def scope_unsigned_def scope_u64_def rbind_Inr_iff
      split: if_splits)

lemma same_width_const [simp, intro]: "length a = length b \<Longrightarrow> same_width (Inr a) (Inr b)"
  by (simp add: same_width_def)

lemma concat_fields_member: "concat_fields rs = Inr x \<Longrightarrow> r \<in> set rs \<Longrightarrow> \<exists>a. r = Inr a"
  by (induction rs arbitrary: x) (auto simp: rbind_Inr_iff)

text \<open>An integer field determines the number it was made from.\<close>

lemma be_bytes_inj: "be_bytes n i = be_bytes n j \<Longrightarrow> 0 \<le> i \<Longrightarrow> i < 256 ^ n \<Longrightarrow> 0 \<le> j \<Longrightarrow> j < 256 ^ n \<Longrightarrow> i = j"
  using be_val_be_bytes by metis

lemma write_be_buffer: "write_be n v 0 (replicate n 0) = be_bytes n v"
  by (simp add: write_be_put)

lemma encodeU64_inj:
  assumes "encodeU64 v = Inr a" "encodeU64 w = Inr a"
  shows "asU64 v = asU64 w"
proof -
  from assms obtain i j where "asU64 v = Inr i" "asU64 w = Inr j" "be_bytes 8 i = be_bytes 8 j"
    by (auto simp: encodeU64_def rbind_Inr_iff write_be_buffer)
  with asU64_Inr [of v i] asU64_Inr [of w j] be_bytes_inj [of 8 i j] show ?thesis
    by (simp add: MAX_U64_def)
qed

lemma encodeUnsigned_inj:
  assumes "encodeUnsigned v n m = Inr a" "encodeUnsigned w n m = Inr a" "m < 256 ^ n"
  shows "v = w"
proof -
  from assms(1,2) obtain i j where "v = JNum i" "w = JNum j" "0 \<le> i" "i \<le> m" "0 \<le> j" "j \<le> m"
      "be_bytes n i = be_bytes n j"
    by (auto simp: encodeUnsigned_def rbind_Inr_iff assertUnsignedNumber_Inr write_be_buffer)
  with assms(3) be_bytes_inj [of n i j] show ?thesis by simp
qed

lemma encode_small_inj:
  "encodeU8 v = Inr a \<Longrightarrow> encodeU8 w = Inr a \<Longrightarrow> v = w"
  "encodeU16 v = Inr a \<Longrightarrow> encodeU16 w = Inr a \<Longrightarrow> v = w"
  "encodeU32 v = Inr a \<Longrightarrow> encodeU32 w = Inr a \<Longrightarrow> v = w"
  unfolding encodeU8_def encodeU16_def encodeU32_def by (erule (1) encodeUnsigned_inj; simp)+

subsection \<open>Domain strings\<close>

lemma byte_of_char_inj: "inj (\<lambda>c :: char. of_nat (of_char c) :: byte)"
proof (rule injI)
  fix c d :: char
  assume "(of_nat (of_char c) :: byte) = of_nat (of_char d)"
  then have "unat (of_nat (of_char c) :: byte) = unat (of_nat (of_char d) :: byte)" by (rule arg_cong)
  then show "c = d" by (simp add: unat_of_nat)
qed

lemma ascii_eq_iff [simp]: "ascii s = ascii t \<longleftrightarrow> s = t"
  by (simp add: ascii_def inj_map_eq_map [OF byte_of_char_inj])

lemma prefix_ascii: "prefix (ascii s) (ascii t) \<Longrightarrow> prefix s t"
proof -
  assume "prefix (ascii s) (ascii t)"
  then have "ascii s = ascii (take (length s) t)"
    by (auto simp: prefix_def ascii_def take_map [symmetric])
  then have "s = take (length s) t" by simp
  then show "prefix s t" by (metis take_is_prefix)
qed

lemma ascii_append_eq: "ascii s @ x = ascii t @ y \<Longrightarrow> prefix s t \<or> prefix t s"
  using prefix_same_cases [of "ascii s" "ascii t @ y" "ascii t"] prefix_ascii by (metis prefixI)

text \<open>No domain of the registry is a prefix of another.\<close>

fun prefix_free :: "string list \<Rightarrow> bool" where
  "prefix_free [] = True"
| "prefix_free (s # ss) = (list_all (\<lambda>t. \<not> prefix s t \<and> \<not> prefix t s) ss \<and> prefix_free ss)"

lemma prefix_freeD:
  "prefix_free ss \<Longrightarrow> i < length ss \<Longrightarrow> j < length ss \<Longrightarrow> prefix (ss ! i) (ss ! j) \<or> prefix (ss ! j) (ss ! i) \<Longrightarrow> i = j"
  by (induction ss arbitrary: i j) (auto simp: nth_Cons list_all_length split: nat.splits)

lemma registry_prefix_free: "prefix_free (map exactAsciiBytes DOMAIN_REGISTRY)"
  by code_simp

lemma registry_separated:
  assumes e: "e \<in> set DOMAIN_REGISTRY" "e' \<in> set DOMAIN_REGISTRY"
    and eq: "ascii (exactAsciiBytes e) @ x = ascii (exactAsciiBytes e') @ y"
  shows "e = e'"
proof -
  from e obtain i j where ij: "i < length DOMAIN_REGISTRY" "DOMAIN_REGISTRY ! i = e"
      "j < length DOMAIN_REGISTRY" "DOMAIN_REGISTRY ! j = e'" by (auto simp: in_set_conv_nth)
  with ascii_append_eq [OF eq] have "i = j"
    using prefix_freeD [OF registry_prefix_free, of i j] by auto
  with ij show ?thesis by simp
qed

lemma domainRegistryEntry_Some: "domainRegistryEntry d = Some e \<Longrightarrow> e \<in> set DOMAIN_REGISTRY \<and> domainId e = d"
  by (auto simp: domainRegistryEntry_def find_Some_iff)

subsection \<open>Request commitments and signature payloads\<close>

lemma requestPreimage_Inr:
  "requestPreimage d fs = Inr x \<longleftrightarrow> (\<exists>e bs. domainRegistryEntry d = Some e \<and> concat_fields fs = Inr bs \<and>
     purpose e = DOMAIN_PURPOSE_REQUEST_COMMITMENT \<and>
     recipeId e = DOMAIN_RECIPE_OPERATION_DEFINED_COMMITMENT_PREIMAGE \<and> x = ascii (exactAsciiBytes e) @ bs)"
  by (auto simp: requestPreimage_def rbind_Inr_iff split: option.splits)

lemma requestPreimage_binds:
  assumes "requestPreimage d fs = Inr x" "requestPreimage d' fs' = Inr x"
  shows "d = d' \<and> (list_all2 same_width fs fs' \<longrightarrow> fs = fs')"
proof -
  from assms obtain e bs e' bs' where e: "domainRegistryEntry d = Some e" "domainRegistryEntry d' = Some e'"
      and bs: "concat_fields fs = Inr bs" "concat_fields fs' = Inr bs'"
      and x: "ascii (exactAsciiBytes e) @ bs = ascii (exactAsciiBytes e') @ bs'"
    by (auto simp: requestPreimage_Inr)
  have "e = e'" using registry_separated [OF _ _ x] e domainRegistryEntry_Some by blast
  then have "d = d'" "bs = bs'" using e x domainRegistryEntry_Some by auto
  with bs concat_fields_inj show ?thesis by blast
qed

lemma signaturePayload_Inr:
  "signaturePayloadForPurpose d v p = Inr x \<Longrightarrow> \<exists>e payload n. domainRegistryEntry d = Some e \<and>
     hBuffer v = Inr payload \<and> encodeU64 (JNum (int (length payload))) = Inr n \<and> length n = 8 \<and>
     purpose e = p \<and> x = ascii (exactAsciiBytes e) @ n @ payload"
  by (auto simp: signaturePayloadForPurpose_def rbind_Inr_iff encodeU64_def split: option.splits if_splits)

end
