(* ===== verification/Schema_Cell.thy ===== *)
theory Schema_Cell
  imports Schema_Common
begin

text \<open>
  The cell family of \<^verbatim>\<open>packages/blind-protocol/schemas.js\<close>: receipts, put, renew, drop, get,
  prove and batch-get, with the tagged codec \<^verbatim>\<open>batchGetEntryV1\<close>.
\<close>

definition validate_blindReceipt :: "jsval \<Rightarrow> unit res" where
  "validate_blindReceipt v =
     (if numf v ''result'' = CELL_RECEIPT_RESULT_DROPPED then reject_if [numf v ''leaseClass'' \<noteq> 0]
      else reject_if [numf v ''leaseClass'' = 0])"

definition blindReceiptV1 :: codec where
  "blindReceiptV1 = struct ''BlindReceiptV1'' [
     (''version'', version1),
     (''protocol'', cellProtocol),
     (''relayBinding'', relayResultBindingV1),
     (''slotCommitment'', bytes32),
     (''cellBlobHash'', bytes32),
     (''allocationCommitment'', bytes32),
     (''requestCommitment'', bytes32),
     (''sizeClass'', cellSizeClass),
     (''allocationEpoch'', u32be),
     (''leaseClass'', optionalLeaseClass),
     (''leaseEpoch'', u32be),
     (''stateRevision'', u64be),
     (''receiptEpoch'', u32be),
     (''requestNonce'', bytes32),
     (''result'', ranged u8 CELL_RECEIPT_RESULT_STORED CELL_RECEIPT_RESULT_DROPPED),
     (''signature'', bytes64)] validate_blindReceipt"

definition validate_putCell :: "platform \<Rightarrow> jsval \<Rightarrow> unit res" where
  "validate_putCell E v = rbind (cellStorageSlot E v) (\<lambda>slot. reject_if [
     slot \<noteq> bytesf v ''storageSlot'',
     blake2b256 E (bytesf v ''cellBlob'') \<noteq> bytesf v ''declaredBlobHash''])"

definition putCellV1 :: "platform \<Rightarrow> codec" where
  "putCellV1 E = struct ''PutCellV1'' [
     (''version'', version1),
     (''storageSlot'', bytes32),
     (''allocationEpoch'', u32be),
     (''sizeClass'', cellSizeClass),
     (''leaseClass'', leaseClass),
     (''clientNonce'', bytes32),
     (''createPublicKey'', bytes32),
     (''renewPublicKey'', bytes32),
     (''dropPublicKey'', bytes32),
     (''declaredBlobHash'', bytes32),
     (''createSignature'', bytes64),
     (''admission'', admissionV1),
     (''cellBlob'', cellBlob)] (validate_putCell E)"

definition renewCellV1 :: codec where
  "renewCellV1 = struct ''RenewCellV1'' [
     (''version'', version1),
     (''storageSlot'', bytes32),
     (''expectedRevision'', u64be),
     (''expectedLeaseEpoch'', u32be),
     (''leaseClass'', leaseClass),
     (''clientNonce'', bytes32),
     (''admission'', admissionV1),
     (''signature'', bytes64)] no_validate"

definition dropCellV1 :: codec where
  "dropCellV1 = struct ''DropCellV1'' [
     (''version'', version1),
     (''storageSlot'', bytes32),
     (''expectedRevision'', u64be),
     (''expectedLeaseEpoch'', u32be),
     (''clientNonce'', bytes32),
     (''signature'', bytes64)] no_validate"

definition proveCellV1 :: codec where
  "proveCellV1 = struct ''ProveCellV1'' [
     (''version'', version1),
     (''storageSlot'', bytes32),
     (''clientNonce'', bytes32),
     (''admission'', optional admissionV1)] no_validate"

definition getCellV1 :: codec where
  "getCellV1 = struct ''GetCellV1'' [
     (''version'', version1),
     (''storageSlot'', bytes32),
     (''clientNonce'', bytes32),
     (''admission'', optional admissionV1)] no_validate"

definition getCellResultV1 :: codec where
  "getCellResultV1 = struct ''GetCellResultV1'' [
     (''version'', version1),
     (''sizeClass'', cellSizeClass),
     (''cellBlob'', cellBlob)] no_validate"

definition validate_proveCellResult :: "platform \<Rightarrow> jsval \<Rightarrow> unit res" where
  "validate_proveCellResult E v = (let receipt = getf v ''receipt'' in reject_if [
     numf receipt ''result'' \<noteq> CELL_RECEIPT_RESULT_SERVED,
     numf receipt ''sizeClass'' \<noteq> numf v ''sizeClass'',
     blake2b256 E (bytesf v ''cellBlob'') \<noteq> bytesf receipt ''cellBlobHash''])"

definition proveCellResultV1 :: "platform \<Rightarrow> codec" where
  "proveCellResultV1 E = struct ''ProveCellResultV1'' [
     (''version'', version1),
     (''receipt'', blindReceiptV1),
     (''sizeClass'', cellSizeClass),
     (''cellBlob'', cellBlob)] (validate_proveCellResult E)"

definition batchGetFoundV1 :: codec where
  "batchGetFoundV1 = struct ''BatchGetEntryV1.found'' [
     (''sizeClass'', cellSizeClass),
     (''cellBlob'', cellBlob)] no_validate"

definition batchGetEntryV1 :: codec where
  "batchGetEntryV1 = \<lparr>
     preencode = (\<lambda>st v p. if \<not> is_object v then Inl BAD_ENCODING else
        rbind (preencode u8 st (getf v ''status'') JUndef) (\<lambda>st.
        if getf v ''status'' = JNum 0 then Inr st
        else if getf v ''status'' \<noteq> JNum 1 then Inl BAD_ENCODING
        else preencode batchGetFoundV1 st v JUndef)),
     encode = (\<lambda>st v p. if \<not> is_object v then Inl BAD_ENCODING else
        rbind (encode u8 st (getf v ''status'') JUndef) (\<lambda>st.
        if getf v ''status'' = JNum 0 then Inr st
        else if getf v ''status'' \<noteq> JNum 1 then Inl BAD_ENCODING
        else encode batchGetFoundV1 st v JUndef)),
     decode = (\<lambda>st p. rbind (decode u8 st JUndef) (\<lambda>(status, st).
        if status = JNum 0 then Inr (JObj [(''status'', status)], st)
        else if status \<noteq> JNum 1 then Inl BAD_ENCODING
        else rbind (decode batchGetFoundV1 st JUndef) (\<lambda>(found, st).
          Inr (JObj ((''status'', status) # (case found of JObj fs \<Rightarrow> fs | _ \<Rightarrow> [])), st)))),
     schemaName = None, schemaFields = None\<rparr>"

definition batchGetSlotsV1 :: codec where "batchGetSlotsV1 = arrayOf bytes32 1 64"
definition batchGetEntriesV1 :: codec where "batchGetEntriesV1 = arrayOf batchGetEntryV1 1 64"

definition batchGetEntriesCommitment :: "platform \<Rightarrow> jsval \<Rightarrow> bytes res" where
  "batchGetEntriesCommitment E entries =
     rbind (encodeCanonical batchGetEntriesV1 entries) (\<lambda>bs. Inr (blake2b256 E bs))"

definition validate_batchGet :: "jsval \<Rightarrow> unit res" where
  "validate_batchGet v = assertDistinctBytes (map as_bytes (arrf v ''slots''))"

definition batchGetV1 :: codec where
  "batchGetV1 = struct ''BatchGetV1'' [
     (''version'', version1),
     (''clientNonce'', bytes32),
     (''slots'', batchGetSlotsV1),
     (''admission'', optional admissionV1)] validate_batchGet"

definition validate_batchGetResult :: "platform \<Rightarrow> jsval \<Rightarrow> unit res" where
  "validate_batchGetResult E v =
     rbind (encodeCanonical batchGetEntriesV1 (getf v ''entries'')) (\<lambda>entriesBytes. reject_if [
       blake2b256 E entriesBytes \<noteq> bytesf v ''entriesCommitment'',
       193 + length entriesBytes > 4 * MiB])"

definition batchGetResultV1 :: "platform \<Rightarrow> codec" where
  "batchGetResultV1 E = struct ''BatchGetResultV1'' [
     (''version'', version1),
     (''relayBinding'', relayResultBindingV1),
     (''requestNonce'', bytes32),
     (''requestCommitment'', bytes32),
     (''entries'', batchGetEntriesV1),
     (''entriesCommitment'', bytes32),
     (''signature'', bytes64)] (validate_batchGetResult E)"

subsection \<open>The tagged entry is a codec in canonical form\<close>

lemma decode_fields_prefix:
  assumes "decode_fields fs st vs = Inr (vs', st1)" "lawful_fields (fst ` set vs) fs" "room st 0"
    and "s \<notin> fst ` set fs" "s \<notin> fst ` set vs"
  shows "decode_fields fs st ((s, x) # vs) = Inr ((s, x) # vs', st1)"
  using assms
proof (induction fs arbitrary: st vs)
  case (Cons f fs)
  obtain n c where f: "f = (n, c)" by force
  with Cons.prems obtain y st2 needs where d: "decode c st (JObj vs) = Inr (y, st2)"
      and rest: "decode_fields fs st2 (obj_set vs n y) = Inr (vs', st1)"
      and n: "n \<notin> fst ` set vs" "needs \<subseteq> fst ` set vs" "canonical_codec c needs"
      and law: "lawful_fields (insert n (fst ` set vs)) fs"
    by (auto simp: rbind_Inr_iff)
  from canonical_codec.decode_canonical [OF n(3) \<open>room st 0\<close> d] obtain bs where bs: "reads st bs"
      "st2 = advance st (length bs)" "\<And>q. agree needs (JObj vs) q \<Longrightarrow> decodes c y q bs" by blast
  have "agree needs (JObj vs) (JObj ((s, x) # vs))"
    using n(2) Cons.prems(5) by (auto simp: agree_def)
  with bs have "decode c st (JObj ((s, x) # vs)) = Inr (y, st2)" by (simp add: decodes_def)
  moreover have "decode_fields fs st2 ((s, x) # (vs @ [(n, y)])) = Inr ((s, x) # vs', st1)"
    using Cons.IH [of st2 "vs @ [(n, y)]"] rest law n(1) bs Cons.prems(4,5) f
    by (simp add: reads_room)
  ultimately show ?case using n(1) Cons.prems(4) f by auto
qed simp

lemma lawful_batchGetFound:
  "lawful_fields {} [(''sizeClass'', cellSizeClass), (''cellBlob'', cellBlob)]"
  by (rule lawful_intros | simp)+

lemma canonical_batchGetFound: "canonical_codec batchGetFoundV1 {}"
  unfolding batchGetFoundV1_def by (rule canonical_struct [OF lawful_batchGetFound])

lemma encodes_entry_missing:
  "is_object v \<Longrightarrow> getf v ''status'' = JNum 0 \<Longrightarrow> encodes batchGetEntryV1 v p [0]"
  using encodesD [OF u8_tag(1), of _ JUndef] by (simp add: encodes_def batchGetEntryV1_def)

lemma encodes_entry_found:
  assumes "is_object v" "getf v ''status'' = JNum 1" and e: "encodes batchGetFoundV1 v JUndef bs"
  shows "encodes batchGetEntryV1 v p (1 # bs)"
proof -
  have "encode batchGetEntryV1 st v p = Inr (copy_in st (1 # bs))" if r: "room st (Suc (length bs))" for st
    using assms(1,2) that encodesD(2) [OF u8_tag(2), of st JUndef] encodesD(2) [OF e, of "copy_in st [1]"]
      copy_in_copy_in [of st "[1]" bs] room_copy_in [of st "[1]" "length bs"] room_less(1) [of st 1 "length bs"]
    by (simp add: batchGetEntryV1_def)
  then show ?thesis using assms(1,2) encodesD(1) [OF u8_tag(2), of _ JUndef] encodesD(1) [OF e]
    by (simp add: encodes_def batchGetEntryV1_def)
qed

lemma decodes_entry_found:
  assumes "decodes batchGetFoundV1 (JObj fs) JUndef bs"
  shows "decodes batchGetEntryV1 (JObj ((''status'', JNum 1) # fs)) p (1 # bs)"
  unfolding decodes_def
proof (intro allI impI)
  fix st
  assume "reads st (1 # bs)"
  then have r: "reads st [1]" "reads (advance st 1) bs" using reads_tag [of st 1 bs] by auto
  from decodesD [OF u8_tag(4) r(1)] decodesD [OF assms r(2)]
  show "decode batchGetEntryV1 st p
      = Inr (JObj ((''status'', JNum 1) # fs), advance st (length (1 # bs)))"
    by (simp add: batchGetEntryV1_def)
qed

lemma decode_found_with_status:
  assumes st: "room st 0" and d: "decode batchGetFoundV1 st JUndef = Inr (v, st1)"
  obtains fs bs where "v = JObj fs" "reads st bs" "st1 = advance st (length bs)"
    "encodes batchGetFoundV1 (JObj ((''status'', JNum 1) # fs)) JUndef bs"
    "decodes batchGetFoundV1 (JObj fs) JUndef bs"
proof -
  let ?fs = "[(''sizeClass'', cellSizeClass), (''cellBlob'', cellBlob)]"
  let ?s = "(''status'', JNum 1)"
  from d obtain fs where fs: "decode_fields ?fs st [] = Inr (fs, st1)" "v = JObj fs"
    by (auto simp: batchGetFoundV1_def struct_def rbind_Inr_iff simp del: decode_fields.simps)
  from canonical_codec.decode_canonical [OF canonical_batchGetFound st d] obtain bs where bs: "reads st bs"
      "st1 = advance st (length bs)" "decodes batchGetFoundV1 v JUndef bs"
    by (auto simp: agree_def)
  have "decode_fields ?fs st [?s] = Inr (?s # fs, st1)"
    using decode_fields_prefix [OF fs(1) _ st] lawful_batchGetFound by simp
  from decode_fields_Inr [OF this _ st] obtain bs' where bs': "st1 = advance st (length bs')" "reads st bs'"
      "encodes_fields ?fs (JObj (?s # fs)) bs'"
    using lawful_intros by (auto intro: canonical_shared_fields canonical_class_fields)
  have "st_start st + length bs' = st_start st + length bs" using bs(2) bs'(1) advance_sel(1) by metis
  then have "length bs' = length bs" by simp
  then have "bs' = bs" using bs(1) bs'(2) by (simp add: reads_def)
  with bs'(3) have "encodes batchGetFoundV1 (JObj (?s # fs)) JUndef bs"
    by (simp add: batchGetFoundV1_def encodes_def encodes_fields_def struct_def no_validate_def
        del: encode_fields.simps preencode_fields.simps)
  with fs bs show thesis by (intro that) auto
qed

lemma canonical_batchGetEntry [lawful_intros]: "canonical_codec batchGetEntryV1 {}"
proof (rule canonical_codecI)
  fix st v p st1
  assume pre: "preencode batchGetEntryV1 st v p = Inr st1"
  then have obj: "is_object v" by (auto simp: batchGetEntryV1_def split: if_splits)
  show "\<exists>bs. encodes batchGetEntryV1 v p bs"
  proof (cases "getf v ''status'' = JNum 0")
    case True
    with obj encodes_entry_missing show ?thesis by blast
  next
    case False
    with pre obtain st2 where "getf v ''status'' = JNum 1" "preencode batchGetFoundV1 st2 v JUndef = Inr st1"
      by (auto simp: batchGetEntryV1_def rbind_Inr_iff split: if_splits)
    with obj encodes_entry_found canonical_codec.preencode_total [OF canonical_batchGetFound]
    show ?thesis by blast
  qed
next
  fix st p v st1
  assume st: "room st 0" and d: "decode batchGetEntryV1 st p = Inr (v, st1)"
  then obtain t st2 where t: "decode u8 st JUndef = Inr (t, st2)"
    by (auto simp: batchGetEntryV1_def rbind_Inr_iff)
  from decode_u8_Inr [OF st t] obtain b where b: "t = JNum (uint b)" "reads st [b]" "st2 = advance st 1" .
  show "\<exists>bs. reads st bs \<and> st1 = advance st (length bs) \<and>
      (\<forall>q. agree {} p q \<longrightarrow> encodes batchGetEntryV1 v q bs \<and> decodes batchGetEntryV1 v q bs)"
  proof (cases "uint b = 0")
    case True
    then have "b = 0" by (simp add: word_uint_eq_iff)
    moreover from True b d t have v: "v = JObj [(''status'', JNum 0)]" "st1 = advance st 1"
      by (simp_all add: batchGetEntryV1_def)
    moreover have "decodes batchGetEntryV1 v q [0]" for q
      using v(1) decodesD [OF u8_tag(3), of _ JUndef] by (simp add: decodes_def batchGetEntryV1_def)
    ultimately show ?thesis using b by (intro exI [of _ "[0]"]) (simp add: encodes_entry_missing)
  next
    case False
    with b d t obtain found where b1: "uint b = 1" and f: "decode batchGetFoundV1 st2 JUndef = Inr (found, st1)"
        and v: "v = JObj ((''status'', JNum 1) # (case found of JObj fs \<Rightarrow> fs | _ \<Rightarrow> []))"
      by (auto simp: batchGetEntryV1_def rbind_Inr_iff split: if_splits)
    then have "b = 1" by (simp add: word_uint_eq_iff)
    have "room st2 0" using b reads_advance_room by fastforce
    from decode_found_with_status [OF this f] obtain fs bs where "found = JObj fs" "reads st2 bs"
        "st1 = advance st2 (length bs)" "encodes batchGetFoundV1 (JObj ((''status'', JNum 1) # fs)) JUndef bs"
        "decodes batchGetFoundV1 (JObj fs) JUndef bs" .
    with b v \<open>b = 1\<close> show ?thesis
      by (intro exI [of _ "1 # bs"])
        (simp add: encodes_entry_found decodes_entry_found reads_tag [of st 1 bs])
  qed
qed

subsection \<open>The schemas keep the codec contract\<close>

interpretation blindReceiptV1: canonical_codec blindReceiptV1 "{}"
  unfolding blindReceiptV1_def by (rule lawful_intros | simp)+

lemmas blindReceipt_canonical [lawful_intros] = blindReceiptV1.canonical_codec_axioms

interpretation putCellV1: canonical_codec "putCellV1 E" "{}"
  unfolding putCellV1_def by (rule lawful_intros | simp)+

interpretation renewCellV1: canonical_codec renewCellV1 "{}"
  unfolding renewCellV1_def by (rule lawful_intros | simp)+

interpretation dropCellV1: canonical_codec dropCellV1 "{}"
  unfolding dropCellV1_def by (rule lawful_intros | simp)+

interpretation proveCellV1: canonical_codec proveCellV1 "{}"
  unfolding proveCellV1_def by (rule lawful_intros | simp)+

interpretation getCellV1: canonical_codec getCellV1 "{}"
  unfolding getCellV1_def by (rule lawful_intros | simp)+

interpretation getCellResultV1: canonical_codec getCellResultV1 "{}"
  unfolding getCellResultV1_def by (rule lawful_intros | simp)+

interpretation proveCellResultV1: canonical_codec "proveCellResultV1 E" "{}"
  unfolding proveCellResultV1_def by (rule lawful_intros | simp)+

interpretation batchGetSlotsV1: canonical_codec batchGetSlotsV1 "{}"
  unfolding batchGetSlotsV1_def by (rule lawful_intros | simp)+

interpretation batchGetEntriesV1: canonical_codec batchGetEntriesV1 "{}"
  unfolding batchGetEntriesV1_def by (rule lawful_intros | simp)+

lemmas batch_arrays_canonical [lawful_intros] =
  batchGetSlotsV1.canonical_codec_axioms batchGetEntriesV1.canonical_codec_axioms

interpretation batchGetV1: canonical_codec batchGetV1 "{}"
  unfolding batchGetV1_def by (rule lawful_intros | simp)+

interpretation batchGetResultV1: canonical_codec "batchGetResultV1 E" "{}"
  unfolding batchGetResultV1_def by (rule lawful_intros | simp)+

end
