(* ===== verification/Schema_Inbox.thy ===== *)
theory Schema_Inbox
  imports Schema_Common
begin

text \<open>
  The inbox family of \<^verbatim>\<open>packages/blind-protocol/schemas.js\<close>: create, manage, append, read,
  watch, and the signed receipts and results.
\<close>

definition validate_inboxCreate :: "platform \<Rightarrow> jsval \<Rightarrow> unit res" where
  "validate_inboxCreate E v = rbind (inboxPhysicalTopic E v) (\<lambda>topic. reject_if [
     topic \<noteq> bytesf v ''physicalTopic'',
     numf v ''frameClassBits'' = 0 \<or> js_and (numf v ''frameClassBits'') (js_not 0x07) \<noteq> 0,
     (numf v ''appendAuthMode'' = INBOX_APPEND_AUTH_MODE_SIGNATURE_REQUIRED) \<noteq> (\<not> absent v ''appendPublicKey'')])"

definition inboxCreateV1 :: "platform \<Rightarrow> codec" where
  "inboxCreateV1 E = struct ''InboxCreateV1'' [
     (''version'', version1),
     (''allocationEpoch'', u32be),
     (''physicalTopic'', bytes32),
     (''frameClassBits'', u8),
     (''appendAuthMode'', ranged u8 0 1),
     (''createPublicKey'', bytes32),
     (''appendPublicKey'', optional bytes32),
     (''renewPublicKey'', bytes32),
     (''closePublicKey'', bytes32),
     (''retentionClass'', leaseClass),
     (''leaseClass'', leaseClass),
     (''clientNonce'', bytes32),
     (''createSignature'', bytes64),
     (''admission'', admissionV1)] (validate_inboxCreate E)"

definition validate_inboxManage :: "jsval \<Rightarrow> unit res" where
  "validate_inboxManage v =
     (if numf v ''operation'' = INBOX_MANAGE_OPERATION_RENEW
      then reject_if [numf v ''leaseClass'' = 0 \<or> absent v ''admission'']
      else reject_if [numf v ''leaseClass'' \<noteq> 0 \<or> \<not> absent v ''admission''])"

definition inboxManageV1 :: codec where
  "inboxManageV1 = struct ''InboxManageV1'' [
     (''version'', version1),
     (''operation'', ranged u8 1 2),
     (''physicalTopic'', bytes32),
     (''expectedRevision'', u64be),
     (''expectedLeaseEpoch'', u32be),
     (''leaseClass'', optionalLeaseClass),
     (''clientNonce'', bytes32),
     (''signature'', bytes64),
     (''admission'', optional admissionV1)] validate_inboxManage"

definition validate_inboxAppend :: "platform \<Rightarrow> jsval \<Rightarrow> unit res" where
  "validate_inboxAppend E v = reject_if [blake2b256 E (bytesf v ''frame'') \<noteq> bytesf v ''frameHash'']"

definition inboxAppendV1 :: "platform \<Rightarrow> codec" where
  "inboxAppendV1 E = struct ''InboxAppendV1'' [
     (''version'', version1),
     (''physicalTopic'', bytes32),
     (''frameClass'', inboxFrameClass),
     (''frameHash'', bytes32),
     (''clientNonce'', bytes32),
     (''appendSignature'', optional bytes64),
     (''admission'', admissionV1),
     (''frame'', inboxFrame)] (validate_inboxAppend E)"

definition inboxReadV1 :: codec where
  "inboxReadV1 = struct ''InboxReadV1'' [
     (''version'', version1),
     (''physicalTopic'', bytes32),
     (''cursor'', boundedBytes 0 128),
     (''limit'', ranged u16be 1 64),
     (''clientNonce'', bytes32),
     (''admission'', optional admissionV1)] no_validate"

definition inboxWatchV1 :: codec where
  "inboxWatchV1 = struct ''InboxWatchV1'' [
     (''version'', version1),
     (''physicalTopic'', bytes32),
     (''afterRevision'', u64be),
     (''limit'', ranged u16be 1 64),
     (''maxWaitMillis'', ranged u16be 1 30000),
     (''clientNonce'', bytes32),
     (''admission'', admissionV1)] no_validate"

definition validate_inboxReceipt :: "jsval \<Rightarrow> unit res" where
  "validate_inboxReceipt v =
     (if numf v ''result'' = INBOX_RECEIPT_RESULT_CLOSED then reject_if [numf v ''leaseClass'' \<noteq> 0]
      else reject_if [numf v ''leaseClass'' = 0])"

definition inboxReceiptV1 :: codec where
  "inboxReceiptV1 = struct ''InboxReceiptV1'' [
     (''version'', version1),
     (''relayBinding'', relayResultBindingV1),
     (''topicCommitment'', bytes32),
     (''stateRevision'', u64be),
     (''leaseClass'', optionalLeaseClass),
     (''leaseEpoch'', u32be),
     (''requestNonce'', bytes32),
     (''requestCommitment'', bytes32),
     (''result'', ranged u8 1 3),
     (''signature'', bytes64)] validate_inboxReceipt"

definition validate_inboxAppendAck :: "jsval \<Rightarrow> unit res" where
  "validate_inboxAppendAck v = reject_if [numf v ''expiresAtEpoch'' \<le> numf v ''storedAtEpoch'']"

definition inboxAppendAckV1 :: codec where
  "inboxAppendAckV1 = struct ''InboxAppendAckV1'' [
     (''version'', version1),
     (''relayBinding'', relayResultBindingV1),
     (''topicCommitment'', bytes32),
     (''frameHash'', bytes32),
     (''appendRevision'', u64be),
     (''storedAtEpoch'', u32be),
     (''expiresAtEpoch'', u32be),
     (''requestNonce'', bytes32),
     (''requestCommitment'', bytes32),
     (''result'', constantOf u8 (JNum INBOX_APPEND_RESULT_STORED)),
     (''signature'', bytes64)] validate_inboxAppendAck"

definition validate_inboxReadEntry :: "platform \<Rightarrow> jsval \<Rightarrow> unit res" where
  "validate_inboxReadEntry E v = reject_if [blake2b256 E (bytesf v ''frame'') \<noteq> bytesf v ''frameHash'']"

definition inboxReadEntryV1 :: "platform \<Rightarrow> codec" where
  "inboxReadEntryV1 E = struct ''InboxReadResultV1.entry'' [
     (''appendRevision'', u64be),
     (''frameHash'', bytes32),
     (''frameClass'', inboxFrameClass),
     (''frame'', inboxFrame)] (validate_inboxReadEntry E)"

definition inboxReadEntriesV1 :: "platform \<Rightarrow> codec" where
  "inboxReadEntriesV1 E = arrayOf (inboxReadEntryV1 E) 0 64"

definition inboxNextCursorV1 :: codec where
  "inboxNextCursorV1 = optional (boundedBytes 0 128)"

definition inboxReadEntriesCommitment :: "platform \<Rightarrow> jsval \<Rightarrow> bytes res" where
  "inboxReadEntriesCommitment E entries =
     rbind (encodeCanonical (inboxReadEntriesV1 E) entries) (\<lambda>bs. Inr (blake2b256 E bs))"

fun check_revisions :: "jsval list \<Rightarrow> int \<Rightarrow> int \<Rightarrow> unit res" where
  "check_revisions [] previous snapshot = Inr ()"
| "check_revisions (entry # entries) previous snapshot = (let revision = bigf entry ''appendRevision'' in
     rbind (reject_if [revision \<le> previous, revision > snapshot]) (\<lambda>_.
     check_revisions entries revision snapshot))"

definition validate_inboxReadResult :: "platform \<Rightarrow> jsval \<Rightarrow> unit res" where
  "validate_inboxReadResult E v =
     rbind (check_revisions (arrf v ''entries'') (-1) (bigf v ''snapshotRevision'')) (\<lambda>_.
     rbind (encodeCanonical (inboxReadEntriesV1 E) (getf v ''entries'')) (\<lambda>entriesBytes.
     rbind (reject_if [blake2b256 E entriesBytes \<noteq> bytesf v ''entriesCommitment'']) (\<lambda>_.
     rbind (encodeCanonical inboxNextCursorV1 (getf v ''nextCursor'')) (\<lambda>cursorBytes.
     reject_if [105 + length entriesBytes + 32 + length cursorBytes + 64 > 4 * MiB]))))"

definition inboxReadResultV1 :: "platform \<Rightarrow> codec" where
  "inboxReadResultV1 E = struct ''InboxReadResultV1'' [
     (''version'', version1),
     (''relayBinding'', relayResultBindingV1),
     (''requestNonce'', bytes32),
     (''requestCommitment'', bytes32),
     (''snapshotRevision'', u64be),
     (''entries'', inboxReadEntriesV1 E),
     (''entriesCommitment'', bytes32),
     (''nextCursor'', inboxNextCursorV1),
     (''signature'', bytes64)] (validate_inboxReadResult E)"

subsection \<open>The schemas keep the codec contract\<close>

interpretation inboxCreateV1: canonical_codec "inboxCreateV1 E" "{}"
  unfolding inboxCreateV1_def by (rule lawful_intros | simp)+

interpretation inboxManageV1: canonical_codec inboxManageV1 "{}"
  unfolding inboxManageV1_def by (rule lawful_intros | simp)+

interpretation inboxAppendV1: canonical_codec "inboxAppendV1 E" "{}"
  unfolding inboxAppendV1_def by (rule lawful_intros | simp)+

interpretation inboxReadV1: canonical_codec inboxReadV1 "{}"
  unfolding inboxReadV1_def by (rule lawful_intros | simp)+

interpretation inboxWatchV1: canonical_codec inboxWatchV1 "{}"
  unfolding inboxWatchV1_def by (rule lawful_intros | simp)+

interpretation inboxReceiptV1: canonical_codec inboxReceiptV1 "{}"
  unfolding inboxReceiptV1_def by (rule lawful_intros | simp)+

interpretation inboxAppendAckV1: canonical_codec inboxAppendAckV1 "{}"
  unfolding inboxAppendAckV1_def by (rule lawful_intros | simp)+

interpretation inboxReadEntryV1: canonical_codec "inboxReadEntryV1 E" "{}"
  unfolding inboxReadEntryV1_def by (rule lawful_intros | simp)+

lemmas inboxReadEntry_canonical [lawful_intros] = inboxReadEntryV1.canonical_codec_axioms

interpretation inboxReadEntriesV1: canonical_codec "inboxReadEntriesV1 E" "{}"
  unfolding inboxReadEntriesV1_def by (rule lawful_intros | simp)+

interpretation inboxNextCursorV1: canonical_codec inboxNextCursorV1 "{}"
  unfolding inboxNextCursorV1_def by (rule lawful_intros | simp)+

lemmas inboxReadParts_canonical [lawful_intros] =
  inboxReadEntriesV1.canonical_codec_axioms inboxNextCursorV1.canonical_codec_axioms

interpretation inboxReadResultV1: canonical_codec "inboxReadResultV1 E" "{}"
  unfolding inboxReadResultV1_def by (rule lawful_intros | simp)+

lemma check_revisions_Inr:
  "check_revisions es previous snapshot = Inr () \<longleftrightarrow>
     sorted_wrt (<) (map (\<lambda>e. bigf e ''appendRevision'') es) \<and>
     (\<forall>e\<in>set es. previous < bigf e ''appendRevision'' \<and> bigf e ''appendRevision'' \<le> snapshot)"
  by (induction es previous snapshot rule: check_revisions.induct)
    ((auto simp: Let_def rbind_Inr_iff not_le not_less)[1], fastforce simp: Let_def rbind_Inr_iff not_le not_less)

end
