(* ===== verification/Schema_Describe.thy ===== *)
theory Schema_Describe
  imports Schema_Common
begin

text \<open>
  The describe family of \<^verbatim>\<open>packages/blind-protocol/schemas.js\<close>: errors, operation profiles,
  endpoints, durability and build profiles, admission parameters, identity transitions, health
  challenges, the external journal topology and the service descriptor.
\<close>

subsection \<open>Errors and requests\<close>

definition validate_blindError :: "jsval \<Rightarrow> unit res" where
  "validate_blindError v = (case errorProfileEntry ERROR_PROFILE_ID_CANONICAL_V1 (numf v ''code'') of
       None \<Rightarrow> Inl BAD_ENCODING
     | Some profile \<Rightarrow> reject_if [er_retryable profile \<noteq> numf v ''retryable'' \<or>
         (\<not> absent v ''retryAfterEpoch'') \<noteq>
           (er_retryAfterMode profile = ERROR_RETRY_AFTER_MODE_MUST_BE_PRESENT)])"

definition blindErrorV1 :: codec where
  "blindErrorV1 = struct ''BlindErrorV1'' [
     (''version'', version1),
     (''code'', ranged u8 1 20),
     (''retryable'', ranged u8 0 1),
     (''retryAfterEpoch'', optional u32be)] validate_blindError"

definition blindOhttpTransportErrorV1 :: codec where
  "blindOhttpTransportErrorV1 = struct ''BlindOhttpTransportErrorV1'' [
     (''version'', version1),
     (''code'', ranged u8 1 3)] no_validate"

definition blindDescribeGetV1 :: codec where
  "blindDescribeGetV1 = struct ''BlindDescribeGetV1'' [
     (''version'', version1),
     (''descriptorHash'', optional bytes32),
     (''clientNonce'', bytes32)] no_validate"

definition blindAdmissionParametersRequestV1 :: codec where
  "blindAdmissionParametersRequestV1 = struct ''BlindAdmissionParametersRequestV1'' [
     (''version'', version1),
     (''profileId'', profileId),
     (''schemeId'', schemeId),
     (''clientNonce'', bytes32)] no_validate"

subsection \<open>Operation profiles\<close>

definition op_profile_of :: "jsval \<Rightarrow> op_profile" where
  "op_profile_of v = op_row (map (\<lambda>n. numf v n) [''familyId'', ''operationId'', ''requestSchemaId'',
     ''resultSchemaId'', ''allowedRequestKindBits'', ''allowedResultKindBits'', ''streamTransition'',
     ''maxRequestBodyBytes'', ''maxResultBodyBytes'', ''admissionMode'', ''costClassRuleId'',
     ''requestCommitmentDomainId'', ''resultSignatureDomainId'', ''errorProfileId'', ''transportSupportBits''])"

definition domain_is :: "int \<Rightarrow> int \<Rightarrow> int \<Rightarrow> bool" where
  "domain_is d p r = (case domainRegistryEntry d of None \<Rightarrow> False
     | Some entry \<Rightarrow> purpose entry = p \<and> recipeId entry = r)"

definition validate_operationProfile :: "jsval \<Rightarrow> unit res" where
  "validate_operationProfile v = (
     let requestKind = js_shl 1 (FRAME_KIND_REQUEST - 1);
         unaryResultKinds = js_or (js_shl 1 (FRAME_KIND_RESPONSE - 1)) (js_shl 1 (FRAME_KIND_ERROR - 1));
         streamKind = js_shl 1 (FRAME_KIND_STREAM - 1);
         errorKind = js_shl 1 (FRAME_KIND_ERROR - 1);
         nativeOnly = js_or TRANSPORT_SUPPORT_DIRECT_NATIVE TRANSPORT_SUPPORT_TOR_NATIVE;
         forwardNative = js_or nativeOnly TRANSPORT_SUPPORT_MASQUE_NATIVE;
         n = (\<lambda>f. numf v f) in
     checks [
       reject_if [
         n ''requestCommitmentDomainId'' \<noteq> 0 \<and> \<not> domain_is (n ''requestCommitmentDomainId'')
           DOMAIN_PURPOSE_REQUEST_COMMITMENT DOMAIN_RECIPE_OPERATION_DEFINED_COMMITMENT_PREIMAGE,
         n ''resultSignatureDomainId'' \<noteq> 0 \<and> \<not> domain_is (n ''resultSignatureDomainId'')
           DOMAIN_PURPOSE_RESULT_SIGNATURE DOMAIN_RECIPE_ED25519_DOMAIN_LEN64_PAYLOAD,
         (n ''admissionMode'' = 0) \<noteq> (n ''costClassRuleId'' = 0),
         n ''costClassRuleId'' \<noteq> 0 \<and> admissionCostRule (n ''costClassRuleId'') = None,
         n ''admissionMode'' = 2 \<and> n ''requestCommitmentDomainId'' = 0,
         n ''resultSchemaId'' = 0 \<and> n ''streamTransition'' \<noteq> 3],
       (if n ''streamTransition'' = STREAM_TRANSITION_FORWARD_ACTIVE then reject_if [
          n ''familyId'' \<noteq> FAMILY_FORWARD \<or> n ''resultSchemaId'' \<noteq> 0 \<or>
          n ''allowedRequestKindBits'' \<noteq> streamKind \<or>
          (n ''allowedResultKindBits'' \<noteq> streamKind \<and>
           n ''allowedResultKindBits'' \<noteq> js_or streamKind errorKind) \<or>
          n ''admissionMode'' \<noteq> 0 \<or> n ''costClassRuleId'' \<noteq> 0 \<or>
          n ''requestCommitmentDomainId'' \<noteq> 0 \<or> n ''resultSignatureDomainId'' \<noteq> 0]
        else reject_if [
          n ''allowedRequestKindBits'' \<noteq> requestKind \<or> n ''allowedResultKindBits'' \<noteq> unaryResultKinds \<or>
          n ''resultSchemaId'' = 0]),
       reject_if [
         n ''streamTransition'' = STREAM_TRANSITION_CORE_CHILD \<and>
           (n ''familyId'' \<noteq> FAMILY_CORE \<or> n ''transportSupportBits'' \<noteq> nativeOnly) \<or>
         (n ''streamTransition'' = STREAM_TRANSITION_FORWARD_OPEN \<or>
          n ''streamTransition'' = STREAM_TRANSITION_FORWARD_ACTIVE) \<and>
           (n ''familyId'' \<noteq> FAMILY_FORWARD \<or> n ''transportSupportBits'' \<noteq> forwardNative)],
       (case operationProfile (n ''familyId'') (n ''operationId'') of None \<Rightarrow> Inl BAD_ENCODING
        | Some expected \<Rightarrow> reject_if [op_profile_of v \<noteq> expected])])"

definition operationProfileV1 :: codec where
  "operationProfileV1 = struct ''OperationProfileV1'' [
     (''familyId'', ranged u8 1 5),
     (''operationId'', ranged u8 1 255),
     (''requestSchemaId'', ranged u16be 1 0xffff),
     (''resultSchemaId'', u16be),
     (''allowedRequestKindBits'', ranged u8 1 0x0f),
     (''allowedResultKindBits'', ranged u8 0 0x0f),
     (''streamTransition'', ranged u8 0 3),
     (''maxRequestBodyBytes'', ranged u32be 1 (int (4 * MiB))),
     (''maxResultBodyBytes'', ranged u32be 1 (int (4 * MiB))),
     (''admissionMode'', ranged u8 0 2),
     (''costClassRuleId'', u16be),
     (''requestCommitmentDomainId'', u16be),
     (''resultSignatureDomainId'', u16be),
     (''errorProfileId'', constantOf u8 (JNum 1)),
     (''transportSupportBits'', ranged u16be 1 0x3f)] validate_operationProfile"

subsection \<open>Profiles\<close>

definition protocolProfileArtifactV1 :: codec where
  "protocolProfileArtifactV1 = struct ''ProtocolProfileArtifactV1'' [
     (''version'', version1),
     (''protocolId'', protocolId),
     (''major'', u16be),
     (''minor'', u16be),
     (''featureBits'', u64be),
     (''wireSchemaSetHash'', bytes32),
     (''dependencyManifestHash'', bytes32),
     (''interoperabilityVectorSetHash'', bytes32)] no_validate"

definition transportProfileArtifactV1 :: "platform \<Rightarrow> codec" where
  "transportProfileArtifactV1 E = struct ''TransportProfileArtifactV1'' [
     (''version'', version1),
     (''transportId'', transportId),
     (''profileName'', profileName E),
     (''major'', u16be),
     (''minor'', u16be),
     (''exporterId'', ranged u8 0 1),
     (''controlChannelIdType'', ranged u8 0 1),
     (''handshakeProfileHash'', bytes32),
     (''dependencyManifestHash'', bytes32),
     (''interoperabilityVectorSetHash'', bytes32)] no_validate"

definition protocolProfileV1 :: codec where
  "protocolProfileV1 = struct ''ProtocolProfileV1'' [
     (''protocolId'', protocolId),
     (''major'', u16be),
     (''minor'', u16be),
     (''featureBits'', u64be),
     (''profileHash'', bytes32)] no_validate"

definition validate_transportEndpoint :: "platform \<Rightarrow> jsval \<Rightarrow> unit res" where
  "validate_transportEndpoint E v = (let onion = (numf v ''transportId'' = TRANSPORT_ID_TOR_V3_ONION) in checks [
     reject_if [
       js_and (numf v ''roleBits'') (js_not ENDPOINT_LIMITS_ROLE_BITS_MASK) \<noteq> 0,
       js_and (numf v ''privacyProfileBits'') (js_not ENDPOINT_LIMITS_PRIVACY_PROFILE_BITS_MASK) \<noteq> 0,
       js_and (numf v ''envelopeClassBits'') (js_not ENDPOINT_LIMITS_ENVELOPE_CLASS_BITS_MASK) \<noteq> 0,
       js_and (numf v ''wireClassBits'') (js_not ENDPOINT_LIMITS_WIRE_CLASS_BITS_MASK) \<noteq> 0,
       (numf v ''wireClassBits'' = 0) \<noteq> (numf v ''maxStreams'' = 0)],
     validateCanonicalUrl E (getf v ''canonicalUrl'') onion,
     (case parse_url E (text_of (bytesf v ''canonicalUrl'')) of None \<Rightarrow> Inl TYPE_ERROR
      | Some listenerUrl \<Rightarrow> reject_if [Some (url_pathname listenerUrl) \<noteq> FAMILY_ROUTES FAMILY_DESCRIBE]),
     reject_if [
       absent v ''auxiliaryUrl'' \<noteq> absent v ''auxiliaryHash'',
       onion \<and> \<not> absent v ''auxiliaryUrl''],
     (if absent v ''auxiliaryUrl'' then Inr ()
      else validateCanonicalUrl E (getf v ''auxiliaryUrl'') False)])"

definition transportEndpointV1 :: "platform \<Rightarrow> codec" where
  "transportEndpointV1 E = struct ''TransportEndpointV1'' [
     (''endpointId'', endpointId),
     (''transportId'', transportId),
     (''transportProfileHash'', bytes32),
     (''roleBits'', u16be),
     (''privacyProfileBits'', u16be),
     (''canonicalUrl'', endpointUrl E),
     (''endpointKey'', optional bytes32),
     (''envelopeClassBits'', u16be),
     (''wireClassBits'', u8),
     (''maxStreams'', u16be),
     (''auxiliaryUrl'', optional (endpointUrl E)),
     (''auxiliaryHash'', optional bytes32)] (validate_transportEndpoint E)"

definition validate_durabilityProfile :: "jsval \<Rightarrow> unit res" where
  "validate_durabilityProfile v = (
     let externalFields = [bytesf v ''externalJournalId'', bytesf v ''externalWitnessPublicKey'',
           bytesf v ''externalJournalFailureGroupId'', bytesf v ''externalJournalTopologyHash''];
         restoreSequence = bigf v ''restoreEvidenceCheckpointSequence'';
         restoreFeedZero = zero_bytes v ''restoreEvidenceFeedId'';
         restoreHashZero = zero_bytes v ''restoreEvidenceCheckpointHash'';
         bodyRecoveryClaim = (numf v ''acknowledgedRpoBand'' \<noteq> 0 \<or> numf v ''targetRtoBand'' \<noteq> 0 \<or>
           numf v ''redundancyClass'' \<noteq> 0 \<or> numf v ''restoreDrillAgeBand'' \<noteq> 0) in
     if numf v ''profileId'' = 1 then reject_if [
       list_ex (\<lambda>b. \<not> isAllZero b) externalFields \<or> numf v ''externalJournalReplicationClass'' \<noteq> 0 \<or>
       numf v ''externalCheckpointAgeBand'' \<noteq> 0 \<or> \<not> absent v ''externalJournalTopologyUrl'' \<or>
       \<not> absent v ''restoreEvidenceFeedUrl'' \<or> \<not> restoreFeedZero \<or> restoreSequence \<noteq> 0 \<or>
       \<not> restoreHashZero \<or> numf v ''acknowledgedRpoBand'' \<noteq> 0 \<or> numf v ''targetRtoBand'' \<noteq> 0 \<or>
       numf v ''redundancyClass'' \<noteq> 0 \<or> numf v ''restoreDrillAgeBand'' \<noteq> 0]
     else reject_if [
       list_ex isAllZero externalFields \<or> numf v ''externalJournalReplicationClass'' \<noteq> 1 \<or>
         absent v ''externalJournalTopologyUrl'',
       absent v ''restoreEvidenceFeedUrl'' \<noteq> restoreFeedZero \<or>
         (restoreSequence = 0) \<noteq> restoreHashZero \<or>
         restoreFeedZero \<and> (restoreSequence \<noteq> 0 \<or> \<not> restoreHashZero),
       bodyRecoveryClaim \<and> restoreFeedZero])"

definition durabilityProfileV1 :: "platform \<Rightarrow> codec" where
  "durabilityProfileV1 E = struct ''DurabilityProfileV1'' [
     (''profileId'', ranged u8 1 2),
     (''storeFormatMajor'', u16be),
     (''storeFormatMinor'', u16be),
     (''storeFormatHash'', bytes32),
     (''externalJournalId'', bytes32),
     (''externalWitnessPublicKey'', bytes32),
     (''externalJournalReplicationClass'', ranged u8 0 1),
     (''externalJournalFailureGroupId'', bytes32),
     (''externalCheckpointAgeBand'', ranged u8 0 7),
     (''externalJournalTopologyUrl'', optional (canonicalHttpsUrlBytes E)),
     (''externalJournalTopologyHash'', bytes32),
     (''restoreEvidenceFeedUrl'', optional (canonicalHttpsUrlBytes E)),
     (''restoreEvidenceFeedId'', bytes32),
     (''restoreEvidenceCheckpointSequence'', u64be),
     (''restoreEvidenceCheckpointHash'', bytes32),
     (''acknowledgedRpoBand'', ranged u8 0 3),
     (''targetRtoBand'', ranged u8 0 3),
     (''redundancyClass'', ranged u8 0 2),
     (''restoreDrillAgeBand'', ranged u8 0 7)] validate_durabilityProfile"

definition buildProfileV1 :: "platform \<Rightarrow> codec" where
  "buildProfileV1 E = struct ''BuildProfileV1'' [
     (''specHash'', bytes32),
     (''abiHash'', bytes32),
     (''vectorSetHash'', bytes32),
     (''evidenceFormatHash'', bytes32),
     (''evidenceVectorSetHash'', bytes32),
     (''storeFormatHash'', bytes32),
     (''storeVectorSetHash'', bytes32),
     (''privateIpcFormatHash'', bytes32),
     (''privateIpcVectorSetHash'', bytes32),
     (''buildArtifactHash'', bytes32),
     (''buildArtifactUrl'', canonicalHttpsUrlBytes E),
     (''buildManifestUrl'', canonicalHttpsUrlBytes E),
     (''buildManifestHash'', bytes32),
     (''releaseEvidenceBundleUrl'', canonicalHttpsUrlBytes E),
     (''releaseEvidenceBundleHash'', bytes32),
     (''releaseSupportHorizonHash'', bytes32),
     (''runtimeBoundaryEvidenceUrl'', canonicalHttpsUrlBytes E),
     (''runtimeBoundaryEvidenceHash'', bytes32)] no_validate"

subsection \<open>Admission\<close>

definition conformanceClass :: codec where
  "conformanceClass = ranged u8 ADMISSION_CONFORMANCE_CLASS_OPEN ADMISSION_CONFORMANCE_CLASS_PRIVATE"
definition roleBits :: codec where "roleBits = u16be"
definition operationBits :: codec where "operationBits = u32be"

definition bad_role_bits :: "jsval \<Rightarrow> bool" where
  "bad_role_bits v = (numf v ''roleBits'' = 0 \<or>
     js_and (numf v ''roleBits'') (js_not ENDPOINT_LIMITS_ROLE_BITS_MASK) \<noteq> 0)"

definition validate_admissionProfile :: "jsval \<Rightarrow> unit res" where
  "validate_admissionProfile v = reject_if [bad_role_bits v]"

definition admissionProfileV1 :: "platform \<Rightarrow> codec" where
  "admissionProfileV1 E = struct ''AdmissionProfileV1'' [
     (''profileId'', profileId),
     (''schemeId'', schemeId),
     (''conformanceClass'', conformanceClass),
     (''roleBits'', roleBits),
     (''parameterUrl'', optional (canonicalHttpsUrlBytes E)),
     (''parameterHash'', bytes32)] validate_admissionProfile"

definition validate_admissionResourceCost :: "jsval \<Rightarrow> unit res" where
  "validate_admissionResourceCost v = reject_if [bigf v ''costUnits'' = 0]"

definition admissionResourceCostV1 :: codec where
  "admissionResourceCostV1 = struct ''AdmissionParametersV1.resourceCost'' [
     (''familyId'', ranged u8 1 5),
     (''operationId'', ranged u8 1 255),
     (''resourceClass'', u8),
     (''leaseClass'', optionalLeaseClass),
     (''costUnits'', u64be)] validate_admissionResourceCost"

definition admissionResourceCostsV1 :: codec where
  "admissionResourceCostsV1 = arrayOf admissionResourceCostV1 1
     (nat PUBLIC_PROFILE_LIMITS_MAX_ADMISSION_RESOURCE_COST_ROWS)"

fun compare_fields :: "string list \<Rightarrow> jsval \<Rightarrow> jsval \<Rightarrow> int" where
  "compare_fields [] a b = 0"
| "compare_fields (f # fs) a b = or_else (compareScalar (numf a f) (numf b f)) (compare_fields fs a b)"

definition compareResourceCost :: "jsval \<Rightarrow> jsval \<Rightarrow> int" where
  "compareResourceCost a b = compare_fields [''familyId'', ''operationId'', ''resourceClass'', ''leaseClass''] a b"

definition validate_admissionParameters :: "jsval \<Rightarrow> unit res" where
  "validate_admissionParameters v = checks [
     assertNonzeroBytes (bytesf v ''relayPublicKey''),
     reject_if [bad_role_bits v],
     assertStrictlySorted compareResourceCost (arrf v ''resourceCosts''),
     reject_if [absent v ''issuanceUrl'' \<noteq> absent v ''issuerRelayKey''],
     (if absent v ''issuerRelayKey'' then Inr () else assertNonzeroBytes (bytesf v ''issuerRelayKey'')),
     reject_if [numf v ''validFromEpoch'' \<ge> numf v ''expiresEpoch'']]"

definition admissionParametersBaseV1 :: "platform \<Rightarrow> codec" where
  "admissionParametersBaseV1 E = struct ''AdmissionParametersV1'' [
     (''version'', version1),
     (''relayPublicKey'', bytes32),
     (''profileId'', profileId),
     (''schemeId'', schemeId),
     (''conformanceClass'', conformanceClass),
     (''roleBits'', roleBits),
     (''verifierKey'', boundedBytes 0 4096),
     (''resourceCosts'', admissionResourceCostsV1),
     (''tokenMaxBytes'', ranged u16be 1 PUBLIC_PROFILE_LIMITS_MAX_ADMISSION_TOKEN_BYTES),
     (''issuanceUrl'', optional (canonicalHttpsUrlBytes E)),
     (''issuerRelayKey'', optional bytes32),
     (''validFromEpoch'', u32be),
     (''expiresEpoch'', u32be),
     (''nonce'', bytes32),
     (''signature'', bytes64)] validate_admissionParameters"

definition admissionParametersV1 :: "platform \<Rightarrow> codec" where
  "admissionParametersV1 E = cappedEncoding (admissionParametersBaseV1 E) (16 * KiB) ''AdmissionParametersV1''"

subsection \<open>Identity, discovery, health\<close>

definition validate_relayIdentityTransition :: "jsval \<Rightarrow> unit res" where
  "validate_relayIdentityTransition v = checks [
     assertNonzeroBytes (bytesf v ''oldRelayKey''),
     assertNonzeroBytes (bytesf v ''newRelayKey''),
     reject_if [
       bytesf v ''oldRelayKey'' = bytesf v ''newRelayKey'',
       bigf v ''oldIdentitySequence'' = MAX_U64 \<or>
         bigf v ''newIdentitySequence'' \<noteq> bigf v ''oldIdentitySequence'' + 1]]"

definition relayIdentityTransitionV1 :: codec where
  "relayIdentityTransitionV1 = struct ''RelayIdentityTransitionV1'' [
     (''version'', version1),
     (''oldRelayKey'', bytes32),
     (''newRelayKey'', bytes32),
     (''oldIdentitySequence'', u64be),
     (''newIdentitySequence'', u64be),
     (''validFromEpoch'', u32be),
     (''reasonCode'', ranged u8 1 3),
     (''transitionNonce'', bytes32),
     (''oldSignature'', bytes64),
     (''newSignature'', bytes64)] validate_relayIdentityTransition"

definition validate_blindDhtPointer :: "jsval \<Rightarrow> unit res" where
  "validate_blindDhtPointer v = checks [
     assertNonzeroBytes (bytesf v ''relayPublicKey''),
     reject_if [numf v ''transportBits'' = 0 \<or>
       js_and (numf v ''transportBits'') (js_not PUBLIC_PROFILE_LIMITS_TRANSPORT_BITS_MASK) \<noteq> 0],
     validateEpochWindow v]"

definition blindDhtPointerBaseV1 :: "platform \<Rightarrow> codec" where
  "blindDhtPointerBaseV1 E = struct ''BlindDhtPointerV1'' [
     (''version'', version1),
     (''relayPublicKey'', bytes32),
     (''descriptorSequence'', u64be),
     (''descriptorHash'', bytes32),
     (''descriptorUrl'', canonicalHttpsUrlBytes E),
     (''transportBits'', u16be),
     (''issuedEpoch'', u32be),
     (''expiresEpoch'', u32be),
     (''nonce'', bytes32),
     (''signature'', bytes64)] validate_blindDhtPointer"

definition blindDhtPointerV1 :: "platform \<Rightarrow> codec" where
  "blindDhtPointerV1 E = cappedEncoding (blindDhtPointerBaseV1 E)
     (nat PUBLIC_PROFILE_LIMITS_MAX_DHT_POINTER_BYTES) ''BlindDhtPointerV1''"

definition validate_blindOhttpKeyConfig :: "jsval \<Rightarrow> unit res" where
  "validate_blindOhttpKeyConfig v = checks [
     assertNonzeroBytes (bytesf v ''gatewayRelayKey''),
     reject_if [numf v ''notBeforeEpoch'' \<ge> numf v ''notAfterEpoch'' \<or>
       numf v ''notAfterEpoch'' - numf v ''notBeforeEpoch'' > PUBLIC_PROFILE_LIMITS_MAX_OHTTP_CONFIG_EPOCHS]]"

definition blindOhttpKeyConfigV1 :: codec where
  "blindOhttpKeyConfigV1 = struct ''BlindOhttpKeyConfigV1'' [
     (''version'', version1),
     (''gatewayRelayKey'', bytes32),
     (''gatewayDescriptorSequence'', u64be),
     (''configId'', u8),
     (''kemId'', ranged u16be 1 0xffff),
     (''kdfId'', ranged u16be 1 0xffff),
     (''aeadId'', ranged u16be 1 0xffff),
     (''encodedPublicKey'', boundedBytes 1 256),
     (''notBeforeEpoch'', u32be),
     (''notAfterEpoch'', u32be),
     (''previousConfigHash'', optional bytes32),
     (''signature'', bytes64)] validate_blindOhttpKeyConfig"

definition not_one_hot :: "int \<Rightarrow> bool" where
  "not_one_hot b = (js_and b (b - 1) \<noteq> 0)"

definition validate_blindHealthChallenge :: "jsval \<Rightarrow> unit res" where
  "validate_blindHealthChallenge v = reject_if [
     not_one_hot (numf v ''transportSupportBit''),
     js_and (numf v ''requestedRoleBits'') (js_not ENDPOINT_LIMITS_ROLE_BITS_MASK) \<noteq> 0,
     js_and (numf v ''requestedOperationBits'') (js_not PUBLIC_PROFILE_LIMITS_ENABLED_OPERATION_BITS_MASK) \<noteq> 0,
     numf v ''requestedRoleBits'' = 0 \<or> numf v ''requestedOperationBits'' = 0]"

definition blindHealthChallengeV1 :: codec where
  "blindHealthChallengeV1 = struct ''BlindHealthChallengeV1'' [
     (''version'', version1),
     (''descriptorSequence'', u64be),
     (''descriptorHash'', bytes32),
     (''endpointId'', endpointId),
     (''transportSupportBit'', transportSupportBit),
     (''requestedRoleBits'', roleBits),
     (''requestedOperationBits'', operationBits),
     (''clientNonce'', bytes32)] validate_blindHealthChallenge"

definition validate_blindHealthResult :: "jsval \<Rightarrow> unit res" where
  "validate_blindHealthResult v = checks [
     assertNonzeroBytes (bytesf v ''relayPublicKey''),
     assertNonzeroBytes (bytesf v ''storeId''),
     reject_if [
       not_one_hot (numf v ''transportSupportBit''),
       js_and (numf v ''readyRoleBits'') (js_not ENDPOINT_LIMITS_ROLE_BITS_MASK) \<noteq> 0,
       js_and (numf v ''readyOperationBits'') (js_not PUBLIC_PROFILE_LIMITS_ENABLED_OPERATION_BITS_MASK) \<noteq> 0]]"

definition blindHealthResultV1 :: codec where
  "blindHealthResultV1 = struct ''BlindHealthResultV1'' [
     (''version'', version1),
     (''relayPublicKey'', bytes32),
     (''storeId'', bytes32),
     (''descriptorSequence'', u64be),
     (''descriptorHash'', bytes32),
     (''endpointId'', endpointId),
     (''transportSupportBit'', transportSupportBit),
     (''durabilityContinuityHash'', bytes32),
     (''durabilityProfileHash'', bytes32),
     (''clientNonce'', bytes32),
     (''readyRoleBits'', roleBits),
     (''readyOperationBits'', operationBits),
     (''clockState'', ranged u8 HEALTH_CLOCK_STATE_READY HEALTH_CLOCK_STATE_VERIFYING),
     (''effectiveEpochFloor'', u32be),
     (''integrityState'', ranged u8 HEALTH_INTEGRITY_STATE_VERIFIED HEALTH_INTEGRITY_STATE_FAILED),
     (''checkpointAgeBand'', ranged u8 0 7),
     (''scrubAgeBand'', ranged u8 0 7),
     (''rebalanceState'', ranged u8 HEALTH_REBALANCE_STATE_STABLE HEALTH_REBALANCE_STATE_FENCED),
     (''capacityBand'', ranged u8 0 7),
     (''challengeEpoch'', u32be),
     (''signature'', bytes64)] validate_blindHealthResult"

subsection \<open>External journal topology\<close>

definition validate_backupFailureGroup :: "jsval \<Rightarrow> unit res" where
  "validate_backupFailureGroup v = checks [
     assertNonzeroBytes (bytesf v ''backupFailureGroupId''),
     assertNonzeroBytes (bytesf v ''operatorGroupId'')]"

definition blindExternalBackupFailureGroupV1 :: codec where
  "blindExternalBackupFailureGroupV1 = struct ''BlindExternalJournalTopologyV1.backupFailureGroup'' [
     (''backupFailureGroupId'', bytes32),
     (''operatorGroupId'', bytes32)] validate_backupFailureGroup"

definition validate_externalJournalNode :: "jsval \<Rightarrow> unit res" where
  "validate_externalJournalNode v = checks [
     assertNonzeroBytes (bytesf v ''nodePublicKey''),
     assertNonzeroBytes (bytesf v ''operatorGroupId''),
     assertNonzeroBytes (bytesf v ''failureDomainId'')]"

definition blindExternalJournalNodeV1 :: codec where
  "blindExternalJournalNodeV1 = struct ''BlindExternalJournalTopologyV1.node'' [
     (''nodePublicKey'', bytes32),
     (''operatorGroupId'', bytes32),
     (''failureDomainId'', bytes32),
     (''roleConflictBits'', u16be)] validate_externalJournalNode"

definition externalBackupFailureGroupsV1 :: codec where
  "externalBackupFailureGroupsV1 = arrayOf blindExternalBackupFailureGroupV1 0 16"
definition externalJournalNodesV1 :: codec where
  "externalJournalNodesV1 = arrayOf blindExternalJournalNodeV1 3 3"

definition compareBackupFailureGroup :: "jsval \<Rightarrow> jsval \<Rightarrow> int" where
  "compareBackupFailureGroup a b =
     or_else (compareBytes (bytesf a ''backupFailureGroupId'') (bytesf b ''backupFailureGroupId''))
       (compareBytes (bytesf a ''operatorGroupId'') (bytesf b ''operatorGroupId''))"

definition compareJournalNode :: "jsval \<Rightarrow> jsval \<Rightarrow> int" where
  "compareJournalNode a b =
     or_else (compareBytes (bytesf a ''nodePublicKey'') (bytesf b ''nodePublicKey''))
       (or_else (compareBytes (bytesf a ''operatorGroupId'') (bytesf b ''operatorGroupId''))
       (or_else (compareBytes (bytesf a ''failureDomainId'') (bytesf b ''failureDomainId''))
       (compareScalar (numf a ''roleConflictBits'') (numf b ''roleConflictBits''))))"

definition validate_externalJournalTopology :: "jsval \<Rightarrow> unit res" where
  "validate_externalJournalTopology v = checks (
     map (\<lambda>f. assertNonzeroBytes (bytesf v f)) [''relayPublicKey'', ''storeId'', ''externalJournalId'',
       ''durabilityContinuityHash'', ''sharedFailureGroupId'', ''liveStoreFailureGroupId'', ''witnessPublicKey''] @ [
     reject_if [(bigf v ''topologySequence'' = 0) \<noteq> absent v ''previousTopologyHash''],
     assertStrictlySorted compareBackupFailureGroup (arrf v ''backupFailureGroups''),
     assertStrictlySorted compareJournalNode (arrf v ''nodes''),
     assertDistinctBytes (map (\<lambda>node. bytesf node ''operatorGroupId'') (arrf v ''nodes'')),
     assertDistinctBytes (map (\<lambda>node. bytesf node ''failureDomainId'') (arrf v ''nodes'')),
     validateEpochWindow v])"

definition blindExternalJournalTopologyV1 :: codec where
  "blindExternalJournalTopologyV1 = struct ''BlindExternalJournalTopologyV1'' [
     (''version'', version1),
     (''relayPublicKey'', bytes32),
     (''storeId'', bytes32),
     (''externalJournalId'', bytes32),
     (''durabilityContinuityHash'', bytes32),
     (''topologySequence'', u64be),
     (''previousTopologyHash'', optional bytes32),
     (''replicationClass'', constantOf u8 (JNum 1)),
     (''commitQuorum'', constantOf u8 (JNum 2)),
     (''sharedFailureGroupId'', bytes32),
     (''liveStoreFailureGroupId'', bytes32),
     (''backupFailureGroups'', externalBackupFailureGroupsV1),
     (''nodes'', externalJournalNodesV1),
     (''issuedEpoch'', u32be),
     (''expiresEpoch'', u32be),
     (''witnessPublicKey'', bytes32),
     (''signature'', bytes64)] validate_externalJournalTopology"

subsection \<open>Service descriptor\<close>

definition descriptorProtocolsV1 :: codec where
  "descriptorProtocolsV1 = arrayOf protocolProfileV1 1 16"
definition descriptorEndpointsV1 :: "platform \<Rightarrow> codec" where
  "descriptorEndpointsV1 E = arrayOf (transportEndpointV1 E) 1 16"
definition descriptorAdmissionProfilesV1 :: "platform \<Rightarrow> codec" where
  "descriptorAdmissionProfilesV1 E = arrayOf (admissionProfileV1 E) 1 8"

definition sorted_by_field :: "string \<Rightarrow> jsval list \<Rightarrow> unit res" where
  "sorted_by_field f = assertStrictlySorted (\<lambda>a b. compareScalar (numf a f) (numf b f))"

definition validate_serviceDescriptor :: "jsval \<Rightarrow> unit res" where
  "validate_serviceDescriptor v = (
     let rotating = (\<not> absent v ''identityTransition'');
         transition = getf v ''identityTransition'';
         state = numf v ''storeLifecycleState'';
         enabled = numf v ''enabledOperationBits'' in
     checks (map (\<lambda>f. assertNonzeroBytes (bytesf v f)) [''relayPublicKey'', ''storeId'',
       ''durabilityContinuityHash'', ''durabilityProfileHash'', ''descriptorNonce''] @ [
     reject_if [
       (bigf v ''descriptorSequence'' = 0) \<noteq> absent v ''previousDescriptorHash'',
       rotating \<noteq> (\<not> absent v ''previousRelayKey''),
       rotating \<and> (bytesf v ''previousRelayKey'' \<noteq> bytesf transition ''oldRelayKey'' \<or>
         bytesf v ''relayPublicKey'' \<noteq> bytesf transition ''newRelayKey'' \<or>
         bigf v ''identitySequence'' \<noteq> bigf transition ''newIdentitySequence'')],
     sorted_by_field ''protocolId'' (arrf v ''protocols''),
     sorted_by_field ''endpointId'' (arrf v ''endpoints''),
     sorted_by_field ''profileId'' (arrf v ''admissionProfiles''),
     reject_if [
       numf v ''cellSizeClassBits'' = 0 \<or>
         js_and (numf v ''cellSizeClassBits'') (js_not PUBLIC_PROFILE_LIMITS_CELL_SIZE_CLASS_BITS_MASK) \<noteq> 0,
       numf v ''leaseClassBits'' = 0 \<or>
         js_and (numf v ''leaseClassBits'') (js_not PUBLIC_PROFILE_LIMITS_LEASE_CLASS_BITS_MASK) \<noteq> 0,
       js_and enabled (js_not PUBLIC_PROFILE_LIMITS_ENABLED_OPERATION_BITS_MASK) \<noteq> 0,
       (state = STORE_LIFECYCLE_STATE_ACTIVE) \<noteq> absent v ''drainStartedEpoch'',
       \<not> absent v ''drainStartedEpoch'' \<and> numf v ''drainStartedEpoch'' > numf v ''issuedEpoch'',
       state = STORE_LIFECYCLE_STATE_DRAINING \<and> enabled \<noteq> 0x000129d7,
       state = STORE_LIFECYCLE_STATE_RETIRED \<and> enabled \<noteq> 0],
     validateEpochWindow v]))"

definition blindServiceDescriptorBaseV1 :: "platform \<Rightarrow> codec" where
  "blindServiceDescriptorBaseV1 E = struct ''BlindServiceDescriptorV1'' [
     (''version'', version1),
     (''relayPublicKey'', bytes32),
     (''storeId'', bytes32),
     (''descriptorSequence'', u64be),
     (''previousDescriptorHash'', optional bytes32),
     (''identitySequence'', u64be),
     (''previousRelayKey'', optional bytes32),
     (''identityTransition'', optional relayIdentityTransitionV1),
     (''build'', buildProfileV1 E),
     (''protocols'', descriptorProtocolsV1),
     (''endpoints'', descriptorEndpointsV1 E),
     (''cellSizeClassBits'', u8),
     (''leaseClassBits'', u8),
     (''maxBatchCount'', ranged u16be 1 PUBLIC_PROFILE_LIMITS_MAX_BATCH_COUNT),
     (''maxResponseBytes'', ranged u32be 1 PUBLIC_PROFILE_LIMITS_MAX_RESPONSE_BYTES),
     (''maxSponsoredCoreLength'', u64be),
     (''enabledOperationBits'', operationBits),
     (''admissionProfiles'', descriptorAdmissionProfilesV1 E),
     (''durability'', durabilityProfileV1 E),
     (''durabilityContinuityHash'', bytes32),
     (''durabilityProfileHash'', bytes32),
     (''storeLifecycleState'', ranged u8 STORE_LIFECYCLE_STATE_ACTIVE STORE_LIFECYCLE_STATE_RETIRED),
     (''drainStartedEpoch'', optional u32be),
     (''capacityBand'', ranged u8 0 7),
     (''issuedEpoch'', u32be),
     (''expiresEpoch'', u32be),
     (''descriptorNonce'', bytes32),
     (''signature'', bytes64)] validate_serviceDescriptor"

definition blindServiceDescriptorV1 :: "platform \<Rightarrow> codec" where
  "blindServiceDescriptorV1 E = cappedEncoding (blindServiceDescriptorBaseV1 E)
     (nat PUBLIC_PROFILE_LIMITS_MAX_DESCRIPTOR_BYTES) ''BlindServiceDescriptorV1''"

subsection \<open>The schemas keep the codec contract\<close>

interpretation blindErrorV1: canonical_codec blindErrorV1 "{}"
  unfolding blindErrorV1_def by (rule lawful_intros | simp)+

interpretation blindOhttpTransportErrorV1: canonical_codec blindOhttpTransportErrorV1 "{}"
  unfolding blindOhttpTransportErrorV1_def by (rule lawful_intros | simp)+

interpretation blindDescribeGetV1: canonical_codec blindDescribeGetV1 "{}"
  unfolding blindDescribeGetV1_def by (rule lawful_intros | simp)+

interpretation blindAdmissionParametersRequestV1: canonical_codec blindAdmissionParametersRequestV1 "{}"
  unfolding blindAdmissionParametersRequestV1_def by (rule lawful_intros | simp)+

interpretation operationProfileV1: canonical_codec operationProfileV1 "{}"
  unfolding operationProfileV1_def by (rule lawful_intros | simp)+

interpretation protocolProfileArtifactV1: canonical_codec protocolProfileArtifactV1 "{}"
  unfolding protocolProfileArtifactV1_def by (rule lawful_intros | simp)+

interpretation transportProfileArtifactV1: canonical_codec "transportProfileArtifactV1 E" "{}"
  unfolding transportProfileArtifactV1_def by (rule lawful_intros | simp)+

interpretation protocolProfileV1: canonical_codec protocolProfileV1 "{}"
  unfolding protocolProfileV1_def by (rule lawful_intros | simp)+

interpretation transportEndpointV1: canonical_codec "transportEndpointV1 E" "{}"
  unfolding transportEndpointV1_def by (rule lawful_intros | simp)+

interpretation durabilityProfileV1: canonical_codec "durabilityProfileV1 E" "{}"
  unfolding durabilityProfileV1_def by (rule lawful_intros | simp)+

interpretation buildProfileV1: canonical_codec "buildProfileV1 E" "{}"
  unfolding buildProfileV1_def by (rule lawful_intros | simp)+

lemma canonical_describe_fields [lawful_intros]:
  "canonical_codec conformanceClass {}" "canonical_codec roleBits {}" "canonical_codec operationBits {}"
  unfolding conformanceClass_def roleBits_def operationBits_def by (rule lawful_intros)+

interpretation admissionProfileV1: canonical_codec "admissionProfileV1 E" "{}"
  unfolding admissionProfileV1_def by (rule lawful_intros | simp)+

interpretation admissionResourceCostV1: canonical_codec admissionResourceCostV1 "{}"
  unfolding admissionResourceCostV1_def by (rule lawful_intros | simp)+

lemmas describe_parts_canonical [lawful_intros] = protocolProfileV1.canonical_codec_axioms
  transportEndpointV1.canonical_codec_axioms durabilityProfileV1.canonical_codec_axioms
  buildProfileV1.canonical_codec_axioms admissionProfileV1.canonical_codec_axioms
  admissionResourceCostV1.canonical_codec_axioms

interpretation admissionResourceCostsV1: canonical_codec admissionResourceCostsV1 "{}"
  unfolding admissionResourceCostsV1_def by (rule lawful_intros | simp)+

lemmas resourceCosts_canonical [lawful_intros] = admissionResourceCostsV1.canonical_codec_axioms

interpretation admissionParametersBaseV1: canonical_codec "admissionParametersBaseV1 E" "{}"
  unfolding admissionParametersBaseV1_def by (rule lawful_intros | simp)+

lemmas admissionParameters_canonical [lawful_intros] = admissionParametersBaseV1.canonical_codec_axioms

interpretation admissionParametersV1: canonical_codec "admissionParametersV1 E" "{}"
  unfolding admissionParametersV1_def by (rule lawful_intros | simp)+

interpretation relayIdentityTransitionV1: canonical_codec relayIdentityTransitionV1 "{}"
  unfolding relayIdentityTransitionV1_def by (rule lawful_intros | simp)+

lemma never_null_identityTransition [lawful_intros]: "never_null relayIdentityTransitionV1"
  unfolding relayIdentityTransitionV1_def by (rule lawful_intros)

interpretation blindDhtPointerBaseV1: canonical_codec "blindDhtPointerBaseV1 E" "{}"
  unfolding blindDhtPointerBaseV1_def by (rule lawful_intros | simp)+

lemmas identity_canonical [lawful_intros] = relayIdentityTransitionV1.canonical_codec_axioms
  blindDhtPointerBaseV1.canonical_codec_axioms

interpretation blindDhtPointerV1: canonical_codec "blindDhtPointerV1 E" "{}"
  unfolding blindDhtPointerV1_def by (rule lawful_intros | simp)+

interpretation blindOhttpKeyConfigV1: canonical_codec blindOhttpKeyConfigV1 "{}"
  unfolding blindOhttpKeyConfigV1_def by (rule lawful_intros | simp)+

interpretation blindHealthChallengeV1: canonical_codec blindHealthChallengeV1 "{}"
  unfolding blindHealthChallengeV1_def by (rule lawful_intros | simp)+

interpretation blindHealthResultV1: canonical_codec blindHealthResultV1 "{}"
  unfolding blindHealthResultV1_def by (rule lawful_intros | simp)+

interpretation blindExternalBackupFailureGroupV1: canonical_codec blindExternalBackupFailureGroupV1 "{}"
  unfolding blindExternalBackupFailureGroupV1_def by (rule lawful_intros | simp)+

interpretation blindExternalJournalNodeV1: canonical_codec blindExternalJournalNodeV1 "{}"
  unfolding blindExternalJournalNodeV1_def by (rule lawful_intros | simp)+

lemmas topology_parts_canonical [lawful_intros] = blindExternalBackupFailureGroupV1.canonical_codec_axioms
  blindExternalJournalNodeV1.canonical_codec_axioms

interpretation externalBackupFailureGroupsV1: canonical_codec externalBackupFailureGroupsV1 "{}"
  unfolding externalBackupFailureGroupsV1_def by (rule lawful_intros | simp)+

interpretation externalJournalNodesV1: canonical_codec externalJournalNodesV1 "{}"
  unfolding externalJournalNodesV1_def by (rule lawful_intros | simp)+

interpretation descriptorProtocolsV1: canonical_codec descriptorProtocolsV1 "{}"
  unfolding descriptorProtocolsV1_def by (rule lawful_intros | simp)+

interpretation descriptorEndpointsV1: canonical_codec "descriptorEndpointsV1 E" "{}"
  unfolding descriptorEndpointsV1_def by (rule lawful_intros | simp)+

interpretation descriptorAdmissionProfilesV1: canonical_codec "descriptorAdmissionProfilesV1 E" "{}"
  unfolding descriptorAdmissionProfilesV1_def by (rule lawful_intros | simp)+

lemmas describe_arrays_canonical [lawful_intros] = externalBackupFailureGroupsV1.canonical_codec_axioms
  externalJournalNodesV1.canonical_codec_axioms descriptorProtocolsV1.canonical_codec_axioms
  descriptorEndpointsV1.canonical_codec_axioms descriptorAdmissionProfilesV1.canonical_codec_axioms

interpretation blindExternalJournalTopologyV1: canonical_codec blindExternalJournalTopologyV1 "{}"
  unfolding blindExternalJournalTopologyV1_def by (rule lawful_intros | simp)+

interpretation blindServiceDescriptorBaseV1: canonical_codec "blindServiceDescriptorBaseV1 E" "{}"
  unfolding blindServiceDescriptorBaseV1_def by (rule lawful_intros | simp)+

lemmas descriptor_canonical [lawful_intros] = blindServiceDescriptorBaseV1.canonical_codec_axioms

interpretation blindServiceDescriptorV1: canonical_codec "blindServiceDescriptorV1 E" "{}"
  unfolding blindServiceDescriptorV1_def by (rule lawful_intros | simp)+

end
