(* ===== verification/Schema_Durability.thy ===== *)
theory Schema_Durability
  imports Schema_Common
begin

text \<open>
  \<^verbatim>\<open>packages/blind-protocol/durability-schemas.js\<close>: the continuity binding, the backup manifests,
  clean restore evidence, retention transitions and the restore evidence feed.
\<close>

definition bytes24 :: codec where "bytes24 = fixedBytes 24"

definition capped :: "codec \<Rightarrow> nat \<Rightarrow> codec" where
  "capped encoding maximum = \<lparr>
     preencode = (\<lambda>st v p. rbind (preencode encoding st v JUndef) (\<lambda>st'.
        if st_end st' - st_end st > maximum then Inl BAD_ENCODING else Inr st')),
     encode = (\<lambda>st v p. encode encoding st v JUndef),
     decode = (\<lambda>st p. rbind (decode encoding st JUndef) (\<lambda>(v, st').
        if st_start st' - st_start st > maximum then Inl BAD_ENCODING else Inr (v, st'))),
     schemaName = None, schemaFields = None\<rparr>"

definition nonzero :: "jsval \<Rightarrow> string \<Rightarrow> unit res" where
  "nonzero v f = reject_if [zero_bytes v f]"

definition nonzero_if_present :: "jsval \<Rightarrow> string \<Rightarrow> unit res" where
  "nonzero_if_present v f = (if absent v f then Inr () else nonzero v f)"

definition validate_continuityBinding :: "jsval \<Rightarrow> unit res" where
  "validate_continuityBinding v = (
     let external = [bytesf v ''externalJournalId'', bytesf v ''externalWitnessPublicKey'',
       bytesf v ''externalJournalFailureGroupId''] in
     if numf v ''profileId'' = 1 then reject_if [
       numf v ''externalJournalReplicationClass'' \<noteq> 0 \<or> list_ex (\<lambda>b. \<not> isAllZero b) external \<or>
       \<not> zero_bytes v ''restoreEvidenceFeedId'']
     else reject_if [numf v ''externalJournalReplicationClass'' \<noteq> 1 \<or> list_ex isAllZero external])"

definition durabilityContinuityBindingV1 :: codec where
  "durabilityContinuityBindingV1 = struct ''DurabilityContinuityBindingV1'' [
     (''version'', version1),
     (''profileId'', ranged u8 1 2),
     (''externalJournalId'', bytes32),
     (''externalWitnessPublicKey'', bytes32),
     (''externalJournalReplicationClass'', ranged u8 0 1),
     (''externalJournalFailureGroupId'', bytes32),
     (''restoreEvidenceFeedId'', bytes32)] validate_continuityBinding"

definition validate_encryptionProfile :: "jsval \<Rightarrow> unit res" where
  "validate_encryptionProfile v = nonzero v ''recoveryKeyId''"

definition blindBackupEncryptionProfileV1 :: codec where
  "blindBackupEncryptionProfileV1 = struct ''BlindBackupEncryptionProfileV1'' [
     (''version'', version1),
     (''algorithmId'', constantOf u16be (JNum 1)),
     (''keyDerivationId'', constantOf u16be (JNum 1)),
     (''recoveryKeyId'', bytes32),
     (''keyEpoch'', ranged u32be 1 0xffffffff)] validate_encryptionProfile"

text \<open>\<^verbatim>\<open>path.split('/')\<close>\<close>

fun split_on :: "char \<Rightarrow> string \<Rightarrow> string list" where
  "split_on sep [] = [[]]"
| "split_on sep (c # cs) = (if c = sep then [] # split_on sep cs
     else case split_on sep cs of [] \<Rightarrow> [[c]] | part # parts \<Rightarrow> (c # part) # parts)"

definition portable_path :: "string \<Rightarrow> bool" where
  "portable_path path = (\<not> (take 1 path = ''/'' \<or> ends_with path ''/'' \<or> CHR 0x5C \<in> set path \<or>
     list_ex (\<lambda>part. part = '''' \<or> part = ''.'' \<or> part = ''..'') (split_on CHR ''/'' path)))"

definition validate_backupChunkEntry :: "jsval \<Rightarrow> unit res" where
  "validate_backupChunkEntry v = checks [
     nonzero v ''chunkObjectId'', nonzero v ''chunkSalt'', nonzero v ''ciphertextHash'',
     reject_if [\<not> portable_path (text_of (bytesf v ''path''))]]"

definition backupChunkEntryV1 :: "platform \<Rightarrow> codec" where
  "backupChunkEntryV1 E = struct ''BlindBackupChunkManifestEntryV1'' [
     (''path'', canonicalAsciiBytes E 1 512),
     (''fileOffset'', u64be),
     (''plaintextByteLength'', ranged u32be 1 (int (4 * MiB))),
     (''ciphertextByteLength'', ranged u32be 17 (int (4 * MiB + 16))),
     (''chunkObjectId'', bytes32),
     (''chunkSalt'', bytes32),
     (''nonce'', bytes24),
     (''ciphertextHash'', bytes32)] validate_backupChunkEntry"

fun chunk_totals :: "jsval option \<Rightarrow> int \<Rightarrow> int \<Rightarrow> jsval list \<Rightarrow> (int \<times> int) res" where
  "chunk_totals previous plaintext ciphertext [] = Inr (plaintext, ciphertext)"
| "chunk_totals previous plaintext ciphertext (entry # entries) =
     rbind (case previous of None \<Rightarrow> Inr () | Some prev \<Rightarrow>
       let order = compareBytes (bytesf prev ''path'') (bytesf entry ''path'') in
       reject_if [order > 0 \<or> order = 0 \<and> bigf prev ''fileOffset'' \<ge> bigf entry ''fileOffset'']) (\<lambda>_.
     chunk_totals (Some entry) (plaintext + numf entry ''plaintextByteLength'')
       (ciphertext + numf entry ''ciphertextByteLength'') entries)"

definition validate_backupChunkManifest :: "jsval \<Rightarrow> unit res" where
  "validate_backupChunkManifest v = checks [
     nonzero v ''backupId'',
     nonzero v ''encryptionManifestHash'',
     rbind (chunk_totals None 0 0 (arrf v ''entries'')) (\<lambda>(plaintext, ciphertext). reject_if [
       plaintext \<noteq> bigf v ''totalPlaintextByteLength'' \<or> ciphertext \<noteq> bigf v ''totalCiphertextByteLength''])]"

definition blindBackupChunkManifestV1 :: "platform \<Rightarrow> codec" where
  "blindBackupChunkManifestV1 E = struct ''BlindBackupChunkManifestV1'' [
     (''version'', version1),
     (''backupId'', bytes32),
     (''encryptionProfile'', blindBackupEncryptionProfileV1),
     (''encryptionManifestHash'', bytes32),
     (''entries'', arrayOf (backupChunkEntryV1 E) 1 0x1000000),
     (''totalPlaintextByteLength'', u64be),
     (''totalCiphertextByteLength'', u64be)] validate_backupChunkManifest"

definition validate_backupManifest :: "jsval \<Rightarrow> unit res" where
  "validate_backupManifest v = checks (
     map (nonzero v) [''relayPublicKey'', ''storeId'', ''externalJournalId'', ''durabilityContinuityHash'',
       ''backupId'', ''backupFailureGroupId'', ''storeManifestHash'', ''storeFormatHash'', ''coveredWalHash'',
       ''externalFloorHash'', ''externalCheckpointHash'', ''baseFloorHash'', ''controlSnapshotHash'',
       ''backupEncryptionProfileHash'', ''encryptionManifestHash'', ''chunkManifestHash'', ''witnessPublicKey''] @ [
     reject_if [absent v ''restoreVerifierPublicKey'' \<noteq> absent v ''cleanRestoreEvidenceHash''],
     (if absent v ''restoreVerifierPublicKey'' then Inr ()
      else checks [nonzero v ''restoreVerifierPublicKey'', nonzero v ''cleanRestoreEvidenceHash'']),
     reject_if [bigf v ''createdExternalUnixMillis'' \<ge> bigf v ''restoreSupportExpiresUnixMillis'']])"

definition blindBackupManifestV1 :: codec where
  "blindBackupManifestV1 = struct ''BlindBackupManifestV1'' [
     (''version'', version1),
     (''relayPublicKey'', bytes32),
     (''storeId'', bytes32),
     (''externalJournalId'', bytes32),
     (''durabilityContinuityHash'', bytes32),
     (''backupId'', bytes32),
     (''backupFailureGroupId'', bytes32),
     (''storeManifestRevision'', u64be),
     (''storeManifestHash'', bytes32),
     (''storeFormatHash'', bytes32),
     (''coverageCutoffExternalUnixMillis'', u64be),
     (''coveredWalSequence'', u64be),
     (''coveredWalHash'', bytes32),
     (''externalFloorRevision'', u64be),
     (''externalFloorHash'', bytes32),
     (''externalCheckpointRevision'', u64be),
     (''externalCheckpointHash'', bytes32),
     (''baseFloorRevision'', u64be),
     (''baseFloorHash'', bytes32),
     (''controlSnapshotHash'', bytes32),
     (''backupEncryptionProfileHash'', bytes32),
     (''encryptionManifestHash'', bytes32),
     (''chunkManifestByteLength'', u64be),
     (''chunkManifestHash'', bytes32),
     (''totalPlaintextByteLength'', u64be),
     (''totalCiphertextByteLength'', u64be),
     (''restoreVerifierPublicKey'', optional bytes32),
     (''cleanRestoreEvidenceHash'', optional bytes32),
     (''createdExternalUnixMillis'', u64be),
     (''restoreSupportExpiresUnixMillis'', u64be),
     (''witnessPublicKey'', bytes32),
     (''signature'', bytes64)] validate_backupManifest"

definition validate_cleanRestoreEvidence :: "jsval \<Rightarrow> unit res" where
  "validate_cleanRestoreEvidence v = checks (
     map (nonzero v) [''backupId'', ''backupCandidateCommitment'', ''restoredStoreManifestHash'',
       ''verifiedWalHash'', ''verifiedExternalFloorHash'', ''verifiedCheckpointHash'', ''verifierPublicKey''] @ [
     reject_if [bigf v ''startedExternalUnixMillis'' \<ge> bigf v ''completedExternalUnixMillis'']])"

definition blindCleanRestoreEvidenceV1 :: codec where
  "blindCleanRestoreEvidenceV1 = struct ''BlindCleanRestoreEvidenceV1'' [
     (''version'', version1),
     (''backupId'', bytes32),
     (''backupCandidateCommitment'', bytes32),
     (''restoredStoreManifestHash'', bytes32),
     (''verifiedWalSequence'', u64be),
     (''verifiedWalHash'', bytes32),
     (''verifiedExternalFloorRevision'', u64be),
     (''verifiedExternalFloorHash'', bytes32),
     (''verifiedCheckpointRevision'', u64be),
     (''verifiedCheckpointHash'', bytes32),
     (''scrubbedObjectCount'', u64be),
     (''scrubFailureCount'', constantOf u32be (JNum 0)),
     (''startedExternalUnixMillis'', u64be),
     (''completedExternalUnixMillis'', u64be),
     (''verifierPublicKey'', bytes32),
     (''signature'', bytes64)] validate_cleanRestoreEvidence"

definition validate_retentionTransition :: "jsval \<Rightarrow> unit res" where
  "validate_retentionTransition v = checks (
     map (nonzero v) [''relayPublicKey'', ''storeId'', ''externalJournalId'', ''durabilityContinuityHash'',
       ''backupId'', ''backupManifestHash'', ''witnessPublicKey''] @ [
     reject_if [bigf v ''transitionRevision'' = 0 \<or>
       (bigf v ''transitionRevision'' = 1) \<noteq> absent v ''previousTransitionHash''],
     nonzero_if_present v ''previousTransitionHash'',
     nonzero_if_present v ''replacementBackupId'',
     reject_if [(numf v ''operation'' = 3) \<noteq> (\<not> absent v ''replacementBackupId'')]])"

definition blindBackupRetentionTransitionV1 :: codec where
  "blindBackupRetentionTransitionV1 = struct ''BlindBackupRetentionTransitionV1'' [
     (''version'', version1),
     (''relayPublicKey'', bytes32),
     (''storeId'', bytes32),
     (''externalJournalId'', bytes32),
     (''durabilityContinuityHash'', bytes32),
     (''backupId'', bytes32),
     (''backupManifestHash'', bytes32),
     (''transitionRevision'', u64be),
     (''previousTransitionHash'', optional bytes32),
     (''operation'', ranged u8 1 3),
     (''supportExpiresUnixMillis'', u64be),
     (''replacementBackupId'', optional bytes32),
     (''effectiveExternalTimeFloorMillis'', u64be),
     (''witnessPublicKey'', bytes32),
     (''signature'', bytes64)] validate_retentionTransition"

definition validate_restoreEvidenceHead :: "jsval \<Rightarrow> unit res" where
  "validate_restoreEvidenceHead v = checks (
     map (nonzero v) [''relayPublicKey'', ''storeId'', ''externalJournalId'', ''durabilityContinuityHash'',
       ''restoreEvidenceFeedId'', ''currentBackupManifestHash'', ''currentRetentionTransitionHash'',
       ''currentAvailabilityAuditHash'', ''drillBackupManifestHash'', ''drillCleanRestoreEvidenceHash'',
       ''drillRetentionTransitionHash'', ''witnessPublicKey''] @ [
     reject_if [
       bigf v ''evidenceSequence'' = 0 \<or>
         (bigf v ''evidenceSequence'' = 1) \<noteq> absent v ''previousEvidenceHeadHash'',
       bigf v ''issuedExternalUnixMillis'' \<ge> bigf v ''expiresExternalUnixMillis'',
       numf v ''issuedEpoch'' \<noteq> bigf v ''issuedExternalUnixMillis'' div 21600000]])"

definition blindRestoreEvidenceHeadV1 :: codec where
  "blindRestoreEvidenceHeadV1 = struct ''BlindRestoreEvidenceHeadV1'' [
     (''version'', version1),
     (''relayPublicKey'', bytes32),
     (''storeId'', bytes32),
     (''externalJournalId'', bytes32),
     (''durabilityContinuityHash'', bytes32),
     (''restoreEvidenceFeedId'', bytes32),
     (''evidenceSequence'', u64be),
     (''previousEvidenceHeadHash'', optional bytes32),
     (''currentBackupManifestHash'', bytes32),
     (''currentRetentionTransitionHash'', bytes32),
     (''currentCoveredWalSequence'', u64be),
     (''currentExternalFloorRevision'', u64be),
     (''currentChunkObjectCount'', u64be),
     (''currentAvailabilityAuditHash'', bytes32),
     (''currentSupportExpiresUnixMillis'', u64be),
     (''drillBackupManifestHash'', bytes32),
     (''drillCleanRestoreEvidenceHash'', bytes32),
     (''drillRetentionTransitionHash'', bytes32),
     (''restoreDrillCompletedUnixMillis'', u64be),
     (''drillSupportExpiresUnixMillis'', u64be),
     (''issuedExternalUnixMillis'', u64be),
     (''expiresExternalUnixMillis'', u64be),
     (''issuedEpoch'', u32be),
     (''witnessPublicKey'', bytes32),
     (''signature'', bytes64)] validate_restoreEvidenceHead"

fun check_heads :: "jsval list \<Rightarrow> unit res" where
  "check_heads (previous # current # heads) =
     rbind (reject_if (
       (bigf current ''evidenceSequence'' \<noteq> bigf previous ''evidenceSequence'' + 1) #
       map (\<lambda>f. bytesf previous f \<noteq> bytesf current f) [''relayPublicKey'', ''storeId'',
         ''externalJournalId'', ''durabilityContinuityHash'', ''restoreEvidenceFeedId''])) (\<lambda>_.
     check_heads (current # heads))"
| "check_heads heads = Inr ()"

definition validate_restoreEvidenceBundle :: "jsval \<Rightarrow> unit res" where
  "validate_restoreEvidenceBundle v = check_heads (arrf v ''heads'')"

definition blindRestoreEvidenceBundleBaseV1 :: codec where
  "blindRestoreEvidenceBundleBaseV1 = struct ''BlindRestoreEvidenceBundleV1'' [
     (''version'', version1),
     (''heads'', arrayOf blindRestoreEvidenceHeadV1 1 385),
     (''currentBackupManifestBytes'', boundedBytes 1 0xffff),
     (''currentRetentionTransitionBytes'', boundedBytes 1 (8 * KiB)),
     (''drillBackupManifestBytes'', boundedBytes 1 0xffff),
     (''drillCleanRestoreEvidenceBytes'', boundedBytes 1 (8 * KiB)),
     (''drillRetentionTransitionBytes'', boundedBytes 1 (8 * KiB))] validate_restoreEvidenceBundle"

definition blindRestoreEvidenceBundleV1 :: codec where
  "blindRestoreEvidenceBundleV1 = capped blindRestoreEvidenceBundleBaseV1 (512 * KiB)"

subsection \<open>The schemas keep the codec contract\<close>

lemma canonical_codec_ops:
  "canonical_codec c needs \<Longrightarrow> preencode c' = preencode c \<Longrightarrow> encode c' = encode c \<Longrightarrow> decode c' = decode c \<Longrightarrow>
     canonical_codec c' needs"
  by (simp add: canonical_codec_def encodes_def decodes_def)

lemma canonical_capped_plain [lawful_intros]: "canonical_codec c {} \<Longrightarrow> canonical_codec (capped c m) {}"
  by (rule canonical_codec_ops [OF canonical_capped [of c m undefined]])
    (simp_all add: capped_def cappedEncoding_def)

lemma canonical_durability_fields [lawful_intros]:
  "canonical_codec bytes24 {}" "canonical_codec (constantOf u32be x) {}"
  unfolding bytes24_def by (rule lawful_intros canonical_constantOf)+

interpretation durabilityContinuityBindingV1: canonical_codec durabilityContinuityBindingV1 "{}"
  unfolding durabilityContinuityBindingV1_def by (rule lawful_intros | simp)+

interpretation blindBackupEncryptionProfileV1: canonical_codec blindBackupEncryptionProfileV1 "{}"
  unfolding blindBackupEncryptionProfileV1_def by (rule lawful_intros | simp)+

interpretation backupChunkEntryV1: canonical_codec "backupChunkEntryV1 E" "{}"
  unfolding backupChunkEntryV1_def by (rule lawful_intros | simp)+

lemmas backup_parts_canonical [lawful_intros] = blindBackupEncryptionProfileV1.canonical_codec_axioms
  backupChunkEntryV1.canonical_codec_axioms

interpretation blindBackupChunkManifestV1: canonical_codec "blindBackupChunkManifestV1 E" "{}"
  unfolding blindBackupChunkManifestV1_def by (rule lawful_intros | simp)+

interpretation blindBackupManifestV1: canonical_codec blindBackupManifestV1 "{}"
  unfolding blindBackupManifestV1_def by (rule lawful_intros | simp)+

interpretation blindCleanRestoreEvidenceV1: canonical_codec blindCleanRestoreEvidenceV1 "{}"
  unfolding blindCleanRestoreEvidenceV1_def by (rule lawful_intros | simp)+

interpretation blindBackupRetentionTransitionV1: canonical_codec blindBackupRetentionTransitionV1 "{}"
  unfolding blindBackupRetentionTransitionV1_def by (rule lawful_intros | simp)+

interpretation blindRestoreEvidenceHeadV1: canonical_codec blindRestoreEvidenceHeadV1 "{}"
  unfolding blindRestoreEvidenceHeadV1_def by (rule lawful_intros | simp)+

lemmas restoreHead_canonical [lawful_intros] = blindRestoreEvidenceHeadV1.canonical_codec_axioms

interpretation blindRestoreEvidenceBundleBaseV1: canonical_codec blindRestoreEvidenceBundleBaseV1 "{}"
  unfolding blindRestoreEvidenceBundleBaseV1_def by (rule lawful_intros | simp)+

lemmas restoreBundle_canonical [lawful_intros] = blindRestoreEvidenceBundleBaseV1.canonical_codec_axioms

interpretation blindRestoreEvidenceBundleV1: canonical_codec blindRestoreEvidenceBundleV1 "{}"
  unfolding blindRestoreEvidenceBundleV1_def by (rule lawful_intros | simp)+

lemma check_heads_Inr:
  "check_heads hs = Inr () \<Longrightarrow> i < length hs \<Longrightarrow>
     bigf (hs ! i) ''evidenceSequence'' = bigf (hs ! 0) ''evidenceSequence'' + int i \<and>
     (\<forall>f\<in>{''relayPublicKey'', ''storeId'', ''externalJournalId'', ''durabilityContinuityHash'',
        ''restoreEvidenceFeedId''}. bytesf (hs ! i) f = bytesf (hs ! 0) f)"
proof (induction hs arbitrary: i rule: check_heads.induct)
  case (1 p c hs)
  then show ?case by (cases i) (auto simp: rbind_Inr_iff)
qed simp_all

end
