(* ===== verification/Schema_Catalog.thy ===== *)
theory Schema_Catalog
  imports Schema_Cell Schema_Inbox Schema_Describe Schema_Stream Schema_Durability
begin

text \<open>
  The frozen name hashes of \<^verbatim>\<open>packages/blind-protocol/schema-catalog-runtime-authority.js\<close>, the
  catalogue entry of \<^verbatim>\<open>schemas.js\<close> that is checked against them, and the table of the codecs
  of the public families.  A hash written in hexadecimal in the source is the same number here.
\<close>

definition SCHEMA_CATALOG_NAME_HASHES_BY_CATEGORY :: "int \<Rightarrow> int list option" where
  "SCHEMA_CATALOG_NAME_HASHES_BY_CATEGORY = map_of [
     (1, [
       0xe6be8df975178fb7371c5d35b86f5419b127ede9b7975dae593c3b1c6c4ad76e,
       0x81d2ff674bf0d3c08ab5d631f454548f339203edae38a95348e8a089aea2961c,
       0xf0f89649d8ef417be5cc7b44a3950fef68cc605dfc23bdc8fff9b266ced45be1,
       0x6b6e2d9cb960890b97dbc10fce30ce6b0c462dc7cd8a7f1282a15dfef47d2a21,
       0x0825170b5213ce37aed2bcf4d7c11288151150d4b6047dc3fed556879aa6cda1,
       0x635cc44d0549778ddc14391b2ddb758b64a2c0b1d5e865eb8e72f1843fdea5b8,
       0xb33eec9f0f15db391e0b1c3940ba793fa018c51a005ec8ea9b1360b7b29fa236,
       0x6ff0cd22571bdf3b9fed2c9affc08bd24166255ee139f4254f4f1610d35ae535,
       0x56fc2cd57e00724180b8a3deda0f5d3610a179cad9c359873fd3fc0001e97732,
       0x7f2fa51fe068d14adf1bd0144012f05c9123897faa8c0115bdad8c4e0c3f1066,
       0x390602d14fd8105b1538a283b2dee3db5f4a43691fed70b0041e0a3c8c8c8ae9,
       0x89b404497d63603af8be9fc3b7a374dc1c7e7ce58a7577220842e95e1e7de76d,
       0x3b060f9e47a1047a806893cd94285933b143882105e50d83deac701f60beb10f,
       0x654a06af400247f78246969ec40a29e3c4c3f53478583d667d651c92d55d5e23,
       0x02d799921c66b4a1f3ae4b60de9d3ba0d1885aaf94b9e58690920591c732bb72,
       0x99b0ff2e1bd3f58c9def8064c110463f1dc536a760f16b87f65037ea4c3c7e34,
       0xfbad17adcbcb22563aaa8819f31ec0853ebf8ce1f712d9ab1e920350a4d9b82f,
       0x902436eba0557887bfc0c652fba3bcb24db5a73d4caae1f586de970ecd222872,
       0x4523de2fc2f08d935533116972fd9b23ae5451a7971ac35397516bbf1424aaab,
       0xc7ffbaebdd9d917bb238c959266951d120544d8db28c758c9535c7f24dbe0572,
       0x7f31640f28180175aa2d2a604298226f0837e725af89b678d8962328bfe9b3d3,
       0xc48a1e6bd54aacdad5a803dcdaab215a835a335f27493e4b09223cdd54f2fe24,
       0xa6d51b1f18c8456ae4175cffe8f4004a9c8c5a64e08bb546e3b5cff0ef1ef3e6,
       0x034704d596bbb182ae072167e98f8a49257ab544268d83f4de050a5cff0919be,
       0xf9a932c2017cd69387be7f1fdcde8e31a44473ec29762dbd442247267c7fdf45,
       0x0ec396609d37e22e91c15d34a89e21cb9f196ec8f4d4a0a211958bfef3d872ee,
       0xeda1ae1cf3fd63d80c69649d0c3ad9a022ec366919fee2e163a759ed8169d505,
       0x2d1a5ef1d2c764adfa03583027635864a2661a9ab92b86c7d6581040f123e5c2,
       0x6dbc1bd2e78a26198524c36ed4e16c197668359ea9882b7c8caf85100ff17f77,
       0xa9f5a17efc580e281ca92234f1e6b5713b7daedcb1548bad6d4917e702894731,
       0x05eee93faf2b7cb09fff3a4a8297cc333aa56ff53f9392108bdb40eb80329058,
       0x50c6bbe834627c1125773a3e9b988d0ece94952c297c98f33b37e00a31be8f68,
       0x2aca518d4952fa2306053210d0187171a88675680912beaee11c2b22b8aff6d4,
       0x8d3a5f93320236407062fec7f1976c5891d8dbe22b43d560f62fc38ea427b619,
       0x6e50fa5dc6f33ad86ced6d36b3fe9f239a7770c2da0f324e6ff72f16190eacd8,
       0x83c9224ba53f0cc6bce2af03cd749efde827ef3ee68384c6fc57d2148aff14cc,
       0x203ff33bac4c3b494b4452a919921bee00d7dbc7b36ce9e04df641020acfda1a,
       0x7111647f042ade5fd938070a83f31b933495e3d14cd0fa069e79d38a9ea84f09,
       0xa54594725fbb532cf7d49a75144da47179b9f9a8e49221a19a8ccd551203e114,
       0x61806e776baf19ee9fbd05da346c7def94645c6b8d3580fcda44419c2744fe04,
       0x9a65f79bfd3f959e9ad658074b4a252e4d795cf5db60b9a64c58dcb0c384948e,
       0x184d18b8b831098a24889714295ecfcca94202e0d547b0f34ff92a9732e60da5,
       0x40f7e370d90cb385053f48d2b89d57a8f181df5d2f0ba3709e17f817e05a0012,
       0xea03db798b39eb9528fb9b439c3242fca3257f1864906a3f54cd9c456cbcd80d,
       0xe6e14d672094188920b32c42dd476e1607517fb2578cbbf025992c549239230a,
       0xa888656009db25ed24e4a65ec85697cbcd42b2dab808b17e65f5d2788ef34551,
       0x427462bc6fc06308ea53944c1874adc40916f939c303b873d56e41748f0d46ec,
       0x7f66d2c520bf1b7230cd2320ae0fb8e00e8ff1c27616720cc1549bc6898d6ea7,
       0x5fd74d0aae952cb396a911f0803f8972f8cf6ad786952887e224c9851911b087,
       0x75447368cb37ac7678eb9b5ef7b3be37391b5186f842eb2ad792df92af214f31,
       0xc269af17a3649c1fe6b2625785004660d83e4d7ab7a3b4f160641cb34f62f9c1,
       0x37e735473a073ecba72eed0d6c81b32d2c43ee9a60c7eeda5c500960c6c7e35e,
       0x55afcb72393aa11effb5332d437f73c6ca2b7eb3620070272f63fd27c2bbab86,
       0x4ceb3275a246c43e8bbecf58484502b3b636e62976fd64bb33dc563d30a65fb5,
       0xe15aef460924e1b47c41b2f71b1676dfecea9252e05a4797142a6659d7455f20,
       0x29f2df4d4feb367629cd543dc07ec007b5bf41728f4155a94283ac81909a8f06,
       0x59559046657b1ba8c31affff9bfd1dbba897746a5bef0d61ad18c5fcb387aaa9,
       0x3dd405218b1e1ffcac63a3c69b00f9239eaf0733715c4fd7ac4d16b13007e430,
       0x6bad548d978849e94d8f790d512abc3869cfa3afedca501c3c4fbbe952752106,
       0xa93e1d13eddccf526291f681d3ff6e28feee0108dd45500455944ad8bd97a67c,
       0x97a6de4eee5dfc0402bfc722346858852ef9cd202395dbebc1768bafe882fd02,
       0x0d97fc1ce79ed433cf745c285a0b311816d16bc0a17f541209a6042454eea4b9,
       0x1a00538a09d7ecdc29a5254f21ace1eb74872528dfaa7699d0f4179212e38ec7,
       0xadd211de86434db239e869c2df5552356a5010f787b760a1c2e4da35e840d0cf,
       0x64c4fedabdb7ac653e3122fe4f5f0bffa01cbc6d25368c77221e5d81955d07b5,
       0xd9da185a15564ed6c0b1eca4cadeb1a39d4958fd7a11935b6021d6bb37c920d3,
       0x886b4c21061739ae9f95bacf82544b03127db37c757bb1782c77fee944b5ee32,
       0xc304489cbd22e4317bbc0d21338be0708081332c2da58353b858be0fdc8c741e,
       0x9cb8bdb6c4c46fea1bd73aa74128a2d8b12ffa7cfcff5ca029c02a74494933c6,
       0x99fad2405b268bcb1fde0843685717a69fd673212a53facc707b5e0206c0bade,
       0x5b46817cbdbd7b8e495f968330ab86ab14110e5b7da95d963b0522e2d11530c3,
       0x6f8eb6588419fca32da937ffb6e495a105aa988c0ef352e8bbb387ef4e8f0f5d,
       0x28cfdfa3bbc7f0e6dfc2aba3e502697319161665cd5bae3f18b9f51be44b53dc]),
     (2, [
       0x9da12bbb637c0e030fec4f83de571ced1e6560d0b5759022cf5a456deb4ddae4,
       0x918dd1079c73c390d70d2b34d17f04e8802b7dc0bf1f82eda030e3a4c29cbc88,
       0x4a698bd134d9d428c0d4803205736f18cfdb86e2db9e69c0df991471b673c281,
       0x233421fc30b5ddc8de556233892364a8be553ca27196947ca6279e2d140582ce,
       0x0156e0a27c7e565da2db66f2d884b8f95b25e243375277651f96d434681d4caf,
       0x69055c5db70d6bb40cf962b34841a4a7ef4095edd4de5f97496aad6e2dd7fc7b,
       0x45f6bdd13522bc1667ad474e1a187a174e9956f18dcca6897c3e846531bbbe69,
       0xdb6ac2f22375232acc3f2f831fd0438a1c78cd20a4bd750664a38b5d05f4b810,
       0xb887d63c6888467b9f6c6e6a7e4efbd33952e7f0fb09a17e0a22c3303f5e066b,
       0xfa832bf50a97260322d389c425e516d20e72ce50471bd8b5b380ff9f7e594fdb,
       0x824d570b120de9ee27756e31b5d740b5d305b6395ac675f94c5839ad7596c8ca,
       0xd06428c810673da5d6ab8706b8ad666759f3b9cf472c4bc3bb0efef0cb536520,
       0x672423d4175410c52f3d6df9fa890591da2c7b5497981ea23edbc6b7ddc5c16a,
       0xe2fa3fbf61dda4a1ed55914d2750b2f418e8fd49b6100784923d0d00666a0621,
       0xafa5ec7a42a9850a34d5f8a0be1483274ee5bc581fefdd7c84e5815de0f86e7d,
       0xc9d7348fd3a2d969ba9f0e56e1a33bb8983293a71bd01b48a62f2fd6708602eb,
       0x35b78f0da7fced5f818d2620969302c19c9eabcb1193a4071711135bff756e23,
       0xb8a6ffed594d4738173f342a6b265b09c94f6aa6025f142418142e49aaed3165,
       0xee6394496f2a0bd5f82e940f8fb4dbb58b7edb79596135a71e1ba2424fded8b0,
       0x4cfa26cd59ed1af1b938b426bcd0e08b20cca30157c516572638caa09b30c314,
       0xef49b9903d94aecd3409543a3356cd967607f398b6e45de6eb60d16eafc42bdf,
       0x5db20bf78bba0756995be87d4630bda68dea115f4b5eaf402019891949057fa3,
       0xeb7df41733428dff2f41f80b5ecbbd39a8485a600599a386457d5766cc13dad0,
       0xf84b5f8b70eaa029923b5cb4ef3b1780eafab2f1ca050a741c9e07046776cb27,
       0x2e0b1d99a91c2f3bb53acce0d09aeae0ff913cabaf2cac396ab059016d881c0c,
       0x401cb0f37dec794d93a7b5981ec99886ecffc30bfd99a130eb1b6d7bf1b6ef1b,
       0x357cc40d70ff632a14f134ff1148097aa49f4439f34ec72c499e0d3d0faba1f0,
       0x58d9ce5c9960befcfba28c39bdbfa91f855ffe3c2c41d5f3a9da638a777a8bba]),
     (3, [
       0x6ebfffe50c4e86b7fd7111dd8b627b7846ae288a3884d074dd17394af163117b,
       0x5969aa2feaac7383e9a7bb35060984624690a815a7b8dd97b4fcd026949ee605,
       0xc4ccfca4de0939bad215b5148d8addbba5fa0128c292df047710512ffe71d55e,
       0xf0b1a8b21efe8b9059d2e850e7d64dd3b2c11e6bf610b81ad210d39bad246a15,
       0xc48184e1331c606f839e9f2928fe601ac363cd4a90c4f314267ae512270aa13a,
       0x5e874d86c074916d656443f003973d50385a9f6532276b80413c4b56c7e08a6f]),
     (4, [
       0x3b72c6f0847c3035794c685d9ff87810e3a54e625690d164ef939c8971b9cb05,
       0xe185b4f1672a6519e8512898c2d1ee2a56d114f755a0e139485db5b09c974378,
       0x867291450e6b407f31fcd4b4bdcb982f6fd8921fa4444536f5afbaabd1a95d17,
       0x47a3e2eb62ca564c57720f719d4549e40d40ef7d0724cec9391bd57c6eb2fba2,
       0x1fda3b4580332bd9699f632f8ffe3179127dc9be40846a8b7c4bf7543f07af17,
       0x5a906253059aeb97d0df7541a911fcb16f2a522b31848951f4dbca4bce09ffa8,
       0x8968b25d1bac295ccbbd42fb5beb6729f268ed5e515f1829178b29b7cfd5b587,
       0x438824f529a8cf166ea71fbe82e33ed3c7788074d384d01bb5e636d0eaa1e298,
       0x4f85c468148e49c2fd914c970da1e3bc59ca306d6e144ac883aca4574b281cbf,
       0x679c5165e95470189ea1310ec538176082c86d6e78a878c5fb1aef1d0bfbf08e,
       0xc23bcff65f4116492215be87e5e0d59793bfd42dc191fd9fbfd542747c07239d,
       0xba90d48c9325b0453ab2a9a71955c5b9b3d42f8f2df083eb14f119dc6941a4ea,
       0x44cf9c9c2f35234efb655e78cf6eba49e5d3b367098b1fae3c9a2259d520e0c4,
       0x1ce8315654c5c6b50c91c38b7995cd29b4d4d788ced25290d9479d5eca8fe152,
       0x2118a3b324d21eb14d6aa8f7e4970406cf56309367fabb761403f0c656162a6b,
       0x4d1ab1c6a98515945e5ccf9db21fde850c15d0f9fe1b8036d51478d36f58e692,
       0x5ec93277c174083dd25cc73e11cd4ffee15152a1bfda601d76f512980426b6a8,
       0x238ec0bb34d9b2f9d759eecf84a5562f921a2ef13c549de9e88f3455a2eaf705,
       0xb9455727477e7dc7cf0a96435c398fcbe7d08547f36abd2c5688c650c290a141,
       0x49ed02a1e69c488cad47c08d8a2405e6202409272cf3d2d7200082b60ed6ed7d,
       0x4b38d632b2fa532a2d25ffe5b9793b503aecf4ea8a89e760d8ddf57e0c498b66,
       0x17ccdf6a718b65dba39b13f80e9d27aecca9540757f100ba18fec47288e6088e,
       0xea4169fe9fd93be72c69fbd443f94295fb18c3574115589ee82a8cd95be090a6,
       0xbfa15a1fe55427297fc217727fd0c92653e8ef0dd334c5b48868bbf8c6e45e61,
       0x30f006e67ffe1d30e926cca3250fd30f5a6b38fe90dbea92721db3bafc1abf18,
       0x051260e8fa2ad526d490b7a724e629add413fd6f542524b7f2e8369ce22d1f92,
       0x2590254cfc5459f9891f9d559093fc1fbbf5273a2c7af38f0cb53052a7cae285,
       0xe49837b647acacbd509554f8885f3b1ebe63daf1dc65424cce68c67299e849d0,
       0x0dd5ec87d00fe29d16fb36376855661eea8b6c9d22ca909efb1c8bca9ad0be20,
       0x119992d8a241968fd88851019230ed8ed9801c31c9834c8aaa02a7a689fca618,
       0x50bf7ee8510abba6e3519daf1f359e12c1b1c3de894bd7c0b1ac3cee804176a6,
       0xd0f85927b82c28c8a598f97a446a1c7a4e2250faff113d80d3c82058be4fa502,
       0xcf3e9db3739533accd90bc5c3149134c411f74975ffab7174b2707e31cf1bde9,
       0x76f742eea8e81578909f34f746cce19520a3a0a369464728bd87dabb85cc7c05,
       0xffba11c56058daf2d46f9c91bcfeda991ce24639d753896c01a71463fd7ef926,
       0x4a18579de10d1cc5a4e21c291bc0777df73363de8164a28d76728bd9317d4c42,
       0x818e8f417f06559d6dfe1276c162ca4127f14eef5e80fc6bc4f141f230bb91a2,
       0x925ca5db403415f83e7df518a6cea09ee03ba4c7fe7e7d5cea5efafe32378559]),
     (5, [
       0x97cceb00a35a91c091061cc00355be81aa7751e483a41ba31fc30e9b3ae68a37,
       0x14395517ef9f294c2c8cae3c75de191372c83dcdd61f03beb28641b1efcf4e72,
       0x82d36379e7d8df30b2934aba38989cdb377eae1ca75af3d5e5b24d41e47466d9,
       0x719c8c141831525893f054575f59a6ea0acffac376c61d4dc7bb38af8b14dcd3,
       0x27ed78552ba4d82cc9eaa2edc44a8d516d97a848e492c886a1f76fba6bd3038f,
       0xa8578e15e7a9478dd3e102983db66e86e9266259019d3ddbb1b53c65386cd205,
       0x4d502ad1a3f8b8ec2e10d105cea572b73007124a455d3ffd9613311e37aa4e48])]"

definition hash_of_hex :: "int \<Rightarrow> bytes" where
  "hash_of_hex h = be_bytes 32 h"

text \<open>\<^verbatim>\<open>hashes && hashes[id - 1]\<close>\<close>

definition catalog_hash :: "int \<Rightarrow> int \<Rightarrow> int option" where
  "catalog_hash category i = (case SCHEMA_CATALOG_NAME_HASHES_BY_CATEGORY category of None \<Rightarrow> None
     | Some hashes \<Rightarrow> if 1 \<le> i \<and> i \<le> int (length hashes) then Some (hashes ! nat (i - 1)) else None)"

definition validate_schemaCatalogEntry :: "platform \<Rightarrow> jsval \<Rightarrow> unit res" where
  "validate_schemaCatalogEntry E v =
     (case catalog_hash (numf v ''category'') (numf v ''categoryLocalSchemaId'') of
        None \<Rightarrow> Inl BAD_ENCODING
      | Some expectedHash \<Rightarrow> reject_if [blake2b256 E (bytesf v ''schemaName'') \<noteq> hash_of_hex expectedHash])"

definition schemaCatalogEntryV1 :: "platform \<Rightarrow> codec" where
  "schemaCatalogEntryV1 E = struct ''SchemaCatalogEntryV1'' [
     (''category'', ranged u8 1 5),
     (''categoryLocalSchemaId'', ranged u16be 1 0xffff),
     (''schemaName'', canonicalAsciiBytes E 1 96),
     (''canonicalSchemaBytes'', boundedBytes 1 0xffff)] (validate_schemaCatalogEntry E)"

interpretation schemaCatalogEntryV1: canonical_codec "schemaCatalogEntryV1 E" "{}"
  unfolding schemaCatalogEntryV1_def by (rule lawful_intros | simp)+

definition PUBLIC_FAMILY_SCHEMA_CODECS :: "platform \<Rightarrow> (string \<times> codec) list" where
  "PUBLIC_FAMILY_SCHEMA_CODECS E = [
     (''AdmissionParametersV1'', admissionParametersV1 E),
     (''AdmissionProfileV1'', admissionProfileV1 E),
     (''BlindCoreAckV1'', blindCoreAckV1),
     (''BlindDhtPointerV1'', blindDhtPointerV1 E),
     (''BlindExternalJournalTopologyV1'', blindExternalJournalTopologyV1),
     (''BlindForwardCloseV1'', blindForwardCloseV1),
     (''BlindForwardDataV1'', blindForwardDataV1),
     (''BlindForwardOpenResultV1'', blindForwardOpenResultV1),
     (''BlindForwardOpenV1'', blindForwardOpenV1),
     (''BlindForwardWindowV1'', blindForwardWindowV1),
     (''BlindHealthChallengeV1'', blindHealthChallengeV1),
     (''BlindHealthResultV1'', blindHealthResultV1),
     (''BlindOhttpKeyConfigV1'', blindOhttpKeyConfigV1),
     (''BlindServiceDescriptorV1'', blindServiceDescriptorV1 E),
     (''BlindStreamChunkPlainV1'', blindStreamChunkPlainV1),
     (''CoreMirrorRequestV1'', coreMirrorRequestV1),
     (''CoreServeChallengeV1'', coreServeChallengeV1),
     (''CoreServeResultV1'', coreServeResultV1),
     (''RelayIdentityTransitionV1'', relayIdentityTransitionV1),
     (''SchemaCatalogEntryV1'', schemaCatalogEntryV1 E)]"

text \<open>Every codec of the table keeps the codec contract.\<close>

lemma public_family_canonical: "(n, c) \<in> set (PUBLIC_FAMILY_SCHEMA_CODECS E) \<Longrightarrow> canonical_codec c {}"
  unfolding PUBLIC_FAMILY_SCHEMA_CODECS_def
  by (auto intro: admissionParametersV1.canonical_codec_axioms admissionProfileV1.canonical_codec_axioms
      blindCoreAckV1.canonical_codec_axioms blindDhtPointerV1.canonical_codec_axioms
      blindExternalJournalTopologyV1.canonical_codec_axioms blindForwardCloseV1.canonical_codec_axioms
      blindForwardDataV1.canonical_codec_axioms blindForwardOpenResultV1.canonical_codec_axioms
      blindForwardOpenV1.canonical_codec_axioms blindForwardWindowV1.canonical_codec_axioms
      blindHealthChallengeV1.canonical_codec_axioms blindHealthResultV1.canonical_codec_axioms
      blindOhttpKeyConfigV1.canonical_codec_axioms blindServiceDescriptorV1.canonical_codec_axioms
      blindStreamChunkPlainV1.canonical_codec_axioms coreMirrorRequestV1.canonical_codec_axioms
      coreServeChallengeV1.canonical_codec_axioms coreServeResultV1.canonical_codec_axioms
      relayIdentityTransitionV1.canonical_codec_axioms schemaCatalogEntryV1.canonical_codec_axioms)

text \<open>
  The wire rows of \<^verbatim>\<open>EXECUTABLE_SCHEMA_CODECS\<close> in \<^verbatim>\<open>schema-codecs.js\<close>: each wire schema name of
  the registry with the exported codec of that name.  The dispatch frame and the outer envelope,
  which have framing of their own, are not codecs of this kind.
\<close>

definition WIRE_SCHEMA_CODECS :: "platform \<Rightarrow> (string \<times> codec) list" where
  "WIRE_SCHEMA_CODECS E = [
     (''AdmissionCostRuleV1'', admissionCostRuleV1),
     (''AdmissionParametersV1'', admissionParametersV1 E),
     (''AdmissionProfileV1'', admissionProfileV1 E),
     (''AdmissionV1'', admissionV1),
     (''BatchGetEntryV1'', batchGetEntryV1),
     (''BatchGetResultV1'', batchGetResultV1 E),
     (''BatchGetSignaturePayloadV1'', batchGetSignaturePayloadV1),
     (''BatchGetV1'', batchGetV1),
     (''BlindAdmissionParametersRequestV1'', blindAdmissionParametersRequestV1),
     (''BlindBackupChunkManifestV1'', blindBackupChunkManifestV1 E),
     (''BlindBackupEncryptionProfileV1'', blindBackupEncryptionProfileV1),
     (''BlindBackupManifestV1'', blindBackupManifestV1),
     (''BlindBackupRetentionTransitionV1'', blindBackupRetentionTransitionV1),
     (''BlindCleanRestoreEvidenceV1'', blindCleanRestoreEvidenceV1),
     (''BlindCoreAckV1'', blindCoreAckV1),
     (''BlindDescribeGetV1'', blindDescribeGetV1),
     (''BlindDhtPointerV1'', blindDhtPointerV1 E),
     (''BlindErrorV1'', blindErrorV1),
     (''BlindExternalCommitWitnessV1'', blindExternalCommitWitnessV1),
     (''BlindExternalJournalTopologyV1'', blindExternalJournalTopologyV1),
     (''BlindForwardCloseV1'', blindForwardCloseV1),
     (''BlindForwardDataV1'', blindForwardDataV1),
     (''BlindForwardHopAcceptV1'', blindForwardHopAcceptV1),
     (''BlindForwardHopOpenV1'', blindForwardHopOpenV1),
     (''BlindForwardOpenResultV1'', blindForwardOpenResultV1),
     (''BlindForwardOpenV1'', blindForwardOpenV1),
     (''BlindForwardRouteHopV1'', blindForwardRouteHopV1),
     (''BlindForwardRouteScopeV1'', blindForwardRouteScopeV1),
     (''BlindForwardWindowV1'', blindForwardWindowV1),
     (''BlindHealthChallengeV1'', blindHealthChallengeV1),
     (''BlindHealthResultV1'', blindHealthResultV1),
     (''BlindOhttpKeyConfigV1'', blindOhttpKeyConfigV1),
     (''BlindOhttpTransportErrorV1'', blindOhttpTransportErrorV1),
     (''BlindReceiptV1'', blindReceiptV1),
     (''BlindRestoreEvidenceBundleV1'', blindRestoreEvidenceBundleV1),
     (''BlindRestoreEvidenceHeadV1'', blindRestoreEvidenceHeadV1),
     (''BlindServiceDescriptorV1'', blindServiceDescriptorV1 E),
     (''BlindStreamChunkPlainV1'', blindStreamChunkPlainV1),
     (''BlindTransportRouteV1'', blindTransportRouteV1),
     (''BuildProfileV1'', buildProfileV1 E),
     (''CoreMirrorRequestV1'', coreMirrorRequestV1),
     (''CoreOpenReplicationResultV1'', coreOpenReplicationResultV1),
     (''CoreOpenReplicationV1'', coreOpenReplicationV1),
     (''CoreServeChallengeV1'', coreServeChallengeV1),
     (''CoreServeResultV1'', coreServeResultV1),
     (''DomainRegistryEntryV1'', domainRegistryEntryV1 E),
     (''DropCellV1'', dropCellV1),
     (''DurabilityContinuityBindingV1'', durabilityContinuityBindingV1),
     (''DurabilityProfileV1'', durabilityProfileV1 E),
     (''ErrorProfileEntryV1'', errorProfileEntryV1),
     (''GetCellResultV1'', getCellResultV1),
     (''GetCellV1'', getCellV1),
     (''InboxAppendAckV1'', inboxAppendAckV1),
     (''InboxAppendV1'', inboxAppendV1 E),
     (''InboxCreateV1'', inboxCreateV1 E),
     (''InboxManageV1'', inboxManageV1),
     (''InboxReadResultV1'', inboxReadResultV1 E),
     (''InboxReadSignaturePayloadV1'', inboxReadSignaturePayloadV1),
     (''InboxReadV1'', inboxReadV1),
     (''InboxReceiptV1'', inboxReceiptV1),
     (''InboxWatchV1'', inboxWatchV1),
     (''OperationProfileV1'', operationProfileV1),
     (''ProtocolProfileV1'', protocolProfileV1),
     (''ProveCellResultV1'', proveCellResultV1 E),
     (''ProveCellV1'', proveCellV1),
     (''PutCellV1'', putCellV1 E),
     (''RelayIdentityTransitionV1'', relayIdentityTransitionV1),
     (''RelayResultBindingV1'', relayResultBindingV1),
     (''RenewCellV1'', renewCellV1),
     (''SchemaCatalogEntryV1'', schemaCatalogEntryV1 E),
     (''TransportEndpointV1'', transportEndpointV1 E)]"

lemmas wire_codec_axioms =
  admissionCostRuleV1.canonical_codec_axioms
  admissionParametersV1.canonical_codec_axioms
  admissionProfileV1.canonical_codec_axioms
  admissionV1.canonical_codec_axioms
  canonical_batchGetEntry
  batchGetResultV1.canonical_codec_axioms
  batchGetSignaturePayloadV1.canonical_codec_axioms
  batchGetV1.canonical_codec_axioms
  blindAdmissionParametersRequestV1.canonical_codec_axioms
  blindBackupChunkManifestV1.canonical_codec_axioms
  blindBackupEncryptionProfileV1.canonical_codec_axioms
  blindBackupManifestV1.canonical_codec_axioms
  blindBackupRetentionTransitionV1.canonical_codec_axioms
  blindCleanRestoreEvidenceV1.canonical_codec_axioms
  blindCoreAckV1.canonical_codec_axioms
  blindDescribeGetV1.canonical_codec_axioms
  blindDhtPointerV1.canonical_codec_axioms
  blindErrorV1.canonical_codec_axioms
  canonical_externalCommitWitness(1)
  blindExternalJournalTopologyV1.canonical_codec_axioms
  blindForwardCloseV1.canonical_codec_axioms
  blindForwardDataV1.canonical_codec_axioms
  blindForwardHopAcceptV1.canonical_codec_axioms
  blindForwardHopOpenV1.canonical_codec_axioms
  blindForwardOpenResultV1.canonical_codec_axioms
  blindForwardOpenV1.canonical_codec_axioms
  blindForwardRouteHopV1.canonical_codec_axioms
  blindForwardRouteScopeV1.canonical_codec_axioms
  blindForwardWindowV1.canonical_codec_axioms
  blindHealthChallengeV1.canonical_codec_axioms
  blindHealthResultV1.canonical_codec_axioms
  blindOhttpKeyConfigV1.canonical_codec_axioms
  blindOhttpTransportErrorV1.canonical_codec_axioms
  blindReceiptV1.canonical_codec_axioms
  blindRestoreEvidenceBundleV1.canonical_codec_axioms
  blindRestoreEvidenceHeadV1.canonical_codec_axioms
  blindServiceDescriptorV1.canonical_codec_axioms
  blindStreamChunkPlainV1.canonical_codec_axioms
  blindTransportRouteV1.canonical_codec_axioms
  buildProfileV1.canonical_codec_axioms
  coreMirrorRequestV1.canonical_codec_axioms
  coreOpenReplicationResultV1.canonical_codec_axioms
  coreOpenReplicationV1.canonical_codec_axioms
  coreServeChallengeV1.canonical_codec_axioms
  coreServeResultV1.canonical_codec_axioms
  domainRegistryEntryV1.canonical_codec_axioms
  dropCellV1.canonical_codec_axioms
  durabilityContinuityBindingV1.canonical_codec_axioms
  durabilityProfileV1.canonical_codec_axioms
  errorProfileEntryV1.canonical_codec_axioms
  getCellResultV1.canonical_codec_axioms
  getCellV1.canonical_codec_axioms
  inboxAppendAckV1.canonical_codec_axioms
  inboxAppendV1.canonical_codec_axioms
  inboxCreateV1.canonical_codec_axioms
  inboxManageV1.canonical_codec_axioms
  inboxReadResultV1.canonical_codec_axioms
  inboxReadSignaturePayloadV1.canonical_codec_axioms
  inboxReadV1.canonical_codec_axioms
  inboxReceiptV1.canonical_codec_axioms
  inboxWatchV1.canonical_codec_axioms
  operationProfileV1.canonical_codec_axioms
  protocolProfileV1.canonical_codec_axioms
  proveCellResultV1.canonical_codec_axioms
  proveCellV1.canonical_codec_axioms
  putCellV1.canonical_codec_axioms
  relayIdentityTransitionV1.canonical_codec_axioms
  canonical_relayResultBinding
  renewCellV1.canonical_codec_axioms
  schemaCatalogEntryV1.canonical_codec_axioms
  transportEndpointV1.canonical_codec_axioms

lemma wire_schema_canonical: "(n, c) \<in> set (WIRE_SCHEMA_CODECS E) \<Longrightarrow> canonical_codec c {}"
  unfolding WIRE_SCHEMA_CODECS_def by (auto intro: wire_codec_axioms)

end
