(* ===== verification/Schema_Samples.thy ===== *)
theory Schema_Samples
  imports Schema_Catalog
begin

text \<open>
  Concrete messages without their bytes.  \<open>wired c v p\<close> says that the codec decodes \<open>v\<close> from
  some bytes; the rules of the collection \<open>wired_rules\<close> reduce it to the fields of \<open>v\<close>, those of
  \<open>count_rules\<close> compute the length of its encoding, so that
  messages with large opaque bodies are exhibited by simplification.  \<open>sample_platform\<close> is the
  platform of the development's concrete instances.
\<close>

named_theorems wired_rules
named_theorems count_rules

definition wired :: "codec \<Rightarrow> jsval \<Rightarrow> jsval \<Rightarrow> bool" where
  "wired c v p \<longleftrightarrow> (\<exists>bs. decodes c v p bs)"

lemma wiredI: "decodes c v p bs \<Longrightarrow> wired c v p"
  unfolding wired_def by blast

lemma wired_mono: "wired c v q \<Longrightarrow> (\<And>bs. decodes c v q bs \<Longrightarrow> decodes d v p bs) \<Longrightarrow> wired d v p"
  unfolding wired_def by blast

fun wired_fields :: "(string \<times> codec) list \<Rightarrow> obj \<Rightarrow> obj \<Rightarrow> bool" where
  "wired_fields [] vs xs = (xs = [])"
| "wired_fields (f # fs) vs [] = False"
| "wired_fields (f # fs) vs (x # xs) =
     (fst f = fst x \<and> fst x \<notin> fst ` set vs \<and> wired (snd f) (snd x) (JObj vs) \<and> wired_fields fs (vs @ [x]) xs)"

lemma wired_fields_decode:
  "wired_fields fs vs xs \<Longrightarrow>
     \<exists>bs. \<forall>st. reads st bs \<longrightarrow> decode_fields fs st vs = Inr (vs @ xs, advance st (length bs))"
proof (induction fs vs xs rule: wired_fields.induct)
  case (1 vs xs)
  then show ?case by (intro exI [of _ "[]"]) simp
next
  case (3 f fs vs x xs)
  obtain n c y where f: "f = (n, c)" "x = (n, y)" using 3 by (cases f; cases x) auto
  with 3 obtain b bs where b: "decodes c y (JObj vs) b"
      and bs: "\<forall>st. reads st bs \<longrightarrow> decode_fields fs st (vs @ [x]) = Inr (vs @ x # xs, advance st (length bs))"
    by (auto simp: wired_def)
  have "decode_fields (f # fs) st vs = Inr (vs @ x # xs, advance st (length (b @ bs)))" if "reads st (b @ bs)" for st
  proof -
    from that have "reads st b" "reads (advance st (length b)) bs" by (simp_all add: reads_append)
    with 3 f decodesD [OF b] bs show ?thesis by simp
  qed
  then show ?case by blast
qed simp

lemma wired_struct [wired_rules]:
  assumes "fs \<noteq> []" "wired_fields fs [] xs" "validate (JObj xs) = Inr ()"
  shows "wired (struct name fs validate) (JObj xs) p"
proof -
  from wired_fields_decode [OF assms(2)] obtain bs where
    "\<forall>st. reads st bs \<longrightarrow> decode_fields fs st [] = Inr (xs, advance st (length bs))" by auto
  with assms show ?thesis by (intro wiredI [of _ _ _ bs]) (simp add: decodes_def struct_def)
qed

lemma wired_unsigned [wired_rules]:
  "0 \<le> i \<Longrightarrow> i < 256 \<Longrightarrow> wired u8 (JNum i) p"
  "0 \<le> i \<Longrightarrow> i < 65536 \<Longrightarrow> wired u16be (JNum i) p"
  "0 \<le> i \<Longrightarrow> i < 4294967296 \<Longrightarrow> wired u32be (JNum i) p"
  "0 \<le> i \<Longrightarrow> i \<le> MAX_U64 \<Longrightarrow> wired u64be (JBig i) p"
  using decodes_fixedUnsigned [of "be_bytes 1 i" 1 255 p] decodes_fixedUnsigned [of "be_bytes 2 i" 2 65535 p]
    decodes_fixedUnsigned [of "be_bytes 4 i" 4 4294967295 p] decodes_u64be [of "be_bytes 8 i" p]
  by (auto simp: wired_def u8_def u16be_def u32be_def be_val_be_bytes MAX_U64_def uint_word_of_int_byte)

lemma wired_ranged [wired_rules]:
  "lo \<le> i \<Longrightarrow> i \<le> hi \<Longrightarrow> wired c (JNum i) JUndef \<Longrightarrow> wired (ranged c lo hi) (JNum i) p"
  by (erule wired_mono) (simp add: decodes_def ranged_def out_of_range_def)

lemma wired_constantOf [wired_rules]: "e = e' \<Longrightarrow> wired c e JUndef \<Longrightarrow> wired (constantOf c e) e' p"
  by (hypsubst, erule wired_mono) (simp add: decodes_def constantOf_def)

lemma wired_fixedBytes [wired_rules]:
  "length bs = n \<Longrightarrow> int n \<le> MAX_SAFE_INTEGER \<Longrightarrow> wired (fixedBytes n) (JBytes bs) p"
  by (rule wiredI, rule decodes_fixedBytes)

lemma wired_boundedBytes [wired_rules]:
  "lo \<le> length bs \<Longrightarrow> length bs \<le> hi \<Longrightarrow> int (length bs) \<le> MAX_SAFE_INTEGER \<Longrightarrow> wired (boundedBytes lo hi) (JBytes bs) p"
  by (rule wiredI, rule decodes_boundedBytes)

lemma wired_exactBytes [wired_rules]:
  "selectedLength f cl p = Inr (length bs) \<Longrightarrow> wired (exactBytesByClass f cl) (JBytes bs) p"
  by (rule wiredI [of _ _ _ bs]) (simp add: decodes_def exactBytesByClass_def assertAvailable_room reads_def)

lemma wired_optional [wired_rules]:
  "wired (optional c) JNull p"
  "wired c v JUndef \<Longrightarrow> wired (optional c) v p"
  using decodes_optional_none decodes_optional_some unfolding wired_def by blast+

lemma wired_arrayOf [wired_rules]:
  assumes "lo \<le> length xs" "length xs \<le> hi" "int (length xs) \<le> MAX_SAFE_INTEGER" "list_all (\<lambda>x. wired c x JUndef) xs"
  shows "wired (arrayOf c lo hi) (JArr xs) p"
proof -
  from assms(4) have "\<exists>bss. list_all2 (\<lambda>x bs. decodes c x JUndef bs) xs bss"
    by (induction xs) (auto simp: wired_def list_all2_Cons1)
  with decodes_arrayOf assms(1-3) show ?thesis unfolding wired_def by blast
qed

lemma wired_text [wired_rules]:
  "canonicalTextValue E (JBytes bs) lo hi a = Inr bs \<Longrightarrow> wired (boundedBytes lo hi) (JBytes bs) JUndef \<Longrightarrow>
     wired (canonicalTextBytes E lo hi a) (JBytes bs) p"
  by (erule wired_mono) (simp add: decodes_def canonicalTextBytes_def Let_def)

lemma wired_url [wired_rules]:
  "validateCanonicalUrl E (JBytes bs) False = Inr () \<Longrightarrow> wired (canonicalUtf8Bytes E 1 512) (JBytes bs) JUndef \<Longrightarrow>
     wired (canonicalHttpsUrlBytes E) (JBytes bs) p"
  by (erule wired_mono) (simp add: decodes_def canonicalHttpsUrlBytes_def Let_def)

lemma decodes_decodeCanonical: "decodes c v JUndef bs \<Longrightarrow> decodeCanonical c (JBytes bs) cp = Inr v"
  by (simp add: decodes_def decodeCanonical_def asBuffer_def reads_def room_def slice_def)

lemma wired_capped:
  assumes c: "canonical_codec c {}" and w: "wired c v JUndef"
    and n: "preencode c \<lparr>st_start = 0, st_end = 0, st_buffer = [], st_copyBytes = False\<rparr> v JUndef = Inr st1" "st_end st1 \<le> m"
  shows "wired (cappedEncoding c m name) v p"
proof -
  from w obtain bs where bs: "decodes c v JUndef bs" unfolding wired_def by blast
  from canonical_codec.decodeCanonical_decodes [OF c decodes_decodeCanonical [OF bs]]
  have "preencode c st v JUndef = Inr (grow st (length bs))" for st by (simp add: encodes_def)
  with n have "length bs \<le> m" by (auto simp: grow_def)
  with bs show ?thesis
    by (intro wiredI [of _ _ _ bs]) (simp add: decodes_def cappedEncoding_def)
qed

lemma wired_canonical:
  assumes "wired c v JUndef"
  shows "\<exists>bs. decodeCanonical c (JBytes bs) cp = Inr v"
proof -
  from assms obtain bs where "decodes c v JUndef bs" unfolding wired_def by blast
  then show ?thesis using decodes_decodeCanonical by blast
qed

text \<open>The length of an encoding, field by field.\<close>

lemma count_unsigned [count_rules]:
  "0 \<le> i \<Longrightarrow> i < 256 \<Longrightarrow> preencode u8 st (JNum i) p = Inr (grow st 1)"
  "0 \<le> i \<Longrightarrow> i < 65536 \<Longrightarrow> preencode u16be st (JNum i) p = Inr (grow st 2)"
  "0 \<le> i \<Longrightarrow> i < 4294967296 \<Longrightarrow> preencode u32be st (JNum i) p = Inr (grow st 4)"
  "0 \<le> i \<Longrightarrow> i \<le> MAX_U64 \<Longrightarrow> preencode u64be st (JBig i) p = Inr (grow st 8)"
  by (simp_all add: u8_def u16be_def u32be_def u64be_def fixedUnsigned_def assertUnsignedNumber_def asU64_def
      MAX_SAFE_INTEGER_def)

lemma count_bytes [count_rules]:
  "length bs = n \<Longrightarrow> int n \<le> MAX_SAFE_INTEGER \<Longrightarrow> preencode (fixedBytes n) st (JBytes bs) p = Inr (grow st n)"
  "selectedLength f cl p = Inr (length bs) \<Longrightarrow> preencode (exactBytesByClass f cl) st (JBytes bs) p = Inr (grow st (length bs))"
  "lo \<le> length bs \<Longrightarrow> length bs \<le> hi \<Longrightarrow> length bs \<le> 252 \<Longrightarrow>
     preencode (boundedBytes lo hi) st (JBytes bs) p = Inr (grow st (1 + length bs))"
  using encodesD(1) [OF encodes_fixedBytes] encodesD(1) [OF encodes_boundedBytes, of lo bs hi]
  by (simp_all add: exactBytesByClass_def asBuffer_def length_compact_bytes compact_size_def MAX_SAFE_INTEGER_def)

lemma count_restricted [count_rules]:
  "lo \<le> i \<Longrightarrow> i \<le> hi \<Longrightarrow> preencode (ranged c lo hi) st (JNum i) p = preencode c st (JNum i) JUndef"
  "preencode (constantOf c e) st e p = preencode c st e JUndef"
  "preencode (optional c) st JNull p = Inr (grow st 1)"
  "\<not> is_nullish v \<Longrightarrow> preencode (optional c) st v p = preencode c (grow st 1) v JUndef"
  by (simp_all add: ranged_def out_of_range_def constantOf_def optional_def count_unsigned)

lemma count_text [count_rules]:
  "canonicalTextValue E (JBytes bs) lo hi a = Inr bs \<Longrightarrow>
     preencode (canonicalTextBytes E lo hi a) st (JBytes bs) p = preencode (boundedBytes lo hi) st (JBytes bs) JUndef"
  "validateCanonicalUrl E v False = Inr () \<Longrightarrow>
     preencode (canonicalHttpsUrlBytes E) st v p = preencode (canonicalUtf8Bytes E 1 512) st v JUndef"
  by (simp_all add: canonicalTextBytes_def canonicalHttpsUrlBytes_def Let_def)

lemma count_arrayOf [count_rules]:
  "lo \<le> length xs \<Longrightarrow> length xs \<le> hi \<Longrightarrow> length xs \<le> 252 \<Longrightarrow>
     preencode (arrayOf c lo hi) st (JArr xs) p = each (preencode c) (grow st 1) xs"
  by (simp add: arrayOf_def array_values_def compact_preencode_def assertUnsignedNumber_def MAX_SAFE_INTEGER_def compact_size_def)

lemma count_struct [count_rules]:
  "fs \<noteq> [] \<Longrightarrow> validate (JObj xs) = Inr () \<Longrightarrow>
     preencode (struct name fs validate) st (JObj xs) p = preencode_fields fs st (JObj xs)"
  by (simp add: struct_def)

lemmas wired_fields_defs = shared_field_defs MAX_SAFE_INTEGER_def MAX_U64_def

subsection \<open>Samples\<close>

lemma text_of_ascii [simp]: "text_of (ascii s) = s"
  by (induction s) (simp_all add: text_of_def ascii_def unat_of_nat)

definition sample_text :: string where
  "sample_text = ''https://relay.example:8443/api/blind/v1/describe''"

definition sample_platform :: platform where
  "sample_platform = \<lparr>crypto_generichash = (\<lambda>bs. be_bytes 32 (int (length bs))),
     is_nfc = (\<lambda>_. True),
     parse_url = (\<lambda>text. if text = sample_text
       then Some \<lparr>url_username = [], url_password = [], url_search = [], url_hash = [],
         url_hostname = ''relay.example'', url_pathname = ''/api/blind/v1/describe''\<rparr> else None)\<rparr>"

lemma sample_text_ok:
  "canonicalTextValue sample_platform (JBytes (ascii sample_text)) 1 512 False = Inr (ascii sample_text)"
  by code_simp

lemma sample_match:
  "match_url sample_text = Some (''https'', ''relay.example:8443'', ''/api/blind/v1/describe'')"
  "split_authority ''relay.example:8443'' = Some (''relay.example'', ''8443'')"
  "length sample_text = 48"
  by code_simp+

lemma sample_checks:
  "\<not> list_ex is_upper ''relay.example''" "port_ok ''8443''" "percent_ok ''/api/blind/v1/describe''"
  "\<not> is_onion ''relay.example''" "\<not> ends_with ''relay.example'' ''.onion''"
  by code_simp+

lemma sample_url_ok:
  "validateCanonicalUrl sample_platform (JBytes (ascii sample_text)) False = Inr ()"
  by (simp add: validateCanonicalUrl_def sample_text_ok sample_match sample_checks del: One_nat_def)
    (simp add: sample_platform_def is_upper_def is_onion_def ends_with_def rbind_Inr_iff)

lemma isAllZero_replicate [simp]: "isAllZero (replicate n b) \<longleftrightarrow> n = 0 \<or> b = 0"
  by (auto simp: isAllZero_def list_all_iff)

text \<open>A field of \<open>n\<close> equal bytes.\<close>

abbreviation fill :: "nat \<Rightarrow> byte \<Rightarrow> jsval" where
  "fill n b \<equiv> JBytes (replicate n b)"

abbreviation sample_url :: jsval where
  "sample_url \<equiv> JBytes (ascii sample_text)"

lemma sample_url_wired [wired_rules]:
  "wired (canonicalHttpsUrlBytes sample_platform) sample_url p"
  "wired (endpointUrl sample_platform) sample_url p"
  by (simp_all add: endpointUrl_def wired_rules sample_url_ok canonicalUtf8Bytes_def sample_text_ok sample_match
      MAX_SAFE_INTEGER_def del: One_nat_def)

lemma sample_url_count [count_rules]:
  "preencode (canonicalHttpsUrlBytes sample_platform) st sample_url p = Inr (grow st 49)"
  "preencode (endpointUrl sample_platform) st sample_url p = Inr (grow st 49)"
  by (simp_all add: endpointUrl_def count_rules sample_url_ok canonicalUtf8Bytes_def sample_text_ok sample_match
      del: One_nat_def)

end
