(* ===== verification/Sample_Messages.thy ===== *)
theory Sample_Messages
  imports Binding Schema_Samples
begin

text \<open>
  One concrete message for each schema that the properties speak of, and that its codec
  decodes it from some bytes.
\<close>

subsection \<open>Bindings, admission tokens\<close>

definition sample_binding :: jsval where
  "sample_binding = JObj [(''version'', JNum 1), (''relayPublicKey'', fill 32 1), (''storeId'', fill 32 2),
     (''descriptorSequence'', JBig 4), (''descriptorHash'', fill 32 3), (''durabilityProfileId'', JNum 1),
     (''durabilityContinuityHash'', fill 32 4), (''durabilityProfileHash'', fill 32 5),
     (''restoreEvidenceHeadSequence'', JBig 0), (''restoreEvidenceHeadHash'', fill 32 0),
     (''externalCommitWitness'', JNull)]"

definition sample_admission :: jsval where
  "sample_admission = JObj [(''profileId'', JNum 1), (''schemeId'', JNum 1), (''parameterHash'', fill 32 1),
     (''token'', fill 8 7)]"

lemma sample_binding_wired [wired_rules]: "wired relayResultBindingV1 sample_binding p"
  by (simp add: relayResultBindingV1_def sample_binding_def wired_rules wired_fields_defs
      validate_relayResultBinding_def rbind_Inr_iff)

lemma sample_admission_wired [wired_rules]: "wired admissionV1 sample_admission p"
  by (simp add: admissionV1_def sample_admission_def wired_rules wired_fields_defs no_validate_def)

definition commit_witness :: jsval where
  "commit_witness = JObj [(''version'', JNum 1), (''relayPublicKey'', fill 32 1), (''storeId'', fill 32 2),
     (''externalJournalId'', fill 32 6), (''durabilityContinuityHash'', fill 32 4), (''durabilityProfileHash'', fill 32 5),
     (''restoreEvidenceHeadSequence'', JBig 0), (''restoreEvidenceHeadHash'', fill 32 0), (''familyId'', JNum 2),
     (''operationId'', JNum 1), (''requestCommitment'', fill 32 7), (''resultCommitment'', fill 32 8),
     (''commitWalSequence'', JBig 10), (''commitWalHash'', fill 32 9), (''coveringFloorRevision'', JBig 1),
     (''coveringFloorHash'', fill 32 10), (''coveringFloorWalSequence'', JBig 12), (''coveringFloorWalHash'', fill 32 11),
     (''writerEpoch'', JBig 1), (''writerFenceTokenHash'', fill 32 12), (''externalLeaseRevision'', JBig 1),
     (''witnessedUnixMillis'', JBig 1000), (''witnessPublicKey'', fill 32 13), (''signature'', fill 64 14)]"

definition binding_value :: jsval where
  "binding_value = JObj [(''version'', JNum 1), (''relayPublicKey'', fill 32 1), (''storeId'', fill 32 2),
     (''descriptorSequence'', JBig 4), (''descriptorHash'', fill 32 3), (''durabilityProfileId'', JNum 2),
     (''durabilityContinuityHash'', fill 32 4), (''durabilityProfileHash'', fill 32 5),
     (''restoreEvidenceHeadSequence'', JBig 0), (''restoreEvidenceHeadHash'', fill 32 0),
     (''externalCommitWitness'', commit_witness)]"

lemma known_cell_put: "isKnownOperation 2 1" by code_simp

lemma binding_wired: "wired relayResultBindingV1 binding_value JUndef"
  by (simp add: relayResultBindingV1_def binding_value_def commit_witness_def wired_rules wired_fields_defs
      validate_relayResultBinding_def blindExternalCommitWitnessV1_def validate_externalCommitWitness_def
      known_cell_put rbind_Inr_iff)

subsection \<open>Cells and inboxes\<close>

definition put_value :: jsval where
  "put_value = JObj [(''version'', JNum 1),
     (''storageSlot'', JBytes (be_bytes 32 (int (length ''hiverelay.blind.slot.v1'') + 36))),
     (''allocationEpoch'', JNum 9), (''sizeClass'', JNum 1), (''leaseClass'', JNum 2), (''clientNonce'', fill 32 1),
     (''createPublicKey'', fill 32 2), (''renewPublicKey'', fill 32 3), (''dropPublicKey'', fill 32 4),
     (''declaredBlobHash'', JBytes (be_bytes 32 4096)), (''createSignature'', fill 64 5),
     (''admission'', sample_admission), (''cellBlob'', fill 4096 6)]"

lemma put_wired: "wired (putCellV1 sample_platform) put_value JUndef"
  by (simp add: putCellV1_def put_value_def wired_rules wired_fields_defs validate_putCell_def cellStorageSlot_def
      cellSlotPreimage_def encodeU32_def encodeUnsigned_def assertUnsignedNumber_def fixedBytesInput_def hBuffer_def
      write_be_buffer cellBlob_def selectedLength_def CELL_SIZE_CLASS_def blake2b256_def sample_platform_def)

definition batch_value :: jsval where
  "batch_value = JObj [(''version'', JNum 1), (''clientNonce'', fill 32 2), (''slots'', JArr [fill 32 3, fill 32 4]),
     (''admission'', JNull)]"

lemma batch_wired: "wired batchGetV1 batch_value JUndef"
  by (simp add: batchGetV1_def batch_value_def wired_rules wired_fields_defs validate_batchGet_def
      assertDistinctBytes_def batchGetSlotsV1_def)

definition read_entry :: jsval where
  "read_entry = JObj [(''appendRevision'', JBig 3), (''frameHash'', JBytes (be_bytes 32 4096)),
     (''frameClass'', JNum 1), (''frame'', fill 4096 6)]"

definition read_value :: jsval where
  "read_value = JObj [(''version'', JNum 1), (''relayBinding'', sample_binding), (''requestNonce'', fill 32 1),
     (''requestCommitment'', fill 32 2), (''snapshotRevision'', JBig 5), (''entries'', JArr [read_entry]),
     (''entriesCommitment'', JBytes (be_bytes 32 4138)), (''nextCursor'', JNull), (''signature'', fill 64 3)]"

lemma read_entry_wired: "wired (inboxReadEntryV1 sample_platform) read_entry p"
  by (simp add: inboxReadEntryV1_def read_entry_def wired_rules wired_fields_defs validate_inboxReadEntry_def
      inboxFrame_def selectedLength_def INBOX_FRAME_CLASS_def blake2b256_def sample_platform_def)

lemma read_entries_bytes:
  "\<exists>bs. encodeCanonical (inboxReadEntriesV1 sample_platform) (JArr [read_entry]) = Inr bs \<and> length bs = 4138"
proof -
  have "preencode (inboxReadEntriesV1 sample_platform) st (JArr [read_entry]) JUndef = Inr (grow st 4138)" for st
    by (simp add: inboxReadEntriesV1_def inboxReadEntryV1_def read_entry_def count_rules wired_fields_defs
        inboxFrame_def selectedLength_def INBOX_FRAME_CLASS_def validate_inboxReadEntry_def blake2b256_def
        sample_platform_def)
  from inboxReadEntriesV1.encodeCanonical_length [OF this] show ?thesis by (auto simp: grow_def)
qed

lemma no_cursor_bytes: "encodeCanonical inboxNextCursorV1 JNull = Inr [0]" by code_simp

lemma read_wired: "wired (inboxReadResultV1 sample_platform) read_value JUndef"
proof -
  obtain bs where "encodeCanonical (inboxReadEntriesV1 sample_platform) (JArr [read_entry]) = Inr bs" "length bs = 4138"
    using read_entries_bytes by blast
  then have "validate_inboxReadResult sample_platform read_value = Inr ()"
    by (simp add: validate_inboxReadResult_def read_value_def no_cursor_bytes MiB_def KiB_def blake2b256_def sample_platform_def rbind_Inr_iff
       read_entry_def)
  then show ?thesis
    unfolding read_value_def inboxReadResultV1_def
    by (simp add: wired_rules wired_fields_defs inboxReadEntriesV1_def read_entry_wired inboxNextCursorV1_def)
qed

subsection \<open>Cores and forward circuits\<close>

definition sample_hop :: "int \<Rightarrow> byte \<Rightarrow> byte \<Rightarrow> byte \<Rightarrow> jsval" where
  "sample_hop i key before after = JObj [(''hopIndex'', JNum i), (''relayPublicKey'', fill 32 key),
     (''descriptorSequence'', JBig 7), (''descriptorHash'', fill 32 9), (''previousScopeHash'', fill 32 before),
     (''scopeHash'', fill 32 after), (''relaySignature'', fill 64 1)]"

definition scope_value :: jsval where
  "scope_value = JObj [(''version'', JNum 1), (''rootRouteId'', fill 16 1), (''rootCircuitNonce'', fill 32 2),
     (''rootRequestCommitment'', fill 32 3), (''maxRelayCount'', JNum 3), (''expiresEpoch'', JNum 20),
     (''hops'', JArr [sample_hop 0 4 0 5, sample_hop 1 6 5 8])]"

lemma scope_wired: "wired blindForwardRouteScopeV1 scope_value JUndef"
  by (simp add: blindForwardRouteScopeV1_def scope_value_def sample_hop_def wired_rules wired_fields_defs rbind_Inr_iff
    blindForwardRouteHopsV1_def blindForwardRouteHopV1_def validate_routeHop_def validate_routeScope_def)

definition serve_value :: jsval where
  "serve_value = JObj [(''version'', JNum 1), (''corePublicKey'', fill 32 1), (''fork'', JBig 0), (''length'', JBig 9),
     (''signedHeadHash'', fill 32 2), (''blockIndices'', JArr [JBig 3, JBig 8]), (''clientNonce'', fill 32 3),
     (''admission'', JNull)]"

lemma serve_wired: "wired coreServeChallengeV1 serve_value JUndef"
  by (simp add: coreServeChallengeV1_def serve_value_def wired_rules wired_fields_defs coreBlockIndicesV1_def
      validate_coreServeChallenge_def validate_coreHead_def compareScalar_def rbind_Inr_iff)

definition accept_value :: jsval where
  "accept_value = JObj [(''version'', JNum 1), (''previousRelayKey'', fill 32 1), (''previousDescriptorSequence'', JBig 2),
     (''previousDescriptorHash'', fill 32 8), (''nextRelayKey'', fill 32 1), (''nextDescriptorSequence'', JBig 4),
     (''nextDescriptorHash'', fill 32 3), (''nextRelayBinding'', sample_binding), (''routeId'', fill 16 5),
     (''circuitNonce'', fill 32 6), (''nextStreamId'', JBig 9), (''grantedWireClass'', JNum 1), (''circuitClass'', JNum 1),
     (''grantedInitialWindow'', JNum 65536), (''maxDataBytes'', JNum 4096), (''maxCircuitBytes'', JBig 16777216),
     (''idleMillis'', JNum 30000), (''lifetimeMillis'', JNum 600000), (''openedAtEpoch'', JNum 7),
     (''hopOpenCommitment'', fill 32 7), (''acceptedRouteScopeHash'', fill 32 9), (''acceptedRelayCount'', JNum 2),
     (''handshakeFlight2'', fill 96 1), (''nextSignature'', fill 64 2)]"

definition open_result_value :: jsval where
  "open_result_value = JObj [(''version'', JNum 1), (''relayBinding'', sample_binding), (''routeId'', fill 16 5),
     (''nextDescriptorSequence'', JBig 4), (''nextDescriptorHash'', fill 32 3), (''circuitNonce'', fill 32 6),
     (''grantedWireClass'', JNum 1), (''circuitClass'', JNum 1), (''streamId'', JBig 11),
     (''grantedInitialWindow'', JNum 65536), (''maxDataBytes'', JNum 4096), (''maxCircuitBytes'', JBig 16777216),
     (''idleMillis'', JNum 30000), (''lifetimeMillis'', JNum 600000), (''openedAtEpoch'', JNum 7),
     (''requestCommitment'', fill 32 10), (''acceptedRouteScopeHash'', fill 32 9), (''acceptedRelayCount'', JNum 2),
     (''nextHopAccept'', accept_value), (''signature'', fill 64 2)]"

lemma sample_binding_reads:
  "bytesf sample_binding ''relayPublicKey'' = replicate 32 1" "bytesf sample_binding ''descriptorHash'' = replicate 32 3"
  "bigf sample_binding ''descriptorSequence'' = 4"
  by (simp_all add: sample_binding_def)

lemma accept_wired: "wired blindForwardHopAcceptV1 accept_value p"
  by (simp add: accept_value_def blindForwardHopAcceptV1_def wired_rules wired_fields_defs validate_forwardHopAccept_def
     validateForwardTuple_def FORWARD_CIRCUIT_CLASS_def STREAM_WIRE_CLASS_def rbind_Inr_iff sample_binding_reads)

lemma open_result_wired: "wired blindForwardOpenResultV1 open_result_value JUndef"
proof -
  have "validate_forwardOpenResult open_result_value = Inr ()"
    by (simp add: validate_forwardOpenResult_def open_result_value_def accept_value_def
     validateForwardTuple_def FORWARD_CIRCUIT_CLASS_def STREAM_WIRE_CLASS_def rbind_Inr_iff sample_binding_reads)
  then show ?thesis unfolding open_result_value_def blindForwardOpenResultV1_def
    by (simp add: wired_rules wired_fields_defs accept_wired)
qed

definition chunk_value :: jsval where
  "chunk_value = JObj [(''version'', JNum 1), (''wireClass'', JNum 1), (''flags'', JNum 0), (''contentLength'', JNum 100),
     (''content'', fill 100 1), (''randomPadding'', fill 3973 2)]"

lemma wired_sized [wired_rules]: "len p = Inr n \<Longrightarrow> wired (fixedBytes n) v JUndef \<Longrightarrow> wired (sizedBytes len) v p"
  by (erule wired_mono) (simp add: decodes_def sizedBytes_def)

lemma chunk_lens: "streamChunkLengths (JNum 1) (JNum 100) = Inr (4080, 3973)"
  by (simp add: streamChunkLengths_def STREAM_WIRE_CLASS_def MAX_SAFE_INTEGER_def)

lemma chunk_checked: "validateStreamChunkPlain chunk_value = Inr (4080, 3973)"
  by (simp add: validateStreamChunkPlain_def chunk_value_def chunk_lens contentBytes_def fixedBytes_def asBuffer_def
      reject_if_def MAX_SAFE_INTEGER_def)

lemma chunk_wired: "wired blindStreamChunkPlainV1 chunk_value JUndef"
proof -
  have "wired chunk_struct chunk_value JUndef"
    using chunk_checked unfolding chunk_struct_def chunk_value_def
    by (simp add: wired_rules wired_fields_defs chunk_lengths_def chunk_lens)
  then show ?thesis by (simp add: wired_def decodes_def decode_chunk)
qed

subsection \<open>Descriptors\<close>

definition journal_node :: "byte \<Rightarrow> jsval" where
  "journal_node b = JObj [(''nodePublicKey'', fill 32 b), (''operatorGroupId'', fill 32 (b + 10)),
     (''failureDomainId'', fill 32 (b + 20)), (''roleConflictBits'', JNum 0)]"

definition topology_value :: jsval where
  "topology_value = JObj [(''version'', JNum 1), (''relayPublicKey'', fill 32 1), (''storeId'', fill 32 2),
     (''externalJournalId'', fill 32 3), (''durabilityContinuityHash'', fill 32 4), (''topologySequence'', JBig 0),
     (''previousTopologyHash'', JNull), (''replicationClass'', JNum 1), (''commitQuorum'', JNum 2),
     (''sharedFailureGroupId'', fill 32 5), (''liveStoreFailureGroupId'', fill 32 6), (''backupFailureGroups'', JArr []),
     (''nodes'', JArr [journal_node 1, journal_node 2, journal_node 3]), (''issuedEpoch'', JNum 1),
     (''expiresEpoch'', JNum 3), (''witnessPublicKey'', fill 32 7), (''signature'', fill 64 8)]"

lemma compare_nodes: "compareJournalNode (journal_node 1) (journal_node 2) < 0" "compareJournalNode (journal_node 2) (journal_node 3) < 0"
  by code_simp+

lemma topology_wired: "wired blindExternalJournalTopologyV1 topology_value JUndef"
proof -
  have node: "wired blindExternalJournalNodeV1 (journal_node b) p" if "b \<in> {1, 2, 3}" for b p
    using that by (auto simp: journal_node_def blindExternalJournalNodeV1_def wired_rules wired_fields_defs
        validate_externalJournalNode_def rbind_Inr_iff)
  have "validate_externalJournalTopology topology_value = Inr ()"
    using compare_nodes by (simp add: validate_externalJournalTopology_def topology_value_def rbind_Inr_iff validateEpochWindow_def
      assertDistinctBytes_def journal_node_def)
  then show ?thesis unfolding topology_value_def blindExternalJournalTopologyV1_def
    by (simp add: wired_rules wired_fields_defs externalBackupFailureGroupsV1_def externalJournalNodesV1_def node)
qed

definition durability_value :: jsval where
  "durability_value = JObj [(''profileId'', JNum 1), (''storeFormatMajor'', JNum 1), (''storeFormatMinor'', JNum 0),
     (''storeFormatHash'', fill 32 1), (''externalJournalId'', fill 32 0), (''externalWitnessPublicKey'', fill 32 0),
     (''externalJournalReplicationClass'', JNum 0), (''externalJournalFailureGroupId'', fill 32 0),
     (''externalCheckpointAgeBand'', JNum 0), (''externalJournalTopologyUrl'', JNull),
     (''externalJournalTopologyHash'', fill 32 0), (''restoreEvidenceFeedUrl'', JNull),
     (''restoreEvidenceFeedId'', fill 32 0), (''restoreEvidenceCheckpointSequence'', JBig 0),
     (''restoreEvidenceCheckpointHash'', fill 32 0), (''acknowledgedRpoBand'', JNum 0), (''targetRtoBand'', JNum 0),
     (''redundancyClass'', JNum 0), (''restoreDrillAgeBand'', JNum 0)]"

lemma durability_wired [wired_rules]: "wired (durabilityProfileV1 E) durability_value p"
  by (simp add: durabilityProfileV1_def durability_value_def wired_rules wired_fields_defs validate_durabilityProfile_def)

definition transition_value :: jsval where
  "transition_value = JObj [(''version'', JNum 1), (''oldRelayKey'', fill 32 2), (''newRelayKey'', fill 32 1),
     (''oldIdentitySequence'', JBig 4), (''newIdentitySequence'', JBig 5), (''validFromEpoch'', JNum 1),
     (''reasonCode'', JNum 1), (''transitionNonce'', fill 32 3), (''oldSignature'', fill 64 4), (''newSignature'', fill 64 5)]"

definition build_value :: jsval where
  "build_value = JObj [(''specHash'', fill 32 1), (''abiHash'', fill 32 1), (''vectorSetHash'', fill 32 1),
     (''evidenceFormatHash'', fill 32 1), (''evidenceVectorSetHash'', fill 32 1), (''storeFormatHash'', fill 32 1),
     (''storeVectorSetHash'', fill 32 1), (''privateIpcFormatHash'', fill 32 1), (''privateIpcVectorSetHash'', fill 32 1),
     (''buildArtifactHash'', fill 32 1), (''buildArtifactUrl'', sample_url), (''buildManifestUrl'', sample_url),
     (''buildManifestHash'', fill 32 1), (''releaseEvidenceBundleUrl'', sample_url),
     (''releaseEvidenceBundleHash'', fill 32 1), (''releaseSupportHorizonHash'', fill 32 1),
     (''runtimeBoundaryEvidenceUrl'', sample_url), (''runtimeBoundaryEvidenceHash'', fill 32 1)]"

definition protocol_value :: jsval where
  "protocol_value = JObj [(''protocolId'', JNum 1), (''major'', JNum 1), (''minor'', JNum 0), (''featureBits'', JBig 0),
     (''profileHash'', fill 32 1)]"

definition endpoint_value :: jsval where
  "endpoint_value = JObj [(''endpointId'', JNum 1), (''transportId'', JNum 1), (''transportProfileHash'', fill 32 1),
     (''roleBits'', JNum 0), (''privacyProfileBits'', JNum 0), (''canonicalUrl'', sample_url), (''endpointKey'', JNull),
     (''envelopeClassBits'', JNum 0), (''wireClassBits'', JNum 0), (''maxStreams'', JNum 0), (''auxiliaryUrl'', JNull),
     (''auxiliaryHash'', JNull)]"

definition admission_profile_value :: jsval where
  "admission_profile_value = JObj [(''profileId'', JNum 1), (''schemeId'', JNum 1), (''conformanceClass'', JNum 1),
     (''roleBits'', JNum 1), (''parameterUrl'', JNull), (''parameterHash'', fill 32 1)]"

definition descriptor_value :: jsval where
  "descriptor_value = JObj [(''version'', JNum 1), (''relayPublicKey'', fill 32 1), (''storeId'', fill 32 2),
     (''descriptorSequence'', JBig 0), (''previousDescriptorHash'', JNull), (''identitySequence'', JBig 5),
     (''previousRelayKey'', fill 32 2), (''identityTransition'', transition_value), (''build'', build_value),
     (''protocols'', JArr [protocol_value]), (''endpoints'', JArr [endpoint_value]), (''cellSizeClassBits'', JNum 2),
     (''leaseClassBits'', JNum 2), (''maxBatchCount'', JNum 64), (''maxResponseBytes'', JNum 4096),
     (''maxSponsoredCoreLength'', JBig 0), (''enabledOperationBits'', JNum 0x000129d7),
     (''admissionProfiles'', JArr [admission_profile_value]), (''durability'', durability_value),
     (''durabilityContinuityHash'', fill 32 3), (''durabilityProfileHash'', fill 32 4),
     (''storeLifecycleState'', JNum STORE_LIFECYCLE_STATE_DRAINING), (''drainStartedEpoch'', JNum 6), (''capacityBand'', JNum 0),
     (''issuedEpoch'', JNum 7), (''expiresEpoch'', JNum 9), (''descriptorNonce'', fill 32 5), (''signature'', fill 64 6)]"

lemma transition_wired: "wired relayIdentityTransitionV1 transition_value p"
  by (simp add: relayIdentityTransitionV1_def transition_value_def wired_rules wired_fields_defs
     validate_relayIdentityTransition_def rbind_Inr_iff)

lemma build_wired: "wired (buildProfileV1 sample_platform) build_value p"
  by (simp add: buildProfileV1_def build_value_def wired_rules wired_fields_defs no_validate_def)

lemma protocol_wired: "wired protocolProfileV1 protocol_value p"
  by (simp add: protocolProfileV1_def protocol_value_def wired_rules wired_fields_defs no_validate_def)

lemma js_zero [simp]: "js_and 0 x = 0" by (simp add: js_and_def to_int32_def)
lemma endpoint_checked: "validate_transportEndpoint sample_platform endpoint_value = Inr ()"
proof -
  have "parse_url sample_platform sample_text = Some \<lparr>url_username = [], url_password = [], url_search = [], url_hash = [],
         url_hostname = ''relay.example'', url_pathname = ''/api/blind/v1/describe''\<rparr>" by (simp add: sample_platform_def)
  then show ?thesis
  by (simp add: validate_transportEndpoint_def endpoint_value_def sample_url_ok FAMILY_ROUTES_def FAMILY_DESCRIBE_def TRANSPORT_ID_TOR_V3_ONION_def
     rbind_Inr_iff)
qed

lemma endpoint_wired: "wired (transportEndpointV1 sample_platform) endpoint_value p"
  using endpoint_checked unfolding transportEndpointV1_def endpoint_value_def
  by (simp add: wired_rules endpointId_def transportId_def MAX_SAFE_INTEGER_def)

lemma bits: "js_and 1 (js_not ENDPOINT_LIMITS_ROLE_BITS_MASK) = 0" 
   "js_and 2 (js_not PUBLIC_PROFILE_LIMITS_CELL_SIZE_CLASS_BITS_MASK) = 0"
   "js_and 2 (js_not PUBLIC_PROFILE_LIMITS_LEASE_CLASS_BITS_MASK) = 0"
   "js_and 0x000129d7 (js_not PUBLIC_PROFILE_LIMITS_ENABLED_OPERATION_BITS_MASK) = 0"
  by code_simp+

lemma admission_profile_wired: "wired (admissionProfileV1 sample_platform) admission_profile_value p"
  by (simp add: admissionProfileV1_def admission_profile_value_def wired_rules wired_fields_defs validate_admissionProfile_def
    bad_role_bits_def bits conformanceClass_def roleBits_def ADMISSION_CONFORMANCE_CLASS_OPEN_def ADMISSION_CONFORMANCE_CLASS_PRIVATE_def)

lemma descriptor_checked: "validate_serviceDescriptor descriptor_value = Inr ()"
  by (simp add: validate_serviceDescriptor_def descriptor_value_def transition_value_def sorted_by_field_def rbind_Inr_iff bits
     STORE_LIFECYCLE_STATE_ACTIVE_def STORE_LIFECYCLE_STATE_DRAINING_def STORE_LIFECYCLE_STATE_RETIRED_def validateEpochWindow_def)

lemmas descriptor_part_defs = descriptorProtocolsV1_def descriptorEndpointsV1_def descriptorAdmissionProfilesV1_def
  operationBits_def PUBLIC_PROFILE_LIMITS_MAX_BATCH_COUNT_def PUBLIC_PROFILE_LIMITS_MAX_RESPONSE_BYTES_def
  STORE_LIFECYCLE_STATE_ACTIVE_def STORE_LIFECYCLE_STATE_DRAINING_def STORE_LIFECYCLE_STATE_RETIRED_def

lemma descriptor_base_wired: "wired (blindServiceDescriptorBaseV1 sample_platform) descriptor_value JUndef"
  using descriptor_checked unfolding blindServiceDescriptorBaseV1_def descriptor_value_def
  by (simp add: wired_rules wired_fields_defs descriptor_part_defs transition_wired build_wired protocol_wired
      endpoint_wired admission_profile_wired durability_wired)

lemma transition_count: "preencode relayIdentityTransitionV1 st transition_value p = Inr (grow st 246)"
  by (simp add: relayIdentityTransitionV1_def transition_value_def count_rules wired_fields_defs
     validate_relayIdentityTransition_def rbind_Inr_iff)

lemma build_count: "preencode (buildProfileV1 sample_platform) st build_value p = Inr (grow st 644)"
  by (simp add: buildProfileV1_def build_value_def count_rules wired_fields_defs no_validate_def)

lemma protocol_count: "preencode protocolProfileV1 st protocol_value p = Inr (grow st 46)"
  by (simp add: protocolProfileV1_def protocol_value_def count_rules wired_fields_defs no_validate_def)

lemma endpoint_count: "preencode (transportEndpointV1 sample_platform) st endpoint_value p = Inr (grow st 95)"
  using endpoint_checked unfolding transportEndpointV1_def endpoint_value_def
  by (simp add: count_rules endpointId_def transportId_def MAX_SAFE_INTEGER_def)

lemma admission_profile_count: "preencode (admissionProfileV1 sample_platform) st admission_profile_value p = Inr (grow st 40)"
  by (simp add: admissionProfileV1_def admission_profile_value_def count_rules wired_fields_defs validate_admissionProfile_def
    bad_role_bits_def bits conformanceClass_def roleBits_def ADMISSION_CONFORMANCE_CLASS_OPEN_def ADMISSION_CONFORMANCE_CLASS_PRIVATE_def)

lemma durability_count: "preencode (durabilityProfileV1 E) st durability_value p = Inr (grow st 245)"
  by (simp add: durabilityProfileV1_def durability_value_def count_rules wired_fields_defs validate_durabilityProfile_def)

lemma descriptor_count:
  "preencode (blindServiceDescriptorBaseV1 sample_platform) st descriptor_value JUndef = Inr (grow st 1630)"
proof -
  have "\<not> is_nullish transition_value" by (simp add: transition_value_def)
  with descriptor_checked show ?thesis unfolding blindServiceDescriptorBaseV1_def descriptor_value_def
    by (simp add: count_rules wired_fields_defs descriptor_part_defs transition_count build_count protocol_count
        endpoint_count admission_profile_count durability_count)
qed

lemma descriptor_wired: "wired (blindServiceDescriptorV1 sample_platform) descriptor_value JUndef"
  unfolding blindServiceDescriptorV1_def
  by (rule wired_capped [OF blindServiceDescriptorBaseV1.canonical_codec_axioms descriptor_base_wired descriptor_count])
    (simp add: grow_def PUBLIC_PROFILE_LIMITS_MAX_DESCRIPTOR_BYTES_def)

end
