(* ===== verification/Message_Properties.thy ===== *)
theory Message_Properties
  imports Sample_Messages
begin

text \<open>
  What a relay or a client knows of a message that a codec accepted: the properties of single
  wire schemas, each with an instance at a concrete message.
\<close>

subsection \<open>Lengths\<close>

text \<open>
  C31. The compact length prefix has one encoding per number: the decoder accepts exactly the
  shortest form of the safe integers, and returns the number it stands for.
\<close>

theorem compact_length_canonical:
  "decodeCanonical compactUint (JBytes bs) cp = Inr v \<longleftrightarrow>
     (\<exists>i. 0 \<le> i \<and> i \<le> MAX_SAFE_INTEGER \<and> v = JNum i \<and> bs = compact_bytes i)"
proof
  assume d: "decodeCanonical compactUint (JBytes bs) cp = Inr v"
  then have e: "encodeCanonical compactUint v = Inr bs" by (rule compactUint.decode_encode)
  then obtain i where i: "v = JNum i" "0 \<le> i" "i \<le> MAX_SAFE_INTEGER"
    by (auto simp: encodeCanonical_def compactUint_def compact_preencode_def rbind_Inr_iff assertUnsignedNumber_Inr)
  from compactUint.encodeCanonical_iff [of v "compact_bytes i"] i
  have "encodeCanonical compactUint v = Inr (compact_bytes i)"
    by (simp add: encodes_def compactUint_def compact_preencode_ok compact_encode_ok)
  with e i show "\<exists>i. 0 \<le> i \<and> i \<le> MAX_SAFE_INTEGER \<and> v = JNum i \<and> bs = compact_bytes i" by auto
next
  assume "\<exists>i. 0 \<le> i \<and> i \<le> MAX_SAFE_INTEGER \<and> v = JNum i \<and> bs = compact_bytes i"
  then obtain i where i: "0 \<le> i" "i \<le> MAX_SAFE_INTEGER" "v = JNum i" "bs = compact_bytes i" by blast
  then have "decodes compactUint v JUndef bs" by (simp add: decodes_def compactUint_def compact_decode_reads)
  then show "decodeCanonical compactUint (JBytes bs) cp = Inr v" by (rule decodes_decodeCanonical)
qed

subsection \<open>Cells\<close>

text \<open>
  C29. A put request that decodes is self-certifying: its storage slot is the hash of the slot
  domain, the allocation epoch and the creation key, the declared blob hash is the hash of the
  blob, and the blob has exactly the length of its size class.
\<close>

theorem put_cell_self_certifying:
  assumes "decodeCanonical (putCellV1 E) (JBytes bs) cp = Inr v"
  shows "bytesf v ''storageSlot'' = blake2b256 E (ascii ''hiverelay.blind.slot.v1'' @
       be_bytes 4 (numf v ''allocationEpoch'') @ bytesf v ''createPublicKey'') \<and>
    bytesf v ''declaredBlobHash'' = blake2b256 E (bytesf v ''cellBlob'') \<and>
    CELL_SIZE_CLASS (numf v ''sizeClass'') = Some (length (bytesf v ''cellBlob''))"
proof -
  have "prepared (putCellV1 E) v JUndef"
    by (rule decoded_prepared [OF putCellV1.canonical_codec_axioms assms])
  note p = prepared_struct [OF this [unfolded putCellV1_def]]
  obtain key where key: "getf v ''createPublicKey'' = JBytes key"
    using p(3) [of "''createPublicKey''" bytes32] by (auto dest: prepared_fixedBytes)
  obtain epoch where epoch: "getf v ''allocationEpoch'' = JNum epoch"
    using p(3) [of "''allocationEpoch''" u32be] by (auto dest: prepared_u32be)
  obtain blob where blob: "getf v ''cellBlob'' = JBytes blob" "selectedLength ''sizeClass'' CELL_SIZE_CLASS v = Inr (length blob)"
    using p(3) [of "''cellBlob''" cellBlob] by (auto simp: cellBlob_def dest: prepared_exactBytesByClass)
  obtain c where c: "getf v ''sizeClass'' = JNum c"
    using p(3) [of "''sizeClass''" cellSizeClass] by (auto simp: cellSizeClass_def dest: prepared_ranged)
  show ?thesis using p(2) key epoch blob c
    by (auto simp: validate_putCell_def cellStorageSlot_def cellSlotPreimage_def rbind_Inr_iff encodeU32_def
        encodeUnsigned_def assertUnsignedNumber_Inr fixedBytesInput_def hBuffer_def write_be_buffer selectedLength_def
        split: if_splits option.splits)
qed

theorem put_cell_self_certifying_witness:
  "\<exists>bs. decodeCanonical (putCellV1 sample_platform) (JBytes bs) True = Inr put_value \<and>
     bytesf put_value ''declaredBlobHash'' = blake2b256 sample_platform (bytesf put_value ''cellBlob'') \<and>
     CELL_SIZE_CLASS (numf put_value ''sizeClass'') = Some (length (bytesf put_value ''cellBlob''))"
  using wired_canonical [OF put_wired] put_cell_self_certifying [of sample_platform _ True put_value] by blast

lemma as_bytes_all: "\<forall>x\<in>set xs. \<exists>b. x = JBytes b \<and> length b = n \<Longrightarrow> map JBytes (map as_bytes xs) = xs"
  by (induction xs) auto

text \<open>
  A batch-get request that decodes asks for between 1 and 64 slots of 32 bytes each, no slot
  twice.
\<close>

theorem batch_get_slots_distinct:
  assumes "decodeCanonical batchGetV1 (JBytes bs) cp = Inr v"
  shows "\<exists>slots. getf v ''slots'' = JArr (map JBytes slots) \<and> 1 \<le> length slots \<and> length slots \<le> 64 \<and>
    distinct slots \<and> list_all (\<lambda>s. length s = 32) slots"
proof -
  have "prepared batchGetV1 v JUndef"
    by (rule decoded_prepared [OF batchGetV1.canonical_codec_axioms assms])
  note p = prepared_struct [OF this [unfolded batchGetV1_def]]
  obtain xs where xs: "getf v ''slots'' = JArr xs" "1 \<le> length xs" "length xs \<le> 64"
      "\<forall>x\<in>set xs. prepared bytes32 x JUndef"
    using p(3) [of "''slots''" batchGetSlotsV1] by (fastforce simp: batchGetSlotsV1_def dest: prepared_arrayOf)
  have b: "\<forall>x\<in>set xs. \<exists>b. x = JBytes b \<and> length b = 32" using xs(4) prepared_fixedBytes by blast
  show ?thesis using p(2) xs b as_bytes_all [OF b]
    by (intro exI [of _ "map as_bytes xs"]) (auto simp: validate_batchGet_def assertDistinctBytes_Inr list_all_iff)
qed

theorem batch_get_slots_distinct_witness:
  "\<exists>bs slots. decodeCanonical batchGetV1 (JBytes bs) True = Inr batch_value \<and>
     getf batch_value ''slots'' = JArr (map JBytes slots) \<and> distinct slots"
  using wired_canonical [OF batch_wired] batch_get_slots_distinct [of _ True batch_value] by blast

subsection \<open>Inboxes\<close>

text \<open>
  C30. A read result that decodes carries at most 64 entries in strictly increasing append
  revision, none beyond the snapshot revision; every frame matches its hash, and the entries
  commitment is the hash of the encoded entries.
\<close>

theorem inbox_read_result_ordered:
  assumes "decodeCanonical (inboxReadResultV1 E) (JBytes bs) cp = Inr v"
  shows "\<exists>es. getf v ''entries'' = JArr es \<and> length es \<le> 64 \<and>
    sorted_wrt (<) (map (\<lambda>e. bigf e ''appendRevision'') es) \<and>
    (\<forall>e\<in>set es. bigf e ''appendRevision'' \<le> bigf v ''snapshotRevision'' \<and>
       bytesf e ''frameHash'' = blake2b256 E (bytesf e ''frame'')) \<and>
    inboxReadEntriesCommitment E (JArr es) = Inr (bytesf v ''entriesCommitment'')"
proof -
  have "prepared (inboxReadResultV1 E) v JUndef"
    by (rule decoded_prepared [OF inboxReadResultV1.canonical_codec_axioms assms])
  note p = prepared_struct [OF this [unfolded inboxReadResultV1_def]]
  obtain es where es: "getf v ''entries'' = JArr es" "length es \<le> 64" "\<forall>e\<in>set es. prepared (inboxReadEntryV1 E) e JUndef"
    using p(3) [of "''entries''" "inboxReadEntriesV1 E"] by (fastforce simp: inboxReadEntriesV1_def dest: prepared_arrayOf)
  have "bytesf e ''frameHash'' = blake2b256 E (bytesf e ''frame'')" if "e \<in> set es" for e
    using es(3) that prepared_struct(2) [of _ _ "validate_inboxReadEntry E" e]
    by (auto simp: inboxReadEntryV1_def validate_inboxReadEntry_def)
  with p(2) es(1,2) show ?thesis
    by (auto simp: validate_inboxReadResult_def rbind_Inr_iff check_revisions_Inr inboxReadEntriesCommitment_def)
qed

theorem inbox_read_result_ordered_witness:
  "\<exists>bs es. decodeCanonical (inboxReadResultV1 sample_platform) (JBytes bs) True = Inr read_value \<and>
     getf read_value ''entries'' = JArr es \<and> sorted_wrt (<) (map (\<lambda>e. bigf e ''appendRevision'') es) \<and>
     inboxReadEntriesCommitment sample_platform (JArr es) = Inr (bytesf read_value ''entriesCommitment'')"
  using wired_canonical [OF read_wired] inbox_read_result_ordered [of sample_platform _ True read_value] by blast

subsection \<open>Results\<close>

text \<open>
  A result binding that carries the commit witness of an external journal claims durability
  profile 2 and agrees with the witness on relay, store, durability profile and restore
  evidence; the witness names a known operation and a floor at or above the commit.
\<close>

theorem relay_binding_matches_witness:
  assumes "decodeCanonical relayResultBindingV1 (JBytes bs) cp = Inr v" "\<not> absent v ''externalCommitWitness''"
  defines "w \<equiv> getf v ''externalCommitWitness''"
  shows "numf v ''durabilityProfileId'' = 2 \<and>
    (\<forall>f\<in>{''relayPublicKey'', ''storeId'', ''durabilityContinuityHash'', ''durabilityProfileHash'',
       ''restoreEvidenceHeadHash''}. bytesf v f = bytesf w f) \<and>
    bigf v ''restoreEvidenceHeadSequence'' = bigf w ''restoreEvidenceHeadSequence'' \<and>
    isKnownOperation (numf w ''familyId'') (numf w ''operationId'') \<and>
    bigf w ''commitWalSequence'' \<le> bigf w ''coveringFloorWalSequence''"
proof -
  have "prepared relayResultBindingV1 v JUndef"
    by (rule decoded_prepared [OF canonical_relayResultBinding assms(1)])
  note p = prepared_struct [OF this [unfolded relayResultBindingV1_def]]
  have "prepared (optional blindExternalCommitWitnessV1) w v"
    using p(3) [of "''externalCommitWitness''"] by (simp add: w_def)
  then have "prepared blindExternalCommitWitnessV1 w JUndef" using assms(2) w_def prepared_optional by blast
  then have "validate_externalCommitWitness w = Inr ()"
    unfolding blindExternalCommitWitnessV1_def by (rule prepared_struct(2))
  moreover obtain i where "getf v ''durabilityProfileId'' = JNum i" "1 \<le> i" "i \<le> 2"
    using p(3) [of "''durabilityProfileId''" "ranged u8 1 2"] by (auto dest!: prepared_ranged)
  ultimately show ?thesis using p(2) assms(2)
    by (auto simp: validate_relayResultBinding_def validate_externalCommitWitness_def w_def rbind_Inr_iff Let_def
        split: if_splits)
qed

theorem relay_binding_matches_witness_witness:
  "\<exists>bs. decodeCanonical relayResultBindingV1 (JBytes bs) True = Inr binding_value \<and>
     numf binding_value ''durabilityProfileId'' = 2 \<and>
     bigf commit_witness ''commitWalSequence'' \<le> bigf commit_witness ''coveringFloorWalSequence''"
proof -
  have w: "\<not> absent binding_value ''externalCommitWitness''" "getf binding_value ''externalCommitWitness'' = commit_witness"
    by (simp_all add: binding_value_def commit_witness_def)
  from wired_canonical [OF binding_wired] obtain bs where
    "decodeCanonical relayResultBindingV1 (JBytes bs) True = Inr binding_value" ..
  with relay_binding_matches_witness [OF this w(1)] w(2) show ?thesis by auto
qed

subsection \<open>Descriptors\<close>

text \<open>
  Durability profile 1 claims nothing beyond the local store: every external journal and
  restore evidence field is zero or absent, and so are the recovery bands.
\<close>

theorem durability_profile_1_claims_nothing:
  assumes "decodeCanonical (durabilityProfileV1 E) (JBytes bs) cp = Inr v" "numf v ''profileId'' = 1"
  shows "(\<forall>f\<in>{''externalJournalId'', ''externalWitnessPublicKey'', ''externalJournalFailureGroupId'',
       ''externalJournalTopologyHash'', ''restoreEvidenceFeedId'', ''restoreEvidenceCheckpointHash''}.
       bytesf v f = replicate 32 0) \<and>
    (\<forall>f\<in>{''acknowledgedRpoBand'', ''targetRtoBand'', ''redundancyClass'', ''restoreDrillAgeBand''}. numf v f = 0) \<and>
    absent v ''externalJournalTopologyUrl'' \<and> absent v ''restoreEvidenceFeedUrl''"
proof -
  have "prepared (durabilityProfileV1 E) v JUndef"
    by (rule decoded_prepared [OF durabilityProfileV1.canonical_codec_axioms assms(1)])
  note p = prepared_struct [OF this [unfolded durabilityProfileV1_def]]
  have zero: "bytesf v f = replicate 32 0" if "prepared bytes32 (getf v f) v" "zero_bytes v f" for f
    using prepared_fixedBytes [OF that(1)] that(2)
    by (auto simp: isAllZero_def list_all_iff intro: replicate_eqI)
  show ?thesis using p(2) assms(2)
    by (auto simp: validate_durabilityProfile_def Let_def intro!: zero p(3))
qed

theorem durability_profile_1_claims_nothing_witness:
  "\<exists>bs. decodeCanonical (durabilityProfileV1 sample_platform) (JBytes bs) True = Inr durability_value \<and>
     absent durability_value ''externalJournalTopologyUrl'' \<and> absent durability_value ''restoreEvidenceFeedUrl''"
proof -
  have "numf durability_value ''profileId'' = 1" by (simp add: durability_value_def)
  with wired_canonical [OF durability_wired] durability_profile_1_claims_nothing [of sample_platform _ True durability_value]
  show ?thesis by blast
qed

definition allocating_operations :: "(int \<times> int) list" where
  "allocating_operations = [(FAMILY_CELL, OPERATION_CELL_PUT), (FAMILY_CELL, OPERATION_CELL_RENEW),
     (FAMILY_INBOX, OPERATION_INBOX_CREATE), (FAMILY_INBOX, OPERATION_INBOX_RENEW),
     (FAMILY_INBOX, OPERATION_INBOX_APPEND), (FAMILY_CORE, OPERATION_CORE_MIRROR)]"

lemma allocating_ordinals:
  "map (\<lambda>(f, i). operationOrdinal f i) allocating_operations = [3, 5, 9, 10, 12, 15]"
  by code_simp

lemma draining_bits:
  "list_all (\<lambda>(f, i). js_and 0x000129d7 (operationBit f i) = 0) allocating_operations"
proof -
  have "list_all (\<lambda>n. js_and 0x000129d7 (js_shl 1 n) = 0) [3, 5, 9, 10, 12, 15]" by code_simp
  with allocating_ordinals show ?thesis
    by (auto simp: allocating_operations_def operationBit_def Let_def)
qed

text \<open>
  C33. A service descriptor that decodes has at most 16384 bytes; its store is active exactly when
  it names no drain epoch, a draining store enables no operation that allocates, a retired store
  none at all, and the descriptor is valid for one to four epochs.
\<close>

theorem descriptor_lifecycle:
  assumes "decodeCanonical (blindServiceDescriptorV1 E) (JBytes bs) cp = Inr v"
  shows "length bs \<le> 16384 \<and>
    (numf v ''storeLifecycleState'' = STORE_LIFECYCLE_STATE_ACTIVE \<longleftrightarrow> absent v ''drainStartedEpoch'') \<and>
    (numf v ''storeLifecycleState'' = STORE_LIFECYCLE_STATE_DRAINING \<longrightarrow>
       (\<forall>(f, i)\<in>set allocating_operations. js_and (numf v ''enabledOperationBits'') (operationBit f i) = 0)) \<and>
    (numf v ''storeLifecycleState'' = STORE_LIFECYCLE_STATE_RETIRED \<longrightarrow> numf v ''enabledOperationBits'' = 0) \<and>
    numf v ''issuedEpoch'' < numf v ''expiresEpoch'' \<and> numf v ''expiresEpoch'' \<le> numf v ''issuedEpoch'' + 4"
proof -
  have "prepared (blindServiceDescriptorV1 E) v JUndef"
    by (rule decoded_prepared [OF blindServiceDescriptorV1.canonical_codec_axioms assms])
  then have "prepared (blindServiceDescriptorBaseV1 E) v JUndef"
    unfolding blindServiceDescriptorV1_def by (rule prepared_capped)
  then have val: "validate_serviceDescriptor v = Inr ()"
    unfolding blindServiceDescriptorBaseV1_def by (rule prepared_struct(2))
  have "length bs \<le> 16384"
    using capped_length [OF blindServiceDescriptorBaseV1.canonical_codec_axioms assms [unfolded blindServiceDescriptorV1_def]]
    by (simp add: PUBLIC_PROFILE_LIMITS_MAX_DESCRIPTOR_BYTES_def)
  with val draining_bits show ?thesis
    by (auto simp: rbind_Inr_iff validate_serviceDescriptor_def validateEpochWindow_def Let_def list_all_iff)
qed

theorem descriptor_lifecycle_witness:
  "\<exists>bs. decodeCanonical (blindServiceDescriptorV1 sample_platform) (JBytes bs) True = Inr descriptor_value \<and>
     length bs \<le> 16384 \<and> js_and (numf descriptor_value ''enabledOperationBits'') (operationBit FAMILY_CELL OPERATION_CELL_PUT) = 0"
proof -
  have draining: "numf descriptor_value ''storeLifecycleState'' = STORE_LIFECYCLE_STATE_DRAINING"
    by (simp add: descriptor_value_def)
  have put: "(FAMILY_CELL, OPERATION_CELL_PUT) \<in> set allocating_operations" by (simp add: allocating_operations_def)
  from wired_canonical [OF descriptor_wired] obtain bs where
    d: "decodeCanonical (blindServiceDescriptorV1 sample_platform) (JBytes bs) True = Inr descriptor_value" ..
  from descriptor_lifecycle [OF d] draining put d show ?thesis by blast
qed

text \<open>
  A descriptor with an identity transition moves from the old key of the transition to the new
  one, the two differ, and the identity sequence grows by one without overflow.
\<close>

theorem descriptor_identity:
  assumes "decodeCanonical (blindServiceDescriptorV1 E) (JBytes bs) cp = Inr v"
    and "\<not> absent v ''identityTransition''"
  defines "t \<equiv> getf v ''identityTransition''"
  shows "bytesf v ''previousRelayKey'' = bytesf t ''oldRelayKey'' \<and> bytesf v ''relayPublicKey'' = bytesf t ''newRelayKey'' \<and>
    bytesf t ''oldRelayKey'' \<noteq> bytesf t ''newRelayKey'' \<and>
    bigf v ''identitySequence'' = bigf t ''oldIdentitySequence'' + 1 \<and> bigf v ''identitySequence'' \<le> MAX_U64"
proof -
  have "prepared (blindServiceDescriptorV1 E) v JUndef"
    by (rule decoded_prepared [OF blindServiceDescriptorV1.canonical_codec_axioms assms(1)])
  then have "prepared (blindServiceDescriptorBaseV1 E) v JUndef"
    unfolding blindServiceDescriptorV1_def by (rule prepared_capped)
  note p = prepared_struct [OF this [unfolded blindServiceDescriptorBaseV1_def]]
  have "prepared (optional relayIdentityTransitionV1) t v"
    using p(3) [of "''identityTransition''"] by (simp add: t_def)
  then have "prepared relayIdentityTransitionV1 t JUndef" using assms(2) t_def prepared_optional by blast
  then have "validate_relayIdentityTransition t = Inr ()"
    unfolding relayIdentityTransitionV1_def by (rule prepared_struct(2))
  moreover have "bigf v ''identitySequence'' \<le> MAX_U64"
    using p(3) [of "''identitySequence''" u64be] by (auto dest!: prepared_u64be asU64_Inr)
  ultimately show ?thesis using p(2) assms(2)
    by (auto simp: rbind_Inr_iff validate_serviceDescriptor_def validate_relayIdentityTransition_def t_def Let_def)
qed

theorem descriptor_identity_witness:
  "\<exists>bs. decodeCanonical (blindServiceDescriptorV1 sample_platform) (JBytes bs) True = Inr descriptor_value \<and>
     bytesf descriptor_value ''previousRelayKey'' = bytesf transition_value ''oldRelayKey''"
proof -
  have t: "\<not> absent descriptor_value ''identityTransition''" "getf descriptor_value ''identityTransition'' = transition_value"
    by (simp_all add: descriptor_value_def transition_value_def)
  from wired_canonical [OF descriptor_wired] obtain bs where
    d: "decodeCanonical (blindServiceDescriptorV1 sample_platform) (JBytes bs) True = Inr descriptor_value" ..
  from descriptor_identity [OF d t(1)] d t(2) show ?thesis by auto
qed

text \<open>
  A journal topology that decodes has exactly three nodes, run by three operator groups in
  three failure domains.
\<close>

theorem journal_topology_independent:
  assumes "decodeCanonical blindExternalJournalTopologyV1 (JBytes bs) cp = Inr v"
  shows "\<exists>a b c. getf v ''nodes'' = JArr [a, b, c] \<and>
    distinct (map (\<lambda>n. bytesf n ''operatorGroupId'') [a, b, c]) \<and>
    distinct (map (\<lambda>n. bytesf n ''failureDomainId'') [a, b, c])"
proof -
  have "prepared blindExternalJournalTopologyV1 v JUndef"
    by (rule decoded_prepared [OF blindExternalJournalTopologyV1.canonical_codec_axioms assms])
  note p = prepared_struct [OF this [unfolded blindExternalJournalTopologyV1_def]]
  obtain xs where xs: "getf v ''nodes'' = JArr xs" "length xs = 3"
    using p(3) [of "''nodes''" externalJournalNodesV1] by (fastforce simp: externalJournalNodesV1_def dest: prepared_arrayOf)
  from xs(2) obtain a b c where "xs = [a, b, c]" by (auto simp: numeral_3_eq_3 length_Suc_conv)
  with p(2) xs(1) show ?thesis
    by (auto simp: rbind_Inr_iff validate_externalJournalTopology_def assertDistinctBytes_Inr)
qed

theorem journal_topology_independent_witness:
  "\<exists>bs a b c. decodeCanonical blindExternalJournalTopologyV1 (JBytes bs) True = Inr topology_value \<and>
     getf topology_value ''nodes'' = JArr [a, b, c] \<and> distinct (map (\<lambda>n. bytesf n ''failureDomainId'') [a, b, c])"
  using wired_canonical [OF topology_wired] journal_topology_independent [of _ True topology_value] by blast

subsection \<open>Cores and forward circuits\<close>

text \<open>
  A serve challenge that decodes asks for 1 to 16 blocks in strictly increasing order, each
  below the length of the core.
\<close>

theorem core_serve_indices:
  assumes "decodeCanonical coreServeChallengeV1 (JBytes bs) cp = Inr v"
  shows "\<exists>xs. getf v ''blockIndices'' = JArr xs \<and> 1 \<le> length xs \<and> length xs \<le> 16 \<and>
    sorted_wrt (<) (map as_big xs) \<and> (\<forall>x\<in>set xs. 0 \<le> as_big x \<and> as_big x < bigf v ''length'')"
proof -
  have "prepared coreServeChallengeV1 v JUndef"
    by (rule decoded_prepared [OF coreServeChallengeV1.canonical_codec_axioms assms])
  note p = prepared_struct [OF this [unfolded coreServeChallengeV1_def]]
  obtain xs where xs: "getf v ''blockIndices'' = JArr xs" "1 \<le> length xs" "length xs \<le> 16"
      "\<forall>x\<in>set xs. prepared u64be x JUndef"
    using p(3) [of "''blockIndices''" coreBlockIndicesV1] by (fastforce simp: coreBlockIndicesV1_def dest: prepared_arrayOf)
  have "0 \<le> as_big x" if "x \<in> set xs" for x using xs(4) that by (auto dest!: prepared_u64be asU64_Inr)
  moreover have "transp (\<lambda>a b. compareScalar (as_big a) (as_big b) < 0)" by (auto intro: transpI)
  ultimately show ?thesis using p(2) xs
    by (auto simp: rbind_Inr_iff validate_coreServeChallenge_def assertStrictlySorted_Inr sorted_wrt_map list_ex_iff not_le)
qed

theorem core_serve_indices_witness:
  "\<exists>bs xs. decodeCanonical coreServeChallengeV1 (JBytes bs) True = Inr serve_value \<and>
     getf serve_value ''blockIndices'' = JArr xs \<and> sorted_wrt (<) (map as_big xs)"
  using wired_canonical [OF serve_wired] core_serve_indices [of _ True serve_value] by blast

text \<open>
  C34. A route scope that decodes has one to four hops, numbered from zero, of distinct relays; each
  hop names the scope hash of the hop before it, the first one the zero hash.
\<close>

theorem route_scope_chain:
  assumes "decodeCanonical blindForwardRouteScopeV1 (JBytes bs) cp = Inr v"
  shows "\<exists>hops. getf v ''hops'' = JArr hops \<and> 1 \<le> length hops \<and> int (length hops) \<le> numf v ''maxRelayCount'' \<and>
    numf v ''maxRelayCount'' \<le> 4 \<and>
    distinct (map (\<lambda>h. bytesf h ''relayPublicKey'') hops) \<and>
    (\<forall>i<length hops. numf (hops ! i) ''hopIndex'' = int i \<and>
       bytesf (hops ! i) ''previousScopeHash'' = (if i = 0 then replicate 32 0 else bytesf (hops ! (i - 1)) ''scopeHash''))"
proof -
  have "prepared blindForwardRouteScopeV1 v JUndef"
    by (rule decoded_prepared [OF blindForwardRouteScopeV1.canonical_codec_axioms assms])
  note p = prepared_struct [OF this [unfolded blindForwardRouteScopeV1_def]]
  obtain hops where hops: "getf v ''hops'' = JArr hops" "1 \<le> length hops"
      "\<forall>h\<in>set hops. prepared blindForwardRouteHopV1 h JUndef"
    using p(3) [of "''hops''" blindForwardRouteHopsV1] by (fastforce simp: blindForwardRouteHopsV1_def dest: prepared_arrayOf)
  obtain m where m: "numf v ''maxRelayCount'' = m" "m \<le> 4"
    using p(3) [of "''maxRelayCount''" "ranged u8 2 4"] by (auto dest!: prepared_ranged)
  from p(2) hops(1) have chk: "check_hops 0 None [] hops = Inr ()" and len: "int (length hops) \<le> m"
    using m by (auto simp: rbind_Inr_iff validate_routeScope_def)
  note ch = chk [unfolded check_hops_Inr]
  have idx: "numf (hops ! i) ''hopIndex'' = int i" if "i < length hops" for i
    using arg_cong [OF conjunct1 [OF ch], of "\<lambda>xs. xs ! i"] that by simp
  have first: "bytesf (hops ! 0) ''previousScopeHash'' = replicate 32 0"
  proof -
    have h: "prepared blindForwardRouteHopV1 (hops ! 0) JUndef" using hops(2,3) by (cases hops) auto
    note q = prepared_struct [OF h [unfolded blindForwardRouteHopV1_def]]
    obtain b where "getf (hops ! 0) ''previousScopeHash'' = JBytes b" "length b = 32"
      using q(3) [of "''previousScopeHash''" bytes32] by (auto dest!: prepared_fixedBytes)
    moreover have "numf (hops ! 0) ''hopIndex'' = 0" using idx [of 0] hops(2) by (cases hops) auto
    ultimately show ?thesis using q(2)
      by (auto simp: rbind_Inr_iff validate_routeHop_def isAllZero_def list_all_iff intro: replicate_eqI)
  qed
  show ?thesis using hops m len idx first ch by (intro exI [of _ hops]) auto
qed

theorem route_scope_chain_witness:
  "\<exists>bs hops. decodeCanonical blindForwardRouteScopeV1 (JBytes bs) True = Inr scope_value \<and>
     getf scope_value ''hops'' = JArr hops \<and> distinct (map (\<lambda>h. bytesf h ''relayPublicKey'') hops)"
  using wired_canonical [OF scope_wired] route_scope_chain [of _ True scope_value] by blast

text \<open>
  C35. The result of opening a circuit agrees with the acceptance of the next hop that it carries, on
  relays, route, nonce and scope, and grants exactly the window, byte and chunk limits of its
  circuit and wire class.
\<close>

theorem forward_open_result_consistent:
  assumes "decodeCanonical blindForwardOpenResultV1 (JBytes bs) cp = Inr v"
  defines "nxt \<equiv> getf v ''nextHopAccept''"
  shows "bytesf (getf v ''relayBinding'') ''relayPublicKey'' = bytesf nxt ''previousRelayKey'' \<and>
    bytesf nxt ''nextRelayKey'' = bytesf (getf nxt ''nextRelayBinding'') ''relayPublicKey'' \<and>
    (\<forall>f\<in>{''routeId'', ''nextDescriptorHash'', ''circuitNonce'', ''acceptedRouteScopeHash''}. bytesf v f = bytesf nxt f) \<and>
    (\<exists>t size. FORWARD_CIRCUIT_CLASS (numf v ''circuitClass'') = Some t \<and>
       STREAM_WIRE_CLASS (numf v ''grantedWireClass'') = Some size \<and>
       numf v ''grantedInitialWindow'' = cc_grantedInitialWindow t \<and> bigf v ''maxCircuitBytes'' = cc_maxCircuitBytes t \<and>
       numf v ''maxDataBytes'' = int size)"
proof -
  have "prepared blindForwardOpenResultV1 v JUndef"
    by (rule decoded_prepared [OF blindForwardOpenResultV1.canonical_codec_axioms assms(1)])
  note p = prepared_struct [OF this [unfolded blindForwardOpenResultV1_def]]
  have "prepared blindForwardHopAcceptV1 nxt v" using p(3) [of "''nextHopAccept''"] by (simp add: nxt_def)
  then have n: "validate_forwardHopAccept nxt = Inr ()"
    unfolding blindForwardHopAcceptV1_def by (rule prepared_struct(2))
  obtain w where w: "getf v ''grantedWireClass'' = JNum w"
    using p(3) [of "''grantedWireClass''" wireClass] by (auto simp: wireClass_def dest!: prepared_ranged)
  have t: "validateForwardTuple v = Inr ()" using p(2) by (auto simp: rbind_Inr_iff validate_forwardOpenResult_def Let_def)
  then have "\<exists>t size. FORWARD_CIRCUIT_CLASS (numf v ''circuitClass'') = Some t \<and>
       STREAM_WIRE_CLASS (numf v ''grantedWireClass'') = Some size \<and>
       numf v ''grantedInitialWindow'' = cc_grantedInitialWindow t \<and> bigf v ''maxCircuitBytes'' = cc_maxCircuitBytes t \<and>
       numf v ''maxDataBytes'' = int size"
    using w by (cases "STREAM_WIRE_CLASS w") (auto simp: validateForwardTuple_def split: option.splits)
  with p(2) n show ?thesis
    by (auto simp: rbind_Inr_iff validate_forwardOpenResult_def validate_forwardHopAccept_def nxt_def Let_def)
qed

theorem forward_open_result_consistent_witness:
  "\<exists>bs. decodeCanonical blindForwardOpenResultV1 (JBytes bs) True = Inr open_result_value \<and>
     bytesf (getf open_result_value ''relayBinding'') ''relayPublicKey''
       = bytesf (getf open_result_value ''nextHopAccept'') ''previousRelayKey''"
  using wired_canonical [OF open_result_wired] forward_open_result_consistent [of _ True open_result_value] by blast

text \<open>
  C32. Stream chunks do not leak their content length: with the 16 bytes of the authentication tag,
  every encoded chunk has exactly the size of its wire class.
\<close>

theorem stream_chunk_exact_size:
  assumes "encodeCanonical blindStreamChunkPlainV1 v = Inr bs"
  shows "STREAM_WIRE_CLASS (numf v ''wireClass'') = Some (length bs + 16)"
proof -
  from assms blindStreamChunkPlainV1.encodeCanonical_iff have "encodes blindStreamChunkPlainV1 v JUndef bs" by blast
  then have "preencode blindStreamChunkPlainV1 st v JUndef = Inr (grow st (length bs))" for st by (simp add: encodes_def)
  from this [of "\<lparr>st_start = 0, st_end = 0, st_buffer = [], st_copyBytes = False\<rparr>"]
  obtain plain pad s1 s2 s3 s4 s5 s6 where c: "validateStreamChunkPlain v = Inr (plain, pad)" and s:
     "preencode version1 \<lparr>st_start = 0, st_end = 0, st_buffer = [], st_copyBytes = False\<rparr> (getf v ''version'') JUndef = Inr s1"
     "preencode wireClass s1 (getf v ''wireClass'') JUndef = Inr s2"
     "preencode u8 s2 (getf v ''flags'') JUndef = Inr s3"
     "preencode u32be s3 (getf v ''contentLength'') JUndef = Inr s4"
     "preencode (contentBytes v) s4 (getf v ''content'') JUndef = Inr s5"
     "preencode (fixedBytes (plain - 7 - nat (numf v ''contentLength''))) s5 (getf v ''randomPadding'') JUndef = Inr s6"
     "st_end s6 = length bs"
    by (auto simp: blindStreamChunkPlainV1_def rbind_Inr_iff grow_def)
  from validateStreamChunkPlain_Inr(1) [OF c] obtain w i where "getf v ''wireClass'' = JNum w"
     "getf v ''contentLength'' = JNum i" "STREAM_WIRE_CLASS w = Some (plain + 16)" "0 \<le> i" "7 + nat i + pad = plain"
    unfolding chunk_lengths_def by (rule streamChunkLengths_Inr)
  with s show ?thesis
    by (auto simp: grow_def contentBytes_def u8_def u32be_def dest!: fixed_parts_grow)
qed

theorem stream_chunk_exact_size_witness:
  "\<exists>bs. encodeCanonical blindStreamChunkPlainV1 chunk_value = Inr bs \<and> STREAM_WIRE_CLASS 1 = Some (length bs + 16)"
proof -
  from wired_canonical [OF chunk_wired] obtain bs where
    "decodeCanonical blindStreamChunkPlainV1 (JBytes bs) True = Inr chunk_value" ..
  then have e: "encodeCanonical blindStreamChunkPlainV1 chunk_value = Inr bs" by (rule blindStreamChunkPlainV1.decode_encode)
  with stream_chunk_exact_size [OF e] show ?thesis by (auto simp: chunk_value_def)
qed

end
