(* ===== verification/Dispatch.thy ===== *)
theory Dispatch
  imports Hashes "HOL-Library.AList"
begin

text \<open>
  The dispatch frame of \<^verbatim>\<open>packages/blind-protocol/dispatch.js\<close>: the checks on the header, the
  length-prefixed encoder and decoder, and the guard that keeps the sequence numbers of a
  stream increasing.  A frame is the object the source builds; the encoder writes into a
  zeroed buffer at the offsets of the source.
\<close>

subsection \<open>Header checks\<close>

definition WIRE_HEADER_BYTES :: int where
  "WIRE_HEADER_BYTES = DISPATCH_LIMITS_PREFIX_BYTES + DISPATCH_LIMITS_HEADER_BYTES"

definition nonzero_u8 :: "jsval \<Rightarrow> bool" where
  "nonzero_u8 v = (case v of JNum i \<Rightarrow> 1 \<le> i \<and> i \<le> 255 | _ \<Rightarrow> False)"

definition validateIds :: "jsval \<Rightarrow> jsval \<Rightarrow> unit res" where
  "validateIds familyId operationId = checks [
     raise_if (\<not> nonzero_u8 familyId) BAD_ENCODING,
     raise_if (\<not> nonzero_u8 operationId) BAD_ENCODING,
     raise_if (\<not> isKnownOperation (as_num familyId) (as_num operationId)) BAD_ENCODING]"

definition isStreamingOpen :: "int \<Rightarrow> int \<Rightarrow> bool" where
  "isStreamingOpen f i = (f = FAMILY_FORWARD \<and> i = OPERATION_FORWARD_OPEN \<or>
     f = FAMILY_CORE \<and> i = OPERATION_CORE_OPEN_REPLICATION)"

definition isStreamOperation :: "int \<Rightarrow> int \<Rightarrow> bool" where
  "isStreamOperation f i = (f = FAMILY_FORWARD \<and>
     (i = OPERATION_FORWARD_DATA \<or> i = OPERATION_FORWARD_WINDOW \<or> i = OPERATION_FORWARD_CLOSE))"

definition FRAME_KINDS :: "int list" where
  "FRAME_KINDS = [FRAME_KIND_REQUEST, FRAME_KIND_RESPONSE, FRAME_KIND_ERROR, FRAME_KIND_STREAM]"

definition allowed_bits :: "op_profile \<Rightarrow> int \<Rightarrow> int" where
  "allowed_bits profile k =
     (if k = FRAME_KIND_REQUEST then op_allowedRequestKindBits profile
      else if k = FRAME_KIND_STREAM
      then js_or (op_allowedRequestKindBits profile) (op_allowedResultKindBits profile)
      else op_allowedResultKindBits profile)"

definition bad_correlation :: "int \<Rightarrow> int \<Rightarrow> int \<Rightarrow> bool \<Rightarrow> int \<Rightarrow> int \<Rightarrow> bool" where
  "bad_correlation k f i requestIdIsZero streamId sequence =
     (if k = FRAME_KIND_REQUEST then requestIdIsZero \<or> streamId \<noteq> 0 \<or> sequence \<noteq> 0
      else if k = FRAME_KIND_RESPONSE then
        requestIdIsZero \<or> sequence \<noteq> 0 \<or>
        (isStreamingOpen f i \<and> streamId = 0 \<or> \<not> isStreamingOpen f i \<and> streamId \<noteq> 0)
      else if k = FRAME_KIND_ERROR then
        \<not> (\<not> requestIdIsZero \<and> streamId = 0 \<and> sequence = 0) \<and>
        \<not> (requestIdIsZero \<and> streamId \<noteq> 0 \<and> isStreamOperation f i)
      else \<not> requestIdIsZero \<or> streamId = 0 \<or> \<not> isStreamOperation f i)"

definition validateFrameShape :: "jsval \<Rightarrow> (bytes \<times> int \<times> int) res" where
  "validateFrameShape frame = (
     let k = numf frame ''frameKind''; f = numf frame ''familyId''; i = numf frame ''operationId'' in
     rbind (checks [
       raise_if (getf frame ''version'' \<noteq> JNum 1) BAD_VERSION,
       raise_if (getf frame ''frameKind'' \<notin> JNum ` set FRAME_KINDS) BAD_ENCODING,
       validateIds (getf frame ''familyId'') (getf frame ''operationId''),
       (case operationProfile f i of None \<Rightarrow> Inr ()
        | Some profile \<Rightarrow> raise_if (js_and (allowed_bits profile k) (js_shl 1 (k - 1)) = 0) BAD_ENCODING),
       raise_if (getf frame ''flags'' \<noteq> JNum 0) BAD_ENCODING]) (\<lambda>_.
     rbind (asBuffer (getf frame ''requestId'')) (\<lambda>requestId.
     rbind (raise_if (int (length requestId) \<noteq> DISPATCH_LIMITS_REQUEST_ID_BYTES) BAD_ENCODING) (\<lambda>_.
     rbind (asU64 (getf frame ''streamId'')) (\<lambda>streamId.
     rbind (asU64 (getf frame ''sequence'')) (\<lambda>sequence.
     rbind (raise_if (bad_correlation k f i (isAllZero requestId) streamId sequence) BAD_ENCODING) (\<lambda>_.
     Inr (requestId, streamId, sequence))))))))"

definition operation_body_cap :: "op_profile \<Rightarrow> int \<Rightarrow> int" where
  "operation_body_cap profile k =
     (if k = FRAME_KIND_REQUEST then op_maxRequestBodyBytes profile
      else if k = FRAME_KIND_STREAM then max (op_maxRequestBodyBytes profile) (op_maxResultBodyBytes profile)
      else op_maxResultBodyBytes profile)"

definition validateOperationBodyCap :: "int \<Rightarrow> int \<Rightarrow> int \<Rightarrow> int \<Rightarrow> unit res" where
  "validateOperationBodyCap k f i bodyLength = (case operationProfile f i of None \<Rightarrow> Inr ()
     | Some profile \<Rightarrow> raise_if (bodyLength > operation_body_cap profile k) TOO_LARGE)"

subsection \<open>Frames on the wire\<close>

definition readDispatchLengthPrefix :: "jsval \<Rightarrow> int res" where
  "readDispatchLengthPrefix prefix =
     rbind (asBuffer prefix) (\<lambda>bs.
     rbind (raise_if (int (length bs) < DISPATCH_LIMITS_PREFIX_BYTES) BAD_ENCODING) (\<lambda>_.
     let frameLength = read_be 4 0 bs 0 in
     rbind (checks [
       raise_if (frameLength < DISPATCH_LIMITS_HEADER_BYTES) BAD_ENCODING,
       raise_if (frameLength > DISPATCH_LIMITS_MAX_FRAME_AFTER_PREFIX_BYTES) TOO_LARGE]) (\<lambda>_.
     Inr frameLength)))"

text \<open>\<^verbatim>\<open>input.f == null ? d : input.f\<close>\<close>

definition default_to :: "jsval \<Rightarrow> string \<Rightarrow> jsval \<Rightarrow> jsval" where
  "default_to v n d = (if absent v n then d else getf v n)"

definition frame_of_input :: "jsval \<Rightarrow> obj" where
  "frame_of_input v = [
     (''version'', default_to v ''version'' (JNum 1)),
     (''frameKind'', getf v ''frameKind''),
     (''familyId'', getf v ''familyId''),
     (''operationId'', getf v ''operationId''),
     (''flags'', default_to v ''flags'' (JNum 0)),
     (''requestId'', getf v ''requestId''),
     (''streamId'', default_to v ''streamId'' (JBig 0)),
     (''sequence'', default_to v ''sequence'' (JBig 0))]"

definition write_frame :: "jsval \<Rightarrow> bytes \<Rightarrow> int \<Rightarrow> int \<Rightarrow> bytes \<Rightarrow> bytes" where
  "write_frame frame requestId streamId sequence body = (
     let byteOf = (\<lambda>n. word_of_int (numf frame n));
         frameLength = DISPATCH_LIMITS_HEADER_BYTES + int (length body);
         output = replicate (nat (DISPATCH_LIMITS_PREFIX_BYTES + frameLength)) 0;
         output = write_be 4 frameLength 0 output;
         output = output[4 := byteOf ''version''];
         output = output[5 := byteOf ''frameKind''];
         output = output[6 := byteOf ''familyId''];
         output = output[7 := byteOf ''operationId''];
         output = output[8 := byteOf ''flags''];
         output = put_bytes output 9 requestId;
         output = write_be 8 streamId 25 output;
         output = write_be 8 sequence 33 output;
         output = write_be 4 (int (length body)) 41 output in
     if body \<noteq> [] then put_bytes output (nat WIRE_HEADER_BYTES) body else output)"

definition encodeDispatchFrame :: "jsval \<Rightarrow> bytes res" where
  "encodeDispatchFrame v =
     rbind (raise_if (\<not> is_object v) BAD_ENCODING) (\<lambda>_.
     rbind (if absent v ''body'' then Inr [] else asBuffer (getf v ''body'')) (\<lambda>body.
     rbind (raise_if (int (length body) > DISPATCH_LIMITS_MAX_BODY_BYTES) TOO_LARGE) (\<lambda>_.
     let frame = JObj (frame_of_input v) in
     rbind (validateFrameShape frame) (\<lambda>(requestId, streamId, sequence).
     rbind (validateOperationBodyCap (numf frame ''frameKind'') (numf frame ''familyId'')
       (numf frame ''operationId'') (int (length body))) (\<lambda>_.
     rbind (raise_if (DISPATCH_LIMITS_HEADER_BYTES + int (length body) >
       DISPATCH_LIMITS_MAX_FRAME_AFTER_PREFIX_BYTES) TOO_LARGE) (\<lambda>_.
     Inr (write_frame frame requestId streamId sequence body)))))))"

definition frame_of_wire :: "bytes \<Rightarrow> obj" where
  "frame_of_wire bs = [
     (''version'', JNum (uint (bs ! 4))),
     (''frameKind'', JNum (uint (bs ! 5))),
     (''familyId'', JNum (uint (bs ! 6))),
     (''operationId'', JNum (uint (bs ! 7))),
     (''flags'', JNum (uint (bs ! 8))),
     (''requestId'', JBytes (take (25 - 9) (drop 9 bs))),
     (''streamId'', JBig (read_be 8 25 bs 0)),
     (''sequence'', JBig (read_be 8 33 bs 0))]"

definition decodeDispatchFrame :: "jsval \<Rightarrow> bool \<Rightarrow> jsval res" where
  "decodeDispatchFrame v copyBody =
     rbind (asBuffer v) (\<lambda>bs.
     rbind (raise_if (int (length bs) < DISPATCH_LIMITS_PREFIX_BYTES) BAD_ENCODING) (\<lambda>_.
     rbind (readDispatchLengthPrefix (JBytes bs)) (\<lambda>frameLength.
     rbind (raise_if (int (length bs) \<noteq> DISPATCH_LIMITS_PREFIX_BYTES + frameLength) BAD_ENCODING) (\<lambda>_.
     let bodyLength = read_be 4 41 bs 0; frame = frame_of_wire bs in
     rbind (checks [
       raise_if (bodyLength > DISPATCH_LIMITS_MAX_BODY_BYTES) TOO_LARGE,
       raise_if (frameLength \<noteq> DISPATCH_LIMITS_HEADER_BYTES + bodyLength) BAD_ENCODING]) (\<lambda>_.
     rbind (validateFrameShape (JObj frame)) (\<lambda>_.
     rbind (validateOperationBodyCap (uint (bs ! 5)) (uint (bs ! 6)) (uint (bs ! 7)) bodyLength) (\<lambda>_.
     Inr (JObj (frame @ [(''body'', JBytes (drop (nat WIRE_HEADER_BYTES) bs))])))))))))"

subsection \<open>The sequence guard\<close>

text \<open>
  The map key \<^verbatim>\<open>streamId.toString(16)\<close> determines the stream number and is modelled by it.
\<close>

record guard_state =
  maxStreams :: int
  lastByStream :: "(int \<times> int) list"

definition DispatchSequenceGuard :: "jsval \<Rightarrow> guard_state" where
  "DispatchSequenceGuard options = (let m = getf options ''maxStreams'' in
     \<lparr>maxStreams = (if isSafeInteger m \<and> as_num m > 0 then as_num m else 1024), lastByStream = []\<rparr>)"

definition guarded_frame :: "jsval \<Rightarrow> bool" where
  "guarded_frame frame = (is_object frame \<and> (getf frame ''frameKind'' = JNum FRAME_KIND_STREAM \<or>
     getf frame ''frameKind'' = JNum FRAME_KIND_ERROR \<and> getf frame ''streamId'' \<noteq> JBig 0))"

definition guard_accept :: "guard_state \<Rightarrow> jsval \<Rightarrow> guard_state res" where
  "guard_accept g frame =
     (if \<not> guarded_frame frame then Inr g else
      rbind (asU64 (getf frame ''streamId'')) (\<lambda>streamId.
      rbind (asU64 (getf frame ''sequence'')) (\<lambda>sequence.
      let previous = map_of (lastByStream g) streamId in
      rbind (checks [
        raise_if (case previous of None \<Rightarrow> False | Some q \<Rightarrow> sequence \<le> q) BAD_ENCODING,
        raise_if (previous = None \<and> int (length (lastByStream g)) \<ge> maxStreams g) BUSY]) (\<lambda>_.
      Inr (g\<lparr>lastByStream := AList.update streamId sequence (lastByStream g)\<rparr>)))))"

definition guard_close :: "guard_state \<Rightarrow> jsval \<Rightarrow> guard_state res" where
  "guard_close g streamId = rbind (asU64 streamId) (\<lambda>k.
     Inr (g\<lparr>lastByStream := AList.delete k (lastByStream g)\<rparr>))"

definition guard_clear :: "guard_state \<Rightarrow> guard_state" where
  "guard_clear g = g\<lparr>lastByStream := []\<rparr>"

end
