(* ===== verification/Dispatch_Laws.thy ===== *)
theory Dispatch_Laws
  imports Dispatch
begin

text \<open>
  Laws of the dispatch frame: the byte layout that the in-place writes produce, the two round
  trips between frames and bytes, the caps, self-delimiting framing; and the sequence guard as
  a transition system with its invariant.
\<close>

subsection \<open>Writes at the end of what is written\<close>

lemma put_at_end:
  "length xs = off \<Longrightarrow> off + length ys \<le> length buf \<Longrightarrow>
     put_bytes (put_bytes buf 0 xs) off ys = put_bytes buf 0 (xs @ ys)"
  using put_bytes_append [of 0 xs ys buf] by simp

lemma update_at_end:
  "length xs = off \<Longrightarrow> off < length buf \<Longrightarrow> (put_bytes buf 0 xs)[off := b] = put_bytes buf 0 (xs @ [b])"
  using put_at_end [of xs off "[b]" buf] by (simp add: put_bytes_single)

lemma write_be_at_end:
  "length xs = off \<Longrightarrow> off + n \<le> length buf \<Longrightarrow>
     write_be n v off (put_bytes buf 0 xs) = put_bytes buf 0 (xs @ be_bytes n v)"
  using put_at_end [of xs off "be_bytes n v" buf] by (simp add: write_be_put)

lemmas wire_limits = DISPATCH_LIMITS_PREFIX_BYTES_def DISPATCH_LIMITS_HEADER_BYTES_def
  DISPATCH_LIMITS_REQUEST_ID_BYTES_def DISPATCH_LIMITS_MAX_BODY_BYTES_def
  DISPATCH_LIMITS_MAX_FRAME_AFTER_PREFIX_BYTES_def WIRE_HEADER_BYTES_def

definition frame_layout :: "bytes \<Rightarrow> bytes \<Rightarrow> int \<Rightarrow> int \<Rightarrow> bytes \<Rightarrow> bytes" where
  "frame_layout hdr rid s q body =
     be_bytes 4 (41 + int (length body)) @ hdr @ rid @ be_bytes 8 s @ be_bytes 8 q @
     be_bytes 4 (int (length body)) @ body"

lemma write_frame_layout:
  assumes "length rid = 16"
  shows "write_frame frame rid s q body = frame_layout (map (\<lambda>n. word_of_int (numf frame n))
      [''version'', ''frameKind'', ''familyId'', ''operationId'', ''flags'']) rid s q body"
proof -
  let ?buf = "replicate (45 + length body) 0 :: bytes"
  let ?n = "int (length body)"
  let ?b = "\<lambda>n. word_of_int (numf frame n) :: byte"
  have size: "nat (4 + (41 + ?n)) = 45 + length body" and off: "nat (4 + 41) = 45" by simp_all
  have 0: "write_be 4 (41 + ?n) 0 ?buf = put_bytes ?buf 0 (be_bytes 4 (41 + ?n))" by (simp add: write_be_put)
  let ?h = "be_bytes 4 (41 + ?n) @ map ?b [''version'', ''frameKind'', ''familyId'', ''operationId'', ''flags'']"
  have 1: "(put_bytes ?buf 0 (be_bytes 4 (41 + ?n)))[4 := ?b ''version'', 5 := ?b ''frameKind'',
      6 := ?b ''familyId'', 7 := ?b ''operationId'', 8 := ?b ''flags''] = put_bytes ?buf 0 ?h"
    by (simp add: update_at_end)
  let ?r = "?h @ rid @ be_bytes 8 s @ be_bytes 8 q @ be_bytes 4 ?n"
  have 2: "write_be 4 ?n 41 (write_be 8 q 33 (write_be 8 s 25 (put_bytes (put_bytes ?buf 0 ?h) 9 rid)))
      = put_bytes ?buf 0 ?r"
    using assms by (simp add: put_at_end write_be_at_end)
  have "put_bytes (put_bytes ?buf 0 ?r) 45 body = put_bytes ?buf 0 (?r @ body)"
    using assms by (intro put_at_end) simp_all
  moreover have "put_bytes ?buf 0 (?r @ body) = ?r @ body"
    using assms by (intro put_bytes_all) simp
  moreover have "?r @ body = frame_layout (map ?b [''version'', ''frameKind'', ''familyId'', ''operationId'',
      ''flags'']) rid s q body"
    by (simp add: frame_layout_def)
  ultimately have "(if body \<noteq> [] then put_bytes (put_bytes ?buf 0 ?r) 45 body else put_bytes ?buf 0 ?r) =
      frame_layout (map ?b [''version'', ''frameKind'', ''familyId'', ''operationId'', ''flags'']) rid s q body"
    by (cases "body = []") (simp_all del: append_assoc)
  then show ?thesis unfolding write_frame_def Let_def wire_limits size off 0 1 2 .
qed

subsection \<open>What the header checks establish\<close>

lemma validateFrameShape_Inr:
  assumes "validateFrameShape frame = Inr (rid, s, q)"
  shows "getf frame ''version'' = JNum 1" "getf frame ''flags'' = JNum 0"
    "\<exists>k\<in>set FRAME_KINDS. getf frame ''frameKind'' = JNum k"
    "\<exists>f. getf frame ''familyId'' = JNum f \<and> 1 \<le> f \<and> f \<le> 255"
    "\<exists>i. getf frame ''operationId'' = JNum i \<and> 1 \<le> i \<and> i \<le> 255"
    "isKnownOperation (numf frame ''familyId'') (numf frame ''operationId'')"
    "getf frame ''requestId'' = JBytes rid" "length rid = 16"
    "asU64 (getf frame ''streamId'') = Inr s" "asU64 (getf frame ''sequence'') = Inr q"
    "\<not> bad_correlation (numf frame ''frameKind'') (numf frame ''familyId'') (numf frame ''operationId'')
       (isAllZero rid) s q"
  using assms
  by (auto simp: validateFrameShape_def Let_def rbind_Inr_iff validateIds_def nonzero_u8_def wire_limits
      split: jsval.splits)

text \<open>The checks read eight fields of the frame and, of the stream fields, their numbers.\<close>

lemma validateFrameShape_cong:
  assumes "\<And>n. n \<in> {''version'', ''frameKind'', ''familyId'', ''operationId'', ''flags'', ''requestId''} \<Longrightarrow>
      getf frame n = getf frame' n"
    and "asU64 (getf frame ''streamId'') = asU64 (getf frame' ''streamId'')"
    and "asU64 (getf frame ''sequence'') = asU64 (getf frame' ''sequence'')"
  shows "validateFrameShape frame = validateFrameShape frame'"
  using assms by (simp add: validateFrameShape_def)

lemma frame_kind_u8: "k \<in> set FRAME_KINDS \<Longrightarrow> 1 \<le> k \<and> k \<le> 4"
  by (auto simp: FRAME_KINDS_def FRAME_KIND_REQUEST_def FRAME_KIND_RESPONSE_def FRAME_KIND_ERROR_def
      FRAME_KIND_STREAM_def)

subsection \<open>The encoder writes the layout\<close>

lemma encodeDispatchFrame_Inr:
  assumes "encodeDispatchFrame v = Inr bs"
  obtains body rid s q where
    "absent v ''body'' \<and> body = [] \<or> getf v ''body'' = JBytes body" "length body \<le> 4194304"
    "validateFrameShape (JObj (frame_of_input v)) = Inr (rid, s, q)"
    "validateOperationBodyCap (numf v ''frameKind'') (numf v ''familyId'') (numf v ''operationId'')
       (int (length body)) = Inr ()"
    "bs = frame_layout [1, word_of_int (numf v ''frameKind''), word_of_int (numf v ''familyId''),
       word_of_int (numf v ''operationId''), 0] rid s q body"
proof -
  let ?f = "JObj (frame_of_input v)"
  from assms obtain body rid s q where
      b: "(if absent v ''body'' then Inr [] else asBuffer (getf v ''body'')) = Inr body" and len: "length body \<le> 4194304"
      and shape: "validateFrameShape ?f = Inr (rid, s, q)"
      and cap: "validateOperationBodyCap (numf ?f ''frameKind'') (numf ?f ''familyId'')
        (numf ?f ''operationId'') (int (length body)) = Inr ()"
      and out: "bs = write_frame ?f rid s q body"
    by (auto simp: encodeDispatchFrame_def rbind_Inr_iff wire_limits Let_def)
  have body: "absent v ''body'' \<and> body = [] \<or> getf v ''body'' = JBytes body"
    using b by (auto split: if_splits)
  note facts = validateFrameShape_Inr [OF shape]
  have "bs = frame_layout [1, word_of_int (numf v ''frameKind''), word_of_int (numf v ''familyId''),
      word_of_int (numf v ''operationId''), 0] rid s q body"
    unfolding out write_frame_layout [OF facts(8)] using facts(1,2) by (simp add: frame_of_input_def)
  with body len shape cap show thesis by (intro that) (auto simp: frame_of_input_def)
qed

subsection \<open>Reading the layout back\<close>

lemma read_be_bytes:
  assumes "take n (drop off bs) = be_bytes n v" "off + n \<le> length bs" "0 \<le> v" "v < 256 ^ n"
  shows "read_be n off bs 0 = v"
  using assms by (simp add: read_be_val be_val_be_bytes)

lemma layout_reads:
  fixes a b c d e :: byte
  assumes rid: "length rid = 16" and n: "length body \<le> 4194304"
    and s: "0 \<le> s" "s \<le> MAX_U64" and q: "0 \<le> q" "q \<le> MAX_U64"
  defines "bs \<equiv> frame_layout [a, b, c, d, e] rid s q body"
  shows "length bs = 45 + length body" "read_be 4 0 bs 0 = 41 + int (length body)"
    "bs ! 4 = a" "bs ! 5 = b" "bs ! 6 = c" "bs ! 7 = d" "bs ! 8 = e" "take 16 (drop 9 bs) = rid"
    "read_be 8 25 bs 0 = s" "read_be 8 33 bs 0 = q" "read_be 4 41 bs 0 = int (length body)"
    "drop 45 bs = body"
proof -
  show len: "length bs = 45 + length body" using rid by (simp add: bs_def frame_layout_def)
  show "bs ! 4 = a" "bs ! 5 = b" "bs ! 6 = c" "bs ! 7 = d" "bs ! 8 = e"
    by (simp_all add: bs_def frame_layout_def nth_append)
  show "take 16 (drop 9 bs) = rid" "drop 45 bs = body" using rid by (simp_all add: bs_def frame_layout_def)
  show "read_be 4 0 bs 0 = 41 + int (length body)" "read_be 8 25 bs 0 = s" "read_be 8 33 bs 0 = q"
    "read_be 4 41 bs 0 = int (length body)"
    using rid n s q len
    by (intro read_be_bytes; simp add: bs_def frame_layout_def MAX_U64_def)+
qed

lemma wire_is_layout:
  assumes len: "length bs = 45 + n" and pre: "read_be 4 0 bs 0 = 41 + int n" and body: "read_be 4 41 bs 0 = int n"
  shows "bs = frame_layout [bs ! 4, bs ! 5, bs ! 6, bs ! 7, bs ! 8] (take 16 (drop 9 bs))
    (read_be 8 25 bs 0) (read_be 8 33 bs 0) (drop 45 bs)"
proof -
  have slice: "be_bytes k (read_be k off bs 0) = take k (drop off bs)" if "off + k \<le> 45" for k off
    using that len by (simp add: read_be_val be_bytes_be_val_eq)
  have parts: "take 4 bs @ drop 4 bs = bs" "take 16 (drop 9 bs) @ drop 25 bs = drop 9 bs"
      "take 8 (drop 25 bs) @ drop 33 bs = drop 25 bs" "take 8 (drop 33 bs) @ drop 41 bs = drop 33 bs"
      "take 4 (drop 41 bs) @ drop 45 bs = drop 41 bs"
    using append_take_drop_id [of 16 "drop 9 bs"] append_take_drop_id [of 8 "drop 25 bs"]
      append_take_drop_id [of 8 "drop 33 bs"] append_take_drop_id [of 4 "drop 41 bs"] by simp_all
  have hdr: "bs ! 4 # bs ! 5 # bs ! 6 # bs ! 7 # bs ! 8 # drop 9 bs = drop 4 bs"
    using len Cons_nth_drop_Suc [of 4 bs] Cons_nth_drop_Suc [of 5 bs] Cons_nth_drop_Suc [of 6 bs]
      Cons_nth_drop_Suc [of 7 bs] Cons_nth_drop_Suc [of 8 bs] by simp
  have "frame_layout [bs ! 4, bs ! 5, bs ! 6, bs ! 7, bs ! 8] (take 16 (drop 9 bs))
      (read_be 8 25 bs 0) (read_be 8 33 bs 0) (drop 45 bs)
    = take 4 (drop 0 bs) @ [bs ! 4, bs ! 5, bs ! 6, bs ! 7, bs ! 8] @ take 16 (drop 9 bs) @
      take 8 (drop 25 bs) @ take 8 (drop 33 bs) @ take 4 (drop 41 bs) @ drop 45 bs"
    using slice [of 0 4] slice [of 25 8] slice [of 33 8] slice [of 41 4] pre body len
    by (simp add: frame_layout_def)
  then show ?thesis using parts hdr by simp
qed

lemma decodeDispatchFrame_Inr:
  "decodeDispatchFrame (JBytes bs) cp = Inr v \<longleftrightarrow>
     (\<exists>n x. length bs = 45 + n \<and> n \<le> 4194304 \<and> read_be 4 0 bs 0 = 41 + int n \<and> read_be 4 41 bs 0 = int n \<and>
        validateFrameShape (JObj (frame_of_wire bs)) = Inr x \<and>
        validateOperationBodyCap (uint (bs ! 5)) (uint (bs ! 6)) (uint (bs ! 7)) (int n) = Inr () \<and>
        v = JObj (frame_of_wire bs @ [(''body'', JBytes (drop 45 bs))]))"
  (is "?l \<longleftrightarrow> (\<exists>n x. ?r n x)")
proof
  assume ?l
  then obtain x where h: "41 \<le> read_be 4 0 bs 0" "int (length bs) = 4 + read_be 4 0 bs 0"
      "read_be 4 41 bs 0 \<le> 4194304" "read_be 4 0 bs 0 = 41 + read_be 4 41 bs 0"
      and x: "validateFrameShape (JObj (frame_of_wire bs)) = Inr x"
      "validateOperationBodyCap (uint (bs ! 5)) (uint (bs ! 6)) (uint (bs ! 7)) (read_be 4 41 bs 0) = Inr ()"
      "v = JObj (frame_of_wire bs @ [(''body'', JBytes (drop 45 bs))])"
    by (auto simp: decodeDispatchFrame_def readDispatchLengthPrefix_def asBuffer_def rbind_Inr_iff wire_limits
        Let_def simp del: read_be.simps)
  from h have "int (length bs) = 45 + read_be 4 41 bs 0" "0 \<le> read_be 4 41 bs 0" by linarith+
  then obtain n where "read_be 4 41 bs 0 = int n" "length bs = 45 + n"
    using zero_le_imp_eq_int by fastforce
  with h x have "?r n x" by simp
  then show "\<exists>n x. ?r n x" by blast
next
  assume "\<exists>n x. ?r n x"
  then obtain n x where "?r n x" by blast
  then show ?l
    by (simp add: decodeDispatchFrame_def readDispatchLengthPrefix_def asBuffer_def rbind_Inr_iff wire_limits
        Let_def del: read_be.simps)
qed

subsection \<open>Round trips\<close>

lemma frame_of_input_wire:
  "frame_of_input (JObj (frame_of_wire bs @ [(''body'', b)])) = frame_of_wire bs"
  by (simp add: frame_of_input_def frame_of_wire_def default_to_def)

lemma uint_nth_range: "uint (bs ! i :: byte) \<le> 255"
  using uint_byte_range(2) [of "bs ! i"] by linarith

lemma dispatch_reencode:
  assumes "decodeDispatchFrame (JBytes bs) cp = Inr v"
  shows "encodeDispatchFrame v = Inr bs"
proof -
  let ?f = "JObj (frame_of_wire bs)"
  from assms obtain n rid s q where len: "length bs = 45 + n" and n: "n \<le> 4194304"
      and rd: "read_be 4 0 bs 0 = 41 + int n" "read_be 4 41 bs 0 = int n"
      and shape: "validateFrameShape ?f = Inr (rid, s, q)"
      and cap: "validateOperationBodyCap (uint (bs ! 5)) (uint (bs ! 6)) (uint (bs ! 7)) (int n) = Inr ()"
      and v: "v = JObj (frame_of_wire bs @ [(''body'', JBytes (drop 45 bs))])"
    unfolding decodeDispatchFrame_Inr by (metis prod_cases3)
  note facts = validateFrameShape_Inr [OF shape]
  have "rid = take 16 (drop 9 bs)" "s = read_be 8 25 bs 0" "q = read_be 8 33 bs 0"
    using facts(7,9,10) by (auto simp: frame_of_wire_def dest: asU64_Inr simp del: read_be.simps)
  then have "frame_layout (map (\<lambda>n. word_of_int (numf ?f n))
      [''version'', ''frameKind'', ''familyId'', ''operationId'', ''flags'']) rid s q (drop 45 bs) = bs"
    using wire_is_layout [OF len rd] by (simp add: frame_of_wire_def)
  then have out: "write_frame ?f rid s q (drop 45 bs) = bs"
    using write_frame_layout [OF facts(8)] by simp
  have body: "getf v ''body'' = JBytes (drop 45 bs)" by (simp add: v frame_of_wire_def)
  have ids: "numf ?f ''frameKind'' = uint (bs ! 5)" "numf ?f ''familyId'' = uint (bs ! 6)"
      "numf ?f ''operationId'' = uint (bs ! 7)" by (simp_all add: frame_of_wire_def)
  have inp: "frame_of_input v = frame_of_wire bs" unfolding v by (rule frame_of_input_wire)
  have obj: "is_object v" by (simp add: v)
  have dl: "length (drop 45 bs) = n" using len by simp
  show ?thesis
    unfolding encodeDispatchFrame_def Let_def inp body ids wire_limits
    using obj shape cap out n dl by (simp add: asBuffer_def raise_if_def ids del: getf.simps)
qed

definition canonical_frame :: "jsval \<Rightarrow> obj" where
  "canonical_frame v = [
     (''version'', JNum 1), (''frameKind'', getf v ''frameKind''), (''familyId'', getf v ''familyId''),
     (''operationId'', getf v ''operationId''), (''flags'', JNum 0), (''requestId'', getf v ''requestId''),
     (''streamId'', JBig (bigf v ''streamId'')), (''sequence'', JBig (bigf v ''sequence'')),
     (''body'', JBytes (bytesf v ''body''))]"

lemma as_big_default_to [simp]: "as_big (default_to v n (JBig 0)) = bigf v n"
  by (cases "getf v n") (simp_all add: default_to_def)

lemma encodeDispatchFrame_reads:
  assumes "encodeDispatchFrame v = Inr bs"
  shows "length bs = 45 + length (bytesf v ''body'')" "length (bytesf v ''body'') \<le> 4194304"
    "read_be 4 0 bs 0 = 41 + int (length (bytesf v ''body''))"
    "read_be 4 41 bs 0 = int (length (bytesf v ''body''))"
    "drop 45 bs = bytesf v ''body''"
    "frame_of_wire bs @ [(''body'', JBytes (drop 45 bs))] = canonical_frame v"
    "validateFrameShape (JObj (frame_of_wire bs)) = validateFrameShape (JObj (frame_of_input v))"
    "validateOperationBodyCap (uint (bs ! 5)) (uint (bs ! 6)) (uint (bs ! 7))
       (int (length (bytesf v ''body''))) = Inr ()"
proof -
  from assms obtain body rid s q where
      body: "absent v ''body'' \<and> body = [] \<or> getf v ''body'' = JBytes body" and n: "length body \<le> 4194304"
      and shape: "validateFrameShape (JObj (frame_of_input v)) = Inr (rid, s, q)"
      and cap: "validateOperationBodyCap (numf v ''frameKind'') (numf v ''familyId'') (numf v ''operationId'')
        (int (length body)) = Inr ()"
      and bs: "bs = frame_layout [1, word_of_int (numf v ''frameKind''), word_of_int (numf v ''familyId''),
        word_of_int (numf v ''operationId''), 0] rid s q body"
    by (rule encodeDispatchFrame_Inr)
  note facts = validateFrameShape_Inr [OF shape]
  have sq: "0 \<le> s" "s \<le> MAX_U64" "0 \<le> q" "q \<le> MAX_U64" "s = bigf v ''streamId''" "q = bigf v ''sequence''"
    using asU64_Inr [OF facts(9)] asU64_Inr [OF facts(10)] by (auto simp: frame_of_input_def)
  note rd = layout_reads [OF facts(8) n sq(1-4), of 1 "word_of_int (numf v ''frameKind'')"
      "word_of_int (numf v ''familyId'')" "word_of_int (numf v ''operationId'')" 0, folded bs]
  have b: "bytesf v ''body'' = body" using body by (cases "getf v ''body''") auto
  obtain k f i where kfi: "getf v ''frameKind'' = JNum k" "getf v ''familyId'' = JNum f"
      "getf v ''operationId'' = JNum i" "1 \<le> k" "k \<le> 255" "1 \<le> f" "f \<le> 255" "1 \<le> i" "i \<le> 255"
    using facts(3,4,5) frame_kind_u8 by (fastforce simp: frame_of_input_def)
  have rid: "getf v ''requestId'' = JBytes rid" using facts(7) by (simp add: frame_of_input_def)
  have wire: "frame_of_wire bs = [(''version'', JNum 1), (''frameKind'', JNum k), (''familyId'', JNum f),
      (''operationId'', JNum i), (''flags'', JNum 0), (''requestId'', JBytes rid), (''streamId'', JBig s),
      (''sequence'', JBig q)]"
    using kfi by (simp add: frame_of_wire_def rd uint_word_of_int_byte del: read_be.simps)
  show "length bs = 45 + length (bytesf v ''body'')" "length (bytesf v ''body'') \<le> 4194304"
    "read_be 4 0 bs 0 = 41 + int (length (bytesf v ''body''))"
    "read_be 4 41 bs 0 = int (length (bytesf v ''body''))" "drop 45 bs = bytesf v ''body''"
    using rd n by (simp_all add: b del: read_be.simps)
  show "frame_of_wire bs @ [(''body'', JBytes (drop 45 bs))] = canonical_frame v"
    by (simp add: wire canonical_frame_def kfi rid sq(5,6) b rd)
  have "asU64 (JBig s) = Inr s" "asU64 (JBig q) = Inr q" using sq by (simp_all add: asU64_def)
  then show "validateFrameShape (JObj (frame_of_wire bs)) = validateFrameShape (JObj (frame_of_input v))"
    using facts(1,2,9,10) by (intro validateFrameShape_cong) (auto simp: wire frame_of_input_def kfi rid)
  show "validateOperationBodyCap (uint (bs ! 5)) (uint (bs ! 6)) (uint (bs ! 7))
      (int (length (bytesf v ''body''))) = Inr ()"
    using cap kfi by (simp add: rd b uint_word_of_int_byte)
qed

lemma dispatch_redecode:
  assumes e: "encodeDispatchFrame v = Inr bs"
  shows "decodeDispatchFrame (JBytes bs) cp = Inr (JObj (canonical_frame v))"
proof -
  from e obtain x where "validateFrameShape (JObj (frame_of_input v)) = Inr x"
    by (rule encodeDispatchFrame_Inr)
  with encodeDispatchFrame_reads [OF e] show ?thesis unfolding decodeDispatchFrame_Inr by metis
qed

subsection \<open>Caps and framing\<close>

lemma dispatch_length_bounds:
  assumes "encodeDispatchFrame v = Inr bs"
  shows "45 \<le> length bs \<and> length bs \<le> 4194349"
  using encodeDispatchFrame_reads(1,2) [OF assms] by simp

lemma dispatch_self_delimiting:
  assumes e: "encodeDispatchFrame v = Inr bs"
  shows "readDispatchLengthPrefix (JBytes (bs @ rest)) = Inr (int (length bs) - 4)"
proof -
  note rd = encodeDispatchFrame_reads [OF e]
  have "read_be 4 0 (bs @ rest) 0 = read_be 4 0 bs 0"
    using rd(1) by (simp add: read_be_val)
  then show ?thesis
    using rd(1-3) by (simp add: readDispatchLengthPrefix_def asBuffer_def wire_limits raise_if_def Let_def
        del: read_be.simps)
qed

subsection \<open>Wire formats\<close>

text \<open>
  The contract of an encoder and a decoder between values and bytes where the decoder accepts
  exactly the encoder's output and returns the value in normal form.
\<close>

locale wire_format =
  fixes enc :: "jsval \<Rightarrow> bytes res" and dec :: "bytes \<Rightarrow> jsval res" and norm :: "jsval \<Rightarrow> jsval"
  assumes dec_enc: "dec bs = Inr v \<Longrightarrow> enc v = Inr bs"
    and enc_dec: "enc v = Inr bs \<Longrightarrow> dec bs = Inr (norm v)"
begin

lemma dec_injective: "dec bs = Inr v \<Longrightarrow> dec bs' = Inr v \<Longrightarrow> bs = bs'"
  using dec_enc [of bs v] dec_enc [of bs' v] by simp

lemma dec_norm: "dec bs = Inr v \<Longrightarrow> norm v = v"
  using enc_dec [OF dec_enc, of bs v] by simp

lemma enc_norm: "enc v = Inr bs \<Longrightarrow> enc (norm v) = Inr bs"
  using dec_enc enc_dec by blast

lemma enc_eq_iff: "enc v = Inr bs \<Longrightarrow> enc w = Inr cs \<Longrightarrow> bs = cs \<longleftrightarrow> norm v = norm w"
  using enc_dec enc_norm by (metis sum.inject(2))

lemma accepts_iff: "(\<exists>v. dec bs = Inr v) \<longleftrightarrow> (\<exists>v. enc v = Inr bs)"
  using dec_enc enc_dec by blast

end

interpretation dispatch: wire_format encodeDispatchFrame "\<lambda>bs. decodeDispatchFrame (JBytes bs) cp"
    "\<lambda>v. JObj (canonical_frame v)"
  by unfold_locales (erule dispatch_reencode, erule dispatch_redecode)

subsection \<open>The sequence guard as a transition system\<close>

datatype guard_event = Accepted jsval | Rejected jsval perr | Closed jsval | Cleared

text \<open>The events of a guard so far, the latest first, and its state.\<close>

inductive guard_trace :: "jsval \<Rightarrow> guard_event list \<Rightarrow> guard_state \<Rightarrow> bool" for opts where
  new: "guard_trace opts [] (DispatchSequenceGuard opts)"
| acc: "guard_trace opts es g \<Longrightarrow> guard_accept g f = Inr g' \<Longrightarrow> guard_trace opts (Accepted f # es) g'"
| rej: "guard_trace opts es g \<Longrightarrow> guard_accept g f = Inl e \<Longrightarrow> guard_trace opts (Rejected f e # es) g"
| close: "guard_trace opts es g \<Longrightarrow> guard_close g k = Inr g' \<Longrightarrow> guard_trace opts (Closed k # es) g'"
| clear: "guard_trace opts es g \<Longrightarrow> guard_trace opts (Cleared # es) (guard_clear g)"

inductive_cases guard_trace_accE: "guard_trace opts (Accepted f # es) g"

text \<open>The sequence numbers accepted on a stream since it was last closed, the latest first.\<close>

fun live_sequences :: "int \<Rightarrow> guard_event list \<Rightarrow> int list" where
  "live_sequences k [] = []"
| "live_sequences k (Accepted f # es) =
     (if guarded_frame f \<and> bigf f ''streamId'' = k then bigf f ''sequence'' # live_sequences k es
      else live_sequences k es)"
| "live_sequences k (Rejected f e # es) = live_sequences k es"
| "live_sequences k (Closed s # es) = (if as_big s = k then [] else live_sequences k es)"
| "live_sequences k (Cleared # es) = []"

lemma guard_accept_frame:
  assumes "guarded_frame f" "asU64 (getf f ''streamId'') = Inr k" "asU64 (getf f ''sequence'') = Inr q"
  shows "guard_accept g f = (case map_of (lastByStream g) k of
      None \<Rightarrow> if int (length (lastByStream g)) < maxStreams g
        then Inr (g\<lparr>lastByStream := AList.update k q (lastByStream g)\<rparr>) else Inl BUSY
    | Some p \<Rightarrow> if p < q then Inr (g\<lparr>lastByStream := AList.update k q (lastByStream g)\<rparr>) else Inl BAD_ENCODING)"
  using assms by (simp add: guard_accept_def raise_if_def split: option.split)

lemma guard_acceptE:
  assumes "guard_accept g f = Inr g'"
  obtains (skip) "\<not> guarded_frame f" "g' = g"
  | (fresh) k q where "guarded_frame f" "bigf f ''streamId'' = k" "bigf f ''sequence'' = q"
      "map_of (lastByStream g) k = None" "int (length (lastByStream g)) < maxStreams g"
      "g' = g\<lparr>lastByStream := AList.update k q (lastByStream g)\<rparr>"
  | (succ) k q p where "guarded_frame f" "bigf f ''streamId'' = k" "bigf f ''sequence'' = q"
      "map_of (lastByStream g) k = Some p" "p < q"
      "g' = g\<lparr>lastByStream := AList.update k q (lastByStream g)\<rparr>"
proof (cases "guarded_frame f")
  case False
  with assms show thesis by (intro skip) (simp_all add: guard_accept_def)
next
  case True
  with assms obtain k q where kq: "asU64 (getf f ''streamId'') = Inr k" "asU64 (getf f ''sequence'') = Inr q"
    by (auto simp: guard_accept_def rbind_Inr_iff)
  note acc = guard_accept_frame [OF True kq, of g]
  show thesis
  proof (cases "map_of (lastByStream g) k")
    case None
    with assms acc True asU64_Inr [OF kq(1)] asU64_Inr [OF kq(2)] show thesis
      by (intro fresh) (auto split: if_splits)
  next
    case (Some p)
    with assms acc True asU64_Inr [OF kq(1)] asU64_Inr [OF kq(2)] show thesis
      by (intro succ) (auto split: if_splits)
  qed
qed

lemma length_update_absent: "map_of xs k = None \<Longrightarrow> length (AList.update k v xs) = Suc (length xs)"
  by (induction xs) (auto split: if_splits)

lemma length_update_present: "map_of xs k = Some w \<Longrightarrow> length (AList.update k v xs) = length xs"
  by (induction xs) (auto split: if_splits)

definition guard_ok :: "guard_state \<Rightarrow> bool" where
  "guard_ok g = (distinct (map fst (lastByStream g)) \<and> 0 < maxStreams g \<and>
     int (length (lastByStream g)) \<le> maxStreams g)"

lemma guard_ok_new: "guard_ok (DispatchSequenceGuard opts)"
  by (simp add: guard_ok_def DispatchSequenceGuard_def Let_def)

lemma guard_ok_accept:
  assumes "guard_accept g f = Inr g'" "guard_ok g"
  shows "guard_ok g'"
  using assms(1)
  by (cases rule: guard_acceptE)
    (use assms(2) in \<open>simp_all add: guard_ok_def distinct_update length_update_absent length_update_present\<close>)

lemma guard_ok_close:
  assumes "guard_close g k = Inr g'" "guard_ok g"
  shows "guard_ok g'"
proof -
  from assms(1) obtain i where "g' = g\<lparr>lastByStream := AList.delete i (lastByStream g)\<rparr>"
    by (auto simp: guard_close_def rbind_Inr_iff)
  moreover have "length (AList.delete i (lastByStream g)) \<le> length (lastByStream g)"
    by (rule length_delete_le)
  ultimately show ?thesis using assms(2) by (simp add: guard_ok_def distinct_delete)
qed

lemma guard_trace_ok: "guard_trace opts es g \<Longrightarrow> guard_ok g"
proof (induction rule: guard_trace.induct)
  case (clear es g)
  then show ?case by (simp add: guard_ok_def guard_clear_def)
qed (simp_all add: guard_ok_new guard_ok_accept guard_ok_close)

definition last_of :: "int list \<Rightarrow> int option" where
  "last_of qs = (case qs of [] \<Rightarrow> None | q # _ \<Rightarrow> Some q)"

lemma guard_trace_last:
  "guard_trace opts es g \<Longrightarrow> map_of (lastByStream g) k = last_of (live_sequences k es)"
proof (induction rule: guard_trace.induct)
  case new
  then show ?case by (simp add: DispatchSequenceGuard_def Let_def last_of_def)
next
  case (acc es g f g')
  from acc.hyps(2) show ?case
    by (cases rule: guard_acceptE) (use acc.IH in \<open>auto simp: update_conv' last_of_def\<close>)
next
  case (close es g s g')
  then obtain i where "asU64 s = Inr i" "g' = g\<lparr>lastByStream := AList.delete i (lastByStream g)\<rparr>"
    by (auto simp: guard_close_def rbind_Inr_iff)
  with close.IH asU64_Inr show ?case by (auto simp: delete_conv' last_of_def)
next
  case (clear es g)
  then show ?case by (simp add: guard_clear_def last_of_def)
qed simp_all

lemma sorted_live_Cons:
  "sorted_wrt (>) qs \<Longrightarrow> last_of qs = None \<or> (\<exists>p. last_of qs = Some p \<and> p < q) \<Longrightarrow> sorted_wrt (>) ((q::int) # qs)"
  by (cases qs) (auto simp: last_of_def)

lemma guard_trace_sorted: "guard_trace opts es g \<Longrightarrow> sorted_wrt (>) (live_sequences k es)"
proof (induction rule: guard_trace.induct)
  case (acc es g f g')
  note last = guard_trace_last [OF acc.hyps(1), of k]
  from acc.hyps(2) show ?case
  proof (cases rule: guard_acceptE)
    case skip
    then show ?thesis using acc.IH by simp
  next
    case (fresh k' q)
    then show ?thesis using acc.IH last sorted_live_Cons [OF acc.IH, of q] by (auto simp del: sorted_wrt.simps)
  next
    case (succ k' q p)
    then show ?thesis using acc.IH last sorted_live_Cons [OF acc.IH, of q] by (auto simp del: sorted_wrt.simps)
  qed
qed simp_all

lemma guard_replay:
  assumes acc: "guard_accept g f = Inr g'" and f: "guarded_frame f" and f': "guarded_frame f'"
    and u: "asU64 (getf f' ''streamId'') = Inr (bigf f ''streamId'')" "asU64 (getf f' ''sequence'') = Inr q"
      "q \<le> bigf f ''sequence''"
  shows "guard_accept g' f' = Inl BAD_ENCODING"
  using acc by (cases rule: guard_acceptE) (use f u(3) in \<open>auto simp: guard_accept_frame [OF f' u(1,2)] update_conv'\<close>)

end
