(* ===== verification/Outer_Envelope.thy ===== *)
theory Outer_Envelope
  imports Dispatch_Laws
begin

text \<open>
  The padded envelope of \<^verbatim>\<open>packages/blind-protocol/outer-envelope.js\<close>: a dispatch frame inside a
  buffer of one of six sizes, the rest filled by a random source.  The source is the parameter
  \<open>randomFill\<close>, a function on the padding bytes (\<open>None\<close> stands for an \<^verbatim>\<open>options.randomFill\<close>
  that is not callable); that it fills in place, so that the length stays, is the hypothesis
  \<open>keeps_length\<close>.  A class given as a string or bigint indexes the class table as in JavaScript;
  a bigint then fails to be stored in the byte array.
\<close>

definition OUTER_ENVELOPE_HEADER_BYTES :: nat where "OUTER_ENVELOPE_HEADER_BYTES = 6"

fun first_fit :: "nat \<Rightarrow> (int \<times> nat) list \<Rightarrow> int res" where
  "first_fit required [] = Inl TOO_LARGE"
| "first_fit required ((i, n) # rest) = (if required \<le> n then Inr i else first_fit required rest)"

definition smallestOuterClass :: "jsval \<Rightarrow> int res" where
  "smallestOuterClass innerLength =
     (if \<not> isSafeInteger innerLength \<or> as_num innerLength < 0 then Inl BAD_ENCODING
      else first_fit (OUTER_ENVELOPE_HEADER_BYTES + nat (as_num innerLength)) OUTER_CLASS_ENTRIES)"

text \<open>The table index and the byte that an \<^verbatim>\<open>outerClass\<close> value stands for.\<close>

fun class_index :: "jsval \<Rightarrow> int option" where
  "class_index (JNum i) = Some i"
| "class_index (JBig i) = Some i"
| "class_index (JStr [c]) = (if is_digit c then Some (of_char c - 48) else None)"
| "class_index _ = None"

definition class_byte :: "jsval \<Rightarrow> int res" where
  "class_byte v = (case v of JBig _ \<Rightarrow> Inl TYPE_ERROR
     | _ \<Rightarrow> (case class_index v of Some i \<Rightarrow> Inr i | None \<Rightarrow> Inl TYPE_ERROR))"

definition write_envelope :: "nat \<Rightarrow> int \<Rightarrow> bytes \<Rightarrow> (bytes \<Rightarrow> bytes) \<Rightarrow> bytes" where
  "write_envelope classBytes cls innerDispatch fill = (
     let output = replicate classBytes 0;
         output = output[0 := 1];
         output = output[1 := word_of_int cls];
         output = write_be 4 (int (length innerDispatch)) 2 output;
         output = put_bytes output OUTER_ENVELOPE_HEADER_BYTES innerDispatch;
         off = OUTER_ENVELOPE_HEADER_BYTES + length innerDispatch in
     put_bytes output off (fill (drop off output)))"

definition encodeOuterEnvelope :: "(bytes \<Rightarrow> bytes) option \<Rightarrow> jsval \<Rightarrow> bytes res" where
  "encodeOuterEnvelope randomFill v =
     rbind (raise_if (\<not> is_object v) BAD_ENCODING) (\<lambda>_.
     rbind (asBuffer (getf v ''innerDispatch'')) (\<lambda>innerDispatch.
     rbind (raise_if (int (length innerDispatch) < DISPATCH_LIMITS_PREFIX_BYTES + DISPATCH_LIMITS_HEADER_BYTES)
       BAD_ENCODING) (\<lambda>_.
     rbind (decodeDispatchFrame (JBytes innerDispatch) False) (\<lambda>_.
     rbind (if absent v ''outerClass'' then map_sum id JNum (smallestOuterClass (JNum (int (length innerDispatch))))
       else Inr (getf v ''outerClass'')) (\<lambda>outerClass.
     case Option.bind (class_index outerClass) OUTER_CLASS of None \<Rightarrow> Inl BAD_ENCODING | Some classBytes \<Rightarrow>
     rbind (raise_if (OUTER_ENVELOPE_HEADER_BYTES + length innerDispatch > classBytes) TOO_LARGE) (\<lambda>_.
     rbind (class_byte outerClass) (\<lambda>cls.
     case randomFill of None \<Rightarrow> Inl BAD_ENCODING
     | Some fill \<Rightarrow> Inr (write_envelope classBytes cls innerDispatch fill))))))))"

definition decodeOuterEnvelope :: "jsval \<Rightarrow> bool \<Rightarrow> bool \<Rightarrow> jsval res" where
  "decodeOuterEnvelope v copyInner copyBody =
     rbind (asBuffer v) (\<lambda>bs.
     rbind (raise_if (length bs < OUTER_ENVELOPE_HEADER_BYTES) BAD_ENCODING) (\<lambda>_.
     rbind (raise_if (bs ! 0 \<noteq> 1) BAD_VERSION) (\<lambda>_.
     let outerClass = uint (bs ! 1) in
     case OUTER_CLASS outerClass of None \<Rightarrow> Inl BAD_ENCODING | Some classBytes \<Rightarrow>
     rbind (raise_if (length bs \<noteq> classBytes) BAD_ENCODING) (\<lambda>_.
     let innerLength = read_be 4 2 bs 0 in
     rbind (checks [
       raise_if (innerLength < DISPATCH_LIMITS_PREFIX_BYTES + DISPATCH_LIMITS_HEADER_BYTES) BAD_ENCODING,
       raise_if (int OUTER_ENVELOPE_HEADER_BYTES + innerLength > int classBytes) BAD_ENCODING]) (\<lambda>_.
     let innerDispatch = take (nat innerLength) (drop OUTER_ENVELOPE_HEADER_BYTES bs) in
     rbind (decodeDispatchFrame (JBytes innerDispatch) copyBody) (\<lambda>frame.
     Inr (JObj [(''version'', JNum 1), (''outerClass'', JNum outerClass),
       (''innerDispatch'', JBytes innerDispatch), (''frame'', frame)])))))))"

subsection \<open>Classes\<close>

lemma OUTER_CLASS_Some:
  "OUTER_CLASS c = Some n \<longleftrightarrow> (c, n) \<in> set OUTER_CLASS_ENTRIES"
  unfolding OUTER_CLASS_def by (rule map_of_eq_Some_iff) (simp add: OUTER_CLASS_ENTRIES_def)

lemma first_fit_Inr:
  assumes "sorted (map snd xs)" "first_fit r xs = Inr c"
  shows "\<exists>n. (c, n) \<in> set xs \<and> r \<le> n \<and> (\<forall>c' n'. (c', n') \<in> set xs \<longrightarrow> r \<le> n' \<longrightarrow> n \<le> n')"
  using assms
proof (induction xs)
  case (Cons x xs)
  obtain i n where x: "x = (i, n)" by force
  show ?case
  proof (cases "r \<le> n")
    case True
    then show ?thesis using Cons.prems by (intro exI [of _ n]) (force simp: x)
  next
    case False
    with Cons obtain m where "(c, m) \<in> set xs" "r \<le> m" "\<forall>c' n'. (c', n') \<in> set xs \<longrightarrow> r \<le> n' \<longrightarrow> m \<le> n'"
      by (auto simp: x)
    with False show ?thesis by (intro exI [of _ m]) (auto simp: x)
  qed
qed simp

lemma first_fit_Inl: "first_fit r xs = Inl e \<longleftrightarrow> e = TOO_LARGE \<and> (\<forall>(c, n)\<in>set xs. n < r)"
  by (induction r xs rule: first_fit.induct) auto

lemma outer_entries_sorted: "sorted (map snd OUTER_CLASS_ENTRIES)"
  by (simp add: OUTER_CLASS_ENTRIES_def)

lemma smallestOuterClass_minimal:
  assumes "smallestOuterClass (JNum (int n)) = Inr c"
  shows "\<exists>size. OUTER_CLASS c = Some size \<and> 6 + n \<le> size \<and>
    (\<forall>c' size'. OUTER_CLASS c' = Some size' \<longrightarrow> 6 + n \<le> size' \<longrightarrow> size \<le> size')"
proof -
  from assms have "first_fit (6 + n) OUTER_CLASS_ENTRIES = Inr c"
    by (simp add: smallestOuterClass_def OUTER_ENVELOPE_HEADER_BYTES_def split: if_splits)
  from first_fit_Inr [OF outer_entries_sorted this] show ?thesis
    unfolding OUTER_CLASS_Some by blast
qed

lemma smallestOuterClass_total:
  assumes "n + 6 \<le> 8388608"
  shows "\<exists>c. smallestOuterClass (JNum (int n)) = Inr c"
  using assms by (simp add: smallestOuterClass_def OUTER_ENVELOPE_HEADER_BYTES_def OUTER_CLASS_ENTRIES_def
      MAX_SAFE_INTEGER_def)

lemma outer_class_byte: "OUTER_CLASS c = Some n \<Longrightarrow> 1 \<le> c \<and> c \<le> 6 \<and> 4096 \<le> n \<and> n \<le> 8388608"
  unfolding OUTER_CLASS_Some by (auto simp: OUTER_CLASS_ENTRIES_def)

subsection \<open>The layout of an envelope\<close>

definition envelope_layout :: "int \<Rightarrow> bytes \<Rightarrow> bytes \<Rightarrow> bytes" where
  "envelope_layout cls innerDispatch padding =
     [1, word_of_int cls] @ be_bytes 4 (int (length innerDispatch)) @ innerDispatch @ padding"

definition keeps_length :: "(bytes \<Rightarrow> bytes) \<Rightarrow> bool" where
  "keeps_length fill \<longleftrightarrow> (\<forall>bs. length (fill bs) = length bs)"

lemma drop_put_prefix: "length xs = n \<Longrightarrow> drop n (put_bytes buf 0 xs) = drop n buf"
  by (simp add: put_bytes_def)

lemma write_envelope_layout:
  assumes n: "6 + length inner \<le> classBytes" and fill: "keeps_length fill"
  shows "write_envelope classBytes cls inner fill =
    envelope_layout cls inner (fill (replicate (classBytes - (6 + length inner)) 0))"
proof -
  let ?buf = "replicate classBytes 0 :: bytes"
  let ?h = "[1, word_of_int cls] @ be_bytes 4 (int (length inner)) @ inner"
  let ?p = "fill (replicate (classBytes - (6 + length inner)) 0)"
  have "?buf[0 := 1, 1 := word_of_int cls] = put_bytes ?buf 0 [1, word_of_int cls]"
    using n update_at_end [of "[]" 0 ?buf 1] update_at_end [of "[1]" 1 ?buf "word_of_int cls"] by simp
  then have "put_bytes (write_be 4 (int (length inner)) 2 (?buf[0 := 1, 1 := word_of_int cls])) 6 inner
      = put_bytes ?buf 0 ?h"
    using n by (simp add: write_be_at_end put_at_end)
  moreover have "drop (6 + length inner) (put_bytes ?buf 0 ?h) = replicate (classBytes - (6 + length inner)) 0"
    by (subst drop_put_prefix) simp_all
  moreover have "put_bytes (put_bytes ?buf 0 ?h) (6 + length inner) ?p = put_bytes ?buf 0 (?h @ ?p)"
    using n fill by (intro put_at_end) (simp_all add: keeps_length_def)
  moreover have "put_bytes ?buf 0 (?h @ ?p) = ?h @ ?p"
    using n fill by (intro put_bytes_all) (simp add: keeps_length_def)
  ultimately show ?thesis
    by (simp add: write_envelope_def envelope_layout_def OUTER_ENVELOPE_HEADER_BYTES_def Let_def)
qed

lemma envelope_reads:
  fixes padding :: bytes
  assumes "length inner \<le> 4194349" "1 \<le> cls" "cls \<le> 6"
  defines "bs \<equiv> envelope_layout cls inner padding"
  shows "length bs = 6 + length inner + length padding" "bs ! 0 = 1" "uint (bs ! 1) = cls"
    "read_be 4 2 bs 0 = int (length inner)" "take (length inner) (drop 6 bs) = inner"
proof -
  show len: "length bs = 6 + length inner + length padding" "bs ! 0 = 1" "uint (bs ! 1) = cls"
    using assms by (simp_all add: bs_def envelope_layout_def uint_word_of_int_byte)
  show "read_be 4 2 bs 0 = int (length inner)"
    using assms(1) len(1) by (intro read_be_bytes) (simp_all add: bs_def envelope_layout_def)
  show "take (length inner) (drop 6 bs) = inner" by (simp add: bs_def envelope_layout_def)
qed

lemma encodeOuterEnvelope_Inr:
  assumes "encodeOuterEnvelope fill v = Inr out"
  obtains inner frame cls size f where "getf v ''innerDispatch'' = JBytes inner"
    "decodeDispatchFrame (JBytes inner) False = Inr frame" "OUTER_CLASS cls = Some size"
    "6 + length inner \<le> size" "fill = Some f" "out = write_envelope size cls inner f"
    "absent v ''outerClass'' \<Longrightarrow> smallestOuterClass (JNum (int (length inner))) = Inr cls"
    "\<not> absent v ''outerClass'' \<Longrightarrow> class_index (getf v ''outerClass'') = Some cls"
proof -
  from assms obtain inner frame oc size cls f where
      a: "getf v ''innerDispatch'' = JBytes inner" "decodeDispatchFrame (JBytes inner) False = Inr frame"
      and oc: "(if absent v ''outerClass''
        then map_sum id JNum (smallestOuterClass (JNum (int (length inner)))) else Inr (getf v ''outerClass'')) = Inr oc"
      and b: "Option.bind (class_index oc) OUTER_CLASS = Some size" "6 + length inner \<le> size"
        "class_byte oc = Inr cls" "fill = Some f" "out = write_envelope size cls inner f"
    unfolding encodeOuterEnvelope_def
    by (auto simp: rbind_Inr_iff OUTER_ENVELOPE_HEADER_BYTES_def not_less simp del: if_split split: option.splits)
  have idx: "class_index oc = Some cls"
    using b(3) by (auto simp: class_byte_def split: jsval.splits option.splits)
  have "smallestOuterClass (JNum (int (length inner))) = Inr cls" if "absent v ''outerClass''"
    using oc that idx by (cases "smallestOuterClass (JNum (int (length inner)))") auto
  moreover have "class_index (getf v ''outerClass'') = Some cls" if "\<not> absent v ''outerClass''"
    using oc that idx by auto
  ultimately show thesis using a b idx by (intro that) auto
qed

lemma dispatch_wire_length: "decodeDispatchFrame (JBytes bs) cp = Inr v \<Longrightarrow> 45 \<le> length bs \<and> length bs \<le> 4194349"
  by (rule dispatch_length_bounds) (rule dispatch_reencode)

lemma envelope_length:
  assumes "encodeOuterEnvelope (Some fill) v = Inr out" "keeps_length fill"
  shows "\<exists>cls. OUTER_CLASS cls = Some (length out)"
  using assms(1)
proof (rule encodeOuterEnvelope_Inr)
  fix inner frame cls size f
  assume "OUTER_CLASS cls = Some size" "6 + length inner \<le> size" "Some fill = Some f"
    "out = write_envelope size cls inner f"
  moreover from this have "length out = size"
    using assms(2) by (simp add: write_envelope_layout envelope_layout_def keeps_length_def)
  ultimately show ?thesis by (intro exI [of _ cls]) simp
qed

lemma envelope_redecode:
  assumes "encodeOuterEnvelope (Some fill) v = Inr out" "keeps_length fill"
  shows "\<exists>cls inner frame. getf v ''innerDispatch'' = JBytes inner \<and>
    decodeDispatchFrame (JBytes inner) cb = Inr frame \<and>
    decodeOuterEnvelope (JBytes out) ci cb = Inr (JObj [(''version'', JNum 1), (''outerClass'', JNum cls),
      (''innerDispatch'', JBytes inner), (''frame'', frame)])"
  using assms(1)
proof (rule encodeOuterEnvelope_Inr)
  fix inner frame cls size f
  assume i: "getf v ''innerDispatch'' = JBytes inner" and d: "decodeDispatchFrame (JBytes inner) False = Inr frame"
    and c: "OUTER_CLASS cls = Some size" "6 + length inner \<le> size" and f: "Some fill = Some f"
    and out: "out = write_envelope size cls inner f"
  note len = dispatch_wire_length [OF d]
  note b = outer_class_byte [OF c(1)]
  have lay: "out = envelope_layout cls inner (fill (replicate (size - (6 + length inner)) 0))"
    using out f c assms(2) by (simp add: write_envelope_layout)
  note rd = envelope_reads [of inner cls "fill (replicate (size - (6 + length inner)) 0)", folded lay]
  have d': "decodeDispatchFrame (JBytes inner) cb = Inr frame" using d by (simp add: decodeDispatchFrame_Inr)
  have "length out = size" using rd(1) len b c assms(2) by (simp add: keeps_length_def)
  then have "decodeOuterEnvelope (JBytes out) ci cb = Inr (JObj [(''version'', JNum 1), (''outerClass'', JNum cls),
      (''innerDispatch'', JBytes inner), (''frame'', frame)])"
    using rd len b c d'
    by (simp add: decodeOuterEnvelope_def asBuffer_def raise_if_def OUTER_ENVELOPE_HEADER_BYTES_def wire_limits
        Let_def del: read_be.simps)
  with i d' show ?thesis by blast
qed

lemma envelope_total:
  assumes inner: "encodeDispatchFrame w = Inr inner"
  shows "\<exists>out. encodeOuterEnvelope (Some fill) (JObj [(''innerDispatch'', JBytes inner)]) = Inr out"
proof -
  note len = dispatch_length_bounds [OF inner]
  obtain c where c: "smallestOuterClass (JNum (int (length inner))) = Inr c"
    using smallestOuterClass_total [of "length inner"] len by auto
  from smallestOuterClass_minimal [OF this] obtain size where
    "OUTER_CLASS c = Some size" "6 + length inner \<le> size" by blast
  then show ?thesis
    using c len dispatch_redecode [OF inner, of False]
    by (simp add: encodeOuterEnvelope_def asBuffer_def raise_if_def wire_limits OUTER_ENVELOPE_HEADER_BYTES_def
        class_byte_def)
qed

lemma decodeOuterEnvelope_Inr:
  assumes "decodeOuterEnvelope (JBytes out) ci cb = Inr v"
  obtains inner frame where "out ! 0 = 1" "OUTER_CLASS (uint (out ! 1)) = Some (length out)"
    "read_be 4 2 out 0 = int (length inner)" "6 + length inner \<le> length out" "take (length inner) (drop 6 out) = inner"
    "decodeDispatchFrame (JBytes inner) cb = Inr frame"
    "v = JObj [(''version'', JNum 1), (''outerClass'', JNum (uint (out ! 1))),
      (''innerDispatch'', JBytes inner), (''frame'', frame)]"
proof -
  let ?m = "read_be 4 2 out 0"
  from assms obtain size frame where o: "out ! 0 = 1" "OUTER_CLASS (uint (out ! 1)) = Some size" "length out = size"
      and m: "45 \<le> ?m" "6 + ?m \<le> int size"
      and f: "decodeDispatchFrame (JBytes (take (nat ?m) (drop 6 out))) cb = Inr frame"
        "v = JObj [(''version'', JNum 1), (''outerClass'', JNum (uint (out ! 1))),
          (''innerDispatch'', JBytes (take (nat ?m) (drop 6 out))), (''frame'', frame)]"
    unfolding decodeOuterEnvelope_def
    by (auto simp: rbind_Inr_iff asBuffer_def OUTER_ENVELOPE_HEADER_BYTES_def wire_limits Let_def
        split: option.splits simp del: read_be.simps)
  have "length (take (nat ?m) (drop 6 out)) = nat ?m" "6 + nat ?m \<le> length out" using m o(3) by simp_all
  with o m f show thesis by (intro that [of "take (nat ?m) (drop 6 out)"]) simp_all
qed

lemma envelope_reencode:
  assumes "decodeOuterEnvelope (JBytes out) ci cb = Inr v"
  shows "\<exists>fill. keeps_length fill \<and> encodeOuterEnvelope (Some fill) v = Inr out"
  using assms
proof (rule decodeOuterEnvelope_Inr)
  fix inner :: bytes and frame
  let ?c = "uint (out ! 1)"
  let ?pad = "drop (6 + length inner) out"
  let ?fill = "\<lambda>bs. if length bs = length ?pad then ?pad else bs"
  assume o: "out ! 0 = 1" "OUTER_CLASS ?c = Some (length out)"
    and n: "read_be 4 2 out 0 = int (length inner)" "6 + length inner \<le> length out"
      "take (length inner) (drop 6 out) = inner"
    and d: "decodeDispatchFrame (JBytes inner) cb = Inr frame"
    and v: "v = JObj [(''version'', JNum 1), (''outerClass'', JNum ?c), (''innerDispatch'', JBytes inner), (''frame'', frame)]"
  have "be_bytes 4 (int (length inner)) = take 4 (drop 2 out)"
    using n by (simp flip: n(1) add: read_be_val be_bytes_be_val_eq)
  moreover have "out = [out ! 0, out ! 1] @ take 4 (drop 2 out) @ take (length inner) (drop 6 out) @ ?pad"
    using n(2) append_take_drop_id [of 4 "drop 2 out"] append_take_drop_id [of "length inner" "drop 6 out"]
      Cons_nth_drop_Suc [of 0 out] Cons_nth_drop_Suc [of 1 out]
    by (cases "out = []") (simp_all add: numeral_2_eq_2 add.commute)
  ultimately have "envelope_layout ?c inner ?pad = out"
    using o n(3) by (simp add: envelope_layout_def)
  moreover have k: "keeps_length ?fill" by (simp add: keeps_length_def)
  ultimately have w: "write_envelope (length out) ?c inner ?fill = out"
    using n(2) by (simp add: write_envelope_layout)
  have "decodeDispatchFrame (JBytes inner) False = Inr frame" using d by (simp add: decodeDispatchFrame_Inr)
  with o n(2) w dispatch_wire_length [OF d] have "encodeOuterEnvelope (Some ?fill) v = Inr out"
    by (simp add: v encodeOuterEnvelope_def asBuffer_def raise_if_def wire_limits OUTER_ENVELOPE_HEADER_BYTES_def
        class_byte_def)
  with k show ?thesis by blast
qed

end
