(* ===== verification/Dispatch_Properties.thy ===== *)
theory Dispatch_Properties
  imports Outer_Envelope
begin

text \<open>
  The properties of dispatch frames, of the sequence guard and of the padded envelope, with
  instances at a small request, a short stream and its envelope.
\<close>

subsection \<open>Samples\<close>

definition get_frame :: jsval where
  "get_frame = JObj [(''frameKind'', JNum FRAME_KIND_REQUEST), (''familyId'', JNum FAMILY_CELL),
     (''operationId'', JNum OPERATION_CELL_GET), (''requestId'', JBytes (replicate 16 7)), (''body'', JBytes [1, 2, 3])]"

definition get_bytes :: bytes where
  "get_bytes = be_bytes 4 44 @ [1, 1, 2, 2, 0] @ replicate 16 7 @ be_bytes 8 0 @ be_bytes 8 0 @ be_bytes 4 3 @ [1, 2, 3]"

lemma get_encodes: "encodeDispatchFrame get_frame = Inr get_bytes"
  by code_simp

definition stream_frame :: "int \<Rightarrow> int \<Rightarrow> jsval" where
  "stream_frame s q = JObj [(''frameKind'', JNum FRAME_KIND_STREAM), (''streamId'', JBig s), (''sequence'', JBig q)]"

definition two_frames :: guard_state where
  "two_frames = \<lparr>maxStreams = 1024, lastByStream = [(7, 2)]\<rparr>"

lemma two_frames_trace:
  "guard_trace JUndef [Accepted (stream_frame 7 2), Accepted (stream_frame 7 1)] two_frames"
proof -
  have "guard_accept (DispatchSequenceGuard JUndef) (stream_frame 7 1) = Inr \<lparr>maxStreams = 1024, lastByStream = [(7, 1)]\<rparr>"
    "guard_accept \<lparr>maxStreams = 1024, lastByStream = [(7, 1)]\<rparr> (stream_frame 7 2) = Inr two_frames"
    by code_simp+
  then show ?thesis by (auto intro: guard_trace.intros)
qed

subsection \<open>Frames\<close>

text \<open>
  C13. Encoding then decoding: every frame that encodes has 45 to 4194349 bytes and decodes, to
  the input with version, flags, stream and sequence filled in and the body as bytes.
\<close>

theorem dispatch_encode_decode:
  assumes "encodeDispatchFrame v = Inr bs"
  shows "decodeDispatchFrame (JBytes bs) cp = Inr (JObj (canonical_frame v)) \<and> 45 \<le> length bs \<and> length bs \<le> 4194349"
  using dispatch_redecode [OF assms] dispatch_length_bounds [OF assms] by blast

theorem dispatch_encode_decode_witness:
  "decodeDispatchFrame (JBytes get_bytes) True = Inr (JObj (canonical_frame get_frame)) \<and> length get_bytes = 48"
  using dispatch_encode_decode [OF get_encodes, of True] by (simp add: get_bytes_def)

text \<open>
  C14. Decoding then encoding: whatever bytes decode as a frame are the encoding of the decoded
  frame, so a frame has one byte representation.
\<close>

theorem dispatch_decode_encode:
  assumes "decodeDispatchFrame (JBytes bs) cp = Inr v"
  shows "encodeDispatchFrame v = Inr bs"
  using assms by (rule dispatch.dec_enc)

theorem dispatch_decode_encode_witness:
  "encodeDispatchFrame (JObj (canonical_frame get_frame)) = Inr get_bytes"
  using dispatch_decode_encode [OF dispatch_redecode [OF get_encodes]] .


text \<open>
  Frames are self-delimiting: at the head of a longer byte stream, the length prefix of an
  encoded frame gives back exactly the bytes of that frame.
\<close>

theorem dispatch_stream_framing:
  assumes "encodeDispatchFrame v = Inr bs"
  shows "\<exists>n. readDispatchLengthPrefix (JBytes (bs @ rest)) = Inr n \<and> take (nat n + 4) (bs @ rest) = bs"
  using dispatch_self_delimiting [OF assms, of rest] dispatch_length_bounds [OF assms] by auto

theorem dispatch_stream_framing_witness:
  "\<exists>n. readDispatchLengthPrefix (JBytes (get_bytes @ [9, 9])) = Inr n \<and> take (nat n + 4) (get_bytes @ [9, 9]) = get_bytes"
  by (rule dispatch_stream_framing [OF get_encodes])

text \<open>
  C23. Every frame that decodes has version 1 and no flags, names a known operation and a frame kind
  that the profile of the operation allows, and its body stays within the cap of the
  operation.
\<close>

theorem dispatch_frame_checked:
  assumes "decodeDispatchFrame (JBytes bs) cp = Inr v"
  shows "\<exists>profile. operationProfile (numf v ''familyId'') (numf v ''operationId'') = Some profile \<and>
    numf v ''version'' = 1 \<and> numf v ''flags'' = 0 \<and> numf v ''frameKind'' \<in> set FRAME_KINDS \<and>
    js_and (allowed_bits profile (numf v ''frameKind'')) (js_shl 1 (numf v ''frameKind'' - 1)) \<noteq> 0 \<and>
    int (length (bytesf v ''body'')) \<le> operation_body_cap profile (numf v ''frameKind'')"
proof -
  let ?f = "JObj (frame_of_wire bs)"
  from assms obtain n rid s q where shape: "validateFrameShape ?f = Inr (rid, s, q)"
      and cap: "validateOperationBodyCap (uint (bs ! 5)) (uint (bs ! 6)) (uint (bs ! 7)) (int n) = Inr ()"
      and v: "v = JObj (frame_of_wire bs @ [(''body'', JBytes (drop 45 bs))])" and n: "length bs = 45 + n"
    by (auto simp: decodeDispatchFrame_Inr)
  from validateFrameShape_Inr(6) [OF shape] obtain profile where
    profile: "operationProfile (uint (bs ! 6)) (uint (bs ! 7)) = Some profile"
    by (auto simp: isKnownOperation_def frame_of_wire_def)
  have "js_and (allowed_bits profile (uint (bs ! 5))) (js_shl 1 (uint (bs ! 5) - 1)) \<noteq> 0"
    using shape profile by (auto simp: validateFrameShape_def Let_def rbind_Inr_iff raise_if_def frame_of_wire_def split: if_splits)
  moreover have "int n \<le> operation_body_cap profile (uint (bs ! 5))"
    using cap profile by (auto simp: validateOperationBodyCap_def raise_if_def split: if_splits)
  moreover have "uint (bs ! 5) \<in> set FRAME_KINDS" "uint (bs ! 4) = 1" "uint (bs ! 8) = 0"
    using validateFrameShape_Inr(1-3) [OF shape] by (auto simp: frame_of_wire_def)
  ultimately show ?thesis using profile n by (simp add: v frame_of_wire_def)
qed

theorem dispatch_frame_checked_witness:
  "\<exists>profile. operationProfile (numf (JObj (canonical_frame get_frame)) ''familyId'')
       (numf (JObj (canonical_frame get_frame)) ''operationId'') = Some profile \<and>
     int (length (bytesf (JObj (canonical_frame get_frame)) ''body''))
       \<le> operation_body_cap profile (numf (JObj (canonical_frame get_frame)) ''frameKind'')"
  using dispatch_frame_checked [OF dispatch_redecode [OF get_encodes]] by blast

subsection \<open>The sequence guard\<close>

text \<open>
  C24. The guard's state is bounded: after any sequence of operations it keeps one entry per stream,
  never more than \<^verbatim>\<open>maxStreams\<close>, and the bound is positive.
\<close>

theorem guard_bounded:
  assumes "guard_trace opts es g"
  shows "distinct (map fst (lastByStream g)) \<and> 0 < maxStreams g \<and> int (length (lastByStream g)) \<le> maxStreams g"
  using guard_trace_ok [OF assms] by (simp add: guard_ok_def)

theorem guard_bounded_witness:
  "distinct (map fst (lastByStream two_frames)) \<and> int (length (lastByStream two_frames)) \<le> maxStreams two_frames"
  using guard_bounded [OF two_frames_trace] by simp

text \<open>
  C4. The guard's table refines the history of accepted frames: what it stores for a stream is the
  latest sequence number accepted on that stream since it was opened, and the accepted numbers
  of a stream strictly increase.
\<close>

theorem guard_refines_history:
  assumes "guard_trace opts es g"
  shows "map_of (lastByStream g) k = last_of (live_sequences k es) \<and> sorted_wrt (>) (live_sequences k es)"
  using guard_trace_last [OF assms] guard_trace_sorted [OF assms] by blast

theorem guard_refines_history_witness:
  "map_of (lastByStream two_frames) 7 = last_of (live_sequences 7 [Accepted (stream_frame 7 2), Accepted (stream_frame 7 1)])
     \<and> sorted_wrt (>) (live_sequences 7 [Accepted (stream_frame 7 2), Accepted (stream_frame 7 1)])"
  by (rule guard_refines_history [OF two_frames_trace])

text \<open>
  C25. Replays are rejected: right after a stream frame was accepted, a frame of the same stream with
  the same or a lower sequence number fails with \<^verbatim>\<open>BAD_ENCODING\<close>.
\<close>

theorem guard_rejects_replay:
  assumes "guard_accept g f = Inr g'" "guarded_frame f" "guarded_frame f'"
    and "asU64 (getf f' ''streamId'') = Inr (bigf f ''streamId'')" "asU64 (getf f' ''sequence'') = Inr q"
    and "q \<le> bigf f ''sequence''"
  shows "guard_accept g' f' = Inl BAD_ENCODING"
  using assms by (rule guard_replay)

theorem guard_rejects_replay_witness: "guard_accept two_frames (stream_frame 7 2) = Inl BAD_ENCODING"
proof -
  have "guard_accept \<lparr>maxStreams = 1024, lastByStream = [(7, 1)]\<rparr> (stream_frame 7 2) = Inr two_frames"
    "guarded_frame (stream_frame 7 2)" by code_simp+
  then show ?thesis
    by (rule guard_rejects_replay [where q = 2]) (simp_all add: stream_frame_def guarded_frame_def asU64_def MAX_U64_def)
qed

subsection \<open>The padded envelope\<close>

text \<open>
  C26. An encoded envelope has exactly the size of one of the six classes, whatever the inner frame
  and the padding, and decoding it gives back the inner frame.
\<close>

theorem envelope_encode_decode:
  assumes "encodeOuterEnvelope (Some fill) v = Inr out" "keeps_length fill"
  shows "(\<exists>cls. OUTER_CLASS cls = Some (length out)) \<and>
    (\<exists>cls inner frame. getf v ''innerDispatch'' = JBytes inner \<and> decodeDispatchFrame (JBytes inner) cb = Inr frame \<and>
       decodeOuterEnvelope (JBytes out) ci cb = Inr (JObj [(''version'', JNum 1), (''outerClass'', JNum cls),
         (''innerDispatch'', JBytes inner), (''frame'', frame)]))"
  using envelope_length [OF assms] envelope_redecode [OF assms] by blast

lemma keeps_length_id: "keeps_length (\<lambda>bs. bs)"
  by (simp add: keeps_length_def)

theorem envelope_encode_decode_witness:
  "\<exists>out cls. encodeOuterEnvelope (Some (\<lambda>bs. bs)) (JObj [(''innerDispatch'', JBytes get_bytes)]) = Inr out \<and>
     OUTER_CLASS cls = Some (length out)"
  using envelope_total [OF get_encodes, of "\<lambda>bs. bs"]
    envelope_encode_decode [OF _ keeps_length_id, of "JObj [(''innerDispatch'', JBytes get_bytes)]"] by blast

text \<open>
  C39. Whatever bytes decode as an envelope are an encoding of the decoded value, for some padding.
\<close>

theorem envelope_decode_encode:
  assumes "decodeOuterEnvelope (JBytes out) ci cb = Inr v"
  shows "\<exists>fill. keeps_length fill \<and> encodeOuterEnvelope (Some fill) v = Inr out"
  using assms by (rule envelope_reencode)

theorem envelope_decode_encode_witness:
  "\<exists>out v fill. decodeOuterEnvelope (JBytes out) True True = Inr v \<and> encodeOuterEnvelope (Some fill) v = Inr out"
proof -
  from envelope_total [OF get_encodes, of "\<lambda>bs. bs"] obtain out where
    "encodeOuterEnvelope (Some (\<lambda>bs. bs)) (JObj [(''innerDispatch'', JBytes get_bytes)]) = Inr out" ..
  from envelope_redecode [OF this keeps_length_id, of True True] obtain v where
    "decodeOuterEnvelope (JBytes out) True True = Inr v" by blast
  with envelope_decode_encode [OF this] show ?thesis by blast
qed

text \<open>
  C40. The class chosen for an inner frame is the smallest one that holds the header and the frame.
\<close>

theorem smallest_class_minimal:
  assumes "smallestOuterClass (JNum (int n)) = Inr c"
  shows "\<exists>size. OUTER_CLASS c = Some size \<and> 6 + n \<le> size \<and>
    (\<forall>c' size'. OUTER_CLASS c' = Some size' \<longrightarrow> 6 + n \<le> size' \<longrightarrow> size \<le> size')"
  using assms by (rule smallestOuterClass_minimal)

theorem smallest_class_minimal_witness:
  "\<exists>size. OUTER_CLASS 2 = Some size \<and> 6 + 4091 \<le> size \<and>
     (\<forall>c' size'. OUTER_CLASS c' = Some size' \<longrightarrow> 6 + 4091 \<le> size' \<longrightarrow> size \<le> size')"
proof (rule smallest_class_minimal)
  show "smallestOuterClass (JNum (int 4091)) = Inr 2"
    by (simp add: smallestOuterClass_def OUTER_CLASS_ENTRIES_def OUTER_ENVELOPE_HEADER_BYTES_def MAX_SAFE_INTEGER_def)
qed

end
