(* ===== verification/Commitment_Properties.thy ===== *)
theory Commitment_Properties
  imports Binding
begin

text \<open>
  What the hashed and signed byte strings bind.  The properties compare hash inputs: two requests
  with the same input agree on every field, so a second request for a commitment is a collision of
  BLAKE2b.
\<close>

subsection \<open>Samples\<close>

text \<open>Requests that differ only in how a field is given, a number or a bigint, a string or bytes.\<close>

definition renew_request :: "jsval \<Rightarrow> jsval" where
  "renew_request revision = JObj [(''operation'', JStr ''cell-renew''), (''relayPublicKey'', JBytes (replicate 32 1)),
     (''storageSlot'', JBytes (replicate 32 2)), (''expectedRevision'', revision), (''expectedLeaseEpoch'', JNum 4),
     (''requestedLeaseClass'', JNum 1), (''clientNonce'', JBytes (replicate 32 5))]"

definition hop_value :: "jsval \<Rightarrow> jsval" where
  "hop_value sequence = JObj [(''previousScopeHash'', JBytes (replicate 32 0)), (''hopIndex'', JNum 0),
     (''relayPublicKey'', JBytes (replicate 32 1)), (''descriptorSequence'', sequence),
     (''descriptorHash'', JBytes (replicate 32 2))]"

definition slot_value :: "jsval \<Rightarrow> jsval" where
  "slot_value key = JObj [(''allocationEpoch'', JNum 9), (''createPublicKey'', key)]"

lemma same_result: "\<not> isl r \<Longrightarrow> r = s \<Longrightarrow> \<exists>x. r = Inr x \<and> s = Inr x"
  by (cases r) auto

lemma sample_preimages:
  "\<exists>x. cellManagePreimage (renew_request (JBig 3)) = Inr x \<and> cellManagePreimage (renew_request (JNum 3)) = Inr x"
  "\<exists>x. hopPreimage (hop_value (JBig 4)) = Inr x \<and> hopPreimage (hop_value (JNum 4)) = Inr x"
  "\<exists>x. cellSlotPreimage (slot_value (JStr (replicate 32 CHR ''a''))) = Inr x \<and>
     cellSlotPreimage (slot_value (JBytes (replicate 32 97))) = Inr x"
  "\<exists>x. signaturePayloadForPurpose 104 (JStr ''ab'') 2 = Inr x \<and> signaturePayloadForPurpose 104 (JBytes [97, 98]) 2 = Inr x"
  "\<exists>x. requestPreimage REQUEST_COMMITMENT_DOMAIN_ID_CELL_GET [encodeU64 (JNum 1)] = Inr x \<and>
     requestPreimage REQUEST_COMMITMENT_DOMAIN_ID_CELL_GET [encodeU64 (JBig 1)] = Inr x"
  by (rule same_result, code_simp, code_simp)+

subsection \<open>Request commitments\<close>



lemma bytes_field_inj:
  "fixedBytesInput v n = Inr a \<Longrightarrow> fixedBytesInput w n = Inr a \<Longrightarrow> hBuffer v = hBuffer w"
  "scope_bytes v n = Inr a \<Longrightarrow> scope_bytes w n = Inr a \<Longrightarrow> asBuffer v = asBuffer w"
  by (auto simp: fixedBytesInput_def scope_bytes_def rbind_Inr_iff split: if_splits)

lemma scope_number_inj:
  "scope_unsigned v n m = Inr a \<Longrightarrow> scope_unsigned w n m = Inr a \<Longrightarrow> m < 256 ^ n \<Longrightarrow> v = w"
  "scope_u64 v = Inr b \<Longrightarrow> scope_u64 w = Inr b \<Longrightarrow> asU64 v = asU64 w"
proof -
  assume u: "scope_unsigned v n m = Inr a" "scope_unsigned w n m = Inr a" "m < 256 ^ n"
  from u(1,2) obtain i j where "v = JNum i" "w = JNum j" "0 \<le> i" "i \<le> m" "0 \<le> j" "j \<le> m" "be_bytes n i = be_bytes n j"
    by (cases v; cases w) (auto simp: scope_unsigned_def write_be_buffer split: if_splits)
  with u(3) be_bytes_inj [of n i j] show "v = w" by simp
next
  assume "scope_u64 v = Inr b" "scope_u64 w = Inr b"
  then show "asU64 v = asU64 w" using encodeU64_inj [of v b w] by (simp add: encodeU64_def scope_u64_def)
qed

text \<open>
  C27. The commitment of a renew or drop request binds the operation, the relay, the slot, the expected
  revision and lease epoch, the requested lease class and the nonce: requests with the same hash
  input agree on all of them, so no signature of a renewal serves for a drop.
\<close>

theorem cell_manage_binds:
  assumes "cellManagePreimage v = Inr x" "cellManagePreimage w = Inr x"
  shows "getf v ''operation'' = getf w ''operation'' \<and>
    hBuffer (getf v ''relayPublicKey'') = hBuffer (getf w ''relayPublicKey'') \<and>
    hBuffer (getf v ''storageSlot'') = hBuffer (getf w ''storageSlot'') \<and>
    asU64 (getf v ''expectedRevision'') = asU64 (getf w ''expectedRevision'') \<and>
    getf v ''expectedLeaseEpoch'' = getf w ''expectedLeaseEpoch'' \<and>
    getf v ''requestedLeaseClass'' = getf w ''requestedLeaseClass'' \<and>
    hBuffer (getf v ''clientNonce'') = hBuffer (getf w ''clientNonce'')"
proof -
  let ?d = "\<lambda>v. if getf v ''operation'' = JStr ''cell-renew''
      then REQUEST_COMMITMENT_DOMAIN_ID_CELL_RENEW else REQUEST_COMMITMENT_DOMAIN_ID_CELL_DROP"
  let ?fs = "\<lambda>v. [fixedBytesInput (getf v ''relayPublicKey'') 32, fixedBytesInput (getf v ''storageSlot'') 32,
      encodeU64 (getf v ''expectedRevision''), encodeU32 (getf v ''expectedLeaseEpoch''),
      encodeU8 (getf v ''requestedLeaseClass''), fixedBytesInput (getf v ''clientNonce'') 32]"
  from assms have p: "requestPreimage (?d v) (?fs v) = Inr x" "requestPreimage (?d w) (?fs w) = Inr x"
      and op: "getf v ''operation'' = JStr ''cell-renew'' \<or> getf v ''operation'' = JStr ''cell-drop''"
        "getf w ''operation'' = JStr ''cell-renew'' \<or> getf w ''operation'' = JStr ''cell-drop''"
    by (auto simp: cellManagePreimage_def rbind_Inr_iff)
  from requestPreimage_binds [OF p] have d: "?d v = ?d w" and fs: "?fs v = ?fs w" by simp_all
  from p(1) obtain bs where c: "concat_fields (?fs v) = Inr bs" by (auto simp: requestPreimage_Inr)
  obtain a b r e l n where ok: "fixedBytesInput (getf v ''relayPublicKey'') 32 = Inr a"
      "fixedBytesInput (getf v ''storageSlot'') 32 = Inr b" "encodeU64 (getf v ''expectedRevision'') = Inr r"
      "encodeU32 (getf v ''expectedLeaseEpoch'') = Inr e" "encodeU8 (getf v ''requestedLeaseClass'') = Inr l"
      "fixedBytesInput (getf v ''clientNonce'') 32 = Inr n"
    using c by (auto simp: rbind_Inr_iff)
  have ok': "fixedBytesInput (getf w ''relayPublicKey'') 32 = Inr a"
      "fixedBytesInput (getf w ''storageSlot'') 32 = Inr b" "encodeU64 (getf w ''expectedRevision'') = Inr r"
      "encodeU32 (getf w ''expectedLeaseEpoch'') = Inr e" "encodeU8 (getf w ''requestedLeaseClass'') = Inr l"
      "fixedBytesInput (getf w ''clientNonce'') 32 = Inr n"
    using fs ok by simp_all
  have "getf v ''operation'' = getf w ''operation''"
    using d op by (auto simp: REQUEST_COMMITMENT_DOMAIN_ID_CELL_RENEW_def REQUEST_COMMITMENT_DOMAIN_ID_CELL_DROP_def)
  then show ?thesis
    using bytes_field_inj(1) [OF ok(1) ok'(1)] bytes_field_inj(1) [OF ok(2) ok'(2)] encodeU64_inj [OF ok(3) ok'(3)]
      encode_small_inj(3) [OF ok(4) ok'(4)] encode_small_inj(1) [OF ok(5) ok'(5)] bytes_field_inj(1) [OF ok(6) ok'(6)]
    by simp
qed

theorem cell_manage_binds_witness:
  "\<exists>x. cellManagePreimage (renew_request (JBig 3)) = Inr x \<and>
     asU64 (getf (renew_request (JBig 3)) ''expectedRevision'') = asU64 (getf (renew_request (JNum 3)) ''expectedRevision'')"
  using sample_preimages(1) cell_manage_binds [of "renew_request (JBig 3)" _ "renew_request (JNum 3)"] by blast

text \<open>
  C38. A storage slot names one allocation: slot inputs agree only for the same epoch and creation key.
\<close>

theorem cell_slot_binds:
  assumes "cellSlotPreimage v = Inr x" "cellSlotPreimage w = Inr x"
  shows "getf v ''allocationEpoch'' = getf w ''allocationEpoch'' \<and>
    hBuffer (getf v ''createPublicKey'') = hBuffer (getf w ''createPublicKey'')"
proof -
  have fs: "encodeU32 (getf v ''allocationEpoch'') = encodeU32 (getf w ''allocationEpoch'')"
    "fixedBytesInput (getf v ''createPublicKey'') 32 = fixedBytesInput (getf w ''createPublicKey'') 32"
    using concat_fields_inj [OF assms [unfolded cellSlotPreimage_def]] by simp_all
  obtain e k where ok: "encodeU32 (getf v ''allocationEpoch'') = Inr e" "fixedBytesInput (getf v ''createPublicKey'') 32 = Inr k"
    using assms(1) by (auto simp: cellSlotPreimage_def rbind_Inr_iff)
  have ok': "encodeU32 (getf w ''allocationEpoch'') = Inr e" "fixedBytesInput (getf w ''createPublicKey'') 32 = Inr k"
    using fs ok by simp_all
  show ?thesis using encode_small_inj(3) [OF ok(1) ok'(1)] bytes_field_inj(1) [OF ok(2) ok'(2)] by simp
qed

theorem cell_slot_binds_witness:
  "\<exists>x. cellSlotPreimage (slot_value (JStr (replicate 32 CHR ''a''))) = Inr x \<and>
     hBuffer (getf (slot_value (JStr (replicate 32 CHR ''a''))) ''createPublicKey'')
       = hBuffer (getf (slot_value (JBytes (replicate 32 97))) ''createPublicKey'')"
  using sample_preimages(3)
    cell_slot_binds [of "slot_value (JStr (replicate 32 CHR ''a''))" _ "slot_value (JBytes (replicate 32 97))"] by blast

subsection \<open>Route scopes and signatures\<close>

text \<open>
  C36. The hash of a hop binds the scope before it, the position, the relay and its descriptor, so a chain
  of hop hashes cannot be reordered or spliced.
\<close>

theorem hop_hash_binds:
  assumes "hopPreimage v = Inr x" "hopPreimage w = Inr x"
  shows "asBuffer (getf v ''previousScopeHash'') = asBuffer (getf w ''previousScopeHash'') \<and>
    getf v ''hopIndex'' = getf w ''hopIndex'' \<and>
    asBuffer (getf v ''relayPublicKey'') = asBuffer (getf w ''relayPublicKey'') \<and>
    asU64 (getf v ''descriptorSequence'') = asU64 (getf w ''descriptorSequence'') \<and>
    asBuffer (getf v ''descriptorHash'') = asBuffer (getf w ''descriptorHash'')"
proof -
  let ?fs = "\<lambda>v. [Inr (ascii FORWARD_ROUTE_SCOPE_HOP_DOMAIN), scope_bytes (getf v ''previousScopeHash'') 32,
      scope_unsigned (getf v ''hopIndex'') 1 3, scope_bytes (getf v ''relayPublicKey'') 32,
      scope_u64 (getf v ''descriptorSequence''), scope_bytes (getf v ''descriptorHash'') 32]"
  from assms have c: "concat_fields (?fs v) = Inr x" "concat_fields (?fs w) = Inr x"
    by (auto simp: hopPreimage_def FORWARD_ROUTE_SCOPE_MAX_RELAY_COUNT_def split: if_splits)
  from concat_fields_inj [OF c] have fs: "?fs v = ?fs w" by simp
  obtain a i k q h where ok: "scope_bytes (getf v ''previousScopeHash'') 32 = Inr a"
      "scope_unsigned (getf v ''hopIndex'') 1 3 = Inr i" "scope_bytes (getf v ''relayPublicKey'') 32 = Inr k"
      "scope_u64 (getf v ''descriptorSequence'') = Inr q" "scope_bytes (getf v ''descriptorHash'') 32 = Inr h"
    using c(1) by (auto simp: rbind_Inr_iff)
  have ok': "scope_bytes (getf w ''previousScopeHash'') 32 = Inr a" "scope_unsigned (getf w ''hopIndex'') 1 3 = Inr i"
      "scope_bytes (getf w ''relayPublicKey'') 32 = Inr k" "scope_u64 (getf w ''descriptorSequence'') = Inr q"
      "scope_bytes (getf w ''descriptorHash'') 32 = Inr h"
    using fs ok by simp_all
  show ?thesis
    using bytes_field_inj(2) [OF ok(1) ok'(1)] scope_number_inj(1) [OF ok(2) ok'(2)] bytes_field_inj(2) [OF ok(3) ok'(3)]
      scope_number_inj(2) [OF ok(4) ok'(4)] bytes_field_inj(2) [OF ok(5) ok'(5)] by simp
qed

theorem hop_hash_binds_witness:
  "\<exists>x. hopPreimage (hop_value (JBig 4)) = Inr x \<and>
     asU64 (getf (hop_value (JBig 4)) ''descriptorSequence'') = asU64 (getf (hop_value (JNum 4)) ''descriptorSequence'')"
  using sample_preimages(2) hop_hash_binds [of "hop_value (JBig 4)" _ "hop_value (JNum 4)"] by blast

text \<open>
  C37. A signature payload binds its purpose, its domain and the signed bytes: payloads agree only
  if all three do.
\<close>

theorem signature_payload_binds:
  assumes "signaturePayloadForPurpose d v p = Inr x" "signaturePayloadForPurpose d' v' p' = Inr x"
  shows "d = d' \<and> p = p' \<and> hBuffer v = hBuffer v'"
proof -
  from signaturePayload_Inr [OF assms(1)] signaturePayload_Inr [OF assms(2)] obtain e m n e' m' n' where
      e: "domainRegistryEntry d = Some e" "domainRegistryEntry d' = Some e'" "purpose e = p" "purpose e' = p'"
      and m: "hBuffer v = Inr m" "hBuffer v' = Inr m'" "length n = 8" "length n' = 8"
      and x: "ascii (exactAsciiBytes e) @ n @ m = ascii (exactAsciiBytes e') @ n' @ m'" by auto
  have "e = e'" using registry_separated [OF _ _ x] e domainRegistryEntry_Some by blast
  with e m x domainRegistryEntry_Some show ?thesis by auto
qed

theorem signature_payload_binds_witness:
  "\<exists>x. signaturePayloadForPurpose 104 (JStr ''ab'') 2 = Inr x \<and> hBuffer (JStr ''ab'') = hBuffer (JBytes [97, 98])"
  using sample_preimages(4) signature_payload_binds [of 104 "JStr ''ab''" 2 _ 104 "JBytes [97, 98]" 2] by blast

end
