(* ===== verification/Stateful.thy ===== *)
theory Stateful
  imports Prelude
begin

text \<open>
  Code that changes an object and may throw: an action maps a state to a result and the
  state the object is left in, also when it throws, because the daemon changes objects
  before it throws.  \<open>keeps P m\<close> says that an action keeps \<open>P\<close> on both exits.

  The locales say once what an invariant and a functional refinement of one step give for
  every sequence of calls.
\<close>

type_synonym ('s, 'a) act = "'s \<Rightarrow> 'a res \<times> 's"

definition ret :: "'a \<Rightarrow> ('s, 'a) act" where
  "ret x s = (Inr x, s)"

definition throw :: "perr \<Rightarrow> ('s, 'a) act" where
  "throw e s = (Inl e, s)"

definition lift :: "'a res \<Rightarrow> ('s, 'a) act" where
  "lift r s = (r, s)"

definition abind :: "('s, 'a) act \<Rightarrow> ('a \<Rightarrow> ('s, 'b) act) \<Rightarrow> ('s, 'b) act" where
  "abind m f s = (case m s of (Inl e, t) \<Rightarrow> (Inl e, t) | (Inr x, t) \<Rightarrow> f x t)"

definition gets :: "('s \<Rightarrow> 'a) \<Rightarrow> ('s, 'a) act" where
  "gets g s = (Inr (g s), s)"

definition modify :: "('s \<Rightarrow> 's) \<Rightarrow> ('s, unit) act" where
  "modify g s = (Inr (), g s)"

text \<open>\<^verbatim>\<open>if (c) m\<close> as a statement.\<close>

definition do_if :: "bool \<Rightarrow> ('s, unit) act \<Rightarrow> ('s, unit) act" where
  "do_if c m = (if c then m else ret ())"

lemma act_simps [simp]:
  "ret x s = (Inr x, s)" "throw e s = (Inl e, s)" "lift r s = (r, s)"
  "gets g s = (Inr (g s), s)" "modify h s = (Inr (), h s)"
  by (simp_all add: ret_def throw_def lift_def gets_def modify_def)

lemma do_if_simps [simp]: "do_if True m = m" "do_if False m = ret ()"
  by (simp_all add: do_if_def)

lemma abind_basic [simp]:
  "abind (ret x) f s = f x s" "abind (throw e) f s = (Inl e, s)" "abind (gets g) f s = f (g s) s"
  "abind (lift (Inr x)) f s = f x s" "abind (lift (Inl e)) f s = (Inl e, s)"
  by (simp_all add: abind_def)

lemma abind_lift: "abind (lift r) f s = (case r of Inl e \<Rightarrow> (Inl e, s) | Inr x \<Rightarrow> f x s)"
  by (simp add: abind_def)

lemma abind_modify [simp]: "abind (modify h) f s = f () (h s)"
  by (simp add: abind_def)

lemma abind_simps:
  "m s = (Inr x, t) \<Longrightarrow> abind m f s = f x t"
  "m s = (Inl e, t) \<Longrightarrow> abind m f s = (Inl e, t)"
  by (simp_all add: abind_def)

lemma abind_Inr_iff:
  "abind m f s = (Inr y, u) \<longleftrightarrow> (\<exists>x t. m s = (Inr x, t) \<and> f x t = (Inr y, u))"
  by (auto simp: abind_def split: prod.splits sum.splits)

lemma abind_cong [fundef_cong]:
  "m s = m' s' \<Longrightarrow> (\<And>x t. m' s' = (Inr x, t) \<Longrightarrow> f x t = g x t) \<Longrightarrow> s = s' \<Longrightarrow> abind m f s = abind m' g s'"
  by (auto simp: abind_def split: prod.splits sum.splits)

text \<open>An action keeps a predicate, whether it returns or throws.\<close>

definition keeps :: "('s \<Rightarrow> bool) \<Rightarrow> ('s, 'a) act \<Rightarrow> bool" where
  "keeps P m = (\<forall>s. P s \<longrightarrow> P (snd (m s)))"

named_theorems keeps_rules \<open>actions that keep an invariant\<close>

lemma keeps_bind [keeps_rules]: "keeps P m \<Longrightarrow> (\<And>x. keeps P (f x)) \<Longrightarrow> keeps P (abind m f)"
  by (fastforce simp: keeps_def abind_def split: prod.splits sum.splits)

lemma keeps_pure [keeps_rules]:
  "keeps P (ret x)" "keeps P (throw e)" "keeps P (lift r)" "keeps P (gets g)"
  by (simp_all add: keeps_def)

lemma keeps_do_if [keeps_rules]: "keeps P m \<Longrightarrow> keeps P (do_if c m)"
  by (simp add: do_if_def keeps_def)

lemma keeps_if [keeps_rules]: "keeps P m \<Longrightarrow> keeps P n \<Longrightarrow> keeps P (if c then m else n)"
  by simp

lemma keeps_case_prod [keeps_rules]: "(\<And>a b. keeps P (f a b)) \<Longrightarrow> keeps P (case x of (a, b) \<Rightarrow> f a b)"
  by (cases x) simp

lemma keeps_lift_bind: "(\<And>x. r = Inr x \<Longrightarrow> keeps P (f x)) \<Longrightarrow> keeps P (abind (lift r) f)"
  by (cases r) (simp_all add: keeps_def)

lemma keeps_modify: "(\<And>s. P s \<Longrightarrow> P (h s)) \<Longrightarrow> keeps P (modify h)"
  by (simp add: keeps_def)

lemma keeps_gets_bind: "(\<And>s. P s \<Longrightarrow> P (snd (f (g s) s))) \<Longrightarrow> keeps P (abind (gets g) f)"
  by (simp add: keeps_def)

lemma keeps_bind_post:
  assumes "keeps P m" "\<And>s x t. P s \<Longrightarrow> m s = (Inr x, t) \<Longrightarrow> P t \<Longrightarrow> P (snd (f x t))"
  shows "keeps P (abind m f)"
proof -
  have "P (snd (abind m f s))" if "P s" for s
  proof (cases "m s")
    case (Pair r t)
    then have "P t" using assms(1) that by (auto simp: keeps_def dest: spec [of _ s])
    with Pair assms(2) [OF that] show ?thesis by (cases r) (auto simp: abind_def)
  qed
  then show ?thesis by (simp add: keeps_def)
qed

lemma keepsD: "keeps P m \<Longrightarrow> P s \<Longrightarrow> P (snd (m s))"
  by (simp add: keeps_def)

subsection \<open>Sequences of calls\<close>

locale machine =
  fixes start :: "'s \<Rightarrow> bool"
    and step :: "'op \<Rightarrow> 's \<Rightarrow> 's"
    and inv :: "'s \<Rightarrow> bool"
  assumes start_inv: "start s \<Longrightarrow> inv s"
    and step_inv: "inv s \<Longrightarrow> inv (step oper s)"
begin

lemma fold_inv: "inv s \<Longrightarrow> inv (fold step opers s)"
  by (induction opers arbitrary: s) (simp_all add: step_inv)

lemma run_inv: "start s \<Longrightarrow> inv (fold step opers s)"
  by (simp add: fold_inv start_inv)

end

locale refined_machine = machine +
  fixes view :: "'s \<Rightarrow> 'v"
    and vstep :: "'op \<Rightarrow> 'v \<Rightarrow> 'v"
  assumes view_step: "inv s \<Longrightarrow> view (step oper s) = vstep oper (view s)"
begin

lemma view_fold: "inv s \<Longrightarrow> view (fold step opers s) = fold vstep opers (view s)"
  by (induction opers arbitrary: s) (simp_all add: step_inv view_step)

lemma view_run: "start s \<Longrightarrow> view (fold step opers s) = fold vstep opers (view s)"
  by (simp add: view_fold start_inv)

end

end
