(* ===== verification/Resource_Budget.thy ===== *)
theory Resource_Budget
  imports Wire_Authority Stateful "HOL-Library.AList"
begin

text \<open>
  The admission budget of the daemon, \<^verbatim>\<open>packages/blind-daemon/resource-budget.js\<close>.

  A budget counts the items and bytes of the operations in flight, in total and per
  operation.  The per-operation counters are objects shared by the closures that
  \<^verbatim>\<open>acquire\<close> returns, so the model has a store of counters: \<open>byOperation\<close> maps an operation to
  the address of its counter, and a reservation (the state captured by one \<^verbatim>\<open>release\<close>
  closure) keeps the address it was created with.  The map key
  \<^verbatim>\<open>familyId:operationId\<close> determines the two numbers and is modelled by them.

  Every quantity is at most \<open>2 ^ 30\<close>, so JavaScript's arithmetic on it is exact.  In
  \<^verbatim>\<open>Math.ceil(x * p / 100)\<close> the product is below \<open>2 ^ 36\<close> and a quotient that is not an
  integer is at least \<open>1 / 100\<close> away from one, so the rounded result is the ceiling of the
  exact quotient.  The same holds of the ratios in \<^verbatim>\<open>utilizationBand\<close>: a ratio that
  differs from a threshold differs from it by more than \<open>2 ^ - 34\<close>.
\<close>

type_synonym op_key = "int \<times> int"

definition boundedInteger :: "jsval \<Rightarrow> int \<Rightarrow> int res" where
  "boundedInteger v maximum =
     (if \<not> isSafeInteger v \<or> as_num v < 1 \<or> as_num v > maximum then Inl TYPE_ERROR
      else Inr (as_num v))"

definition nonnegativeInteger :: "jsval \<Rightarrow> int res" where
  "nonnegativeInteger v =
     (if \<not> isSafeInteger v \<or> as_num v < 0 then Inl TYPE_ERROR else Inr (as_num v))"

fun checked_sum :: "jsval list \<Rightarrow> int \<Rightarrow> int res" where
  "checked_sum [] acc = Inr acc"
| "checked_sum (v # vs) acc =
     rbind (nonnegativeInteger v) (\<lambda>checked.
       if acc > MAX_SAFE_INTEGER - checked then Inl TYPE_ERROR
       else checked_sum vs (acc + checked))"

definition checkedTotal :: "jsval list \<Rightarrow> int res" where
  "checkedTotal vs = rbind (checked_sum vs 0) (\<lambda>sum.
     if sum < 1 then Inl TYPE_ERROR else Inr sum)"

record quota =
  quota_maxItems :: int
  quota_maxBytes :: int

record counter =
  counter_items :: int
  counter_bytes :: int

record reservation =
  res_bytes :: int
  res_key :: op_key
  res_current :: nat
  res_released :: bool

record budget_config =
  maxItems :: int
  maxBytes :: int
  reservePercent :: int
  reservedItems :: int
  reservedBytes :: int
  generalItemLimit :: int
  generalByteLimit :: int
  quotas :: "(op_key \<times> quota) list"

record budget = budget_config +
  budget_items :: int
  budget_bytes :: int
  byOperation :: "(op_key \<times> nat) list"
  counters :: "counter list"
  reservations :: "reservation list"

subsection \<open>Construction\<close>

text \<open>The operation an object names, if it is an advertised one.\<close>

definition operation_of :: "jsval \<Rightarrow> op_key option" where
  "operation_of v = (case (getf v ''familyId'', getf v ''operationId'') of
     (JNum f, JNum i) \<Rightarrow> if isAdvertisedOperation f i then Some (f, i) else None
   | _ \<Rightarrow> None)"

definition ceil_percent :: "int \<Rightarrow> int \<Rightarrow> int" where
  "ceil_percent x p = (x * p + 99) div 100"

fun add_quotas :: "jsval list \<Rightarrow> int \<Rightarrow> int \<Rightarrow> (op_key \<times> quota) list \<Rightarrow> (op_key \<times> quota) list res" where
  "add_quotas [] mi mb qs = Inr qs"
| "add_quotas (v # vs) mi mb qs = (case operation_of v of
     None \<Rightarrow> Inl TYPE_ERROR
   | Some key \<Rightarrow>
       if map_of qs key \<noteq> None then Inl TYPE_ERROR else
       rbind (boundedInteger (getf v ''maxItems'') mi) (\<lambda>i.
       rbind (boundedInteger (getf v ''maxBytes'') mb) (\<lambda>b.
       add_quotas vs mi mb (qs @ [(key, \<lparr>quota_maxItems = i, quota_maxBytes = b\<rparr>)]))))"

text \<open>
  \<^verbatim>\<open>options.operationQuotas || []\<close> as the list that the loop visits; a value that cannot be
  iterated is a \<^verbatim>\<open>TypeError\<close>, and so is the first element of a non-empty string or byte
  array, which names no operation.
\<close>

fun quota_list :: "jsval \<Rightarrow> jsval list res" where
  "quota_list (JArr vs) = Inr vs"
| "quota_list JUndef = Inr []"
| "quota_list JNull = Inr []"
| "quota_list (JBool False) = Inr []"
| "quota_list (JNum i) = (if i = 0 then Inr [] else Inl TYPE_ERROR)"
| "quota_list (JBig i) = (if i = 0 then Inr [] else Inl TYPE_ERROR)"
| "quota_list (JStr cs) = (if cs = [] then Inr [] else Inl TYPE_ERROR)"
| "quota_list (JBytes bs) = (if bs = [] then Inr [] else Inl TYPE_ERROR)"
| "quota_list _ = Inl TYPE_ERROR"

definition option_or :: "jsval \<Rightarrow> int \<Rightarrow> jsval" where
  "option_or v d = (if is_nullish v then JNum d else v)"

definition percentInteger :: "jsval \<Rightarrow> int res" where
  "percentInteger v = (case v of JNum p \<Rightarrow> if p < 5 \<or> p > 50 then Inl TYPE_ERROR else Inr p
     | _ \<Rightarrow> Inl TYPE_ERROR)"

definition ResourceBudget :: "jsval \<Rightarrow> budget res" where
  "ResourceBudget options =
     rbind (boundedInteger (option_or (getf options ''maxItems'') 1024) 1000000) (\<lambda>mi.
     rbind (boundedInteger (option_or (getf options ''maxBytes'') (64 * 1024 * 1024)) (1024 * 1024 * 1024)) (\<lambda>mb.
     rbind (percentInteger (option_or (getf options ''reservePercent'') 5)) (\<lambda>p.
     let ri = max 1 (ceil_percent mi p); rb = max 1 (ceil_percent mb p) in
     rbind (quota_list (getf options ''operationQuotas'')) (\<lambda>vs.
     rbind (add_quotas vs mi mb []) (\<lambda>qs.
     Inr \<lparr>maxItems = mi, maxBytes = mb, reservePercent = p, reservedItems = ri, reservedBytes = rb,
          generalItemLimit = max 0 (mi - ri), generalByteLimit = max 0 (mb - rb), quotas = qs,
          budget_items = 0, budget_bytes = 0, byOperation = [], counters = [], reservations = []\<rparr>)))))"

subsection \<open>Acquire and release\<close>

definition requested_bytes :: "jsval \<Rightarrow> int res" where
  "requested_bytes v =
     (if absent v ''bytes''
      then checkedTotal [option_or (getf v ''requestBytes'') 0, option_or (getf v ''responseBytes'') 0,
        option_or (getf v ''stagingBytes'') 0]
      else boundedInteger (getf v ''bytes'') MAX_SAFE_INTEGER)"

text \<open>
  \<^verbatim>\<open>this.byOperation.get(key) || { items: 0, bytes: 0 }\<close>: the address of the counter object
  and the store that has it.
\<close>

definition current_counter :: "budget \<Rightarrow> op_key \<Rightarrow> nat \<times> counter list" where
  "current_counter b key = (case map_of (byOperation b) key of
     Some a \<Rightarrow> (a, counters b)
   | None \<Rightarrow> (length (counters b), counters b @ [\<lparr>counter_items = 0, counter_bytes = 0\<rparr>]))"

definition add_to :: "int \<Rightarrow> int \<Rightarrow> counter \<Rightarrow> counter" where
  "add_to i n c = \<lparr>counter_items = counter_items c + i, counter_bytes = counter_bytes c + n\<rparr>"

text \<open>The counting half of \<^verbatim>\<open>acquire\<close>; the index of the new reservation is its release closure.\<close>

definition grant :: "budget \<Rightarrow> op_key \<Rightarrow> int \<Rightarrow> nat \<times> budget" where
  "grant b key n = (let (a, store) = current_counter b key in
     (length (reservations b),
      b\<lparr>budget_items := budget_items b + 1, budget_bytes := budget_bytes b + n,
        counters := store[a := add_to 1 n (store ! a)],
        byOperation := AList.update key a (byOperation b),
        reservations := reservations b @
          [\<lparr>res_bytes = n, res_key = key, res_current = a, res_released = False\<rparr>]\<rparr>))"

definition over_quota :: "budget \<Rightarrow> op_key \<Rightarrow> int \<Rightarrow> bool" where
  "over_quota b key n = (let (a, store) = current_counter b key in
     case map_of (quotas b) key of None \<Rightarrow> False
     | Some q \<Rightarrow> counter_items (store ! a) + 1 > quota_maxItems q \<or>
                counter_bytes (store ! a) + n > quota_maxBytes q)"

definition acquire :: "budget \<Rightarrow> jsval \<Rightarrow> (nat \<times> budget) res" where
  "acquire b input = (case operation_of input of
     None \<Rightarrow> Inl TYPE_ERROR
   | Some key \<Rightarrow>
     rbind (requested_bytes input) (\<lambda>n.
     if n > maxBytes b then Inl BUSY else
     let critical = (getf input ''critical'' = JBool True);
         itemLimit = (if critical then maxItems b else generalItemLimit b);
         byteLimit = (if critical then maxBytes b else generalByteLimit b) in
     if budget_items b + 1 > itemLimit \<or> budget_bytes b + n > byteLimit then Inl BUSY else
     if over_quota b key n then Inl BUSY else
     Inr (grant b key n)))"

definition release :: "nat \<Rightarrow> budget \<Rightarrow> budget" where
  "release h b =
     (if h \<ge> length (reservations b) then b else
      let r = reservations b ! h; a = res_current r;
          current = add_to (- 1) (- res_bytes r) (counters b ! a) in
      if res_released r then b else
      b\<lparr>reservations := (reservations b)[h := r\<lparr>res_released := True\<rparr>],
        budget_items := budget_items b - 1, budget_bytes := budget_bytes b - res_bytes r,
        counters := (counters b)[a := current],
        byOperation := (if counter_items current = 0 then AList.delete (res_key r) (byOperation b)
          else byOperation b)\<rparr>)"

text \<open>\<open>ratio_le b n d\<close>: the larger of the two fill ratios is at most \<open>n / d\<close>.\<close>

definition ratio_le :: "budget \<Rightarrow> int \<Rightarrow> int \<Rightarrow> bool" where
  "ratio_le b n d = (budget_items b * d \<le> n * maxItems b \<and> budget_bytes b * d \<le> n * maxBytes b)"

definition utilizationBand :: "budget \<Rightarrow> int" where
  "utilizationBand b =
     (if ratio_le b 0 1 then 0
      else if ratio_le b 1 8 then 1
      else if ratio_le b 1 4 then 2
      else if ratio_le b 1 2 then 3
      else if ratio_le b 7 10 then 4
      else if ratio_le b 17 20 then 5
      else if budget_items b < maxItems b \<and> budget_bytes b < maxBytes b then 6 else 7)"

end
