(* ===== verification/Resource_Budget_Laws.thy ===== *)
theory Resource_Budget_Laws
  imports Resource_Budget
begin

text \<open>
  The budget against a ledger: a list with one entry per reservation ever made, \<open>Some\<close> the
  operation and the bytes it holds until it is released.  The ledger has no counters and no
  sharing; admission is decided by sums over its entries.
\<close>

subsection \<open>The ledger\<close>

type_synonym lease = "op_key \<times> int"
type_synonym ledger = "lease option list"

fun leases :: "ledger \<Rightarrow> lease list" where
  "leases [] = []"
| "leases (None # L) = leases L"
| "leases (Some l # L) = l # leases L"

definition held_items :: "(lease \<Rightarrow> bool) \<Rightarrow> ledger \<Rightarrow> int" where
  "held_items P L = int (length (filter P (leases L)))"

definition held_bytes :: "(lease \<Rightarrow> bool) \<Rightarrow> ledger \<Rightarrow> int" where
  "held_bytes P L = sum_list (map snd (filter P (leases L)))"

abbreviation any_lease :: "lease \<Rightarrow> bool" where
  "any_lease \<equiv> \<lambda>_. True"

definition for_key :: "op_key \<Rightarrow> lease \<Rightarrow> bool" where
  "for_key key l = (fst l = key)"

lemma leases_append [simp]: "leases (L @ M) = leases L @ leases M"
  by (induction L rule: leases.induct) simp_all

lemma set_leases: "l \<in> set (leases L) \<longleftrightarrow> Some l \<in> set L"
  by (induction L rule: leases.induct) auto

lemma held_new:
  "held_items P (L @ [Some l]) = held_items P L + (if P l then 1 else 0)"
  "held_bytes P (L @ [Some l]) = held_bytes P L + (if P l then snd l else 0)"
  by (simp_all add: held_items_def held_bytes_def)

lemma held_gone:
  assumes "h < length L" "L ! h = Some l"
  shows "held_items P (L[h := None]) = held_items P L - (if P l then 1 else 0)"
    and "held_bytes P (L[h := None]) = held_bytes P L - (if P l then snd l else 0)"
proof -
  have "L = take h L @ Some l # drop (Suc h) L"
    using assms by (metis id_take_nth_drop)
  then have eq: "leases L = leases (take h L) @ l # leases (drop (Suc h) L)"
    by (metis leases.simps(3) leases_append)
  have "L[h := None] = take h L @ None # drop (Suc h) L"
    using assms by (simp add: upd_conv_take_nth_drop)
  then have eq': "leases (L[h := None]) = leases (take h L) @ leases (drop (Suc h) L)"
    by simp
  show "held_items P (L[h := None]) = held_items P L - (if P l then 1 else 0)"
    and "held_bytes P (L[h := None]) = held_bytes P L - (if P l then snd l else 0)"
    by (simp_all add: held_items_def held_bytes_def eq eq')
qed

lemma held_items_nonneg: "0 \<le> held_items P L"
  by (simp add: held_items_def)

lemma held_items_zero_iff: "held_items P L = 0 \<longleftrightarrow> (\<forall>l. Some l \<in> set L \<longrightarrow> \<not> P l)"
  by (auto simp: held_items_def filter_empty_conv set_leases)

lemma held_bytes_zero: "held_items P L = 0 \<Longrightarrow> held_bytes P L = 0"
  by (simp add: held_items_def held_bytes_def)

subsection \<open>Admission by the ledger\<close>

definition spec_admits :: "'z budget_config_scheme \<Rightarrow> ledger \<Rightarrow> op_key \<Rightarrow> int \<Rightarrow> bool \<Rightarrow> bool" where
  "spec_admits c L key n critical = (
     held_items any_lease L + 1 \<le> (if critical then maxItems c else generalItemLimit c) \<and>
     held_bytes any_lease L + n \<le> (if critical then maxBytes c else generalByteLimit c) \<and>
     n \<le> maxBytes c \<and>
     (\<forall>q. map_of (quotas c) key = Some q \<longrightarrow>
        held_items (for_key key) L + 1 \<le> quota_maxItems q \<and>
        held_bytes (for_key key) L + n \<le> quota_maxBytes q))"

text \<open>What a request asks for; an ill-formed request asks for nothing.\<close>

definition wanted :: "jsval \<Rightarrow> (op_key \<times> int \<times> bool) option" where
  "wanted input = (case (operation_of input, requested_bytes input) of
     (Some key, Inr n) \<Rightarrow> Some (key, n, getf input ''critical'' = JBool True)
   | _ \<Rightarrow> None)"

datatype budget_op = Acquire jsval | Release nat

fun spec_step :: "budget_op \<Rightarrow> budget_config \<times> ledger \<Rightarrow> budget_config \<times> ledger" where
  "spec_step (Acquire input) (c, L) = (case wanted input of
     None \<Rightarrow> (c, L)
   | Some (key, n, critical) \<Rightarrow> (c, if spec_admits c L key n critical then L @ [Some (key, n)] else L))"
| "spec_step (Release h) (c, L) = (c, L[h := None])"

fun budget_step :: "budget_op \<Rightarrow> budget \<Rightarrow> budget" where
  "budget_step (Acquire input) b = (case acquire b input of Inl _ \<Rightarrow> b | Inr x \<Rightarrow> snd x)"
| "budget_step (Release h) b = release h b"

definition lease_of :: "reservation \<Rightarrow> lease option" where
  "lease_of r = (if res_released r then None else Some (res_key r, res_bytes r))"

definition ledger_of :: "budget \<Rightarrow> ledger" where
  "ledger_of b = map lease_of (reservations b)"

definition budget_view :: "budget \<Rightarrow> budget_config \<times> ledger" where
  "budget_view b = (budget_config.truncate b, ledger_of b)"

subsection \<open>The invariant of the counters\<close>

definition counter_ok :: "ledger \<Rightarrow> op_key \<Rightarrow> counter \<Rightarrow> bool" where
  "counter_ok L key c = (counter_items c = held_items (for_key key) L \<and>
     counter_bytes c = held_bytes (for_key key) L \<and> counter_items c > 0)"

definition budget_ok :: "budget \<Rightarrow> bool" where
  "budget_ok b = (
     budget_items b = held_items any_lease (ledger_of b) \<and>
     budget_bytes b = held_bytes any_lease (ledger_of b) \<and>
     distinct (map fst (byOperation b)) \<and> distinct (map snd (byOperation b)) \<and>
     (\<forall>r\<in>set (reservations b). \<not> res_released r \<longrightarrow>
        map_of (byOperation b) (res_key r) = Some (res_current r)) \<and>
     (\<forall>key a. map_of (byOperation b) key = Some a \<longrightarrow>
        a < length (counters b) \<and> counter_ok (ledger_of b) key (counters b ! a)))"

lemma addresses_differ:
  assumes "distinct (map snd xs)" "map_of xs k = Some a" "map_of xs k' = Some a"
  shows "k = k'"
proof -
  have "(k, a) \<in> set xs" "(k', a) \<in> set xs" using assms by (auto dest: map_of_SomeD)
  with assms(1) show ?thesis by (induction xs) (force simp: image_iff)+
qed

lemma no_counter_no_lease:
  assumes "budget_ok b" "map_of (byOperation b) key = None"
  shows "held_items (for_key key) (ledger_of b) = 0"
  using assms
  by (fastforce simp: held_items_zero_iff budget_ok_def ledger_of_def lease_of_def for_key_def
      split: if_splits)

lemma budget_okD:
  assumes "budget_ok b"
  shows "budget_items b = held_items any_lease (ledger_of b)"
    and "budget_bytes b = held_bytes any_lease (ledger_of b)"
    and "distinct (map fst (byOperation b))" "distinct (map snd (byOperation b))"
    and "r \<in> set (reservations b) \<Longrightarrow> \<not> res_released r \<Longrightarrow>
      map_of (byOperation b) (res_key r) = Some (res_current r)"
    and "map_of (byOperation b) key = Some a \<Longrightarrow> a < length (counters b)"
    and "map_of (byOperation b) key = Some a \<Longrightarrow> counter_ok (ledger_of b) key (counters b ! a)"
  using assms unfolding budget_ok_def by blast+

lemma budget_okI:
  assumes "budget_items b = held_items any_lease (ledger_of b)"
    and "budget_bytes b = held_bytes any_lease (ledger_of b)"
    and "distinct (map fst (byOperation b))" "distinct (map snd (byOperation b))"
    and "\<And>r. r \<in> set (reservations b) \<Longrightarrow> \<not> res_released r \<Longrightarrow>
      map_of (byOperation b) (res_key r) = Some (res_current r)"
    and "\<And>key a. map_of (byOperation b) key = Some a \<Longrightarrow>
      a < length (counters b) \<and> counter_ok (ledger_of b) key (counters b ! a)"
  shows "budget_ok b"
  using assms unfolding budget_ok_def by blast

text \<open>The counter that \<^verbatim>\<open>acquire\<close> reads holds the sums of the ledger.\<close>

lemma current_counter_sums:
  assumes "budget_ok b" "current_counter b key = (a, store)"
  shows "a < length store"
    and "counter_items (store ! a) = held_items (for_key key) (ledger_of b)"
    and "counter_bytes (store ! a) = held_bytes (for_key key) (ledger_of b)"
proof (atomize (full), goal_cases)
  case 1
  show ?case
  proof (cases "map_of (byOperation b) key")
    case None
    with assms no_counter_no_lease [OF assms(1) None] show ?thesis
      by (auto simp: current_counter_def held_bytes_zero)
  next
    case (Some x)
    with assms budget_okD(6,7) [OF assms(1) Some] show ?thesis
      by (auto simp: current_counter_def counter_ok_def)
  qed
qed

lemma acquire_eq:
  assumes ok: "budget_ok b" and w: "wanted input = Some (key, n, critical)"
  shows "acquire b input =
    (if spec_admits b (ledger_of b) key n critical then Inr (grant b key n) else Inl BUSY)"
proof -
  have "over_quota b key n \<longleftrightarrow> \<not> (\<forall>q. map_of (quotas b) key = Some q \<longrightarrow>
        held_items (for_key key) (ledger_of b) + 1 \<le> quota_maxItems q \<and>
        held_bytes (for_key key) (ledger_of b) + n \<le> quota_maxBytes q)"
    using current_counter_sums [OF ok, of key]
    by (auto simp: over_quota_def not_le split: option.split prod.split)
  with w show ?thesis
    by (auto simp: acquire_def wanted_def spec_admits_def budget_okD(1,2) [OF ok] not_less
        split: option.splits sum.splits)
qed

lemma acquire_unwanted: "wanted input = None \<Longrightarrow> \<exists>e. acquire b input = Inl e"
  by (auto simp: acquire_def wanted_def split: option.splits sum.splits)

subsection \<open>Every step keeps the invariant and follows the ledger\<close>

lemma ledger_of_grant: "ledger_of (snd (grant b key n)) = ledger_of b @ [Some (key, n)]"
  by (simp add: grant_def ledger_of_def lease_of_def split: prod.split)

lemma ledger_of_release: "ledger_of (release h b) = (ledger_of b)[h := None]"
proof (cases "h < length (reservations b) \<and> \<not> res_released (reservations b ! h)")
  case True
  then show ?thesis by (simp add: release_def ledger_of_def Let_def map_update lease_of_def)
next
  case False
  then have "(ledger_of b)[h := None] = ledger_of b"
  proof (cases "h < length (reservations b)")
    case True
    with False have "ledger_of b ! h = None" by (simp add: ledger_of_def lease_of_def)
    then show ?thesis by (metis list_update_id)
  qed (simp add: ledger_of_def not_less list_update_beyond)
  with False show ?thesis by (simp add: release_def Let_def ledger_of_def)
qed

lemma counter_ok_grant:
  "counter_ok (L @ [Some (key, n)]) key' c \<longleftrightarrow>
     (if key' = key then counter_items c = held_items (for_key key) L + 1 \<and>
        counter_bytes c = held_bytes (for_key key) L + n else counter_ok L key' c)"
  using held_items_nonneg [of "for_key key" L]
  by (auto simp: counter_ok_def held_new for_key_def)

lemma update_absent: "map_of xs k = None \<Longrightarrow> AList.update k v xs = xs @ [(k, v)]"
  by (induction xs) (auto split: if_splits)

lemma address_bound:
  assumes "budget_ok b" "a \<in> snd ` set (byOperation b)"
  shows "a < length (counters b)"
proof -
  from assms(2) obtain key where "(key, a) \<in> set (byOperation b)" by auto
  then have "map_of (byOperation b) key = Some a" using budget_okD(3) [OF assms(1)] by simp
  then show ?thesis by (rule budget_okD(6) [OF assms(1)])
qed

lemma grant_keeps:
  assumes ok: "budget_ok b"
  shows "budget_ok (snd (grant b key n))"
proof -
  obtain a store where c: "current_counter b key = (a, store)" by force
  note sums = current_counter_sums [OF ok c]
  let ?ops = "AList.update key a (byOperation b)"
  have upd: "map_of ?ops = (map_of (byOperation b))(key \<mapsto> a)"
    by (simp add: AList.update_conv')
  have addr: "distinct (map fst ?ops) \<and> distinct (map snd ?ops)"
  proof (cases "map_of (byOperation b) key")
    case None
    then have "a = length (counters b)" using c by (simp add: current_counter_def)
    then have "a \<notin> snd ` set (byOperation b)" using address_bound [OF ok, of a] by fastforce
    moreover have "key \<notin> fst ` set (byOperation b)" using None by (simp add: map_of_eq_None_iff)
    ultimately show ?thesis using budget_okD(3,4) [OF ok] by (simp add: update_absent [OF None])
  next
    case (Some x)
    then have "map_of (byOperation b) key = Some a" using c by (simp add: current_counter_def)
    then show ?thesis using budget_okD(3,4) [OF ok] by (simp add: AList.update_triv)
  qed
  have other: "a' < length (counters b) \<and> a' \<noteq> a \<and> store ! a' = counters b ! a'"
    if "map_of (byOperation b) key' = Some a'" "key' \<noteq> key" for key' a'
  proof (cases "map_of (byOperation b) key")
    case None
    with c budget_okD(6) [OF ok that(1)] show ?thesis
      by (auto simp: current_counter_def nth_append)
  next
    case (Some x)
    with c have "x = a" "store = counters b" by (simp_all add: current_counter_def)
    moreover have "a' \<noteq> x" using addresses_differ [OF budget_okD(4) [OF ok] that(1)] Some that(2) by blast
    ultimately show ?thesis using budget_okD(6) [OF ok that(1)] by simp
  qed
  have len: "length (counters b) \<le> length store"
    using c by (auto simp: current_counter_def split: option.splits)
  have res: "map_of (byOperation b) (res_key r) = Some (res_current r) \<Longrightarrow> res_key r = key \<Longrightarrow>
      res_current r = a" for r
    using c by (simp add: current_counter_def)
  let ?b = "snd (grant b key n)"
  have b: "byOperation ?b = ?ops" "counters ?b = store[a := add_to 1 n (store ! a)]"
    "budget_items ?b = budget_items b + 1" "budget_bytes ?b = budget_bytes b + n"
    "reservations ?b = reservations b @
       [\<lparr>res_bytes = n, res_key = key, res_current = a, res_released = False\<rparr>]"
    using c by (simp_all add: grant_def)
  show ?thesis
  proof (rule budget_okI)
    show "budget_items ?b = held_items any_lease (ledger_of ?b)"
      and "budget_bytes ?b = held_bytes any_lease (ledger_of ?b)"
      by (simp_all add: b ledger_of_grant held_new budget_okD(1,2) [OF ok])
    show "distinct (map fst (byOperation ?b))" "distinct (map snd (byOperation ?b))"
      using addr by (simp_all add: b)
  next
    fix r assume "r \<in> set (reservations ?b)" "\<not> res_released r"
    then show "map_of (byOperation ?b) (res_key r) = Some (res_current r)"
      using budget_okD(5) [OF ok, of r] res [of r] by (auto simp: b upd)
  next
    fix key' a' assume "map_of (byOperation ?b) key' = Some a'"
    then show "a' < length (counters ?b) \<and> counter_ok (ledger_of ?b) key' (counters ?b ! a')"
      using sums other [of key' a'] len budget_okD(7) [OF ok, of key' a']
      by (cases "key' = key") (simp_all add: b upd ledger_of_grant counter_ok_grant add_to_def)
  qed
qed

lemma counter_ok_release:
  assumes "h < length L" "L ! h = Some (key, n)"
  shows "counter_ok (L[h := None]) key' c \<longleftrightarrow>
     (if key' = key then counter_items c = held_items (for_key key) L - 1 \<and>
        counter_bytes c = held_bytes (for_key key) L - n \<and> counter_items c > 0
      else counter_ok L key' c)"
  by (auto simp: counter_ok_def held_gone [OF assms] for_key_def)

text \<open>What releasing a live reservation does to each part of the state.\<close>

lemma release_live:
  assumes ok: "budget_ok b" and h: "h < length (reservations b)"
    and r: "r = reservations b ! h" "\<not> res_released r"
    and c: "c = add_to (- 1) (- res_bytes r) (counters b ! res_current r)"
  shows "map_of (byOperation b) (res_key r) = Some (res_current r)"
    and "h < length (ledger_of b)" "ledger_of b ! h = Some (res_key r, res_bytes r)"
    and "release h b = b\<lparr>reservations := (reservations b)[h := r\<lparr>res_released := True\<rparr>],
      budget_items := budget_items b - 1, budget_bytes := budget_bytes b - res_bytes r,
      counters := (counters b)[res_current r := c],
      byOperation := (if counter_items c = 0 then AList.delete (res_key r) (byOperation b)
        else byOperation b)\<rparr>"
    and "counter_items c = held_items (for_key (res_key r)) (ledger_of b) - 1"
    and "counter_bytes c = held_bytes (for_key (res_key r)) (ledger_of b) - res_bytes r"
    and "held_items (for_key (res_key r)) (ledger_of b) > 0"
proof -
  have "r \<in> set (reservations b)" using h r by simp
  then show byop: "map_of (byOperation b) (res_key r) = Some (res_current r)"
    using r(2) by (rule budget_okD(5) [OF ok])
  show "h < length (ledger_of b)" "ledger_of b ! h = Some (res_key r, res_bytes r)"
    using h r by (simp_all add: ledger_of_def lease_of_def)
  show "release h b = b\<lparr>reservations := (reservations b)[h := r\<lparr>res_released := True\<rparr>],
      budget_items := budget_items b - 1, budget_bytes := budget_bytes b - res_bytes r,
      counters := (counters b)[res_current r := c],
      byOperation := (if counter_items c = 0 then AList.delete (res_key r) (byOperation b)
        else byOperation b)\<rparr>"
    using h r c by (simp add: release_def Let_def)
  show "counter_items c = held_items (for_key (res_key r)) (ledger_of b) - 1"
    and "counter_bytes c = held_bytes (for_key (res_key r)) (ledger_of b) - res_bytes r"
    and "held_items (for_key (res_key r)) (ledger_of b) > 0"
    using budget_okD(7) [OF ok byop] c by (simp_all add: counter_ok_def add_to_def)
qed

lemma live_keeps_counter:
  assumes "held_items (for_key key) (ledger_of b) = 0" "r \<in> set (reservations b)" "\<not> res_released r"
  shows "res_key r \<noteq> key"
proof -
  have "Some (res_key r, res_bytes r) \<in> set (ledger_of b)"
    using assms by (force simp: ledger_of_def lease_of_def)
  with assms(1) show ?thesis by (metis fst_conv for_key_def held_items_zero_iff)
qed

lemma release_keeps:
  assumes ok: "budget_ok b"
  shows "budget_ok (release h b)"
proof (cases "h < length (reservations b) \<and> \<not> res_released (reservations b ! h)")
  case False
  then show ?thesis using ok by (auto simp: release_def Let_def)
next
  case True
  define r where "r = reservations b ! h"
  define c where "c = add_to (- 1) (- res_bytes r) (counters b ! res_current r)"
  let ?b = "release h b"
  from True have "h < length (reservations b)" "\<not> res_released r" by (simp_all add: r_def)
  note live = release_live [OF ok this(1) r_def this(2) c_def]
  note L = live(2,3)
  have led: "ledger_of ?b = (ledger_of b)[h := None]" by (rule ledger_of_release)
  have gone: "key \<noteq> res_key r \<or> counter_items c \<noteq> 0" if "map_of (byOperation ?b) key = Some a" for key a
    using that by (auto simp: live(4) AList.delete_conv')
  show ?thesis
  proof (rule budget_okI)
    show "budget_items ?b = held_items any_lease (ledger_of ?b)"
      and "budget_bytes ?b = held_bytes any_lease (ledger_of ?b)"
      unfolding led held_gone [OF L] by (simp_all add: budget_okD(1,2) [OF ok] live(4))
    show "distinct (map fst (byOperation ?b))" "distinct (map snd (byOperation ?b))"
      using budget_okD(3,4) [OF ok] by (auto simp: live(4) AList.delete_eq distinct_map_filter)
  next
    fix r' assume r': "r' \<in> set (reservations ?b)" "\<not> res_released r'"
    then have "r' \<in> set (reservations b)"
      by (auto simp: live(4) dest!: set_update_subset_insert [THEN subsetD])
    then have "map_of (byOperation b) (res_key r') = Some (res_current r')"
      using r'(2) by (rule budget_okD(5) [OF ok])
    moreover have "res_key r' \<noteq> res_key r" if "counter_items c = 0"
    proof (rule live_keeps_counter [OF _ r'])
      show "held_items (for_key (res_key r)) (ledger_of ?b) = 0"
        using that live(5) unfolding led held_gone [OF L] by (simp add: for_key_def)
    qed
    ultimately show "map_of (byOperation ?b) (res_key r') = Some (res_current r')"
      by (auto simp: live(4) AList.delete_conv')
  next
    fix key a assume key: "map_of (byOperation ?b) key = Some a"
    then have old: "map_of (byOperation b) key = Some a"
      by (auto simp: live(4) AList.delete_conv' split: if_splits)
    have "a \<noteq> res_current r" if "key \<noteq> res_key r"
      using addresses_differ [OF budget_okD(4) [OF ok] old] live(1) that by blast
    with old gone [OF key] live(1,5,6,7) budget_okD(6,7) [OF ok old]
    show "a < length (counters ?b) \<and> counter_ok (ledger_of ?b) key (counters ?b ! a)"
      unfolding led counter_ok_release [OF L] by (auto simp: live(4))
  qed
qed

subsection \<open>Limits\<close>

text \<open>The limits as the constructor sets them.\<close>

definition quota_ok :: "quota \<Rightarrow> bool" where
  "quota_ok q = (1 \<le> quota_maxItems q \<and> 1 \<le> quota_maxBytes q)"

definition config_ok :: "'z budget_config_scheme \<Rightarrow> bool" where
  "config_ok c = (1 \<le> maxItems c \<and> 1 \<le> maxBytes c \<and> 1 \<le> reservedItems c \<and> 1 \<le> reservedBytes c \<and>
     reservedItems c \<le> maxItems c \<and> reservedBytes c \<le> maxBytes c \<and>
     generalItemLimit c = max 0 (maxItems c - reservedItems c) \<and>
     generalByteLimit c = max 0 (maxBytes c - reservedBytes c) \<and>
     list_all quota_ok (map snd (quotas c)))"

definition within_quota :: "'z budget_config_scheme \<Rightarrow> ledger \<Rightarrow> op_key \<Rightarrow> bool" where
  "within_quota c L key = (case map_of (quotas c) key of None \<Rightarrow> True
     | Some q \<Rightarrow> held_items (for_key key) L \<le> quota_maxItems q \<and> held_bytes (for_key key) L \<le> quota_maxBytes q)"

definition within_limits :: "'z budget_config_scheme \<Rightarrow> ledger \<Rightarrow> bool" where
  "within_limits c L = (
     list_all (\<lambda>l. 1 \<le> snd l) (leases L) \<and>
     held_items any_lease L \<le> maxItems c \<and> held_bytes any_lease L \<le> maxBytes c \<and>
     (\<forall>key. within_quota c L key))"

lemma held_bytes_nonneg: "within_limits c L \<Longrightarrow> 0 \<le> held_bytes P L"
  unfolding within_limits_def held_bytes_def list_all_iff
  by (intro sum_list_nonneg) force

lemma wanted_positive: "wanted input = Some (key, n, critical) \<Longrightarrow> 1 \<le> n"
  by (auto simp: wanted_def requested_bytes_def checkedTotal_def boundedInteger_def rbind_Inr_iff
      split: option.splits sum.splits if_splits)

lemma within_quota_release:
  assumes "within_quota c L key" "h < length L" "L ! h = Some l" "1 \<le> snd l"
  shows "within_quota c (L[h := None]) key"
  using assms by (auto simp: within_quota_def held_gone [OF assms(2,3)] split: option.splits)

lemma within_release:
  assumes "within_limits c L"
  shows "within_limits c (L[h := None])"
proof (cases "h < length L \<and> L ! h \<noteq> None")
  case True
  then obtain l where l: "h < length L" "L ! h = Some l" by auto
  then have mem: "l \<in> set (leases L)" by (metis nth_mem set_leases)
  then have pos: "1 \<le> snd l" using assms by (auto simp: within_limits_def list_all_iff)
  have "set (leases (L[h := None])) \<subseteq> set (leases L)"
    using set_update_subset_insert [of L h None] by (auto simp: set_leases)
  with pos assms within_quota_release [OF _ l pos] show ?thesis
    unfolding within_limits_def held_gone [OF l] list_all_iff by fastforce
next
  case False
  then have "L[h := None] = L" by (metis list_update_beyond list_update_id not_less)
  then show ?thesis using assms by simp
qed

lemma within_grant:
  assumes "config_ok c" "within_limits c L" "spec_admits c L key n critical" "1 \<le> n"
  shows "within_limits c (L @ [Some (key, n)])"
proof -
  have "generalItemLimit c \<le> maxItems c" "generalByteLimit c \<le> maxBytes c"
    using assms(1) by (auto simp: config_ok_def)
  then have "held_items any_lease L + 1 \<le> maxItems c" "held_bytes any_lease L + n \<le> maxBytes c"
    using assms(3) by (auto simp: spec_admits_def split: if_splits)
  moreover have "within_quota c (L @ [Some (key, n)]) key'" for key'
  proof (cases "key' = key")
    case True
    with assms(3) show ?thesis
      by (simp add: within_quota_def spec_admits_def held_new for_key_def split: option.split)
  next
    case False
    then have "within_quota c (L @ [Some (key, n)]) key' = within_quota c L key'"
      by (simp add: within_quota_def held_new for_key_def cong: option.case_cong)
    with assms(2) show ?thesis unfolding within_limits_def by blast
  qed
  ultimately show ?thesis using assms(2,4) by (simp add: within_limits_def held_new)
qed

lemma add_quotas_ok:
  assumes "add_quotas vs mi mb qs = Inr qs'" "list_all quota_ok (map snd qs)"
  shows "list_all quota_ok (map snd qs')"
  using assms
  by (induction vs mi mb qs arbitrary: qs' rule: add_quotas.induct)
    (auto simp: rbind_Inr_iff boundedInteger_def quota_ok_def split: option.splits if_splits)

lemma ceil_percent_le:
  assumes "1 \<le> x" "p \<le> 50"
  shows "max 1 (ceil_percent x p) \<le> x"
proof -
  have "x * p \<le> x * 50" using assms by (intro mult_left_mono) auto
  moreover have "x * 50 + 99 < (x + 1) * 100" using assms(1) by simp
  ultimately have "x * p + 99 < (x + 1) * 100" by (rule le_less_trans [OF add_right_mono])
  then have "(x * p + 99) div 100 < x + 1" by (simp add: div_less_iff_less_mult)
  then show ?thesis using assms(1) by (simp add: ceil_percent_def)
qed

lemma ResourceBudget_start:
  assumes "ResourceBudget options = Inr b"
  shows "budget_ok b" "config_ok b" "ledger_of b = []"
proof -
  from assms obtain mi mb p qs vs where
    q: "add_quotas vs mi mb [] = Inr qs" "1 \<le> mi" "1 \<le> mb" "p \<le> 50"
    and b: "b = \<lparr>maxItems = mi, maxBytes = mb, reservePercent = p, reservedItems = max 1 (ceil_percent mi p),
      reservedBytes = max 1 (ceil_percent mb p),
      generalItemLimit = max 0 (mi - max 1 (ceil_percent mi p)),
      generalByteLimit = max 0 (mb - max 1 (ceil_percent mb p)), quotas = qs,
      budget_items = 0, budget_bytes = 0, byOperation = [], counters = [], reservations = []\<rparr>"
    by (auto simp: ResourceBudget_def rbind_Inr_iff boundedInteger_def percentInteger_def Let_def
        split: if_splits jsval.splits)
  show "budget_ok b" "ledger_of b = []"
    by (simp_all add: b budget_ok_def ledger_of_def held_items_def held_bytes_def)
  show "config_ok b"
    using q add_quotas_ok [OF q(1)] ceil_percent_le [OF q(2,4)] ceil_percent_le [OF q(3,4)]
    by (simp add: b config_ok_def)
qed

lemma within_empty: "config_ok c \<Longrightarrow> within_limits c []"
  by (auto simp: within_limits_def within_quota_def config_ok_def quota_ok_def held_items_def
      held_bytes_def list_all_iff split: option.splits dest!: map_of_SomeD)

subsection \<open>Sequences of calls\<close>

definition budget_inv :: "budget \<Rightarrow> bool" where
  "budget_inv b = (budget_ok b \<and> config_ok b \<and> within_limits b (ledger_of b))"

text \<open>No call changes the limits.\<close>

lemma acquire_grants: "acquire b input = Inr x \<Longrightarrow> \<exists>key n. x = grant b key n"
  by (auto simp: acquire_def rbind_Inr_iff Let_def split: option.splits if_splits)

lemma truncate_grant: "budget_config.truncate (snd (grant b key n)) = budget_config.truncate b"
  by (simp add: grant_def budget_config.truncate_def split: prod.split)

lemma truncate_step: "budget_config.truncate (budget_step oper b) = budget_config.truncate b"
proof (cases oper)
  case (Acquire input)
  show ?thesis
  proof (cases "acquire b input")
    case (Inr x)
    then obtain key n where "x = grant b key n" by (auto dest: acquire_grants)
    then show ?thesis using truncate_grant [of b key n] by (simp add: Acquire Inr)
  qed (simp add: Acquire)
next
  case (Release h)
  then show ?thesis by (simp add: release_def budget_config.truncate_def Let_def)
qed

lemma truncate_run: "budget_config.truncate (fold budget_step opers b) = budget_config.truncate b"
  by (induction opers arbitrary: b) (simp_all add: truncate_step)

lemma limits_run:
  assumes "b' = fold budget_step opers b"
  shows "maxItems b' = maxItems b" "maxBytes b' = maxBytes b" "quotas b' = quotas b"
    "reservedBytes b' = reservedBytes b"
  using truncate_run [of opers b] unfolding assms by (simp_all add: budget_config.truncate_def)

lemma config_truncate:
  "config_ok (budget_config.truncate b) = config_ok b"
  "within_limits (budget_config.truncate b) L = within_limits b L"
  "spec_admits (budget_config.truncate b) L key n critical = spec_admits b L key n critical"
  by (simp_all add: config_ok_def within_limits_def within_quota_def spec_admits_def budget_config.truncate_def)

lemma view_budget_step:
  assumes "budget_ok b"
  shows "budget_view (budget_step oper b) = spec_step oper (budget_view b)"
proof (cases oper)
  case (Acquire input)
  show ?thesis
  proof (cases "wanted input")
    case None
    then show ?thesis using acquire_unwanted [OF None, of b] by (auto simp: Acquire budget_view_def)
  next
    case (Some x)
    then obtain key n critical where w: "wanted input = Some (key, n, critical)" by (cases x) auto
    show ?thesis
      using truncate_step [of oper b] acquire_eq [OF assms w] ledger_of_grant [of b key n]
      by (auto simp: Acquire w budget_view_def config_truncate split: prod.splits if_splits)
  qed
next
  case (Release h)
  then show ?thesis
    using truncate_step [of oper b] by (simp add: budget_view_def ledger_of_release)
qed

lemma budget_step_inv:
  assumes "budget_inv b"
  shows "budget_inv (budget_step oper b)"
proof -
  have ok: "budget_ok b" and c: "config_ok b" "within_limits b (ledger_of b)"
    using assms by (simp_all add: budget_inv_def)
  show ?thesis
  proof (cases oper)
    case (Acquire input)
    show ?thesis
    proof (cases "wanted input")
      case None
      then show ?thesis using acquire_unwanted [OF None, of b] assms by (auto simp: Acquire)
    next
      case (Some x)
      then obtain key n critical where w: "wanted input = Some (key, n, critical)" by (cases x) auto
      show ?thesis
      proof (cases "spec_admits b (ledger_of b) key n critical")
        case True
        then have step: "budget_step oper b = snd (grant b key n)"
          by (simp add: Acquire acquire_eq [OF ok w])
        have "within_limits b (ledger_of b @ [Some (key, n)])"
          using c True wanted_positive [OF w] by (rule within_grant)
        then show ?thesis
          using grant_keeps [OF ok, of key n] truncate_step [of oper b] c(1)
          unfolding budget_inv_def step ledger_of_grant by (metis config_truncate(1,2))
      next
        case False
        then show ?thesis using assms by (simp add: Acquire acquire_eq [OF ok w])
      qed
    qed
  next
    case (Release h)
    then show ?thesis
      using release_keeps [OF ok, of h] within_release [OF c(2), of h] truncate_step [of oper b] c(1)
      unfolding budget_inv_def by (metis budget_step.simps(2) config_truncate(1,2) ledger_of_release)
  qed
qed

interpretation budget_machine: refined_machine
  "\<lambda>b. \<exists>options. ResourceBudget options = Inr b" budget_step budget_inv budget_view spec_step
proof
  fix s assume "\<exists>options. ResourceBudget options = Inr s"
  then show "budget_inv s"
    using ResourceBudget_start within_empty by (fastforce simp: budget_inv_def)
next
  fix s oper assume "budget_inv s"
  then show "budget_inv (budget_step oper s)" by (rule budget_step_inv)
  from \<open>budget_inv s\<close> show "budget_view (budget_step oper s) = spec_step oper (budget_view s)"
    by (simp add: budget_inv_def view_budget_step)
qed

subsection \<open>The reserve\<close>

fun ordinary :: "budget_op \<Rightarrow> bool" where
  "ordinary (Acquire input) = (getf input ''critical'' \<noteq> JBool True)"
| "ordinary (Release h) = True"

definition below_reserve :: "'z budget_config_scheme \<Rightarrow> ledger \<Rightarrow> bool" where
  "below_reserve c L = (held_items any_lease L \<le> generalItemLimit c \<and> held_bytes any_lease L \<le> generalByteLimit c)"

text \<open>Ordinary requests leave the reserve free; releases only shrink the sums.\<close>

lemma held_release_le:
  assumes "within_limits c L"
  shows "held_items any_lease (L[h := None]) \<le> held_items any_lease L"
    and "held_bytes any_lease (L[h := None]) \<le> held_bytes any_lease L"
proof -
  have "(L[h := None] = L) \<or> (\<exists>l. h < length L \<and> L ! h = Some l)"
    by (metis list_update_beyond list_update_id not_less option.exhaust)
  moreover have "1 \<le> snd l" if "h < length L" "L ! h = Some l" for l
    using that assms nth_mem [of h L] by (auto simp: within_limits_def list_all_iff set_leases)
  ultimately show "held_items any_lease (L[h := None]) \<le> held_items any_lease L"
    and "held_bytes any_lease (L[h := None]) \<le> held_bytes any_lease L"
    by (fastforce simp: held_gone)+
qed

lemma reserve_step:
  assumes "ordinary oper" "below_reserve c L" "within_limits c L"
  shows "below_reserve c (snd (spec_step oper (c, L)))"
proof (cases oper)
  case (Acquire input)
  then show ?thesis using assms(1,2)
    by (auto simp: wanted_def spec_admits_def below_reserve_def held_new
        split: option.splits sum.splits)
next
  case (Release h)
  then show ?thesis using assms(2) held_release_le [OF assms(3), of h]
    by (simp add: below_reserve_def)
qed

lemma below_reserve_truncate [simp]:
  "below_reserve (budget_config.truncate b) L = below_reserve b L"
  by (simp add: below_reserve_def budget_config.truncate_def)

lemma reserve_run:
  assumes "list_all ordinary opers" "budget_inv b" "below_reserve b (ledger_of b)"
  shows "below_reserve (fold budget_step opers b) (ledger_of (fold budget_step opers b))"
  using assms
proof (induction opers arbitrary: b)
  case (Cons oper opers)
  let ?b = "budget_step oper b"
  have "budget_view ?b = spec_step oper (budget_view b)"
    using Cons.prems by (simp add: view_budget_step budget_inv_def)
  then have "ledger_of ?b = snd (spec_step oper (budget_config.truncate b, ledger_of b))"
    by (metis budget_view_def snd_conv)
  then have "below_reserve b (ledger_of ?b)"
    using Cons.prems reserve_step [of oper "budget_config.truncate b" "ledger_of b"]
    by (simp add: budget_inv_def config_truncate)
  then have "below_reserve ?b (ledger_of ?b)"
    using truncate_step [of oper b] by (metis below_reserve_truncate)
  with Cons show ?case by (simp add: budget_step_inv)
qed simp

end
