(* ===== verification/Stream_Tickets.thy ===== *)
theory Stream_Tickets
  imports Hashes Stateful "HOL-Library.AList"
begin

text \<open>
  The one-use tickets of \<^verbatim>\<open>packages/blind-daemon/stream-session.js\<close>: \<^verbatim>\<open>OneUseStreamTickets\<close>
  and the helper functions of that file.

  The clock and the entropy source are hooks of the host.  The \<open>n\<close>-th call of each returns
  what the environment says for \<open>n\<close>, and the state counts the calls.  A ticket's map key is
  the hexadecimal text of the token and is modelled by the token's bytes.  The loop that
  draws tokens until one is unused is followed for \<open>env_rounds\<close> rounds.
\<close>

record stream_env =
  env_now :: "nat \<Rightarrow> jsval"
  env_random :: "nat \<Rightarrow> jsval"
  env_rounds :: nat

subsection \<open>Argument checks\<close>

definition positiveInteger :: "jsval \<Rightarrow> int \<Rightarrow> int res" where
  "positiveInteger v fallback =
     (if is_nullish v then Inr fallback
      else if \<not> isSafeInteger v \<or> as_num v < 1 then Inl TYPE_ERROR else Inr (as_num v))"

definition session_u64 :: "jsval \<Rightarrow> int res" where
  "session_u64 v = (case v of
     JNum i \<Rightarrow> if \<not> isSafeInteger v \<or> i < 0 then Inl BAD_ENCODING else Inr i
   | JBig i \<Rightarrow> if i < 0 \<or> i > MAX_U64 then Inl BAD_ENCODING else Inr i
   | _ \<Rightarrow> Inl BAD_ENCODING)"

text \<open>The loop of \<^verbatim>\<open>encodeU64\<close>: byte 7 first, then the next higher one.\<close>

fun fill_u64 :: "nat \<Rightarrow> int \<Rightarrow> bytes \<Rightarrow> bytes" where
  "fill_u64 0 v output = output"
| "fill_u64 (Suc n) v output = fill_u64 n (drop_bit 8 v) (output[n := word_of_int (v AND 0xff)])"

definition session_encodeU64 :: "jsval \<Rightarrow> bytes res" where
  "session_encodeU64 v = rbind (session_u64 v) (\<lambda>i. Inr (fill_u64 8 i (replicate 8 0)))"

definition session_bytes :: "jsval \<Rightarrow> nat \<Rightarrow> nat \<Rightarrow> bytes res" where
  "session_bytes v minimum maximum =
     rbind (hBuffer v) (\<lambda>output.
       if length output < minimum \<or> length output > maximum then Inl BAD_ENCODING else Inr output)"

definition fixed32 :: "jsval \<Rightarrow> bytes res" where
  "fixed32 v = session_bytes v 32 32"

subsection \<open>The ticket table\<close>

record 'p ticket =
  tk_bindingHash :: bytes
  tk_scopeId :: string
  tk_payload :: 'p
  tk_expires :: int

record 'p tickets =
  maxTickets :: int
  ttlMillis :: int
  ticket_records :: "(bytes \<times> 'p ticket) list"
  now_calls :: nat
  random_calls :: nat

definition OneUseStreamTickets :: "jsval \<Rightarrow> jsval \<Rightarrow> 'p tickets res" where
  "OneUseStreamTickets maxT ttl =
     rbind (positiveInteger maxT 1024) (\<lambda>m.
     rbind (positiveInteger ttl 2000) (\<lambda>t.
     Inr \<lparr>maxTickets = m, ttlMillis = t, ticket_records = [], now_calls = 0, random_calls = 0\<rparr>))"

definition currentMonotonic :: "stream_env \<Rightarrow> ('p tickets, int) act" where
  "currentMonotonic E s = (
     (case env_now E (now_calls s) of
        JBig v \<Rightarrow> if v < 0 \<or> v > MAX_U64 then Inl TYPE_ERROR else Inr v
      | _ \<Rightarrow> Inl TYPE_ERROR),
     s\<lparr>now_calls := Suc (now_calls s)\<rparr>)"

definition draw :: "stream_env \<Rightarrow> ('p tickets, jsval) act" where
  "draw E s = (Inr (env_random E (random_calls s)), s\<lparr>random_calls := Suc (random_calls s)\<rparr>)"

fun nonzeroRandomTicket :: "stream_env \<Rightarrow> nat \<Rightarrow> ('p tickets, bytes) act" where
  "nonzeroRandomTicket E 0 = throw TYPE_ERROR"
| "nonzeroRandomTicket E (Suc attempts) =
     abind (draw E) (\<lambda>v.
     abind (lift (session_bytes v 32 32)) (\<lambda>token.
     if \<not> isAllZero token then ret token else nonzeroRandomTicket E attempts))"

fun fresh_token :: "stream_env \<Rightarrow> nat \<Rightarrow> ('p tickets, bytes) act" where
  "fresh_token E 0 = throw OUT_OF_FUEL"
| "fresh_token E (Suc rounds) =
     abind (nonzeroRandomTicket E 4) (\<lambda>token.
     abind (gets ticket_records) (\<lambda>records.
     if map_of records token \<noteq> None then fresh_token E rounds else ret token))"

definition sweep :: "int \<Rightarrow> 'p tickets \<Rightarrow> 'p tickets" where
  "sweep now s = s\<lparr>ticket_records := filter (\<lambda>(_, r). \<not> tk_expires r \<le> now) (ticket_records s)\<rparr>"

definition issue :: "stream_env \<Rightarrow> jsval \<Rightarrow> string \<Rightarrow> 'p \<Rightarrow> jsval \<Rightarrow> ('p tickets, bytes) act" where
  "issue E binding scopeId payload expiresMonotonicMillis =
     abind (currentMonotonic E) (\<lambda>now.
     abind (modify (sweep now)) (\<lambda>_.
     abind (gets id) (\<lambda>s.
     if int (length (ticket_records s)) \<ge> maxTickets s then throw BUSY else
     abind (lift (fixed32 binding)) (\<lambda>bindingHash.
     if length scopeId < 1 \<or> length scopeId > 128 then throw BAD_ENCODING else
     abind (lift (session_u64 expiresMonotonicMillis)) (\<lambda>callerExpiry.
     let ttlExpiry = now + ttlMillis s; expiry = (if callerExpiry < ttlExpiry then callerExpiry else ttlExpiry) in
     if expiry \<le> now then throw EXPIRED else
     abind (fresh_token E (env_rounds E)) (\<lambda>token.
     abind (modify (\<lambda>s. s\<lparr>ticket_records := ticket_records s @
       [(token, \<lparr>tk_bindingHash = bindingHash, tk_scopeId = scopeId, tk_payload = payload,
         tk_expires = expiry\<rparr>)]\<rparr>)) (\<lambda>_.
     ret token)))))))"

definition consume :: "stream_env \<Rightarrow> jsval \<Rightarrow> jsval \<Rightarrow> ('p tickets, 'p) act" where
  "consume E token binding =
     abind (lift (session_bytes token 32 32)) (\<lambda>key.
     abind (lift (fixed32 binding)) (\<lambda>bindingHash.
     abind (gets ticket_records) (\<lambda>records.
     case map_of records key of None \<Rightarrow> throw RETRY_TERMINAL | Some record \<Rightarrow>
     abind (modify (\<lambda>s. s\<lparr>ticket_records := AList.delete key (ticket_records s)\<rparr>)) (\<lambda>_.
     abind (currentMonotonic E) (\<lambda>now.
     if tk_expires record \<le> now then throw RETRY_TERMINAL
     else if tk_bindingHash record \<noteq> bindingHash then throw RETRY_TERMINAL
     else ret (tk_payload record))))))"

definition revokeScope :: "string \<Rightarrow> 'p tickets \<Rightarrow> 'p tickets" where
  "revokeScope key s = s\<lparr>ticket_records := filter (\<lambda>(_, r). tk_scopeId r \<noteq> key) (ticket_records s)\<rparr>"

definition sweep_now :: "stream_env \<Rightarrow> ('p tickets, unit) act" where
  "sweep_now E = abind (currentMonotonic E) (\<lambda>now. modify (sweep now))"

definition tickets_size :: "stream_env \<Rightarrow> ('p tickets, int) act" where
  "tickets_size E = abind (sweep_now E) (\<lambda>_. gets (\<lambda>s. int (length (ticket_records s))))"

definition tickets_clear :: "'p tickets \<Rightarrow> 'p tickets" where
  "tickets_clear s = s\<lparr>ticket_records := []\<rparr>"

end
