(* ===== verification/Stream_Session.thy ===== *)
theory Stream_Session
  imports Stream_Tickets
begin

text \<open>
  The stream sessions of \<^verbatim>\<open>packages/blind-daemon/stream-session.js\<close>: \<^verbatim>\<open>streamTicketBinding\<close>,
  \<^verbatim>\<open>StreamScope\<close> and \<^verbatim>\<open>StreamSessionPlane\<close>.

  The plane owns a store of scope objects; a scope is referred to by its index, and so is
  the closure that \<^verbatim>\<open>reserveBuffer\<close> returns, whose captured \<^verbatim>\<open>reservation\<close> object is an entry
  of \<open>pl_reservations\<close>.  A timer is modelled by the delay it was armed with.  \<^verbatim>\<open>close\<close> starts the
  \<^verbatim>\<open>onClose\<close> callback in a later microtask: \<open>pl_closes\<close> lists the callbacks that were started,
  in order.  The hook \<^verbatim>\<open>isReady\<close> is a parameter of the operations that consult it; it sees the
  scope, the time and the number of clock readings so far, and a hook that throws counts as
  not ready, as in \<^verbatim>\<open>_isReady\<close>.  Hooks do not call back into the plane.  The object
  \<^verbatim>\<open>metadata\<close>, which the plane only hands to \<^verbatim>\<open>isReady\<close>, is part of that parameter.
\<close>

type_synonym scope_ref = nat

record readiness =
  rd_descriptorSequence :: int
  rd_descriptorHash :: bytes
  rd_expires :: int

record stream_scope =
  ss_family :: int
  ss_streamId :: int
  ss_key :: string
  ss_maxBytes :: int
  ss_maxBuffered :: int
  ss_idleMillis :: int
  ss_lifetimeMillis :: int
  ss_readiness :: readiness
  ss_opened :: int
  ss_lastActivity :: int
  ss_totalBytes :: int
  ss_buffered :: int
  ss_reservations :: "nat list"
  ss_closed :: bool
  ss_closeReason :: "string option"
  ss_closeStarted :: bool
  ss_timer :: "int option"

record stream_reservation =
  rs_scope :: scope_ref
  rs_length :: int
  rs_active :: bool

record plane =
  pl_maxStreams :: int
  pl_maxBuffered :: int
  pl_maxPerStream :: int
  pl_sessions :: "(string \<times> scope_ref) list"
  pl_buffered :: int
  pl_closing :: bool
  pl_tickets :: "scope_ref tickets"
  pl_scopes :: "stream_scope list"
  pl_reservations :: "stream_reservation list"
  pl_closes :: "(scope_ref \<times> string) list"

type_synonym ready_hook = "nat \<Rightarrow> stream_scope \<Rightarrow> int \<Rightarrow> bool"

subsection \<open>Keys and bindings\<close>

fun decimal_text :: "nat \<Rightarrow> string" where
  "decimal_text n = (if n < 10 then [char_of (48 + n)]
     else decimal_text (n div 10) @ [char_of (48 + n mod 10)])"

definition stream_family :: "jsval \<Rightarrow> bool" where
  "stream_family v = (v = JNum FAMILY_CORE \<or> v = JNum FAMILY_FORWARD)"

definition streamKey :: "jsval \<Rightarrow> jsval \<Rightarrow> string res" where
  "streamKey family streamId =
     (if \<not> stream_family family then Inl BAD_ENCODING else
      rbind (session_u64 streamId) (\<lambda>i.
      if i = 0 then Inl BAD_ENCODING
      else Inr (decimal_text (nat (as_num family)) @ CHR '':'' # decimal_text (nat i))))"

definition BINDING_DOMAIN :: string where
  "BINDING_DOMAIN = ''hiverelay.blind.private-stream-ticket-binding.v1''"

definition streamTicketPreimage :: "jsval \<Rightarrow> bytes res" where
  "streamTicketPreimage v =
     (if \<not> is_object v then Inl BAD_ENCODING else
      if \<not> stream_family (getf v ''family'') then Inl BAD_ENCODING else
      rbind (session_bytes (getf v ''parentSessionId'') 1 256) (\<lambda>parentSessionId.
      if length parentSessionId > 0xffff then Inl BAD_ENCODING else
      rbind (session_u64 (getf v ''streamId'')) (\<lambda>streamId.
      if streamId = 0 then Inl BAD_ENCODING else
      let n = int (length parentSessionId) in
      concat_fields [
        Inr (ascii BINDING_DOMAIN),
        Inr [word_of_int (numf v ''family'')],
        session_encodeU64 (JBig streamId),
        session_encodeU64 (getf v ''descriptorSequence''),
        fixed32 (getf v ''descriptorHash''),
        Inr [word_of_int (drop_bit 8 n), word_of_int (n AND 0xff)],
        Inr parentSessionId])))"

definition streamTicketBinding :: "platform \<Rightarrow> jsval \<Rightarrow> bytes res" where
  "streamTicketBinding S v = rbind (streamTicketPreimage v) (\<lambda>pre. Inr (blake2b256 S pre))"

subsection \<open>Access to the parts of a plane\<close>

definition on_tickets :: "(scope_ref tickets, 'a) act \<Rightarrow> (plane, 'a) act" where
  "on_tickets m p = (case m (pl_tickets p) of (r, t) \<Rightarrow> (r, p\<lparr>pl_tickets := t\<rparr>))"

definition upd_scope :: "scope_ref \<Rightarrow> (stream_scope \<Rightarrow> stream_scope) \<Rightarrow> plane \<Rightarrow> plane" where
  "upd_scope i f p = p\<lparr>pl_scopes := (pl_scopes p)[i := f (pl_scopes p ! i)]\<rparr>"

abbreviation scope_at :: "scope_ref \<Rightarrow> plane \<Rightarrow> stream_scope" where
  "scope_at i p \<equiv> pl_scopes p ! i"

definition plane_now :: "stream_env \<Rightarrow> (plane, int) act" where
  "plane_now E = on_tickets (currentMonotonic E)"

subsection \<open>StreamScope\<close>

definition normalizeReadiness :: "jsval \<Rightarrow> int \<Rightarrow> readiness res" where
  "normalizeReadiness v now =
     (if \<not> is_object v then Inl EXPIRED else
      rbind (session_u64 (getf v ''descriptorSequence'')) (\<lambda>descriptorSequence.
      rbind (fixed32 (getf v ''descriptorHash'')) (\<lambda>descriptorHash.
      rbind (session_u64 (getf v ''expiresMonotonicMillis'')) (\<lambda>expires.
      if expires \<le> now then Inl EXPIRED
      else Inr \<lparr>rd_descriptorSequence = descriptorSequence, rd_descriptorHash = descriptorHash,
        rd_expires = expires\<rparr>))))"

definition deactivate :: "nat list \<Rightarrow> stream_reservation list \<Rightarrow> stream_reservation list" where
  "deactivate ids rs = fold (\<lambda>j rs. rs[j := (rs ! j)\<lparr>rs_active := False\<rparr>]) ids rs"

definition scope_close :: "scope_ref \<Rightarrow> string \<Rightarrow> plane \<Rightarrow> plane" where
  "scope_close i reason p = (let sc = scope_at i p; why = take 64 reason in
     if ss_closeStarted sc then p else
     p\<lparr>pl_scopes := (pl_scopes p)[i := sc\<lparr>ss_closed := True, ss_closeReason := Some why, ss_timer := None,
         ss_reservations := [], ss_buffered := 0, ss_closeStarted := True\<rparr>],
       pl_reservations := deactivate (ss_reservations sc) (pl_reservations p),
       pl_buffered := pl_buffered p - ss_buffered sc,
       pl_tickets := revokeScope (ss_key sc) (pl_tickets p),
       pl_sessions := AList.delete (ss_key sc) (pl_sessions p),
       pl_closes := pl_closes p @ [(i, why)]\<rparr>)"

definition fail_closed :: "scope_ref \<Rightarrow> string \<Rightarrow> perr \<Rightarrow> (plane, 'a) act" where
  "fail_closed i reason e = abind (modify (scope_close i reason)) (\<lambda>_. throw e)"

definition assertActive :: "stream_env \<Rightarrow> ready_hook \<Rightarrow> scope_ref \<Rightarrow> (plane, int) act" where
  "assertActive E ready i =
     abind (gets (scope_at i)) (\<lambda>sc.
     if ss_closed sc then throw RETRY_TERMINAL else
     abind (plane_now E) (\<lambda>now.
     abind (gets (\<lambda>p. ready (now_calls (pl_tickets p)) sc now)) (\<lambda>isReady.
     if \<not> isReady then fail_closed i ''readiness-expired'' EXPIRED else
     if now \<ge> rd_expires (ss_readiness sc) then fail_closed i ''readiness-expired'' EXPIRED else
     if now - ss_opened sc \<ge> ss_lifetimeMillis sc then fail_closed i ''lifetime-expired'' EXPIRED else
     if now - ss_lastActivity sc \<ge> ss_idleMillis sc then fail_closed i ''idle-expired'' EXPIRED else
     ret now)))"

definition expiry_delay :: "stream_scope \<Rightarrow> int \<Rightarrow> int" where
  "expiry_delay sc now = (
     let idleExpiry = ss_lastActivity sc + ss_idleMillis sc;
         lifetimeExpiry = ss_opened sc + ss_lifetimeMillis sc;
         expiry = (if idleExpiry < lifetimeExpiry then idleExpiry else lifetimeExpiry);
         expiry = (if rd_expires (ss_readiness sc) < expiry then rd_expires (ss_readiness sc) else expiry);
         remaining = (if expiry > now then expiry - now else 0);
         delay = (if remaining > 0x7fffffff then 0x7fffffff else remaining) in
     max 1 delay)"

definition scheduleExpiry :: "stream_env \<Rightarrow> scope_ref \<Rightarrow> (plane, unit) act" where
  "scheduleExpiry E i =
     abind (gets (scope_at i)) (\<lambda>sc.
     if ss_closed sc then ret () else
     abind (modify (upd_scope i (\<lambda>sc. sc\<lparr>ss_timer := None\<rparr>))) (\<lambda>_.
     abind (plane_now E) (\<lambda>now.
     modify (upd_scope i (\<lambda>sc. sc\<lparr>ss_timer := Some (expiry_delay sc now)\<rparr>)))))"

definition touch :: "stream_env \<Rightarrow> ready_hook \<Rightarrow> scope_ref \<Rightarrow> (plane, unit) act" where
  "touch E ready i =
     abind (assertActive E ready i) (\<lambda>now.
     abind (modify (upd_scope i (\<lambda>sc. sc\<lparr>ss_lastActivity := now\<rparr>))) (\<lambda>_.
     scheduleExpiry E i))"

text \<open>The argument of the two byte operations is a length, an integral number.\<close>

definition countBytes :: "stream_env \<Rightarrow> ready_hook \<Rightarrow> scope_ref \<Rightarrow> int \<Rightarrow> (plane, unit) act" where
  "countBytes E ready i len =
     (if \<not> isSafeInteger (JNum len) \<or> len < 1 then throw BAD_ENCODING else
      abind (assertActive E ready i) (\<lambda>_.
      abind (gets (scope_at i)) (\<lambda>sc.
      let nextTotal = ss_totalBytes sc + len in
      if nextTotal > ss_maxBytes sc then fail_closed i ''byte-cap'' TOO_LARGE else
      abind (modify (upd_scope i (\<lambda>sc. sc\<lparr>ss_totalBytes := nextTotal\<rparr>))) (\<lambda>_.
      touch E ready i))))"

definition add_reservation :: "scope_ref \<Rightarrow> int \<Rightarrow> plane \<Rightarrow> plane" where
  "add_reservation i len p =
     (upd_scope i (\<lambda>sc. sc\<lparr>ss_reservations := ss_reservations sc @ [length (pl_reservations p)],
        ss_buffered := ss_buffered sc + len\<rparr>) p)
     \<lparr>pl_reservations := pl_reservations p @ [\<lparr>rs_scope = i, rs_length = len, rs_active = True\<rparr>],
      pl_buffered := pl_buffered p + len\<rparr>"

definition reserveBuffer :: "stream_env \<Rightarrow> ready_hook \<Rightarrow> scope_ref \<Rightarrow> int \<Rightarrow> (plane, nat) act" where
  "reserveBuffer E ready i len =
     (if \<not> isSafeInteger (JNum len) \<or> len < 1 then throw BAD_ENCODING else
      abind (assertActive E ready i) (\<lambda>_.
      abind (gets id) (\<lambda>p.
      if ss_buffered (scope_at i p) + len > ss_maxBuffered (scope_at i p) \<or>
         pl_buffered p + len > pl_maxBuffered p then fail_closed i ''buffer-cap'' BUSY else
      abind (modify (add_reservation i len)) (\<lambda>_.
      ret (length (pl_reservations p))))))"

text \<open>The closure that \<^verbatim>\<open>reserveBuffer\<close> returned.\<close>

definition releaseBuffer :: "nat \<Rightarrow> plane \<Rightarrow> plane" where
  "releaseBuffer j p = (let r = pl_reservations p ! j in
     if j \<ge> length (pl_reservations p) \<or> \<not> rs_active r then p else
     (upd_scope (rs_scope r) (\<lambda>sc. sc\<lparr>ss_reservations := remove1 j (ss_reservations sc),
        ss_buffered := ss_buffered sc - rs_length r\<rparr>) p)
     \<lparr>pl_reservations := (pl_reservations p)[j := r\<lparr>rs_active := False\<rparr>],
      pl_buffered := pl_buffered p - rs_length r\<rparr>)"

definition scope_poll :: "stream_env \<Rightarrow> ready_hook \<Rightarrow> scope_ref \<Rightarrow> plane \<Rightarrow> bool \<times> plane" where
  "scope_poll E ready i p =
     (if ss_closed (scope_at i p) then (False, p) else
      case assertActive E ready i p of (Inl _, q) \<Rightarrow> (False, q) | (Inr _, q) \<Rightarrow> (True, q))"

text \<open>The callback of the timer that \<^verbatim>\<open>_scheduleExpiry\<close> armed.\<close>

definition timer_fires :: "stream_env \<Rightarrow> ready_hook \<Rightarrow> scope_ref \<Rightarrow> (plane, unit) act" where
  "timer_fires E ready i p =
     (if ss_timer (scope_at i p) = None then (Inr (), p) else
      let p = upd_scope i (\<lambda>sc. sc\<lparr>ss_timer := None\<rparr>) p; (alive, q) = scope_poll E ready i p in
      if alive then scheduleExpiry E i q else (Inr (), q))"

subsection \<open>StreamSessionPlane\<close>

definition StreamSessionPlane :: "stream_env \<Rightarrow> jsval \<Rightarrow> plane res" where
  "StreamSessionPlane E options =
     rbind (positiveInteger (getf options ''maxStreams'') 1024) (\<lambda>maxStreams.
     rbind (positiveInteger (getf options ''maxBufferedBytes'') (64 * 1024 * 1024)) (\<lambda>maxBuffered.
     rbind (positiveInteger (getf options ''maxPerStreamBufferedBytes'') (1024 * 1024 + 65535)) (\<lambda>maxPerStream.
     if maxPerStream > maxBuffered then Inl TYPE_ERROR else
     rbind (OneUseStreamTickets (getf options ''maxPendingTickets'') (getf options ''ticketTtlMillis'')) (\<lambda>t.
     rbind (fst (currentMonotonic E t)) (\<lambda>_.
     Inr \<lparr>pl_maxStreams = maxStreams, pl_maxBuffered = maxBuffered, pl_maxPerStream = maxPerStream,
       pl_sessions = [], pl_buffered = 0, pl_closing = False, pl_tickets = t\<lparr>now_calls := 1\<rparr>,
       pl_scopes = [], pl_reservations = [], pl_closes = []\<rparr>)))))"

text \<open>\<^verbatim>\<open>positiveInteger(value, null, ...)\<close> followed by the check that a value was given.\<close>

definition requiredInteger :: "jsval \<Rightarrow> int res" where
  "requiredInteger v = (if is_nullish v then Inl TYPE_ERROR else positiveInteger v 0)"

text \<open>The checks of the \<^verbatim>\<open>StreamScope\<close> constructor before it reads the clock.\<close>

record scope_limits =
  lim_streamId :: int
  lim_maxBytes :: int
  lim_maxBuffered :: int
  lim_idle :: int
  lim_lifetime :: int

definition scope_limits_of :: "plane \<Rightarrow> jsval \<Rightarrow> scope_limits res" where
  "scope_limits_of p options =
     rbind (session_u64 (getf options ''streamId'')) (\<lambda>streamId.
     rbind (session_u64 (getf options ''maxBytes'')) (\<lambda>maxBytes.
     if maxBytes = 0 then Inl BAD_ENCODING else
     rbind (positiveInteger (getf options ''maxBufferedBytes'') (pl_maxPerStream p)) (\<lambda>maxBuffered.
     if maxBuffered > pl_maxBuffered p then Inl TYPE_ERROR else
     rbind (requiredInteger (getf options ''idleMillis'')) (\<lambda>idle.
     rbind (requiredInteger (getf options ''lifetimeMillis'')) (\<lambda>lifetime.
     Inr \<lparr>lim_streamId = streamId, lim_maxBytes = maxBytes, lim_maxBuffered = maxBuffered,
       lim_idle = idle, lim_lifetime = lifetime\<rparr>)))))"

definition new_scope :: "jsval \<Rightarrow> string \<Rightarrow> scope_limits \<Rightarrow> int \<Rightarrow> readiness \<Rightarrow> stream_scope" where
  "new_scope family key l now r =
     \<lparr>ss_family = as_num family, ss_streamId = lim_streamId l, ss_key = key, ss_maxBytes = lim_maxBytes l,
      ss_maxBuffered = lim_maxBuffered l, ss_idleMillis = lim_idle l, ss_lifetimeMillis = lim_lifetime l,
      ss_readiness = r, ss_opened = now, ss_lastActivity = now, ss_totalBytes = 0,
      ss_buffered = 0, ss_reservations = [], ss_closed = False, ss_closeReason = None,
      ss_closeStarted = False, ss_timer = None\<rparr>"

definition createSession :: "stream_env \<Rightarrow> jsval \<Rightarrow> (plane, scope_ref) act" where
  "createSession E options =
     abind (gets id) (\<lambda>p.
     if pl_closing p then throw BUSY else
     if \<not> is_object options then throw TYPE_ERROR else
     abind (lift (streamKey (getf options ''family'') (getf options ''streamId''))) (\<lambda>key.
     if map_of (pl_sessions p) key \<noteq> None then throw CONFLICT else
     if int (length (pl_sessions p)) \<ge> pl_maxStreams p then throw BUSY else
     abind (lift (scope_limits_of p options)) (\<lambda>l.
     abind (plane_now E) (\<lambda>now.
     abind (lift (normalizeReadiness (getf options ''readiness'') now)) (\<lambda>r.
     let sc = new_scope (getf options ''family'') key l now r in
     abind (plane_now E) (\<lambda>now.
     abind (modify (\<lambda>p. p\<lparr>pl_scopes := pl_scopes p @ [sc\<lparr>ss_timer := Some (expiry_delay sc now)\<rparr>],
       pl_sessions := pl_sessions p @ [(key, length (pl_scopes p))]\<rparr>)) (\<lambda>_.
     ret (length (pl_scopes p)))))))))"

definition ticket_identity :: "stream_scope \<Rightarrow> jsval \<Rightarrow> jsval" where
  "ticket_identity sc parentSessionId = JObj [
     (''family'', JNum (ss_family sc)),
     (''streamId'', JBig (ss_streamId sc)),
     (''descriptorSequence'', JBig (rd_descriptorSequence (ss_readiness sc))),
     (''descriptorHash'', JBytes (rd_descriptorHash (ss_readiness sc))),
     (''parentSessionId'', parentSessionId)]"

definition issueTicket :: "stream_env \<Rightarrow> ready_hook \<Rightarrow> platform \<Rightarrow> scope_ref \<Rightarrow> jsval \<Rightarrow> (plane, bytes) act" where
  "issueTicket E ready S i parentSessionId =
     abind (gets id) (\<lambda>p.
     if i \<ge> length (pl_scopes p) then throw TYPE_ERROR else
     abind (assertActive E ready i) (\<lambda>_.
     let sc = scope_at i p in
     abind (lift (streamTicketBinding S (ticket_identity sc parentSessionId))) (\<lambda>binding.
     on_tickets (issue E (JBytes binding) (ss_key sc) i (JBig (rd_expires (ss_readiness sc)))))))"

definition consumeTicket :: "stream_env \<Rightarrow> ready_hook \<Rightarrow> platform \<Rightarrow> jsval \<Rightarrow> jsval \<Rightarrow> (plane, scope_ref) act" where
  "consumeTicket E ready S ticket expected =
     abind (lift (streamTicketBinding S expected)) (\<lambda>binding.
     abind (on_tickets (consume E ticket (JBytes binding))) (\<lambda>i.
     abind (assertActive E ready i) (\<lambda>_.
     ret i)))"

text \<open>
  The event that \<^verbatim>\<open>fence\<close> receives; its reason, when there is one, is a text.  \<open>None\<close> stands for
  a missing or empty reason.
\<close>

record fence_event =
  fe_reason :: "string option"
  fe_descriptorSequence :: jsval
  fe_descriptorHash :: jsval

definition fence_matches :: "int option \<Rightarrow> bytes option \<Rightarrow> stream_scope \<Rightarrow> bool" where
  "fence_matches q h sc =
     ((case q of None \<Rightarrow> True | Some i \<Rightarrow> rd_descriptorSequence (ss_readiness sc) = i) \<and>
      (case h of None \<Rightarrow> True | Some b \<Rightarrow> rd_descriptorHash (ss_readiness sc) = b))"

definition optionally :: "(jsval \<Rightarrow> 'a res) \<Rightarrow> jsval \<Rightarrow> 'a option res" where
  "optionally f v = (if is_nullish v then Inr None else rbind (f v) (\<lambda>x. Inr (Some x)))"

definition close_all :: "string \<Rightarrow> scope_ref list \<Rightarrow> plane \<Rightarrow> plane" where
  "close_all reason is p = fold (\<lambda>i. scope_close i reason) is p"

definition fence :: "fence_event \<Rightarrow> (plane, unit) act" where
  "fence event =
     abind (lift (optionally session_u64 (fe_descriptorSequence event))) (\<lambda>q.
     abind (lift (optionally fixed32 (fe_descriptorHash event))) (\<lambda>h.
     let reason = (case fe_reason event of Some r \<Rightarrow> ''readiness-'' @ r | None \<Rightarrow> ''readiness-fenced'') in
     modify (\<lambda>p. close_all reason
       (filter (\<lambda>i. fence_matches q h (scope_at i p)) (map snd (pl_sessions p))) p)))"

definition plane_poll :: "stream_env \<Rightarrow> ready_hook \<Rightarrow> (plane, unit) act" where
  "plane_poll E ready =
     abind (on_tickets (sweep_now E)) (\<lambda>_.
     modify (\<lambda>p. fold (\<lambda>i p. snd (scope_poll E ready i p)) (map snd (pl_sessions p)) p))"

definition plane_close :: "string \<Rightarrow> plane \<Rightarrow> plane" where
  "plane_close reason p =
     (if pl_closing p then p else
      let p = p\<lparr>pl_closing := True, pl_tickets := tickets_clear (pl_tickets p)\<rparr> in
      close_all reason (map snd (pl_sessions p)) p)"

definition activeStreams :: "plane \<Rightarrow> int" where
  "activeStreams p = int (length (pl_sessions p))"

end
