(* ===== verification/Forward_Circuit.thy ===== *)
theory Forward_Circuit
  imports Stream_Session Schema_Stream Dispatch
begin

text \<open>
  The live circuit of \<^verbatim>\<open>packages/blind-daemon/forward-stream.js\<close>: \<^verbatim>\<open>ForwardCircuit\<close> with its
  sequence, offset and credit state in the two directions, its two delivery queues and its
  ports.

  A relay is the stream plane and one circuit on it.  The circuit's scope is a scope of the
  plane.  A queue of promises is a list of prepared frames that are delivered from the head.
  Writing to a port is an action of the host; \<open>ci_written\<close> lists the frames handed to the
  ports.  A delivery is one step, at the moment its write settles: until then it changes
  nothing in the daemon.
\<close>

definition FORWARD_SIDE_CALLER :: int where "FORWARD_SIDE_CALLER = 1"
definition FORWARD_SIDE_NEXT_HOP :: int where "FORWARD_SIDE_NEXT_HOP = 2"

record dir_state =
  nextSequence :: int
  nextOffset :: int
  consumedThrough :: int
  availableCredit :: int
  fin :: bool

definition streamState :: "int \<Rightarrow> dir_state" where
  "streamState initialWindow =
     \<lparr>nextSequence = 0, nextOffset = 0, consumedThrough = 0, availableCredit = initialWindow, fin = False\<rparr>"

record prepared_frame =
  pr_side :: int
  pr_targetSide :: int
  pr_outbound :: bytes
  pr_reservation :: "nat option"
  pr_abortAfterDelivery :: bool

record circuit =
  ci_scope :: scope_ref
  ci_nonce :: bytes
  ci_callerStreamId :: int
  ci_nextStreamId :: int
  ci_maxDataBytes :: int
  ci_callerState :: dir_state
  ci_nextState :: dir_state
  ci_callerQueue :: "prepared_frame list"
  ci_nextQueue :: "prepared_frame list"
  ci_attached :: bool
  ci_written :: "(int \<times> bytes) list"

record relay =
  rl_plane :: plane
  rl_circuit :: circuit

definition on_plane :: "(plane, 'a) act \<Rightarrow> (relay, 'a) act" where
  "on_plane m r = (case m (rl_plane r) of (x, p) \<Rightarrow> (x, r\<lparr>rl_plane := p\<rparr>))"

definition on_circuit :: "(circuit \<Rightarrow> circuit) \<Rightarrow> (relay, unit) act" where
  "on_circuit f = modify (\<lambda>r. r\<lparr>rl_circuit := f (rl_circuit r)\<rparr>)"

definition opposite :: "int \<Rightarrow> int res" where
  "opposite side =
     (if side = FORWARD_SIDE_CALLER then Inr FORWARD_SIDE_NEXT_HOP
      else if side = FORWARD_SIDE_NEXT_HOP then Inr FORWARD_SIDE_CALLER
      else Inl BAD_ENCODING)"

definition dir_of :: "int \<Rightarrow> circuit \<Rightarrow> dir_state" where
  "dir_of side c = (if side = FORWARD_SIDE_CALLER then ci_callerState c else ci_nextState c)"

definition upd_dir :: "int \<Rightarrow> (dir_state \<Rightarrow> dir_state) \<Rightarrow> circuit \<Rightarrow> circuit" where
  "upd_dir side f c =
     (if side = FORWARD_SIDE_CALLER then c\<lparr>ci_callerState := f (ci_callerState c)\<rparr>
      else c\<lparr>ci_nextState := f (ci_nextState c)\<rparr>)"

definition stream_of :: "int \<Rightarrow> circuit \<Rightarrow> int" where
  "stream_of side c = (if side = FORWARD_SIDE_CALLER then ci_callerStreamId c else ci_nextStreamId c)"

definition queue_of :: "int \<Rightarrow> circuit \<Rightarrow> prepared_frame list" where
  "queue_of side c = (if side = FORWARD_SIDE_CALLER then ci_callerQueue c else ci_nextQueue c)"

definition upd_queue :: "int \<Rightarrow> (prepared_frame list \<Rightarrow> prepared_frame list) \<Rightarrow> circuit \<Rightarrow> circuit" where
  "upd_queue side f c =
     (if side = FORWARD_SIDE_CALLER then c\<lparr>ci_callerQueue := f (ci_callerQueue c)\<rparr>
      else c\<lparr>ci_nextQueue := f (ci_nextQueue c)\<rparr>)"

subsection \<open>Construction\<close>

text \<open>
  The port of the next hop is given at construction, the caller's by \<^verbatim>\<open>attachCaller\<close>; ports
  pass \<^verbatim>\<open>validatePort\<close>.  The two class ids are numbers, as the codec of OPEN delivers them.
\<close>

definition ForwardCircuit :: "scope_ref \<Rightarrow> jsval \<Rightarrow> circuit res" where
  "ForwardCircuit i options =
     rbind (session_bytes (getf options ''circuitNonce'') 32 32) (\<lambda>nonce.
     rbind (session_u64 (getf options ''callerStreamId'')) (\<lambda>callerStreamId.
     rbind (session_u64 (getf options ''nextStreamId'')) (\<lambda>nextStreamId.
     if callerStreamId = 0 \<or> nextStreamId = 0 then Inl BAD_ENCODING else
     case (STREAM_WIRE_CLASS (numf options ''wireClass''), FORWARD_CIRCUIT_CLASS (numf options ''circuitClass'')) of
       (Some maxDataBytes, Some limits) \<Rightarrow>
         Inr \<lparr>ci_scope = i, ci_nonce = nonce, ci_callerStreamId = callerStreamId, ci_nextStreamId = nextStreamId,
           ci_maxDataBytes = int maxDataBytes, ci_callerState = streamState (cc_grantedInitialWindow limits),
           ci_nextState = streamState (cc_grantedInitialWindow limits), ci_callerQueue = [], ci_nextQueue = [],
           ci_attached = False, ci_written = []\<rparr>
     | _ \<Rightarrow> Inl BAD_ENCODING)))"

definition attachCaller :: "stream_env \<Rightarrow> ready_hook \<Rightarrow> (relay, unit) act" where
  "attachCaller E ready =
     abind (gets rl_circuit) (\<lambda>c.
     abind (on_plane (assertActive E ready (ci_scope c))) (\<lambda>_.
     if ci_attached c then throw RETRY_TERMINAL else on_circuit (\<lambda>c. c\<lparr>ci_attached := True\<rparr>)))"

subsection \<open>Receiving a frame\<close>

definition decodeActiveBody :: "jsval \<Rightarrow> jsval res" where
  "decodeActiveBody frame =
     (if getf frame ''operationId'' = JNum OPERATION_FORWARD_DATA
      then decodeCanonical blindForwardDataV1 (getf frame ''body'') False
      else if getf frame ''operationId'' = JNum OPERATION_FORWARD_WINDOW
      then decodeCanonical blindForwardWindowV1 (getf frame ''body'') False
      else if getf frame ''operationId'' = JNum OPERATION_FORWARD_CLOSE
      then decodeCanonical blindForwardCloseV1 (getf frame ''body'') False
      else Inl BAD_ENCODING)"

text \<open>Each branch returns the buffer reservation and whether the circuit ends after delivery.\<close>

definition prepare_data :: "stream_env \<Rightarrow> ready_hook \<Rightarrow> int \<Rightarrow> jsval \<Rightarrow> (relay, nat option \<times> bool) act" where
  "prepare_data E ready side body =
     abind (gets rl_circuit) (\<lambda>c.
     let state = dir_of side c; n = int (length (bytesf body ''bytes'')) in
     if fin state then throw RETRY_TERMINAL else
     if bigf body ''offset'' \<noteq> nextOffset state then throw BAD_ENCODING else
     if n > ci_maxDataBytes c then throw TOO_LARGE else
     if n > availableCredit state then throw TOO_LARGE else
     abind (on_plane (countBytes E ready (ci_scope c) n)) (\<lambda>_.
     abind (on_plane (reserveBuffer E ready (ci_scope c) n)) (\<lambda>reservation.
     abind (on_circuit (upd_dir side (\<lambda>s. s\<lparr>nextOffset := nextOffset s + n,
       availableCredit := availableCredit s - n\<rparr>))) (\<lambda>_.
     ret (Some reservation, False)))))"

definition prepare_window :: "stream_env \<Rightarrow> ready_hook \<Rightarrow> int \<Rightarrow> jsval \<Rightarrow> (relay, nat option \<times> bool) act" where
  "prepare_window E ready target body =
     abind (gets rl_circuit) (\<lambda>c.
     let sent = dir_of target c; through = bigf body ''consumedThrough''; increment = numf body ''creditIncrement'' in
     if through \<le> consumedThrough sent \<or> through > nextOffset sent then throw BAD_ENCODING else
     if increment > through - consumedThrough sent then throw BAD_ENCODING else
     let nextAvailable = availableCredit sent + increment; remainingOutstanding = nextOffset sent - through in
     if nextAvailable > DISPATCH_LIMITS_MAX_FORWARD_WINDOW_BYTES \<or>
        nextAvailable + remainingOutstanding > DISPATCH_LIMITS_MAX_FORWARD_WINDOW_BYTES then throw TOO_LARGE else
     abind (on_circuit (upd_dir target (\<lambda>s. s\<lparr>consumedThrough := through, availableCredit := nextAvailable\<rparr>))) (\<lambda>_.
     abind (on_plane (touch E ready (ci_scope c))) (\<lambda>_.
     ret (None, False))))"

definition prepare_close :: "stream_env \<Rightarrow> ready_hook \<Rightarrow> int \<Rightarrow> jsval \<Rightarrow> (relay, nat option \<times> bool) act" where
  "prepare_close E ready side body =
     abind (gets rl_circuit) (\<lambda>c.
     let state = dir_of side c in
     if bigf body ''finalSendOffset'' \<noteq> nextOffset state then throw BAD_ENCODING else
     if numf body ''closeKind'' = FORWARD_CLOSE_KIND_FIN then
       if fin state then throw RETRY_TERMINAL else
       abind (on_circuit (upd_dir side (\<lambda>s. s\<lparr>fin := True\<rparr>))) (\<lambda>_.
       abind (on_plane (touch E ready (ci_scope c))) (\<lambda>_.
       ret (None, False)))
     else ret (None, True))"

definition outbound_frame :: "jsval \<Rightarrow> int \<Rightarrow> jsval" where
  "outbound_frame frame targetStreamId = JObj [
     (''frameKind'', JNum FRAME_KIND_STREAM), (''familyId'', JNum FAMILY_FORWARD),
     (''operationId'', getf frame ''operationId''), (''requestId'', JBytes (replicate 16 0)),
     (''streamId'', JBig targetStreamId), (''sequence'', getf frame ''sequence''),
     (''body'', getf frame ''body'')]"

text \<open>\<^verbatim>\<open>_prepare\<close> from the decoding of the body on.\<close>

definition relay_frame :: "stream_env \<Rightarrow> ready_hook \<Rightarrow> int \<Rightarrow> int \<Rightarrow> circuit \<Rightarrow> jsval \<Rightarrow> (relay, prepared_frame) act" where
  "relay_frame E ready side target c frame =
     abind (lift (decodeActiveBody frame)) (\<lambda>body.
     if bytesf body ''circuitNonce'' \<noteq> ci_nonce c then throw BAD_ENCODING else
     abind (if getf frame ''operationId'' = JNum OPERATION_FORWARD_DATA then prepare_data E ready side body
        else if getf frame ''operationId'' = JNum OPERATION_FORWARD_WINDOW then prepare_window E ready target body
        else prepare_close E ready side body) (\<lambda>(reservation, abortAfterDelivery).
     abind (lift (encodeDispatchFrame (outbound_frame frame (stream_of target c)))) (\<lambda>outbound.
     ret \<lparr>pr_side = side, pr_targetSide = target, pr_outbound = outbound, pr_reservation = reservation,
       pr_abortAfterDelivery = abortAfterDelivery\<rparr>)))"

definition prepare :: "stream_env \<Rightarrow> ready_hook \<Rightarrow> int \<Rightarrow> jsval \<Rightarrow> (relay, prepared_frame) act" where
  "prepare E ready side rawFrame =
     abind (gets rl_circuit) (\<lambda>c.
     abind (on_plane (assertActive E ready (ci_scope c))) (\<lambda>_.
     abind (lift (opposite side)) (\<lambda>target.
     abind (lift (decodeDispatchFrame rawFrame True)) (\<lambda>frame.
     if getf frame ''frameKind'' \<noteq> JNum FRAME_KIND_STREAM \<or> getf frame ''familyId'' \<noteq> JNum FAMILY_FORWARD \<or>
        getf frame ''streamId'' \<noteq> JBig (stream_of side c) then throw BAD_ENCODING else
     if getf frame ''sequence'' \<noteq> JBig (nextSequence (dir_of side c)) then throw BAD_ENCODING else
     abind (on_circuit (upd_dir side (\<lambda>s. s\<lparr>nextSequence := nextSequence s + 1\<rparr>))) (\<lambda>_.
     relay_frame E ready side target c frame)))))"

definition receive :: "stream_env \<Rightarrow> ready_hook \<Rightarrow> int \<Rightarrow> jsval \<Rightarrow> (relay, prepared_frame) act" where
  "receive E ready side rawFrame r = (case prepare E ready side rawFrame r of
     (Inl e, q) \<Rightarrow> (Inl e, q\<lparr>rl_plane := scope_close (ci_scope (rl_circuit q)) ''malformed-forward-frame'' (rl_plane q)\<rparr>)
   | (Inr p, q) \<Rightarrow> (Inr p, q\<lparr>rl_circuit := upd_queue side (\<lambda>ps. ps @ [p]) (rl_circuit q)\<rparr>))"

subsection \<open>Delivering a frame\<close>

definition release_reservation :: "prepared_frame \<Rightarrow> plane \<Rightarrow> plane" where
  "release_reservation pr p = (case pr_reservation pr of None \<Rightarrow> p | Some j \<Rightarrow> releaseBuffer j p)"

definition has_port :: "int \<Rightarrow> circuit \<Rightarrow> bool" where
  "has_port side c = (side = FORWARD_SIDE_NEXT_HOP \<or> side = FORWARD_SIDE_CALLER \<and> ci_attached c)"

text \<open>\<open>failure\<close> is the error of the host's write, \<open>None\<close> when the write succeeds.\<close>

definition deliver_one :: "perr option \<Rightarrow> prepared_frame \<Rightarrow> (relay, unit) act" where
  "deliver_one failure pr r = (
     let c = rl_circuit r; i = ci_scope c; p = rl_plane r in
     if \<not> has_port (pr_targetSide pr) c then
       (Inl RETRY_TERMINAL, r\<lparr>rl_plane := scope_close i ''forward-target-unattached'' (release_reservation pr p)\<rparr>)
     else
       let c = c\<lparr>ci_written := ci_written c @ [(pr_targetSide pr, pr_outbound pr)]\<rparr>; r = r\<lparr>rl_circuit := c\<rparr> in
       if ss_closed (scope_at i p) \<or> failure \<noteq> None then
         (Inl (if ss_closed (scope_at i p) then RETRY_TERMINAL else the failure),
          r\<lparr>rl_plane := release_reservation pr (scope_close i ''forward-write-failed'' p)\<rparr>)
       else
         let p = release_reservation pr p in
         if pr_abortAfterDelivery pr then (Inr (), r\<lparr>rl_plane := scope_close i ''forward-abort'' p\<rparr>)
         else if fin (ci_callerState c) \<and> fin (ci_nextState c) \<and> ss_buffered (scope_at i p) = 0
         then (Inr (), r\<lparr>rl_plane := scope_close i ''clean-fin'' p\<rparr>)
         else (Inr (), r\<lparr>rl_plane := p\<rparr>))"

definition deliver :: "perr option \<Rightarrow> int \<Rightarrow> (relay, unit) act" where
  "deliver failure side r = (case queue_of side (rl_circuit r) of
     [] \<Rightarrow> (Inr (), r)
   | pr # prs \<Rightarrow> deliver_one failure pr (r\<lparr>rl_circuit := upd_queue side (\<lambda>_. prs) (rl_circuit r)\<rparr>))"

end
