(* ===== verification/Stream_Tickets_Laws.thy ===== *)
theory Stream_Tickets_Laws
  imports Stream_Tickets "HOL-Library.Multiset"
begin

text \<open>
  Laws of the ticket table: its invariant, what issuing and consuming a ticket do, and the
  traces of a table, from which follows that a ticket is used at most once.
\<close>

subsection \<open>The clock and the entropy source\<close>

lemma currentMonotonic_state [simp]: "snd (currentMonotonic E s) = s\<lparr>now_calls := Suc (now_calls s)\<rparr>"
  by (simp add: currentMonotonic_def)

lemma currentMonotonic_Inr:
  "currentMonotonic E s = (Inr now, t) \<longleftrightarrow> env_now E (now_calls s) = JBig now \<and> 0 \<le> now \<and> now \<le> MAX_U64 \<and>
     t = s\<lparr>now_calls := Suc (now_calls s)\<rparr>"
  by (auto simp: currentMonotonic_def split: jsval.splits)

text \<open>Actions that only count calls of the hooks leave everything else as it was.\<close>

definition only_calls :: "'p tickets \<Rightarrow> 'p tickets \<Rightarrow> bool" where
  "only_calls s t = (maxTickets t = maxTickets s \<and> ttlMillis t = ttlMillis s \<and> ticket_records t = ticket_records s)"

lemma only_calls_refl [simp]: "only_calls s s"
  by (simp add: only_calls_def)

lemma only_calls_upd [simp]:
  "only_calls s (t\<lparr>now_calls := n\<rparr>) = only_calls s t" "only_calls s (t\<lparr>random_calls := n\<rparr>) = only_calls s t"
  by (simp_all add: only_calls_def)

lemma nonzeroRandomTicket_result:
  assumes "nonzeroRandomTicket E n s = (r, t)"
  shows "only_calls s t" "r = Inr token \<Longrightarrow> length token = 32 \<and> \<not> isAllZero token"
proof -
  have "only_calls s t \<and> (r = Inr token \<longrightarrow> length token = 32 \<and> \<not> isAllZero token)"
    using assms
  proof (induction n arbitrary: s)
    case (Suc n)
    then show ?case
      by (cases "session_bytes (env_random E (random_calls s)) 32 32")
        (fastforce simp: abind_def draw_def session_bytes_def rbind_Inr_iff only_calls_def split: if_splits)+
  qed auto
  then show "only_calls s t" "r = Inr token \<Longrightarrow> length token = 32 \<and> \<not> isAllZero token" by blast+
qed

lemma fresh_token_result:
  assumes "fresh_token E n s = (r, t)"
  shows "only_calls s t"
    and "r = Inr token \<Longrightarrow> length token = 32 \<and> \<not> isAllZero token \<and> map_of (ticket_records s) token = None"
proof -
  have "only_calls s t \<and> (r = Inr token \<longrightarrow>
      length token = 32 \<and> \<not> isAllZero token \<and> map_of (ticket_records s) token = None)"
    using assms
  proof (induction n arbitrary: s)
    case (Suc n)
    obtain r' u where u: "nonzeroRandomTicket E 4 s = (r', u)" by force
    note ticket = nonzeroRandomTicket_result [OF u]
    show ?case
    proof (cases r')
      case (Inl e)
      then show ?thesis using Suc.prems u ticket(1) by (auto simp: abind_def)
    next
      case (Inr tok)
      then have tok: "length tok = 32 \<and> \<not> isAllZero tok" using ticket(2) by blast
      have same: "ticket_records u = ticket_records s" using ticket(1) by (simp add: only_calls_def)
      show ?thesis
      proof (cases "map_of (ticket_records s) tok")
        case None
        then show ?thesis using Suc.prems u ticket(1) Inr tok same by (auto simp: abind_def)
      next
        case (Some x)
        then have "fresh_token E n u = (r, t)" using Suc.prems u Inr same by (simp add: abind_def)
        from Suc.IH [OF this] ticket(1) same show ?thesis by (auto simp: only_calls_def)
      qed
    qed
  qed auto
  then show "only_calls s t"
    and "r = Inr token \<Longrightarrow> length token = 32 \<and> \<not> isAllZero token \<and> map_of (ticket_records s) token = None"
    by blast+
qed

subsection \<open>Issuing\<close>

text \<open>Every way to lose tickets removes some entries and keeps the order of the rest.\<close>

definition thinned :: "'p tickets \<Rightarrow> 'p tickets \<Rightarrow> bool" where
  "thinned s t = (maxTickets t = maxTickets s \<and> ttlMillis t = ttlMillis s \<and>
     (\<exists>P. ticket_records t = filter P (ticket_records s)))"

lemma thinned_filter [simp]: "thinned s (s\<lparr>ticket_records := filter P (ticket_records s)\<rparr>)"
  by (auto simp: thinned_def)

lemma only_calls_thinned: "only_calls s t \<Longrightarrow> thinned s t"
  by (auto simp: thinned_def only_calls_def intro: exI [of _ "\<lambda>_. True"])

lemma thinned_trans: "thinned s t \<Longrightarrow> thinned t u \<Longrightarrow> thinned s u"
  by (force simp: thinned_def)

lemma thinned_refl [simp]: "thinned s s"
  by (simp add: only_calls_thinned)

lemma thinned_upd [simp]:
  "thinned s (t\<lparr>now_calls := n\<rparr>) = thinned s t" "thinned (s\<lparr>now_calls := n\<rparr>) t = thinned s t"
  "thinned s (t\<lparr>random_calls := n\<rparr>) = thinned s t"
  by (simp_all add: thinned_def)

lemma sweep_simps [simp]:
  "maxTickets (sweep now s) = maxTickets s" "ttlMillis (sweep now s) = ttlMillis s"
  "now_calls (sweep now s) = now_calls s" "random_calls (sweep now s) = random_calls s"
  "sweep now (s\<lparr>now_calls := n\<rparr>) = (sweep now s)\<lparr>now_calls := n\<rparr>"
  by (simp_all add: sweep_def)

lemma if_less_min: "(if a < b then a else b) = min a (b :: int)"
  by simp

lemma sweep_thinned [simp]: "thinned s (sweep now s)"
  by (simp add: sweep_def)

lemma revokeScope_thinned [simp]: "thinned s (revokeScope key s)"
  by (simp add: revokeScope_def)

lemma tickets_clear_thinned [simp]: "thinned s (tickets_clear s)"
  by (auto simp: tickets_clear_def thinned_def intro: exI [of _ "\<lambda>_. False"])

definition new_ticket :: "bytes \<Rightarrow> string \<Rightarrow> 'p \<Rightarrow> int \<Rightarrow> 'p ticket" where
  "new_ticket h sc p x = \<lparr>tk_bindingHash = h, tk_scopeId = sc, tk_payload = p, tk_expires = x\<rparr>"

lemma issue_Inl:
  assumes "issue E binding sc p x s = (Inl e, t)"
  shows "thinned s t"
proof -
  obtain r u where c: "currentMonotonic E s = (r, u)" by force
  then have u: "u = s\<lparr>now_calls := Suc (now_calls s)\<rparr>" using currentMonotonic_state [of E s] by simp
  show ?thesis
  proof (cases r)
    case (Inl e')
    then show ?thesis using assms c by (auto simp: issue_def abind_def u)
  next
    case (Inr now)
    define v where "v = sweep now u"
    have v: "thinned s v" using sweep_thinned [of u now] unfolding v_def u by simp
    have "thinned v w" if "fresh_token E n v = (r', w)" for n r' w
      using fresh_token_result(1) [OF that] by (rule only_calls_thinned)
    with assms c Inr v show ?thesis
      by (auto simp: issue_def abind_def Let_def v_def [symmetric]
          split: if_splits sum.splits prod.splits intro: thinned_trans)
  qed
qed

lemma issue_Inr:
  assumes "issue E binding sc p x s = (Inr token, t)"
  obtains now h y k where "env_now E (now_calls s) = JBig now" "0 \<le> now" "now \<le> MAX_U64"
    "int (length (ticket_records (sweep now s))) < maxTickets s"
    "fixed32 binding = Inr h" "1 \<le> length sc" "length sc \<le> 128"
    "session_u64 x = Inr y" "k = min y (now + ttlMillis s)" "now < k"
    "length token = 32" "\<not> isAllZero token" "map_of (ticket_records (sweep now s)) token = None"
    "ticket_records t = ticket_records (sweep now s) @ [(token, new_ticket h sc p k)]"
    "maxTickets t = maxTickets s" "ttlMillis t = ttlMillis s"
proof -
  from assms obtain now u h y v where
    c: "currentMonotonic E s = (Inr now, u)"
    and f: "fresh_token E (env_rounds E) (sweep now u) = (Inr token, v)"
    and t: "t = v\<lparr>ticket_records := ticket_records v @
      [(token, new_ticket h sc p (min y (now + ttlMillis s)))]\<rparr>"
    and rest: "int (length (ticket_records (sweep now u))) < maxTickets (sweep now u)" "fixed32 binding = Inr h"
      "1 \<le> length sc" "length sc \<le> 128" "session_u64 x = Inr y" "now < min y (now + ttlMillis (sweep now u))"
    by (fastforce simp: issue_def abind_Inr_iff Let_def if_less_min new_ticket_def
        currentMonotonic_Inr not_le not_less Suc_le_eq split: if_split_asm)
  have swept: "ticket_records (sweep now u) = ticket_records (sweep now s)"
    "maxTickets (sweep now u) = maxTickets s" "ttlMillis (sweep now u) = ttlMillis s"
    using c by (simp_all add: currentMonotonic_Inr)
  have "only_calls (sweep now u) v" by (rule fresh_token_result(1) [OF f])
  then have v: "ticket_records v = ticket_records (sweep now s)" "maxTickets v = maxTickets s"
    "ttlMillis v = ttlMillis s"
    using swept by (simp_all add: only_calls_def)
  have tok: "length token = 32 \<and> \<not> isAllZero token \<and> map_of (ticket_records (sweep now s)) token = None"
    using fresh_token_result(2) [OF f refl] unfolding swept .
  show thesis
    by (rule that [of now h y "min y (now + ttlMillis s)"])
      (use c rest tok v swept in \<open>auto simp: currentMonotonic_Inr t\<close>)
qed

subsection \<open>Consuming\<close>

lemma delete_thinned [simp]: "thinned s (s\<lparr>ticket_records := AList.delete key (ticket_records s)\<rparr>)"
  by (simp add: AList.delete_eq)

lemma consume_thinned:
  assumes "consume E token binding s = (r, t)"
  shows "thinned s t"
  using assms
  by (auto simp: consume_def abind_def currentMonotonic_def
      split: sum.splits option.splits if_splits prod.splits intro: thinned_refl)

text \<open>A known ticket is gone after any attempt to consume it, successful or not.\<close>

lemma consume_burns:
  assumes "session_bytes token 32 32 = Inr key" "fixed32 binding = Inr h" "consume E token binding s = (r, t)"
  shows "map_of (ticket_records t) key = None"
  using assms
  by (auto simp: consume_def abind_def currentMonotonic_def AList.delete_conv'
      split: sum.splits option.splits if_splits prod.splits)

lemma consume_unknown:
  assumes "session_bytes token 32 32 = Inr key" "fixed32 binding = Inr h"
    "map_of (ticket_records s) key = None"
  shows "consume E token binding s = (Inl RETRY_TERMINAL, s)"
  using assms by (simp add: consume_def abind_def)

lemma consume_Inr:
  assumes "consume E token binding s = (Inr p, t)"
  obtains key h now r where "session_bytes token 32 32 = Inr key" "fixed32 binding = Inr h"
    "map_of (ticket_records s) key = Some r" "tk_payload r = p" "tk_bindingHash r = h"
    "env_now E (now_calls s) = JBig now" "now < tk_expires r"
    "ticket_records t = AList.delete key (ticket_records s)" "maxTickets t = maxTickets s"
  using assms
  by (auto simp: consume_def abind_Inr_iff currentMonotonic_Inr not_le split: option.splits if_splits)

lemma consume_known:
  assumes "session_bytes token 32 32 = Inr key" "fixed32 binding = Inr (tk_bindingHash r)"
    "map_of (ticket_records s) key = Some r"
    "env_now E (now_calls s) = JBig now" "0 \<le> now" "now \<le> MAX_U64" "now < tk_expires r"
  shows "consume E token binding s =
    (Inr (tk_payload r), s\<lparr>ticket_records := AList.delete key (ticket_records s), now_calls := Suc (now_calls s)\<rparr>)"
  using assms by (simp add: consume_def abind_def currentMonotonic_def)

subsection \<open>The invariant of the table\<close>

definition tickets_ok :: "'p tickets \<Rightarrow> bool" where
  "tickets_ok s = (1 \<le> maxTickets s \<and> distinct (map fst (ticket_records s)) \<and>
     int (length (ticket_records s)) \<le> maxTickets s)"

lemma thinned_ok:
  assumes "thinned s t" "tickets_ok s"
  shows "tickets_ok t"
proof -
  from assms(1) obtain P where "ticket_records t = filter P (ticket_records s)" "maxTickets t = maxTickets s"
    by (auto simp: thinned_def)
  moreover have "int (length (filter P (ticket_records s))) \<le> maxTickets s"
    using assms(2) length_filter_le [of P "ticket_records s"] unfolding tickets_ok_def by linarith
  ultimately show ?thesis using assms(2) by (simp add: tickets_ok_def distinct_map_filter)
qed

lemma issue_ok:
  assumes "issue E binding sc p x s = (r, t)" "tickets_ok s"
  shows "tickets_ok t"
proof (cases r)
  case (Inl e)
  then have "thinned s t" using assms(1) by (simp add: issue_Inl)
  then show ?thesis using assms(2) by (rule thinned_ok)
next
  case (Inr token)
  with assms(1) obtain now h k where
    "int (length (ticket_records (sweep now s))) < maxTickets s"
    "map_of (ticket_records (sweep now s)) token = None"
    "ticket_records t = ticket_records (sweep now s) @ [(token, new_ticket h sc p k)]"
    "maxTickets t = maxTickets s"
    by (auto elim: issue_Inr)
  moreover have "tickets_ok (sweep now s)" by (rule thinned_ok [OF sweep_thinned assms(2)])
  ultimately show ?thesis by (auto simp: tickets_ok_def map_of_eq_None_iff)
qed

subsection \<open>Traces of a table\<close>

datatype 'p ticket_event = Issued bytes 'p | Consumed bytes 'p | Lost

inductive ticket_step :: "stream_env \<Rightarrow> 'p tickets \<Rightarrow> 'p ticket_event \<Rightarrow> 'p tickets \<Rightarrow> bool" for E where
  step_issue: "issue E binding sc p x s = (Inr token, t) \<Longrightarrow> ticket_step E s (Issued token p) t"
| step_refuse: "issue E binding sc p x s = (Inl e, t) \<Longrightarrow> ticket_step E s Lost t"
| step_consume: "consume E v binding s = (Inr p, t) \<Longrightarrow> session_bytes v 32 32 = Inr token \<Longrightarrow>
    ticket_step E s (Consumed token p) t"
| step_deny: "consume E v binding s = (Inl e, t) \<Longrightarrow> ticket_step E s Lost t"
| step_revoke: "ticket_step E s Lost (revokeScope key s)"
| step_sweep: "sweep_now E s = (r, t) \<Longrightarrow> ticket_step E s Lost t"
| step_clear: "ticket_step E s Lost (tickets_clear s)"

inductive_cases issued_cases: "ticket_step E s (Issued token p) t"
inductive_cases consumed_cases: "ticket_step E s (Consumed token p) t"
inductive_cases lost_cases: "ticket_step E s Lost t"

inductive ticket_trace :: "stream_env \<Rightarrow> 'p tickets \<Rightarrow> 'p ticket_event list \<Rightarrow> 'p tickets \<Rightarrow> bool" for E s where
  trace_start: "ticket_trace E s [] s"
| trace_step: "ticket_trace E s es t \<Longrightarrow> ticket_step E t e u \<Longrightarrow> ticket_trace E s (es @ [e]) u"

fun issued_by :: "'p ticket_event \<Rightarrow> (bytes \<times> 'p) multiset" where
  "issued_by (Issued token p) = {#(token, p)#}"
| "issued_by _ = {#}"

fun consumed_by :: "'p ticket_event \<Rightarrow> (bytes \<times> 'p) multiset" where
  "consumed_by (Consumed token p) = {#(token, p)#}"
| "consumed_by _ = {#}"

definition issued :: "'p ticket_event list \<Rightarrow> (bytes \<times> 'p) multiset" where
  "issued es = sum_list (map issued_by es)"

definition consumed :: "'p ticket_event list \<Rightarrow> (bytes \<times> 'p) multiset" where
  "consumed es = sum_list (map consumed_by es)"

definition outstanding :: "'p tickets \<Rightarrow> (bytes \<times> 'p) multiset" where
  "outstanding s = image_mset (\<lambda>(token, r). (token, tk_payload r)) (mset (ticket_records s))"

lemma thinned_outstanding: "thinned s t \<Longrightarrow> outstanding t \<subseteq># outstanding s"
  by (auto simp: thinned_def outstanding_def intro!: image_mset_subseteq_mono multiset_filter_subset)

lemma sweep_now_thinned: "sweep_now E s = (r, t) \<Longrightarrow> thinned s t"
  by (auto simp: sweep_now_def abind_def currentMonotonic_def split: sum.splits)

lemma lost_thinned: "ticket_step E s Lost t \<Longrightarrow> thinned s t"
  by (erule lost_cases)
    (auto dest: issue_Inl consume_thinned sweep_now_thinned)

lemma consume_outstanding:
  assumes "map_of xs key = Some r"
  shows "add_mset (key, tk_payload r) (image_mset (\<lambda>(token, r). (token, tk_payload r)) (mset (AList.delete key xs)))
    \<subseteq># image_mset (\<lambda>(token, r). (token, tk_payload r)) (mset xs)"
  using assms
proof (induction xs)
  case (Cons x xs)
  show ?case
  proof (cases "fst x = key")
    case True
    then have "r = snd x" using Cons.prems by (cases x) simp
    moreover have "mset (AList.delete key xs) \<subseteq># mset xs" by (simp add: AList.delete_eq)
    ultimately show ?thesis using True
      by (cases x) (simp add: AList.delete_eq image_mset_subseteq_mono)
  next
    case False
    with Cons show ?thesis by (cases x) (auto simp: add_mset_commute)
  qed
qed simp

lemma step_balance:
  assumes "ticket_step E s e t"
  shows "consumed_by e + outstanding t \<subseteq># issued_by e + outstanding s"
proof (cases e)
  case (Issued token p)
  then obtain now h sc k where
    "ticket_records t = ticket_records (sweep now s) @ [(token, new_ticket h sc p k)]"
    using assms by (auto elim!: issued_cases issue_Inr)
  moreover have "outstanding (sweep now s) \<subseteq># outstanding s"
    by (rule thinned_outstanding [OF sweep_thinned])
  ultimately show ?thesis using Issued by (simp add: outstanding_def new_ticket_def)
next
  case (Consumed token p)
  with assms obtain v binding where c: "consume E v binding s = (Inr p, t)" "session_bytes v 32 32 = Inr token"
    by (auto elim: consumed_cases)
  from c(1) obtain key r where "session_bytes v 32 32 = Inr key" "map_of (ticket_records s) key = Some r"
    "tk_payload r = p" "ticket_records t = AList.delete key (ticket_records s)"
    by (rule consume_Inr)
  with c(2) consume_outstanding [of "ticket_records s" key r] show ?thesis
    by (simp add: Consumed outstanding_def)
next
  case Lost
  then show ?thesis using assms thinned_outstanding [OF lost_thinned] by simp
qed

lemma trace_balance:
  assumes "ticket_trace E s es t"
  shows "consumed es + outstanding t \<subseteq># issued es + outstanding s"
  using assms
proof induction
  case (trace_step es t e u)
  from step_balance [OF trace_step(2)]
  have "consumed es + (consumed_by e + outstanding u) \<subseteq># consumed es + (issued_by e + outstanding t)"
    by (rule mset_subset_eq_mono_add_left_cancel [THEN iffD2])
  also have "\<dots> = issued_by e + (consumed es + outstanding t)" by (simp add: ac_simps)
  also have "\<dots> \<subseteq># issued_by e + (issued es + outstanding s)"
    using trace_step.IH by simp
  finally show ?case by (simp add: issued_def consumed_def ac_simps)
qed (simp add: issued_def consumed_def)

lemma trace_ok:
  assumes "ticket_trace E s es t" "tickets_ok s"
  shows "tickets_ok t"
  using assms
proof induction
  case (trace_step es t e u)
  then have "tickets_ok t" by simp
  from trace_step(2) this show ?case
    by (cases e) (auto elim!: issued_cases consumed_cases
      dest: issue_ok thinned_ok [OF consume_thinned] thinned_ok [OF lost_thinned])
qed simp

subsection \<open>Drawing a fresh token ends\<close>

definition good_draw :: "stream_env \<Rightarrow> nat \<Rightarrow> bytes \<Rightarrow> bool" where
  "good_draw E n token = (env_random E n = JBytes token \<and> length token = 32 \<and> \<not> isAllZero token)"

lemma nonzeroRandomTicket_good:
  assumes "good_draw E (random_calls s) token"
  shows "nonzeroRandomTicket E (Suc n) s = (Inr token, s\<lparr>random_calls := Suc (random_calls s)\<rparr>)"
  using assms by (simp add: abind_def draw_def good_draw_def session_bytes_def hBuffer_def)

lemma fresh_token_good:
  assumes "\<And>j. j \<le> k \<Longrightarrow> good_draw E (random_calls s + j) (tok j)"
    and "\<And>j. j < k \<Longrightarrow> map_of (ticket_records s) (tok j) \<noteq> None"
    and "map_of (ticket_records s) (tok k) = None" "k < rounds"
  shows "fresh_token E rounds s = (Inr (tok k), s\<lparr>random_calls := random_calls s + k + 1\<rparr>)"
  using assms
proof (induction k arbitrary: s rounds tok)
  case 0
  then obtain n where "rounds = Suc n" by (cases rounds) auto
  moreover have "nonzeroRandomTicket E 4 s = (Inr (tok 0), s\<lparr>random_calls := Suc (random_calls s)\<rparr>)"
    using "0.prems"(1) [of 0] nonzeroRandomTicket_good [of E s "tok 0" 3] by simp
  ultimately show ?case using "0.prems"(3) by (simp add: abind_def)
next
  case (Suc k)
  then obtain n where n: "rounds = Suc n" "k < n" by (cases rounds) auto
  let ?s = "s\<lparr>random_calls := Suc (random_calls s)\<rparr>"
  have "nonzeroRandomTicket E 4 s = (Inr (tok 0), ?s)"
    using Suc.prems(1) [of 0] nonzeroRandomTicket_good [of E s "tok 0" 3] by simp
  moreover have "fresh_token E n ?s = (Inr (tok (Suc k)), ?s\<lparr>random_calls := random_calls ?s + k + 1\<rparr>)"
  proof (rule Suc.IH [of ?s "\<lambda>j. tok (Suc j)" n])
    show "good_draw E (random_calls ?s + j) (tok (Suc j))" if "j \<le> k" for j
      using Suc.prems(1) [of "Suc j"] that by simp
    show "map_of (ticket_records ?s) (tok (Suc j)) \<noteq> None" if "j < k" for j
      using Suc.prems(2) [of "Suc j"] that by simp
  qed (use Suc.prems(3) n in simp_all)
  ultimately show ?case using Suc.prems(2) [of 0] by (simp add: abind_def n)
qed

text \<open>
  Among more distinct tokens than the table has entries, one is not in the table: a source
  that does not repeat itself ends the loop within one round more than there are tickets.
\<close>

lemma fresh_token_returns:
  assumes draws: "\<And>j. j \<le> length (ticket_records s) \<Longrightarrow> good_draw E (random_calls s + j) (tok j)"
    and inj: "inj_on tok {.. length (ticket_records s)}" and rounds: "length (ticket_records s) < rounds"
  shows "\<exists>k. k \<le> length (ticket_records s) \<and> map_of (ticket_records s) (tok k) = None \<and>
    fresh_token E rounds s = (Inr (tok k), s\<lparr>random_calls := random_calls s + k + 1\<rparr>)"
proof -
  let ?n = "length (ticket_records s)" and ?free = "\<lambda>k. map_of (ticket_records s) (tok k) = None"
  have "\<exists>k\<le>?n. ?free k"
  proof (rule ccontr)
    assume "\<not> ?thesis"
    then have "tok ` {..?n} \<subseteq> fst ` set (ticket_records s)" by (auto simp: map_of_eq_None_iff)
    then have "card (tok ` {..?n}) \<le> card (fst ` set (ticket_records s))" by (intro card_mono) auto
    also have "\<dots> \<le> card (set (ticket_records s))" by (rule card_image_le) simp
    also have "\<dots> \<le> ?n" by (rule card_length)
    finally show False using card_image [OF inj] by simp
  qed
  then obtain k where k: "?free k" "k \<le> ?n" and least: "\<And>j. j < k \<Longrightarrow> \<not> ?free j"
    using exists_least_iff [of ?free] by (metis (no_types, lifting) le_trans linorder_not_less order_less_imp_le)
  have "fresh_token E rounds s = (Inr (tok k), s\<lparr>random_calls := random_calls s + k + 1\<rparr>)"
    by (rule fresh_token_good) (use draws least k rounds in auto)
  with k show ?thesis by blast
qed

end
