(* ===== verification/Stream_Session_Laws.thy ===== *)
theory Stream_Session_Laws
  imports Stream_Session Stream_Tickets_Laws
begin

text \<open>
  The invariant of the stream plane, in three parts: the session table and the life of a
  scope, the accounting of buffered bytes, and the tickets.  Every operation changes the
  plane by a few elementary updates; the invariant is proved for those and carried to the
  operations by the rules for actions.
\<close>

subsection \<open>The invariant\<close>

definition open_at :: "plane \<Rightarrow> scope_ref \<Rightarrow> bool" where
  "open_at p i = (i < length (pl_scopes p) \<and> \<not> ss_closed (scope_at i p))"

definition sessions_ok :: "plane \<Rightarrow> bool" where
  "sessions_ok p = (
     distinct (map fst (pl_sessions p)) \<and>
     (\<forall>k i. (k, i) \<in> set (pl_sessions p) \<longrightarrow> open_at p i \<and> ss_key (scope_at i p) = k) \<and>
     (\<forall>i. open_at p i \<longrightarrow> (ss_key (scope_at i p), i) \<in> set (pl_sessions p)) \<and>
     (\<forall>i < length (pl_scopes p). ss_closeStarted (scope_at i p) = ss_closed (scope_at i p)) \<and>
     int (length (pl_sessions p)) \<le> pl_maxStreams p \<and>
     distinct (map fst (pl_closes p)) \<and>
     fst ` set (pl_closes p) = {i. i < length (pl_scopes p) \<and> ss_closed (scope_at i p)} \<and>
     (pl_closing p \<longrightarrow> pl_sessions p = []))"

definition active :: "plane \<Rightarrow> scope_ref \<Rightarrow> nat set" where
  "active p i = {j. j < length (pl_reservations p) \<and> rs_scope (pl_reservations p ! j) = i \<and>
     rs_active (pl_reservations p ! j)}"

definition scope_buffers_ok :: "plane \<Rightarrow> scope_ref \<Rightarrow> bool" where
  "scope_buffers_ok p i = (let sc = scope_at i p in
     distinct (ss_reservations sc) \<and> set (ss_reservations sc) = active p i \<and>
     ss_buffered sc = (\<Sum>j\<in>active p i. rs_length (pl_reservations p ! j)) \<and>
     ss_buffered sc \<le> ss_maxBuffered sc \<and> ss_maxBuffered sc \<le> pl_maxBuffered p \<and>
     (ss_closed sc \<longrightarrow> active p i = {}) \<and>
     0 \<le> ss_totalBytes sc \<and> ss_totalBytes sc \<le> ss_maxBytes sc)"

definition buffers_ok :: "plane \<Rightarrow> bool" where
  "buffers_ok p = (
     (\<forall>i < length (pl_scopes p). scope_buffers_ok p i) \<and>
     (\<forall>j < length (pl_reservations p).
        rs_scope (pl_reservations p ! j) < length (pl_scopes p) \<and> 1 \<le> rs_length (pl_reservations p ! j)) \<and>
     pl_buffered p = (\<Sum>i<length (pl_scopes p). ss_buffered (scope_at i p)) \<and>
     pl_buffered p \<le> pl_maxBuffered p)"

definition plane_tickets_ok :: "plane \<Rightarrow> bool" where
  "plane_tickets_ok p = (
     tickets_ok (pl_tickets p) \<and>
     (\<forall>t r. (t, r) \<in> set (ticket_records (pl_tickets p)) \<longrightarrow>
        open_at p (tk_payload r) \<and> tk_scopeId r = ss_key (scope_at (tk_payload r) p)))"

definition plane_ok :: "plane \<Rightarrow> bool" where
  "plane_ok p = (sessions_ok p \<and> buffers_ok p \<and> plane_tickets_ok p)"

subsection \<open>Updates that the invariant does not see\<close>

text \<open>A change of a scope's timer or last activity.\<close>

definition same_scope :: "stream_scope \<Rightarrow> stream_scope \<Rightarrow> bool" where
  "same_scope sc sc' = (ss_key sc' = ss_key sc \<and> ss_closed sc' = ss_closed sc \<and>
     ss_closeStarted sc' = ss_closeStarted sc \<and> ss_reservations sc' = ss_reservations sc \<and>
     ss_buffered sc' = ss_buffered sc \<and> ss_maxBuffered sc' = ss_maxBuffered sc \<and>
     ss_maxBytes sc' = ss_maxBytes sc \<and> 0 \<le> ss_totalBytes sc' \<and> ss_totalBytes sc' \<le> ss_maxBytes sc)"

lemma nth_update_at: "j < length xs \<Longrightarrow> xs[i := x] ! j = (if i = j then x else xs ! j)"
  by simp

lemma upd_scope_fields [simp]:
  "pl_maxStreams (upd_scope i f p) = pl_maxStreams p" "pl_maxBuffered (upd_scope i f p) = pl_maxBuffered p"
  "pl_sessions (upd_scope i f p) = pl_sessions p" "pl_buffered (upd_scope i f p) = pl_buffered p"
  "pl_closing (upd_scope i f p) = pl_closing p" "pl_tickets (upd_scope i f p) = pl_tickets p"
  "pl_reservations (upd_scope i f p) = pl_reservations p" "pl_closes (upd_scope i f p) = pl_closes p"
  "length (pl_scopes (upd_scope i f p)) = length (pl_scopes p)" "pl_maxPerStream (upd_scope i f p) = pl_maxPerStream p"
  by (simp_all add: upd_scope_def)

lemma scope_at_upd:
  "j < length (pl_scopes p) \<Longrightarrow> scope_at j (upd_scope i f p) = (if j = i then f (scope_at i p) else scope_at j p)"
  by (simp add: upd_scope_def nth_list_update)

lemma same_scope_ok:
  assumes ok: "plane_ok p" and same: "i < length (pl_scopes p) \<Longrightarrow> same_scope (scope_at i p) (f (scope_at i p))"
  shows "plane_ok (upd_scope i f p)"
proof -
  let ?q = "upd_scope i f p"
  have eq: "ss_key (scope_at j ?q) = ss_key (scope_at j p)" "ss_closed (scope_at j ?q) = ss_closed (scope_at j p)"
    "ss_closeStarted (scope_at j ?q) = ss_closeStarted (scope_at j p)"
    "ss_reservations (scope_at j ?q) = ss_reservations (scope_at j p)"
    "ss_buffered (scope_at j ?q) = ss_buffered (scope_at j p)"
    "ss_maxBuffered (scope_at j ?q) = ss_maxBuffered (scope_at j p)"
    if "j < length (pl_scopes p)" for j
    using that same by (auto simp: scope_at_upd same_scope_def)
  have op: "open_at ?q j = open_at p j" for j
    using eq(2) [of j] by (auto simp: open_at_def)
  have key: "open_at p j \<Longrightarrow> ss_key (scope_at j ?q) = ss_key (scope_at j p)" for j
    using eq(1) by (simp add: open_at_def)
  have act: "active ?q = active p" by (auto simp: active_def fun_eq_iff)
  have "sessions_ok ?q"
    using ok eq key op unfolding plane_ok_def sessions_ok_def by auto
  moreover have "scope_buffers_ok ?q j" if "j < length (pl_scopes p)" for j
    using ok that eq [OF that] same unfolding plane_ok_def buffers_ok_def
    by (cases "j = i") (auto simp: scope_buffers_ok_def Let_def act scope_at_upd same_scope_def)
  then have "buffers_ok ?q"
    using ok eq(5) unfolding plane_ok_def buffers_ok_def by auto
  moreover have "plane_tickets_ok ?q"
    using ok key op unfolding plane_ok_def plane_tickets_ok_def by auto
  ultimately show ?thesis by (simp add: plane_ok_def)
qed

text \<open>A change of the ticket table alone.\<close>

definition tickets_of_open :: "plane \<Rightarrow> scope_ref tickets \<Rightarrow> bool" where
  "tickets_of_open p t = (\<forall>tok r. (tok, r) \<in> set (ticket_records t) \<longrightarrow>
     open_at p (tk_payload r) \<and> tk_scopeId r = ss_key (scope_at (tk_payload r) p))"

lemma tickets_update_ok:
  assumes "plane_ok p" "tickets_ok t" "tickets_of_open p t"
  shows "plane_ok (p\<lparr>pl_tickets := t\<rparr>)"
  using assms
  by (simp add: plane_ok_def sessions_ok_def buffers_ok_def scope_buffers_ok_def plane_tickets_ok_def
      open_at_def active_def tickets_of_open_def)

lemma plane_okD:
  assumes "plane_ok p"
  shows "sessions_ok p" "buffers_ok p" "tickets_ok (pl_tickets p)" "tickets_of_open p (pl_tickets p)"
  using assms by (auto simp: plane_ok_def plane_tickets_ok_def tickets_of_open_def)

lemma thinned_tickets_ok:
  assumes "plane_ok p" "thinned (pl_tickets p) t"
  shows "plane_ok (p\<lparr>pl_tickets := t\<rparr>)"
proof (rule tickets_update_ok)
  show "tickets_ok t" by (rule thinned_ok [OF assms(2) plane_okD(3) [OF assms(1)]])
  show "tickets_of_open p t"
    using assms(2) plane_okD(4) [OF assms(1)] by (auto simp: thinned_def tickets_of_open_def)
qed (rule assms(1))

subsection \<open>Closing a scope\<close>

lemma length_deactivate [simp]: "length (deactivate ids rs) = length rs"
  unfolding deactivate_def by (induction ids arbitrary: rs) simp_all

lemma nth_deactivate:
  assumes "j < length rs"
  shows "deactivate ids rs ! j = (if j \<in> set ids then (rs ! j)\<lparr>rs_active := False\<rparr> else rs ! j)"
  using assms unfolding deactivate_def
proof (induction ids arbitrary: rs)
  case (Cons a ids)
  then show ?case by (cases "a = j") auto
qed simp

lemma sum_lessThan_update:
  fixes g :: "'a \<Rightarrow> int"
  assumes "i < length xs"
  shows "(\<Sum>j<length xs. g (xs[i := x] ! j)) = (\<Sum>j<length xs. g (xs ! j)) - g (xs ! i) + g x"
proof -
  let ?rest = "\<lambda>ys. \<Sum>j\<in>{..<length xs} - {i}. g (ys ! j)"
  have split: "(\<Sum>j<length xs. g (ys ! j)) = g (ys ! i) + ?rest ys" for ys
    using assms by (intro sum.remove) auto
  have "?rest (xs[i := x]) = ?rest xs" by (intro sum.cong) auto
  then show ?thesis using assms by (simp add: split)
qed

lemma sessions_okD:
  assumes "sessions_ok p"
  shows "distinct (map fst (pl_sessions p))"
    and "(k, i) \<in> set (pl_sessions p) \<Longrightarrow> open_at p i" "(k, i) \<in> set (pl_sessions p) \<Longrightarrow> ss_key (scope_at i p) = k"
    and "open_at p i \<Longrightarrow> (ss_key (scope_at i p), i) \<in> set (pl_sessions p)"
    and "i < length (pl_scopes p) \<Longrightarrow> ss_closeStarted (scope_at i p) = ss_closed (scope_at i p)"
    and "int (length (pl_sessions p)) \<le> pl_maxStreams p"
    and "distinct (map fst (pl_closes p))"
    and "fst ` set (pl_closes p) = {i. i < length (pl_scopes p) \<and> ss_closed (scope_at i p)}"
    and "pl_closing p \<Longrightarrow> pl_sessions p = []"
  using assms unfolding sessions_ok_def by blast+

lemma close_sessions_ok:
  assumes ok: "sessions_ok p" and "open_at p i"
  shows "sessions_ok (scope_close i reason p)"
proof -
  let ?q = "scope_close i reason p" and ?k = "ss_key (scope_at i p)"
  have i: "i < length (pl_scopes p)" "\<not> ss_closed (scope_at i p)" "\<not> ss_closeStarted (scope_at i p)"
    using assms by (auto simp: open_at_def sessions_ok_def)
  have ki: "(?k, i) \<in> set (pl_sessions p)" using assms by (simp add: sessions_ok_def)
  have q: "pl_sessions ?q = AList.delete ?k (pl_sessions p)" "pl_closes ?q = pl_closes p @ [(i, take 64 reason)]"
    "length (pl_scopes ?q) = length (pl_scopes p)" "pl_maxStreams ?q = pl_maxStreams p" "pl_closing ?q = pl_closing p"
    using i by (simp_all add: scope_close_def Let_def)
  have sc: "ss_key (scope_at j ?q) = ss_key (scope_at j p)"
    "ss_closed (scope_at j ?q) \<longleftrightarrow> j = i \<or> ss_closed (scope_at j p)"
    "ss_closeStarted (scope_at j ?q) \<longleftrightarrow> j = i \<or> ss_closeStarted (scope_at j p)"
    if "j < length (pl_scopes p)" for j
    using i that by (auto simp: scope_close_def Let_def nth_list_update)
  have op: "open_at ?q j \<longleftrightarrow> open_at p j \<and> j \<noteq> i" for j
    using sc(2) [of j] q(3) by (auto simp: open_at_def)
  have other: "ss_key (scope_at j p) \<noteq> ?k" if "open_at p j" "j \<noteq> i" for j
  proof
    assume "ss_key (scope_at j p) = ?k"
    then have kj: "(?k, j) \<in> set (pl_sessions p)" using sessions_okD(4) [OF ok that(1)] by simp
    from eq_key_imp_eq_value [OF sessions_okD(1) [OF ok] ki kj] that(2) show False by simp
  qed
  have len: "int (length (AList.delete ?k (pl_sessions p))) \<le> int (length (pl_sessions p))"
    by (simp add: AList.delete_eq)
  have keyq: "ss_key (scope_at j ?q) = ss_key (scope_at j p)" if "open_at p j" for j
    using that sc(1) by (simp add: open_at_def)
  have mem: "(k, j) \<in> set (pl_sessions ?q) \<longleftrightarrow> (k, j) \<in> set (pl_sessions p) \<and> k \<noteq> ?k" for k j
    by (auto simp: q AList.delete_eq)
  show ?thesis
    unfolding sessions_ok_def
  proof (intro conjI allI impI)
    fix k j assume "(k, j) \<in> set (pl_sessions ?q)"
    then have kj: "(k, j) \<in> set (pl_sessions p)" "k \<noteq> ?k" by (simp_all add: mem)
    then have "open_at p j" "ss_key (scope_at j p) = k" using sessions_okD(2,3) [OF ok] by blast+
    with kj(2) show "open_at ?q j" "ss_key (scope_at j ?q) = k" by (auto simp: op keyq)
  next
    fix j assume "open_at ?q j"
    then have "open_at p j" "j \<noteq> i" by (simp_all add: op)
    then show "(ss_key (scope_at j ?q), j) \<in> set (pl_sessions ?q)"
      using other sessions_okD(4) [OF ok] by (simp add: mem keyq)
  next
    show "fst ` set (pl_closes ?q) = {j. j < length (pl_scopes ?q) \<and> ss_closed (scope_at j ?q)}"
      using sessions_okD(8) [OF ok] i sc(2) unfolding q by auto
    show "distinct (map fst (pl_closes ?q))"
      using sessions_okD(7,8) [OF ok] i unfolding q by auto
    show "distinct (map fst (pl_sessions ?q))"
      using sessions_okD(1) [OF ok] by (simp add: q AList.delete_eq distinct_map_filter)
    show "int (length (pl_sessions ?q)) \<le> pl_maxStreams ?q"
      using sessions_okD(6) [OF ok] len by (simp add: q)
    show "pl_sessions ?q = []" if "pl_closing ?q" using that sessions_okD(9) [OF ok] by (simp add: q)
    show "ss_closeStarted (scope_at j ?q) = ss_closed (scope_at j ?q)" if "j < length (pl_scopes ?q)" for j
      using that sc(2,3) [of j] sessions_okD(5) [OF ok, of j] by (simp add: q)
  qed
qed

lemma buffered_nonneg:
  assumes "buffers_ok p" "i < length (pl_scopes p)"
  shows "0 \<le> ss_buffered (scope_at i p)"
proof -
  have "ss_buffered (scope_at i p) = (\<Sum>j\<in>active p i. rs_length (pl_reservations p ! j))"
    using assms by (simp add: buffers_ok_def scope_buffers_ok_def Let_def)
  moreover have "0 \<le> rs_length (pl_reservations p ! j)" if "j \<in> active p i" for j
    using assms that by (force simp: buffers_ok_def active_def)
  ultimately show ?thesis by (simp add: sum_nonneg)
qed

lemma close_buffers_ok:
  assumes ok: "buffers_ok p" and "open_at p i" "\<not> ss_closeStarted (scope_at i p)"
  shows "buffers_ok (scope_close i reason p)"
proof -
  let ?q = "scope_close i reason p" and ?sc = "scope_at i p"
  have i: "i < length (pl_scopes p)" using assms by (simp add: open_at_def)
  then have here: "scope_buffers_ok p i" using ok by (simp add: buffers_ok_def)
  have q: "pl_reservations ?q = deactivate (ss_reservations ?sc) (pl_reservations p)"
    "pl_buffered ?q = pl_buffered p - ss_buffered ?sc" "pl_maxBuffered ?q = pl_maxBuffered p"
    "length (pl_scopes ?q) = length (pl_scopes p)"
    using assms by (simp_all add: scope_close_def Let_def)
  have res: "rs_scope (pl_reservations ?q ! j) = rs_scope (pl_reservations p ! j)"
    "rs_length (pl_reservations ?q ! j) = rs_length (pl_reservations p ! j)"
    "rs_active (pl_reservations ?q ! j) \<longleftrightarrow> rs_active (pl_reservations p ! j) \<and> j \<notin> set (ss_reservations ?sc)"
    if "j < length (pl_reservations p)" for j
    using that by (auto simp: q nth_deactivate)
  have act: "active ?q j = (if j = i then {} else active p j)" for j
    using here res unfolding active_def by (auto simp: q scope_buffers_ok_def Let_def active_def)
  have pos: "0 \<le> ss_buffered ?sc" by (rule buffered_nonneg [OF ok i])
  have lens: "(\<Sum>j\<in>active p k. rs_length (pl_reservations ?q ! j)) = (\<Sum>j\<in>active p k. rs_length (pl_reservations p ! j))" for k
    by (rule sum.cong) (auto simp: active_def res)
  have "scope_buffers_ok ?q j" if "j < length (pl_scopes p)" for j
  proof (cases "j = i")
    case True
    have "scope_at i ?q = ?sc\<lparr>ss_closed := True, ss_closeReason := Some (take 64 reason), ss_timer := None,
      ss_reservations := [], ss_buffered := 0, ss_closeStarted := True\<rparr>"
      using assms i by (simp add: scope_close_def Let_def)
    moreover have "0 \<le> ss_maxBuffered ?sc" using here pos by (simp add: scope_buffers_ok_def Let_def)
    ultimately show ?thesis using here True
      by (simp add: scope_buffers_ok_def Let_def act q(3))
  next
    case False
    then have "scope_at j ?q = scope_at j p" using assms by (simp add: scope_close_def Let_def)
    moreover have "scope_buffers_ok p j" using ok that by (simp add: buffers_ok_def)
    ultimately show ?thesis using False
      by (simp add: scope_buffers_ok_def Let_def act q(3) lens)
  qed
  moreover have "(\<Sum>j<length (pl_scopes p). ss_buffered (scope_at j ?q)) =
      (\<Sum>j<length (pl_scopes p). ss_buffered (scope_at j p)) - ss_buffered ?sc"
    using assms i sum_lessThan_update [OF i, of ss_buffered] by (simp add: scope_close_def Let_def)
  ultimately show ?thesis using ok res pos by (auto simp: buffers_ok_def q)
qed

lemma scope_close_ok:
  assumes ok: "plane_ok p" and i: "i < length (pl_scopes p)"
  shows "plane_ok (scope_close i reason p)"
proof (cases "ss_closed (scope_at i p)")
  case True
  then have "ss_closeStarted (scope_at i p)" using ok i by (auto simp: plane_ok_def sessions_ok_def)
  then show ?thesis using ok by (simp add: scope_close_def Let_def)
next
  case False
  then have op: "open_at p i" and st: "\<not> ss_closeStarted (scope_at i p)"
    using ok i by (auto simp: plane_ok_def sessions_ok_def open_at_def)
  let ?q = "scope_close i reason p"
  have q: "pl_tickets ?q = revokeScope (ss_key (scope_at i p)) (pl_tickets p)"
    using st by (simp add: scope_close_def Let_def)
  have "tickets_ok (pl_tickets ?q)"
    unfolding q by (rule thinned_ok [OF revokeScope_thinned plane_okD(3) [OF ok]])
  moreover have "open_at ?q (tk_payload r) \<and> tk_scopeId r = ss_key (scope_at (tk_payload r) ?q)"
    if "(tok, r) \<in> set (ticket_records (pl_tickets ?q))" for tok r
  proof -
    have r: "open_at p (tk_payload r)" "tk_scopeId r = ss_key (scope_at (tk_payload r) p)"
      "tk_scopeId r \<noteq> ss_key (scope_at i p)"
      using that plane_okD(4) [OF ok] by (auto simp: q revokeScope_def tickets_of_open_def)
    then have "tk_payload r \<noteq> i" by auto
    with r st show ?thesis by (simp add: scope_close_def Let_def open_at_def)
  qed
  ultimately have "plane_tickets_ok ?q" by (simp add: plane_tickets_ok_def)
  moreover have "sessions_ok ?q" "buffers_ok ?q"
    using close_sessions_ok [OF plane_okD(1) [OF ok] op] close_buffers_ok [OF plane_okD(2) [OF ok] op st]
    by simp_all
  ultimately show ?thesis by (simp add: plane_ok_def)
qed

subsection \<open>Buffer reservations\<close>

text \<open>A plane that differs only in its buffer accounting.\<close>

lemma accounting_ok:
  assumes ok: "plane_ok p"
    and same: "pl_sessions q = pl_sessions p" "pl_closes q = pl_closes p" "pl_maxStreams q = pl_maxStreams p"
      "pl_closing q = pl_closing p" "pl_tickets q = pl_tickets p" "length (pl_scopes q) = length (pl_scopes p)"
    and scopes: "\<And>j. j < length (pl_scopes p) \<Longrightarrow> ss_key (scope_at j q) = ss_key (scope_at j p) \<and>
      ss_closed (scope_at j q) = ss_closed (scope_at j p) \<and>
      ss_closeStarted (scope_at j q) = ss_closeStarted (scope_at j p)"
    and buf: "buffers_ok q"
  shows "plane_ok q"
proof -
  have op: "open_at q j = open_at p j" for j using scopes [of j] same by (auto simp: open_at_def)
  have key: "open_at p j \<Longrightarrow> ss_key (scope_at j q) = ss_key (scope_at j p)" for j
    using scopes by (simp add: open_at_def)
  have "sessions_ok q"
    using plane_okD(1) [OF ok] scopes key op unfolding sessions_ok_def same by auto
  moreover have "plane_tickets_ok q"
    using ok key op unfolding plane_ok_def plane_tickets_ok_def same by auto
  ultimately show ?thesis using buf by (simp add: plane_ok_def)
qed

lemma active_finite [simp]: "finite (active p i)"
  by (simp add: active_def)

lemma add_reservation_ok:
  assumes ok: "plane_ok p" and i: "open_at p i" and len: "1 \<le> len"
    and room: "ss_buffered (scope_at i p) + len \<le> ss_maxBuffered (scope_at i p)"
      "pl_buffered p + len \<le> pl_maxBuffered p"
  shows "plane_ok (add_reservation i len p)"
proof -
  let ?q = "add_reservation i len p" and ?n = "length (pl_reservations p)"
  have il: "i < length (pl_scopes p)" using i by (simp add: open_at_def)
  have buf: "buffers_ok p" by (rule plane_okD(2) [OF ok])
  have q: "pl_reservations ?q = pl_reservations p @ [\<lparr>rs_scope = i, rs_length = len, rs_active = True\<rparr>]"
    "pl_buffered ?q = pl_buffered p + len" "pl_maxBuffered ?q = pl_maxBuffered p"
    "pl_scopes ?q = (pl_scopes p)[i := (scope_at i p)\<lparr>ss_reservations := ss_reservations (scope_at i p) @ [?n],
        ss_buffered := ss_buffered (scope_at i p) + len\<rparr>]"
    by (simp_all add: add_reservation_def upd_scope_def)
  have act: "active ?q j = (if j = i then insert ?n (active p i) else active p j)" for j
    by (auto simp: active_def q nth_append less_Suc_eq)
  have new: "?n \<notin> active p j" for j by (simp add: active_def)
  have lens: "(\<Sum>j\<in>active p k. rs_length (pl_reservations ?q ! j)) = (\<Sum>j\<in>active p k. rs_length (pl_reservations p ! j))" for k
    by (rule sum.cong) (auto simp: active_def q nth_append)
  have "scope_buffers_ok ?q j" if "j < length (pl_scopes p)" for j
  proof -
    have "scope_buffers_ok p j" using buf that by (simp add: buffers_ok_def)
    then show ?thesis using il room i new [of i]
      by (cases "j = i") (simp_all add: scope_buffers_ok_def Let_def act lens q(3,4) open_at_def, simp add: q)
  qed
  moreover have "(\<Sum>j<length (pl_scopes p). ss_buffered (scope_at j ?q)) =
      (\<Sum>j<length (pl_scopes p). ss_buffered (scope_at j p)) + len"
    using sum_lessThan_update [OF il, of ss_buffered] by (simp add: q(4))
  ultimately have "buffers_ok ?q"
    using buf il len room(2) by (auto simp: buffers_ok_def q nth_append less_Suc_eq)
  then show ?thesis
    by (rule accounting_ok [OF ok, rotated -1]) (auto simp: add_reservation_def upd_scope_def nth_update_at)
qed

lemma releaseBuffer_ok:
  assumes ok: "plane_ok p"
  shows "plane_ok (releaseBuffer j p)"
proof (cases "j < length (pl_reservations p) \<and> rs_active (pl_reservations p ! j)")
  case False
  then show ?thesis using ok by (auto simp: releaseBuffer_def Let_def)
next
  case True
  let ?q = "releaseBuffer j p" and ?r = "pl_reservations p ! j"
  let ?i = "rs_scope ?r"
  have buf: "buffers_ok p" by (rule plane_okD(2) [OF ok])
  have il: "?i < length (pl_scopes p)" and pos: "1 \<le> rs_length ?r" using buf True by (auto simp: buffers_ok_def)
  have q: "pl_reservations ?q = (pl_reservations p)[j := ?r\<lparr>rs_active := False\<rparr>]"
    "pl_buffered ?q = pl_buffered p - rs_length ?r" "pl_maxBuffered ?q = pl_maxBuffered p"
    "pl_scopes ?q = (pl_scopes p)[?i := (scope_at ?i p)\<lparr>ss_reservations := remove1 j (ss_reservations (scope_at ?i p)),
        ss_buffered := ss_buffered (scope_at ?i p) - rs_length ?r\<rparr>]"
    using True by (simp_all add: releaseBuffer_def Let_def upd_scope_def)
  have act: "active ?q k = active p k - {j}" for k
    using True by (auto simp: active_def q nth_update_at split: if_splits)
  have mem: "j \<in> active p ?i" "\<And>k. k \<noteq> ?i \<Longrightarrow> j \<notin> active p k" using True by (auto simp: active_def)
  have lens: "(\<Sum>k\<in>active p m - {j}. rs_length (pl_reservations ?q ! k)) = (\<Sum>k\<in>active p m - {j}. rs_length (pl_reservations p ! k))" for m
    by (rule sum.cong) (auto simp: q)
  have "scope_buffers_ok ?q k" if "k < length (pl_scopes p)" for k
  proof (cases "k = ?i")
    case True
    have "scope_buffers_ok p ?i" using buf il by (simp add: buffers_ok_def)
    then show ?thesis using il pos mem(1) True
      by (auto simp: scope_buffers_ok_def Let_def act lens q(3,4) sum_diff1)
  next
    case False
    have "scope_buffers_ok p k" using buf that by (simp add: buffers_ok_def)
    moreover have "active p k - {j} = active p k" using mem(2) [OF False] by simp
    ultimately show ?thesis using False lens [of k]
      by (simp add: scope_buffers_ok_def Let_def act q(3,4))
  qed
  moreover have "(\<Sum>k<length (pl_scopes p). ss_buffered (scope_at k ?q)) =
      (\<Sum>k<length (pl_scopes p). ss_buffered (scope_at k p)) - rs_length ?r"
    using sum_lessThan_update [OF il, of ss_buffered] by (simp add: q(4))
  ultimately have "buffers_ok ?q"
    using buf pos by (auto simp: buffers_ok_def q nth_update_at)
  then show ?thesis
    by (rule accounting_ok [OF ok, rotated -1])
      (use True in \<open>auto simp: releaseBuffer_def Let_def upd_scope_def nth_update_at\<close>)
qed

subsection \<open>The operations of a scope\<close>

definition ok_with :: "nat \<Rightarrow> plane \<Rightarrow> bool" where
  "ok_with n p = (plane_ok p \<and> n \<le> length (pl_scopes p) \<and> 1 \<le> pl_maxPerStream p)"

lemma on_tickets_keeps:
  assumes "\<And>t r u. m t = (r, u) \<Longrightarrow> thinned t u"
  shows "keeps (ok_with n) (on_tickets m)"
  using assms thinned_tickets_ok
  by (fastforce simp: keeps_def ok_with_def on_tickets_def split: prod.splits)

lemma plane_now_keeps [keeps_rules]: "keeps (ok_with n) (plane_now E)"
  unfolding plane_now_def
  by (rule on_tickets_keeps) (auto simp: currentMonotonic_def)

text \<open>Reading the clock only counts the call.\<close>

definition tick :: "plane \<Rightarrow> plane" where
  "tick p = p\<lparr>pl_tickets := (pl_tickets p)\<lparr>now_calls := Suc (now_calls (pl_tickets p))\<rparr>\<rparr>"

lemma tick_fields [simp]:
  "pl_maxStreams (tick p) = pl_maxStreams p" "pl_maxBuffered (tick p) = pl_maxBuffered p"
  "pl_maxPerStream (tick p) = pl_maxPerStream p" "pl_sessions (tick p) = pl_sessions p"
  "pl_buffered (tick p) = pl_buffered p" "pl_closing (tick p) = pl_closing p" "pl_scopes (tick p) = pl_scopes p"
  "pl_reservations (tick p) = pl_reservations p" "pl_closes (tick p) = pl_closes p"
  "ticket_records (pl_tickets (tick p)) = ticket_records (pl_tickets p)"
  by (simp_all add: tick_def)

lemma plane_now_bind:
  "abind (plane_now E) f p = (case fst (plane_now E p) of Inl e \<Rightarrow> (Inl e, tick p) | Inr now \<Rightarrow> f now (tick p))"
  by (auto simp: abind_def plane_now_def on_tickets_def currentMonotonic_def tick_def split: sum.splits)

lemma tick_ok: "ok_with n p \<Longrightarrow> ok_with n (tick p)"
  using keepsD [OF plane_now_keeps, of n p] by (simp add: plane_now_def on_tickets_def currentMonotonic_def tick_def)

lemma plane_now_Inr:
  "plane_now E p = (Inr now, q) \<longleftrightarrow> env_now E (now_calls (pl_tickets p)) = JBig now \<and> 0 \<le> now \<and> now \<le> MAX_U64 \<and>
     q = p\<lparr>pl_tickets := (pl_tickets p)\<lparr>now_calls := Suc (now_calls (pl_tickets p))\<rparr>\<rparr>"
  by (auto simp: plane_now_def on_tickets_def currentMonotonic_def split: prod.splits jsval.splits)

lemma scope_close_fields [simp]:
  "length (pl_scopes (scope_close i reason p)) = length (pl_scopes p)"
  "pl_maxPerStream (scope_close i reason p) = pl_maxPerStream p"
  by (simp_all add: scope_close_def Let_def)

lemma fail_closed_keeps [keeps_rules]: "i < n \<Longrightarrow> keeps (ok_with n) (fail_closed i reason e)"
  unfolding fail_closed_def
  by (intro keeps_rules keeps_modify) (auto simp: ok_with_def scope_close_ok)

lemma assertActive_keeps [keeps_rules]: "i < n \<Longrightarrow> keeps (ok_with n) (assertActive E ready i)"
  unfolding assertActive_def by (intro keeps_rules)

lemma assertActive_Inr:
  assumes "assertActive E ready i p = (Inr now, q)"
  shows "\<not> ss_closed (scope_at i p)" "now < rd_expires (ss_readiness (scope_at i p))"
    "q = p\<lparr>pl_tickets := (pl_tickets p)\<lparr>now_calls := Suc (now_calls (pl_tickets p))\<rparr>\<rparr>"
    "env_now E (now_calls (pl_tickets p)) = JBig now"
  using assms
  by (auto simp: assertActive_def abind_Inr_iff plane_now_Inr fail_closed_def split: if_splits)

lemma scope_total:
  assumes "plane_ok p" "i < length (pl_scopes p)"
  shows "0 \<le> ss_totalBytes (scope_at i p) \<and> ss_totalBytes (scope_at i p) \<le> ss_maxBytes (scope_at i p)"
  using plane_okD(2) [OF assms(1)] assms(2) by (simp add: buffers_ok_def scope_buffers_ok_def Let_def)

lemma upd_scope_keeps:
  assumes "\<And>sc. 0 \<le> ss_totalBytes sc \<Longrightarrow> ss_totalBytes sc \<le> ss_maxBytes sc \<Longrightarrow> same_scope sc (f sc)"
  shows "keeps (ok_with n) (modify (upd_scope i f))"
proof (rule keeps_modify)
  fix p assume "ok_with n p"
  then show "ok_with n (upd_scope i f p)"
    using same_scope_ok [of p i f] assms scope_total [of p i] by (simp add: ok_with_def)
qed

lemma scheduleExpiry_keeps [keeps_rules]: "keeps (ok_with n) (scheduleExpiry E i)"
  unfolding scheduleExpiry_def by (intro keeps_rules upd_scope_keeps) (simp_all add: same_scope_def)

lemma touch_keeps [keeps_rules]: "i < n \<Longrightarrow> keeps (ok_with n) (touch E ready i)"
  unfolding touch_def by (intro keeps_rules upd_scope_keeps) (simp_all add: same_scope_def)

lemma countBytes_keeps [keeps_rules]:
  assumes "i < n"
  shows "keeps (ok_with n) (countBytes E ready i len)"
proof (cases "\<not> isSafeInteger (JNum len) \<or> len < 1")
  case True
  then show ?thesis unfolding countBytes_def by (simp add: keeps_rules)
next
  case False
  have "ok_with n (upd_scope i (\<lambda>sc. sc\<lparr>ss_totalBytes := ss_totalBytes (scope_at i p) + len\<rparr>) p)"
    if "ok_with n p" "ss_totalBytes (scope_at i p) + len \<le> ss_maxBytes (scope_at i p)" for p
    using that False assms scope_total [of p i] by (auto simp: ok_with_def same_scope_def intro!: same_scope_ok)
  with False show ?thesis
    using keepsD [OF touch_keeps [OF assms]] keepsD [OF fail_closed_keeps [OF assms]]
    unfolding countBytes_def by (auto simp: Let_def intro!: keeps_bind keeps_gets_bind assertActive_keeps [OF assms])
qed

lemma reserveBuffer_keeps [keeps_rules]:
  assumes "i < n"
  shows "keeps (ok_with n) (reserveBuffer E ready i len)"
proof (cases "\<not> isSafeInteger (JNum len) \<or> len < 1")
  case True
  then show ?thesis unfolding reserveBuffer_def by (simp add: keeps_rules)
next
  case False
  have add: "ok_with n (add_reservation i len q)"
    if "ok_with n q" "\<not> ss_closed (scope_at i q)" "ss_buffered (scope_at i q) + len \<le> ss_maxBuffered (scope_at i q)"
      "pl_buffered q + len \<le> pl_maxBuffered q" for q
    using that False assms add_reservation_ok [of q i len]
    by (auto simp: ok_with_def open_at_def add_reservation_def)
  show ?thesis
    unfolding reserveBuffer_def
  proof (simp only: False if_False, rule keeps_bind_post [OF assertActive_keeps [OF assms]])
    fix p now q assume "ok_with n p" "assertActive E ready i p = (Inr now, q)" "ok_with n q"
    moreover from assertActive_Inr(1,3) [OF this(2)] have "\<not> ss_closed (scope_at i q)" by simp
    ultimately show "ok_with n (snd (abind (gets id) (\<lambda>p.
        if ss_buffered (scope_at i p) + len > ss_maxBuffered (scope_at i p) \<or>
           pl_buffered p + len > pl_maxBuffered p then fail_closed i ''buffer-cap'' BUSY else
        abind (modify (add_reservation i len)) (\<lambda>_. ret (length (pl_reservations p)))) q))"
      using add [of q] keepsD [OF fail_closed_keeps [OF assms]] by auto
  qed
qed

lemma scope_poll_keeps: "i < n \<Longrightarrow> ok_with n p \<Longrightarrow> ok_with n (snd (scope_poll E ready i p))"
  using keepsD [OF assertActive_keeps, of i n p E ready]
  by (auto simp: scope_poll_def split: prod.splits sum.splits)

lemma timer_fires_keeps [keeps_rules]:
  assumes "i < n"
  shows "keeps (ok_with n) (timer_fires E ready i)"
proof -
  have "ok_with n (snd (timer_fires E ready i p))" if p: "ok_with n p" for p
  proof -
    let ?p = "upd_scope i (\<lambda>sc. sc\<lparr>ss_timer := None\<rparr>) p"
    have "ok_with n ?p"
      using keepsD [OF upd_scope_keeps p] by (auto simp: same_scope_def)
    then have "ok_with n (snd (scope_poll E ready i ?p))" by (rule scope_poll_keeps [OF assms])
    then show ?thesis
      using p keepsD [OF scheduleExpiry_keeps] by (auto simp: timer_fires_def Let_def split: prod.splits)
  qed
  then show ?thesis by (simp add: keeps_def)
qed

subsection \<open>The operations of the plane\<close>

lemma new_session_ok:
  assumes ok: "plane_ok p" and open_plane: "\<not> pl_closing p"
    and fresh: "map_of (pl_sessions p) (ss_key sc) = None" "int (length (pl_sessions p)) < pl_maxStreams p"
    and sc: "\<not> ss_closed sc" "\<not> ss_closeStarted sc" "ss_reservations sc = []" "ss_buffered sc = 0"
      "0 \<le> ss_maxBuffered sc" "ss_maxBuffered sc \<le> pl_maxBuffered p" "ss_totalBytes sc = 0" "0 \<le> ss_maxBytes sc"
  shows "plane_ok (p\<lparr>pl_scopes := pl_scopes p @ [sc], pl_sessions := pl_sessions p @ [(ss_key sc, length (pl_scopes p))]\<rparr>)"
    (is "plane_ok ?q")
proof -
  note ses = plane_okD(1) [OF ok] and buf = plane_okD(2) [OF ok]
  have at: "scope_at j ?q = (if j < length (pl_scopes p) then scope_at j p else sc)" if "j < length (pl_scopes ?q)" for j
    using that by (auto simp: nth_append less_Suc_eq)
  have op: "open_at ?q j \<longleftrightarrow> open_at p j \<or> j = length (pl_scopes p)" for j
    using sc(1) by (auto simp: open_at_def nth_append less_Suc_eq)
  have key: "open_at p j \<Longrightarrow> scope_at j ?q = scope_at j p" for j
    by (simp add: open_at_def nth_append)
  have none: "active p (length (pl_scopes p)) = {}"
    using buf by (auto simp: active_def buffers_ok_def)
  have act: "active ?q = active p" by (simp add: active_def fun_eq_iff)
  have "sessions_ok ?q"
    unfolding sessions_ok_def
  proof (intro conjI allI impI)
    fix k j assume "(k, j) \<in> set (pl_sessions ?q)"
    then have "(k, j) \<in> set (pl_sessions p) \<or> k = ss_key sc \<and> j = length (pl_scopes p)" by auto
    then show "open_at ?q j" "ss_key (scope_at j ?q) = k"
      using sessions_okD(2,3) [OF ses, of k j] key [of j] by (auto simp: op)
  next
    fix j assume "open_at ?q j"
    then show "(ss_key (scope_at j ?q), j) \<in> set (pl_sessions ?q)"
      using sessions_okD(4) [OF ses, of j] key [of j] by (auto simp: op)
  next
    show "distinct (map fst (pl_sessions ?q))"
      using sessions_okD(1) [OF ses] fresh(1) by (simp add: map_of_eq_None_iff)
    show "fst ` set (pl_closes ?q) = {j. j < length (pl_scopes ?q) \<and> ss_closed (scope_at j ?q)}"
      using sessions_okD(8) [OF ses] sc(1) by (auto simp: nth_append less_Suc_eq)
    show "ss_closeStarted (scope_at j ?q) = ss_closed (scope_at j ?q)" if "j < length (pl_scopes ?q)" for j
      using that sc(1,2) sessions_okD(5) [OF ses, of j] by (auto simp: nth_append less_Suc_eq)
  qed (use fresh(2) open_plane sessions_okD(7) [OF ses] in auto)
  moreover have "scope_buffers_ok ?q j" if "j < length (pl_scopes ?q)" for j
    using that buf sc none at [OF that] unfolding scope_buffers_ok_def act
    by (auto simp: Let_def buffers_ok_def scope_buffers_ok_def less_Suc_eq)
  then have "buffers_ok ?q"
    using buf sc(4) unfolding buffers_ok_def by (auto simp: nth_append less_SucI)
  moreover have "plane_tickets_ok ?q"
    using ok key unfolding plane_ok_def plane_tickets_ok_def op by auto
  ultimately show ?thesis by (simp add: plane_ok_def)
qed

lemma positiveInteger_ge: "positiveInteger v d = Inr i \<Longrightarrow> 1 \<le> d \<Longrightarrow> 1 \<le> i"
  by (auto simp: positiveInteger_def split: if_splits)

lemma new_scope_key [simp]: "ss_key (new_scope family key l now r) = key"
  by (simp add: new_scope_def)

lemma createSession_keeps [keeps_rules]: "keeps (ok_with n) (createSession E options)"
proof -
  let ?new = "\<lambda>sc now p. p\<lparr>pl_scopes := pl_scopes p @ [sc\<lparr>ss_timer := Some now\<rparr>],
    pl_sessions := pl_sessions p @ [(ss_key sc, length (pl_scopes p))]\<rparr>"
  have new: "ok_with n (?new (new_scope family key l now r) d q)"
    if "ok_with n q" "\<not> pl_closing q" "map_of (pl_sessions q) key = None"
      "int (length (pl_sessions q)) < pl_maxStreams q" "scope_limits_of q' options = Inr l"
      "pl_maxPerStream q' = pl_maxPerStream q" "pl_maxBuffered q' = pl_maxBuffered q" for q q' family key l now r d
  proof -
    have "0 \<le> lim_maxBuffered l" "lim_maxBuffered l \<le> pl_maxBuffered q" "0 \<le> lim_maxBytes l"
      using that positiveInteger_ge [of "getf options ''maxBufferedBytes''" "pl_maxPerStream q"]
      by (auto simp: scope_limits_of_def rbind_Inr_iff session_u64_def ok_with_def
          split: if_splits jsval.splits)
    with that new_session_ok [of q "(new_scope family key l now r)\<lparr>ss_timer := Some d\<rparr>"] show ?thesis
      by (simp add: ok_with_def new_scope_def)
  qed
  have "ok_with n (snd (createSession E options p))" if p: "ok_with n p" for p
    using p tick_ok [OF p] tick_ok [OF tick_ok [OF p]] new [of "tick (tick p)" _ p]
    by (auto simp: createSession_def plane_now_bind abind_lift Let_def split: sum.splits)
  then show ?thesis by (simp add: keeps_def)
qed

lemma issue_on_plane_ok:
  assumes ok: "plane_ok p" and i: "open_at p i"
    and iss: "issue E binding (ss_key (scope_at i p)) i x (pl_tickets p) = (r, t)"
  shows "plane_ok (p\<lparr>pl_tickets := t\<rparr>)"
proof (rule tickets_update_ok [OF ok])
  show "tickets_ok t" by (rule issue_ok [OF iss plane_okD(3) [OF ok]])
  have old: "tickets_of_open p (pl_tickets p)" by (rule plane_okD(4) [OF ok])
  show "tickets_of_open p t"
  proof (cases r)
    case (Inl e)
    then have "thinned (pl_tickets p) t" using iss by (simp add: issue_Inl)
    with old show ?thesis by (auto simp: thinned_def tickets_of_open_def)
  next
    case (Inr token)
    with iss obtain now h k where
      "ticket_records t = ticket_records (sweep now (pl_tickets p)) @ [(token, new_ticket h (ss_key (scope_at i p)) i k)]"
      by (auto elim: issue_Inr)
    with old i show ?thesis by (auto simp: tickets_of_open_def new_ticket_def sweep_def)
  qed
qed

lemma issueTicket_keeps [keeps_rules]: "keeps (ok_with n) (issueTicket E ready S i parent)"
proof -
  have "ok_with n (snd (issueTicket E ready S i parent p))" if p: "ok_with n p" for p
  proof (cases "i < length (pl_scopes p)")
    case False
    then show ?thesis using p by (simp add: issueTicket_def)
  next
    case True
    obtain r q where q: "assertActive E ready i p = (r, q)" by force
    have okq: "ok_with n q"
      using keepsD [OF assertActive_keeps [OF True], of p E ready] p q by (auto simp: ok_with_def)
    show ?thesis
    proof (cases r)
      case (Inl e)
      then show ?thesis using True q okq by (simp add: issueTicket_def abind_def)
    next
      case (Inr now)
      from assertActive_Inr(1,3) [OF q [unfolded Inr]] True
      have "open_at q i" "pl_scopes q = pl_scopes p" by (simp_all add: open_at_def)
      with True q Inr okq issue_on_plane_ok [of q i E] show ?thesis
        by (auto simp: issueTicket_def abind_simps(1) [where m = "assertActive E ready i"] abind_lift
            on_tickets_def Let_def ok_with_def split: sum.splits prod.splits)
    qed
  qed
  then show ?thesis by (simp add: keeps_def)
qed

lemma consume_payload_open:
  assumes "plane_ok p" "consume E ticket binding (pl_tickets p) = (Inr i, t)"
  shows "open_at p i"
proof -
  from assms(2) obtain key r where "map_of (ticket_records (pl_tickets p)) key = Some r" "tk_payload r = i"
    by (rule consume_Inr)
  then have "(key, r) \<in> set (ticket_records (pl_tickets p))" by (simp add: map_of_SomeD)
  with plane_okD(4) [OF assms(1)] \<open>tk_payload r = i\<close> show ?thesis by (auto simp: tickets_of_open_def)
qed

lemma consumeTicket_keeps [keeps_rules]: "keeps (ok_with n) (consumeTicket E ready S ticket expected)"
proof -
  have "ok_with n (snd (consumeTicket E ready S ticket expected p))" if p: "ok_with n p" for p
  proof (cases "streamTicketBinding S expected")
    case (Inr binding)
    obtain r t where t: "consume E ticket (JBytes binding) (pl_tickets p) = (r, t)" by force
    let ?q = "p\<lparr>pl_tickets := t\<rparr>"
    have q: "ok_with n ?q" using p thinned_tickets_ok [OF _ consume_thinned [OF t]] by (simp add: ok_with_def)
    show ?thesis
    proof (cases r)
      case (Inl e)
      then show ?thesis using q t Inr by (simp add: consumeTicket_def abind_lift on_tickets_def abind_def)
    next
      case (Inr i)
      have "i < length (pl_scopes p)"
        using consume_payload_open [OF _ t [unfolded Inr]] p by (simp add: ok_with_def open_at_def)
      then have "ok_with n (snd (assertActive E ready i ?q))"
        using keepsD [OF assertActive_keeps [of i "max n (Suc i)"], of ?q E ready] q by (auto simp: ok_with_def)
      with t Inr \<open>streamTicketBinding S expected = Inr binding\<close> show ?thesis
        by (auto simp: consumeTicket_def abind_lift on_tickets_def abind_def split: prod.splits sum.splits)
    qed
  qed (simp add: consumeTicket_def abind_lift p)
  then show ?thesis by (simp add: keeps_def)
qed

lemma close_all_ok:
  assumes "ok_with n p" "\<forall>i\<in>set is. i < n"
  shows "ok_with n (close_all reason is p)"
  using assms unfolding close_all_def
  by (induction "is" arbitrary: p) (auto simp: ok_with_def scope_close_ok)

lemma session_refs: "ok_with n p \<Longrightarrow> i \<in> set (map snd (pl_sessions p)) \<Longrightarrow> i < length (pl_scopes p)"
  by (auto simp: ok_with_def open_at_def dest!: plane_okD(1) sessions_okD(2))

lemma ok_with_all: "ok_with n p \<Longrightarrow> ok_with (length (pl_scopes p)) p"
  by (simp add: ok_with_def)

lemma ok_with_less: "ok_with m p \<Longrightarrow> n \<le> m \<Longrightarrow> ok_with n p"
  by (simp add: ok_with_def)

lemma fence_keeps [keeps_rules]: "keeps (ok_with n) (fence event)"
  unfolding fence_def Let_def
proof (intro keeps_rules keeps_modify)
  fix q h p assume p: "ok_with n p"
  let ?is = "filter (\<lambda>i. fence_matches q h (scope_at i p)) (map snd (pl_sessions p))"
  let ?reason = "case fe_reason event of Some r \<Rightarrow> ''readiness-'' @ r | None \<Rightarrow> ''readiness-fenced''"
  have "ok_with (length (pl_scopes p)) (close_all ?reason ?is p)"
    using session_refs [OF p] by (intro close_all_ok [OF ok_with_all [OF p]]) auto
  then show "ok_with n (close_all ?reason ?is p)"
    using p by (auto simp: ok_with_def)
qed

lemma plane_poll_keeps [keeps_rules]: "keeps (ok_with n) (plane_poll E ready)"
  unfolding plane_poll_def
proof (intro keeps_bind keeps_modify on_tickets_keeps)
  fix p assume p: "ok_with n p"
  have "ok_with m (fold (\<lambda>i p. snd (scope_poll E ready i p)) is q)" if "ok_with m q" "\<forall>i\<in>set is. i < m" for m "is" q
    using that by (induction "is" arbitrary: q) (auto simp: scope_poll_keeps)
  from this [OF ok_with_all [OF p], of "map snd (pl_sessions p)"] p session_refs [OF p]
  show "ok_with n (fold (\<lambda>i p. snd (scope_poll E ready i p)) (map snd (pl_sessions p)) p)"
    by (auto simp: ok_with_def)
qed (erule sweep_now_thinned)

text \<open>Closing the plane closes every session; nothing is left.\<close>

lemma scope_close_closed:
  "plane_ok p \<Longrightarrow> i < length (pl_scopes p) \<Longrightarrow> ss_closed (scope_at i (scope_close i reason p))"
  using sessions_okD(5) [OF plane_okD(1), of p i] by (auto simp: scope_close_def Let_def)

lemma scope_close_sessions:
  assumes "plane_ok p" "i < length (pl_scopes p)" "(k, j) \<in> set (pl_sessions (scope_close i reason p))"
  shows "(k, j) \<in> set (pl_sessions p)" "j \<noteq> i"
proof -
  show "(k, j) \<in> set (pl_sessions p)"
    using assms(3) by (auto simp: scope_close_def Let_def AList.delete_eq split: if_splits)
  have "open_at (scope_close i reason p) j"
    by (rule sessions_okD(2) [OF plane_okD(1) [OF scope_close_ok [OF assms(1,2)]] assms(3)])
  then show "j \<noteq> i" using scope_close_closed [OF assms(1,2)] by (auto simp: open_at_def)
qed

lemma close_all_sessions:
  assumes "plane_ok p" "\<forall>i\<in>set is. i < length (pl_scopes p)" "(k, j) \<in> set (pl_sessions (close_all reason is p))"
  shows "(k, j) \<in> set (pl_sessions p) \<and> j \<notin> set is"
  using assms unfolding close_all_def
proof (induction "is" arbitrary: p)
  case (Cons i "is")
  let ?q = "scope_close i reason p"
  have "(k, j) \<in> set (pl_sessions ?q) \<and> j \<notin> set is"
    using Cons.prems scope_close_ok [of p i reason] by (intro Cons.IH) auto
  with scope_close_sessions [of p i k j reason] Cons.prems show ?case by auto
qed simp

lemma scope_close_closing: "scope_close i reason (p\<lparr>pl_closing := b\<rparr>) = (scope_close i reason p)\<lparr>pl_closing := b\<rparr>"
  by (simp add: scope_close_def Let_def)

lemma close_all_closing: "close_all reason is (p\<lparr>pl_closing := b\<rparr>) = (close_all reason is p)\<lparr>pl_closing := b\<rparr>"
  unfolding close_all_def by (induction "is" arbitrary: p) (simp_all add: scope_close_closing)

lemma close_all_tickets: "thinned (pl_tickets p) (pl_tickets (close_all reason is p))"
  unfolding close_all_def
proof (induction "is" arbitrary: p)
  case (Cons i "is")
  have "thinned (pl_tickets p) (pl_tickets (scope_close i reason p))"
    by (simp add: scope_close_def Let_def)
  with Cons [of "scope_close i reason p"] show ?case by (auto intro: thinned_trans)
qed simp

lemma closing_ok:
  assumes "plane_ok q" "pl_sessions q = []"
  shows "plane_ok (q\<lparr>pl_closing := True\<rparr>)"
proof -
  let ?q = "q\<lparr>pl_closing := True\<rparr>"
  have same: "open_at ?q = open_at q" "active ?q = active q"
    by (simp_all add: open_at_def active_def fun_eq_iff)
  then have "scope_buffers_ok ?q = scope_buffers_ok q" by (simp add: scope_buffers_ok_def fun_eq_iff)
  with assms same show ?thesis
    unfolding plane_ok_def sessions_ok_def buffers_ok_def plane_tickets_ok_def by auto
qed

lemma plane_close_result:
  assumes p: "ok_with n p" and "\<not> pl_closing p"
  shows "ok_with n (plane_close reason p)" "pl_sessions (plane_close reason p) = []"
    "pl_closing (plane_close reason p)" "ticket_records (pl_tickets (plane_close reason p)) = []"
proof -
  let ?p = "p\<lparr>pl_tickets := tickets_clear (pl_tickets p)\<rparr>" and ?is = "map snd (pl_sessions p)"
  let ?q = "close_all reason ?is ?p"
  have eq: "plane_close reason p = ?q\<lparr>pl_closing := True\<rparr>"
  proof -
    have "p\<lparr>pl_closing := True, pl_tickets := tickets_clear (pl_tickets p)\<rparr> = ?p\<lparr>pl_closing := True\<rparr>" by simp
    with close_all_closing [of reason ?is True ?p]
    have "close_all reason ?is (p\<lparr>pl_closing := True, pl_tickets := tickets_clear (pl_tickets p)\<rparr>) =
      ?q\<lparr>pl_closing := True\<rparr>" by metis
    then show ?thesis using assms(2) by (simp add: plane_close_def Let_def)
  qed
  have okp: "ok_with n ?p" using p thinned_tickets_ok [of p "tickets_clear (pl_tickets p)"] by (simp add: ok_with_def)
  have refs: "\<forall>i\<in>set ?is. i < length (pl_scopes ?p)" using session_refs [OF p] by simp
  have "ok_with (length (pl_scopes ?p)) ?q" by (rule close_all_ok [OF ok_with_all [OF okp] refs])
  then have okq: "ok_with n ?q" using okp by (auto simp: ok_with_def)
  have empty: "pl_sessions ?q = []"
  proof (rule ccontr)
    assume "pl_sessions ?q \<noteq> []"
    then obtain k j where "(k, j) \<in> set (pl_sessions ?q)" by (cases "pl_sessions ?q") auto
    then have "(k, j) \<in> set (pl_sessions p) \<and> j \<notin> set ?is"
      using close_all_sessions [of ?p ?is k j reason] okp refs by (simp add: ok_with_def)
    then show False by force
  qed
  then show "pl_sessions (plane_close reason p) = []" "pl_closing (plane_close reason p)" by (simp_all add: eq)
  show "ticket_records (pl_tickets (plane_close reason p)) = []"
    using close_all_tickets [of ?p reason ?is] by (auto simp: eq thinned_def tickets_clear_def)
  show "ok_with n (plane_close reason p)"
    using okq empty by (simp add: eq ok_with_def closing_ok)
qed

subsection \<open>Sequences of calls\<close>

datatype plane_op = CreateSession jsval | Touch scope_ref | CountBytes scope_ref int
  | ReserveBuffer scope_ref int | ReleaseBuffer nat | CloseScope scope_ref string | TimerFires scope_ref
  | IssueTicket scope_ref jsval | ConsumeTicket jsval jsval | Fence fence_event | Poll | ClosePlane string

text \<open>A call on a scope that does not exist cannot be made.\<close>

definition at_scope :: "scope_ref \<Rightarrow> (plane \<Rightarrow> plane) \<Rightarrow> plane \<Rightarrow> plane" where
  "at_scope i f p = (if i < length (pl_scopes p) then f p else p)"

fun plane_step :: "stream_env \<Rightarrow> ready_hook \<Rightarrow> platform \<Rightarrow> plane_op \<Rightarrow> plane \<Rightarrow> plane" where
  "plane_step E ready S (CreateSession options) p = snd (createSession E options p)"
| "plane_step E ready S (Touch i) p = at_scope i (snd \<circ> touch E ready i) p"
| "plane_step E ready S (CountBytes i len) p = at_scope i (snd \<circ> countBytes E ready i len) p"
| "plane_step E ready S (ReserveBuffer i len) p = at_scope i (snd \<circ> reserveBuffer E ready i len) p"
| "plane_step E ready S (ReleaseBuffer j) p = releaseBuffer j p"
| "plane_step E ready S (CloseScope i reason) p = at_scope i (scope_close i reason) p"
| "plane_step E ready S (TimerFires i) p = at_scope i (snd \<circ> timer_fires E ready i) p"
| "plane_step E ready S (IssueTicket i parent) p = snd (issueTicket E ready S i parent p)"
| "plane_step E ready S (ConsumeTicket ticket expected) p = snd (consumeTicket E ready S ticket expected p)"
| "plane_step E ready S (Fence event) p = snd (fence event p)"
| "plane_step E ready S Poll p = snd (plane_poll E ready p)"
| "plane_step E ready S (ClosePlane reason) p = plane_close reason p"

lemma at_scope_ok:
  assumes "ok_with n p" "\<And>m q. i < m \<Longrightarrow> ok_with m q \<Longrightarrow> ok_with m (f q)"
  shows "ok_with n (at_scope i f p)"
proof (cases "i < length (pl_scopes p)")
  case True
  then have "ok_with (length (pl_scopes p)) (f p)" using assms by (intro assms(2)) (auto simp: ok_with_def)
  then show ?thesis using assms(1) True by (auto simp: at_scope_def ok_with_def)
qed (use assms in \<open>simp add: at_scope_def\<close>)

lemma at_scope_keeps:
  "(\<And>m. i < m \<Longrightarrow> keeps (ok_with m) act) \<Longrightarrow> ok_with n p \<Longrightarrow> ok_with n (at_scope i (snd \<circ> act) p)"
  by (rule at_scope_ok) (simp_all add: keeps_def)

lemma releaseBuffer_fields [simp]:
  "length (pl_scopes (releaseBuffer j p)) = length (pl_scopes p)"
  "pl_maxPerStream (releaseBuffer j p) = pl_maxPerStream p"
  by (simp_all add: releaseBuffer_def Let_def)

lemma ok_keeps: "keeps (ok_with n) m \<Longrightarrow> ok_with n p \<Longrightarrow> ok_with n (snd (m p))"
  by (simp add: keeps_def)

lemma plane_step_ok:
  assumes p: "ok_with n p"
  shows "ok_with n (plane_step E ready S oper p)"
proof (cases oper)
  case (ClosePlane reason)
  then show ?thesis using p plane_close_result(1) [of n p reason]
    by (cases "pl_closing p") (auto simp: plane_close_def)
next
  case (ReleaseBuffer j)
  then show ?thesis using p releaseBuffer_ok by (simp add: ok_with_def)
next
  case (CloseScope i reason)
  then show ?thesis using at_scope_ok [OF p, of i "scope_close i reason"] scope_close_ok
    by (simp add: ok_with_def Suc_le_eq)
qed (simp_all only: plane_step.simps at_scope_keeps [OF _ p] ok_keeps [OF _ p] keeps_rules)

lemma StreamSessionPlane_start:
  assumes "\<exists>options. StreamSessionPlane E options = Inr p"
  shows "\<exists>ms mb mp t. 1 \<le> ms \<and> 1 \<le> mp \<and> mp \<le> mb \<and> tickets_ok t \<and> ticket_records t = [] \<and>
    p = \<lparr>pl_maxStreams = ms, pl_maxBuffered = mb, pl_maxPerStream = mp,
       pl_sessions = [], pl_buffered = 0, pl_closing = False, pl_tickets = t,
       pl_scopes = [], pl_reservations = [], pl_closes = []\<rparr>"
proof -
  from assms obtain options ms mb mp mt tt where o:
    "positiveInteger (getf options ''maxStreams'') 1024 = Inr ms"
    "positiveInteger (getf options ''maxPerStreamBufferedBytes'') (1024 * 1024 + 65535) = Inr mp" "mp \<le> mb"
    "positiveInteger (getf options ''maxPendingTickets'') 1024 = Inr mt"
    and p: "p = \<lparr>pl_maxStreams = ms, pl_maxBuffered = mb, pl_maxPerStream = mp,
       pl_sessions = [], pl_buffered = 0, pl_closing = False,
       pl_tickets = \<lparr>maxTickets = mt, ttlMillis = tt, ticket_records = [], now_calls = 1, random_calls = 0\<rparr>,
       pl_scopes = [], pl_reservations = [], pl_closes = []\<rparr>"
    by (auto simp: StreamSessionPlane_def OneUseStreamTickets_def rbind_Inr_iff not_less split: if_splits)
  from positiveInteger_ge [OF o(1)] positiveInteger_ge [OF o(2)] positiveInteger_ge [OF o(4)] o(3) p
  show ?thesis by (auto simp: tickets_ok_def)
qed

interpretation plane_machine: machine
  "\<lambda>p. \<exists>options. StreamSessionPlane E options = Inr p" "plane_step E ready S" "ok_with 0"
  for E ready S
proof
  fix p assume "\<exists>options. StreamSessionPlane E options = Inr p"
  then obtain ms mb mp t where lim: "1 \<le> ms" "1 \<le> mp" "mp \<le> mb" "tickets_ok t" "ticket_records t = []"
    and p: "p = \<lparr>pl_maxStreams = ms, pl_maxBuffered = mb, pl_maxPerStream = mp,
       pl_sessions = [], pl_buffered = 0, pl_closing = False, pl_tickets = t,
       pl_scopes = [], pl_reservations = [], pl_closes = []\<rparr>"
    using StreamSessionPlane_start by blast
  then show "ok_with 0 p"
    by (simp add: ok_with_def plane_ok_def sessions_ok_def buffers_ok_def plane_tickets_ok_def open_at_def)
qed (rule plane_step_ok)

end
