(* ===== verification/Stream_Closing.thy ===== *)
theory Stream_Closing
  imports Stream_Session_Laws
begin

text \<open>
  The end of a scope: no operation of the plane opens a closed scope again, and a fence closes
  exactly the scopes that match it.
\<close>

subsection \<open>A closed scope stays closed\<close>

definition closed_at :: "scope_ref \<Rightarrow> plane \<Rightarrow> bool" where
  "closed_at i p = (i < length (pl_scopes p) \<and> ss_closed (scope_at i p))"

named_theorems closed_rules \<open>actions after which a closed scope is still closed\<close>

lemmas closed_rules_basic [closed_rules] = keeps_bind keeps_pure keeps_do_if keeps_if keeps_case_prod

lemma closed_upd [closed_rules]:
  assumes "\<And>sc. ss_closed sc \<Longrightarrow> ss_closed (f sc)"
  shows "keeps (closed_at i) (modify (upd_scope j f))"
  using assms by (auto simp: keeps_def closed_at_def scope_at_upd)

lemma closed_at_close: "closed_at i p \<Longrightarrow> closed_at i (scope_close j reason p)"
  by (auto simp: closed_at_def scope_close_def Let_def nth_update_at)

lemma closed_tickets: "closed_at i (p\<lparr>pl_tickets := t\<rparr>) = closed_at i p"
  by (simp add: closed_at_def)

lemma closed_on_tickets [closed_rules]: "keeps (closed_at i) (on_tickets m)"
  by (simp add: keeps_def on_tickets_def closed_tickets split: prod.split)

lemma closed_fail [closed_rules]: "keeps (closed_at i) (fail_closed j reason e)"
  unfolding fail_closed_def by (intro closed_rules keeps_modify) (rule closed_at_close)

lemma closed_scope_actions [closed_rules]:
  "keeps (closed_at i) (plane_now E)"
  "keeps (closed_at i) (assertActive E ready j)"
  "keeps (closed_at i) (scheduleExpiry E j)"
  unfolding plane_now_def assertActive_def scheduleExpiry_def
  by (intro closed_rules; simp)+

lemma closed_add_reservation: "closed_at i p \<Longrightarrow> closed_at i (add_reservation j len p)"
  by (auto simp: closed_at_def add_reservation_def scope_at_upd)

lemma closed_releaseBuffer: "closed_at i p \<Longrightarrow> closed_at i (releaseBuffer j p)"
  by (auto simp: closed_at_def releaseBuffer_def Let_def scope_at_upd)

lemma closed_touch [closed_rules]: "keeps (closed_at i) (touch E ready j)"
  unfolding touch_def by (intro closed_rules) simp

lemma closed_byte_actions [closed_rules]:
  "keeps (closed_at i) (countBytes E ready j len)"
  "keeps (closed_at i) (reserveBuffer E ready j len)"
  unfolding countBytes_def reserveBuffer_def Let_def
  by (intro closed_rules keeps_modify; simp add: closed_add_reservation)+

lemma closed_createSession [closed_rules]: "keeps (closed_at i) (createSession E options)"
  unfolding createSession_def Let_def
  by (intro closed_rules keeps_modify) (auto simp: closed_at_def nth_append)

lemma closed_ticket_actions [closed_rules]:
  "keeps (closed_at i) (issueTicket E ready S j parent)"
  "keeps (closed_at i) (consumeTicket E ready S ticket expected)"
  unfolding issueTicket_def consumeTicket_def Let_def by (intro closed_rules)+

lemma closed_close_all: "closed_at i p \<Longrightarrow> closed_at i (close_all reason is p)"
  unfolding close_all_def by (induction "is" arbitrary: p) (simp_all add: closed_at_close)

lemma closed_poll: "closed_at i p \<Longrightarrow> closed_at i (snd (scope_poll E ready j p))"
  using keepsD [OF closed_scope_actions(2), of i p E ready j]
  by (auto simp: scope_poll_def split: prod.splits sum.splits)

lemma closed_timer [closed_rules]: "keeps (closed_at i) (timer_fires E ready j)"
proof -
  have "closed_at i (snd (timer_fires E ready j p))" if "closed_at i p" for p
  proof -
    let ?p = "upd_scope j (\<lambda>sc. sc\<lparr>ss_timer := None\<rparr>) p"
    have "closed_at i ?p" using that by (auto simp: closed_at_def scope_at_upd)
    then have "closed_at i (snd (scope_poll E ready j ?p))" by (rule closed_poll)
    then show ?thesis
      using that keepsD [OF closed_scope_actions(3)] by (auto simp: timer_fires_def Let_def split: prod.splits)
  qed
  then show ?thesis by (simp add: keeps_def)
qed

lemma closed_plane_actions [closed_rules]:
  "keeps (closed_at i) (fence event)"
  "keeps (closed_at i) (plane_poll E ready)"
proof -
  show "keeps (closed_at i) (fence event)"
    unfolding fence_def Let_def by (intro closed_rules keeps_modify) (rule closed_close_all)
  have "closed_at i (fold (\<lambda>j p. snd (scope_poll E ready j p)) is p)" if "closed_at i p" for p "is"
    using that by (induction "is" arbitrary: p) (simp_all add: closed_poll)
  then show "keeps (closed_at i) (plane_poll E ready)"
    unfolding plane_poll_def by (intro closed_rules keeps_modify)
qed

lemma closed_plane_close: "closed_at i p \<Longrightarrow> closed_at i (plane_close reason p)"
  by (auto simp: plane_close_def Let_def intro!: closed_close_all) (simp add: closed_at_def)

lemma closed_plane_step:
  assumes "closed_at i p"
  shows "closed_at i (plane_step E ready S oper p)"
proof -
  have act: "closed_at i (snd (m p))" "closed_at i (at_scope j (snd \<circ> m) p)" if "keeps (closed_at i) m" for m j
    using that assms by (auto simp: keeps_def at_scope_def)
  have pure: "closed_at i (at_scope j (scope_close j reason) p)" for j reason
    using assms by (simp add: at_scope_def closed_at_close)
  show ?thesis
    by (cases oper) (simp_all only: plane_step.simps act closed_rules pure closed_releaseBuffer [OF assms]
        closed_plane_close [OF assms])
qed

lemma closed_plane_run: "closed_at i p \<Longrightarrow> closed_at i (fold (plane_step E ready S) opers p)"
  by (induction opers arbitrary: p) (simp_all add: closed_plane_step)

lemma closed_refused: "closed_at i p \<Longrightarrow> assertActive E ready i p = (Inl RETRY_TERMINAL, p)"
  by (simp add: closed_at_def assertActive_def)

lemma closed_not_open: "closed_at i p \<Longrightarrow> \<not> open_at p i"
  by (simp add: closed_at_def open_at_def)

text \<open>Neither the session table nor a ticket leads to a closed scope.\<close>

lemma closed_unreachable:
  assumes "plane_ok p" "closed_at i p"
  shows "i \<notin> snd ` set (pl_sessions p)" "i \<notin> (\<lambda>(_, r). tk_payload r) ` set (ticket_records (pl_tickets p))"
  using closed_not_open [OF assms(2)] sessions_okD(2) [OF plane_okD(1) [OF assms(1)]]
    plane_okD(4) [OF assms(1)]
  by (auto simp: tickets_of_open_def)

subsection \<open>Fences\<close>

lemma close_all_other: "i \<notin> set is \<Longrightarrow> scope_at i (close_all reason is p) = scope_at i p"
  unfolding close_all_def by (induction "is" arbitrary: p) (simp_all add: scope_close_def Let_def)

lemma close_all_closed:
  assumes "ok_with n p" "\<forall>j\<in>set is. j < n" "i \<in> set is"
  shows "closed_at i (close_all reason is p)"
  using assms
proof (induction "is" arbitrary: p)
  case (Cons j "is")
  have ok: "ok_with n (scope_close j reason p)" using Cons.prems by (simp add: ok_with_def scope_close_ok)
  have step: "close_all reason (j # is) p = close_all reason is (scope_close j reason p)" by (simp add: close_all_def)
  show ?case
  proof (cases "i = j")
    case True
    then have "closed_at i (scope_close j reason p)"
      using Cons.prems scope_close_closed by (auto simp: closed_at_def ok_with_def)
    then show ?thesis unfolding step by (rule closed_close_all)
  next
    case False
    then show ?thesis using Cons.IH [OF ok] Cons.prems by (simp add: step)
  qed
qed simp

lemma close_all_length [simp]: "length (pl_scopes (close_all reason is p)) = length (pl_scopes p)"
  unfolding close_all_def by (induction "is" arbitrary: p) simp_all

lemma fence_result:
  assumes "ok_with n p" "fence event p = (Inr (), q)"
    and "optionally session_u64 (fe_descriptorSequence event) = Inr s" "optionally fixed32 (fe_descriptorHash event) = Inr h"
  shows "open_at p i \<Longrightarrow> fence_matches s h (scope_at i p) \<Longrightarrow> closed_at i q"
    "open_at q i \<longleftrightarrow> open_at p i \<and> \<not> fence_matches s h (scope_at i p)"
    "open_at q i \<Longrightarrow> scope_at i q = scope_at i p"
proof -
  let ?is = "filter (\<lambda>i. fence_matches s h (scope_at i p)) (map snd (pl_sessions p))"
  let ?reason = "case fe_reason event of Some r \<Rightarrow> ''readiness-'' @ r | None \<Rightarrow> ''readiness-fenced''"
  have q: "q = close_all ?reason ?is p" using assms(2-4) by (simp add: fence_def Let_def)
  have refs: "\<forall>i\<in>set ?is. i < length (pl_scopes p)" using session_refs [OF assms(1)] by auto
  have "plane_ok p" using assms(1) by (simp add: ok_with_def)
  then have listed: "i \<in> set ?is \<longleftrightarrow> open_at p i \<and> fence_matches s h (scope_at i p)"
    using sessions_okD(2,4) [OF plane_okD(1), of p] by force
  have closed: "closed_at i q" if "i \<in> set ?is"
    unfolding q by (rule close_all_closed [OF ok_with_all [OF assms(1)] refs that])
  then show "open_at p i \<Longrightarrow> fence_matches s h (scope_at i p) \<Longrightarrow> closed_at i q" using listed by blast
  have other: "scope_at i q = scope_at i p" if "i \<notin> set ?is" unfolding q by (rule close_all_other [OF that])
  have len: "length (pl_scopes q) = length (pl_scopes p)" by (simp add: q)
  show "open_at q i \<longleftrightarrow> open_at p i \<and> \<not> fence_matches s h (scope_at i p)"
    using closed [THEN closed_not_open] other len listed by (auto simp: open_at_def)
  then show "open_at q i \<Longrightarrow> scope_at i q = scope_at i p" using other listed by blast
qed

subsection \<open>Accounting\<close>

lemma count_list_distinct: "distinct xs \<Longrightarrow> x \<in> set xs \<Longrightarrow> count_list xs x = 1"
  by (induction xs) (auto simp: count_list_0_iff)

text \<open>All reservations that are still held, of whatever scope.\<close>

definition held_reservations :: "plane \<Rightarrow> nat set" where
  "held_reservations p = {j. j < length (pl_reservations p) \<and> rs_active (pl_reservations p ! j)}"

lemma buffered_sum:
  assumes "plane_ok p"
  shows "pl_buffered p = (\<Sum>j\<in>held_reservations p. rs_length (pl_reservations p ! j))"
proof -
  let ?scopes = "{..<length (pl_scopes p)}"
  have ok: "buffers_ok p" by (rule plane_okD(2) [OF assms])
  have "held_reservations p = (\<Union>i\<in>?scopes. active p i)"
    using ok by (auto simp: held_reservations_def active_def buffers_ok_def)
  moreover have "pl_buffered p = (\<Sum>i\<in>?scopes. \<Sum>j\<in>active p i. rs_length (pl_reservations p ! j))"
    using ok by (auto simp: buffers_ok_def scope_buffers_ok_def Let_def intro: sum.cong)
  moreover have "(\<Sum>j\<in>(\<Union>i\<in>?scopes. active p i). rs_length (pl_reservations p ! j)) =
      (\<Sum>i\<in>?scopes. \<Sum>j\<in>active p i. rs_length (pl_reservations p ! j))"
    by (rule sum.UNION_disjoint) (auto simp: active_def)
  ultimately show ?thesis by simp
qed

lemma scope_accounts:
  assumes "plane_ok p" "i < length (pl_scopes p)"
  shows "0 \<le> ss_buffered (scope_at i p)" "ss_buffered (scope_at i p) \<le> ss_maxBuffered (scope_at i p)"
    "0 \<le> ss_totalBytes (scope_at i p)" "ss_totalBytes (scope_at i p) \<le> ss_maxBytes (scope_at i p)"
    "ss_closed (scope_at i p) \<Longrightarrow> ss_buffered (scope_at i p) = 0"
proof -
  have ok: "scope_buffers_ok p i" "\<forall>j < length (pl_reservations p). 1 \<le> rs_length (pl_reservations p ! j)"
    using plane_okD(2) [OF assms(1)] assms(2) by (simp_all add: buffers_ok_def)
  then have sum: "ss_buffered (scope_at i p) = (\<Sum>j\<in>active p i. rs_length (pl_reservations p ! j))"
    by (simp add: scope_buffers_ok_def Let_def)
  show "0 \<le> ss_buffered (scope_at i p)"
    unfolding sum using ok(2) by (intro sum_nonneg) (fastforce simp: active_def)
  show "ss_buffered (scope_at i p) \<le> ss_maxBuffered (scope_at i p)" "0 \<le> ss_totalBytes (scope_at i p)"
    "ss_totalBytes (scope_at i p) \<le> ss_maxBytes (scope_at i p)"
    "ss_closed (scope_at i p) \<Longrightarrow> ss_buffered (scope_at i p) = 0"
    using ok(1) sum by (auto simp: scope_buffers_ok_def Let_def)
qed

end
