(* ===== verification/Forward_Circuit_Laws.thy ===== *)
theory Forward_Circuit_Laws
  imports Forward_Circuit Stream_Closing Dispatch_Laws
begin

text \<open>
  Laws of the operations of a live circuit: the credit window of each direction, the exact
  forwarding of frames, and what every operation keeps of the plane and the circuit.
\<close>

subsection \<open>The credit window\<close>

lemma on_plane_bind:
  "abind (on_plane m) f r = (case m (rl_plane r) of (Inl e, p) \<Rightarrow> (Inl e, r\<lparr>rl_plane := p\<rparr>)
     | (Inr x, p) \<Rightarrow> f x (r\<lparr>rl_plane := p\<rparr>))"
  by (auto simp: abind_def on_plane_def split: prod.splits sum.splits)

lemma on_circuit_bind: "abind (on_circuit f) g r = g () (r\<lparr>rl_circuit := f (rl_circuit r)\<rparr>)"
  by (simp add: on_circuit_def)

lemma on_plane_circuit [simp]: "rl_circuit (snd (on_plane m r)) = rl_circuit r"
  by (simp add: on_plane_def split: prod.split)

definition dir_ok :: "dir_state \<Rightarrow> bool" where
  "dir_ok d = (0 \<le> consumedThrough d \<and> consumedThrough d \<le> nextOffset d \<and> 0 \<le> availableCredit d \<and>
     availableCredit d + (nextOffset d - consumedThrough d) \<le> DISPATCH_LIMITS_MAX_FORWARD_WINDOW_BYTES)"

definition credit_ok :: "circuit \<Rightarrow> bool" where
  "credit_ok c = (dir_ok (ci_callerState c) \<and> dir_ok (ci_nextState c))"

lemma credit_upd_dir:
  assumes "credit_ok c" "dir_ok (dir_of side c) \<Longrightarrow> dir_ok (f (dir_of side c))"
  shows "credit_ok (upd_dir side f c)"
  using assms by (auto simp: credit_ok_def upd_dir_def dir_of_def split: if_splits)

lemma credit_dir: "credit_ok c \<Longrightarrow> dir_ok (dir_of side c)"
  by (simp add: credit_ok_def dir_of_def)

text \<open>What the body codecs guarantee.\<close>

lemma prepared_boundedBytes:
  assumes "prepared (boundedBytes lo hi) v p"
  shows "\<exists>bs. v = JBytes bs \<and> lo \<le> length bs"
proof -
  from assms obtain bs where "asBuffer v = Inr bs" "lo \<le> length bs"
    by (auto simp: prepared_def boundedBytes_def raising_def rbind_Inr_iff not_less split: if_splits)
  then show ?thesis by (cases v) (simp_all add: asBuffer_def)
qed

lemma data_body:
  assumes "decodeCanonical blindForwardDataV1 b cp = Inr v"
  shows "1 \<le> length (bytesf v ''bytes'')" "\<exists>x. getf v ''bytes'' = JBytes x" "\<exists>n. getf v ''circuitNonce'' = JBytes n"
proof -
  have "prepared blindForwardDataV1 v JUndef"
    by (rule decoded_prepared [OF blindForwardDataV1.canonical_codec_axioms assms])
  note p = prepared_struct [OF this [unfolded blindForwardDataV1_def]]
  have "prepared (boundedBytes 1 (nat DISPATCH_LIMITS_MAX_FORWARD_DATA_BYTES)) (getf v ''bytes'') v"
    using p(3) by simp
  then show "1 \<le> length (bytesf v ''bytes'')" "\<exists>x. getf v ''bytes'' = JBytes x"
    by (auto dest!: prepared_boundedBytes simp del: getf.simps)
  show "\<exists>n. getf v ''circuitNonce'' = JBytes n"
    using p(3) [of "''circuitNonce''" bytes32] by (auto dest: prepared_fixedBytes)
qed

lemma window_body:
  assumes "decodeCanonical blindForwardWindowV1 b cp = Inr v"
  shows "1 \<le> numf v ''creditIncrement''"
proof -
  have "prepared blindForwardWindowV1 v JUndef"
    by (rule decoded_prepared [OF blindForwardWindowV1.canonical_codec_axioms assms])
  note p = prepared_struct [OF this [unfolded blindForwardWindowV1_def]]
  have "prepared (ranged u32be 1 DISPATCH_LIMITS_MAX_FORWARD_WINDOW_BYTES) (getf v ''creditIncrement'') v"
    using p(3) by simp
  then show ?thesis by (auto dest!: prepared_ranged)
qed

abbreviation credit :: "relay \<Rightarrow> bool" where
  "credit r \<equiv> credit_ok (rl_circuit r)"

lemma credit_on_plane: "keeps credit (on_plane m)"
  by (simp add: keeps_def)

lemma credit_on_circuit:
  "(\<And>c. credit_ok c \<Longrightarrow> credit_ok (f c)) \<Longrightarrow> keeps credit (on_circuit f)"
  by (simp add: on_circuit_def keeps_def)

lemma credit_count: "keeps credit (on_circuit (upd_dir side (\<lambda>s. s\<lparr>nextSequence := nextSequence s + 1\<rparr>)))"
  by (rule credit_on_circuit, erule credit_upd_dir) (simp add: dir_ok_def)

lemma credit_prepare_data: "keeps credit (prepare_data E ready side body)"
proof -
  have "credit_ok (upd_dir side (\<lambda>s. s\<lparr>nextOffset := nextOffset s + int n, availableCredit := availableCredit s - int n\<rparr>) c)"
    if "credit_ok c" "int n \<le> availableCredit (dir_of side c)" for c n
    using that by (intro credit_upd_dir) (auto simp: dir_ok_def)
  then show ?thesis
    by (auto simp: keeps_def prepare_data_def Let_def on_plane_bind on_circuit_bind split: prod.splits sum.splits)
qed

lemma credit_prepare_window:
  assumes "1 \<le> numf body ''creditIncrement''"
  shows "keeps credit (prepare_window E ready target body)"
proof -
  have "credit_ok (upd_dir target (\<lambda>s. s\<lparr>consumedThrough := t, availableCredit := availableCredit (dir_of target c) + k\<rparr>) c)"
    if "credit_ok c" "1 \<le> k" "consumedThrough (dir_of target c) < t" "t \<le> nextOffset (dir_of target c)"
      "availableCredit (dir_of target c) + k + (nextOffset (dir_of target c) - t) \<le> DISPATCH_LIMITS_MAX_FORWARD_WINDOW_BYTES"
    for c k t
    using that by (intro credit_upd_dir) (auto simp: dir_ok_def)
  with assms show ?thesis
    by (auto simp: keeps_def prepare_window_def Let_def on_plane_bind on_circuit_bind not_le not_less
        split: prod.splits sum.splits)
qed

lemma credit_prepare_close: "keeps credit (prepare_close E ready side body)"
proof -
  have "credit_ok (upd_dir side (\<lambda>s. s\<lparr>fin := True\<rparr>) c)" if "credit_ok c" for c
    using that by (intro credit_upd_dir) (auto simp: dir_ok_def)
  then show ?thesis
    by (auto simp: keeps_def prepare_close_def Let_def on_plane_bind on_circuit_bind split: prod.splits sum.splits)
qed

lemma decodeActiveBody_window:
  "decodeActiveBody frame = Inr body \<Longrightarrow> getf frame ''operationId'' = JNum OPERATION_FORWARD_WINDOW \<Longrightarrow>
     1 \<le> numf body ''creditIncrement''"
  by (auto simp: decodeActiveBody_def OPERATION_FORWARD_DATA_def OPERATION_FORWARD_WINDOW_def
      dest: window_body simp del: getf.simps)

lemma credit_relay_frame: "keeps credit (relay_frame E ready side target c frame)"
  unfolding relay_frame_def
proof (rule keeps_lift_bind)
  fix body assume "decodeActiveBody frame = Inr body"
  then have br: "keeps credit (if getf frame ''operationId'' = JNum OPERATION_FORWARD_DATA then prepare_data E ready side body
      else if getf frame ''operationId'' = JNum OPERATION_FORWARD_WINDOW then prepare_window E ready target body
      else prepare_close E ready side body)"
    using decodeActiveBody_window [of frame body]
    by (simp add: credit_prepare_data credit_prepare_close credit_prepare_window)
  show "keeps credit (if bytesf body ''circuitNonce'' \<noteq> ci_nonce c then throw BAD_ENCODING else
     abind (if getf frame ''operationId'' = JNum OPERATION_FORWARD_DATA then prepare_data E ready side body
        else if getf frame ''operationId'' = JNum OPERATION_FORWARD_WINDOW then prepare_window E ready target body
        else prepare_close E ready side body) (\<lambda>(reservation, abortAfterDelivery).
     abind (lift (encodeDispatchFrame (outbound_frame frame (stream_of target c)))) (\<lambda>outbound.
     ret \<lparr>pr_side = side, pr_targetSide = target, pr_outbound = outbound, pr_reservation = reservation,
       pr_abortAfterDelivery = abortAfterDelivery\<rparr>)))"
    by (rule keeps_if [OF keeps_pure(2)], rule keeps_bind [OF br], intro keeps_case_prod keeps_bind keeps_pure)
qed

lemma credit_prepare: "keeps credit (prepare E ready side rawFrame)"
  unfolding prepare_def by (intro keeps_rules credit_on_plane credit_count credit_relay_frame)

subsection \<open>The plane under a circuit\<close>

definition relay_ok :: "nat \<Rightarrow> relay \<Rightarrow> bool" where
  "relay_ok n r = (ok_with n (rl_plane r) \<and> ci_scope (rl_circuit r) < n)"

lemma relay_gets [keeps_rules]:
  assumes "\<And>c. ci_scope c < n \<Longrightarrow> keeps (relay_ok n) (f c)"
  shows "keeps (relay_ok n) (abind (gets rl_circuit) f)"
proof (rule keeps_gets_bind)
  fix r assume r: "relay_ok n r"
  then have "keeps (relay_ok n) (f (rl_circuit r))" by (intro assms) (simp add: relay_ok_def)
  with r show "relay_ok n (snd (f (rl_circuit r) r))" by (simp add: keeps_def)
qed

lemma relay_on_plane [keeps_rules]: "keeps (ok_with n) m \<Longrightarrow> keeps (relay_ok n) (on_plane m)"
  unfolding keeps_def relay_ok_def on_plane_def
  by (metis (no_types, lifting) case_prod_beta relay.select_convs(1) relay.select_convs(2) relay.surjective
      relay.update_convs(1) snd_conv)

lemma relay_on_circuit: "(\<And>c. ci_scope (f c) = ci_scope c) \<Longrightarrow> keeps (relay_ok n) (on_circuit f)"
  by (simp add: on_circuit_def keeps_def relay_ok_def)

lemma relay_upd_dir [keeps_rules]: "keeps (relay_ok n) (on_circuit (upd_dir side f))"
  by (rule relay_on_circuit) (simp add: upd_dir_def)

lemma relay_prepare [keeps_rules]: "keeps (relay_ok n) (prepare E ready side rawFrame)"
  unfolding prepare_def relay_frame_def prepare_data_def prepare_window_def prepare_close_def Let_def
  by (intro relay_gets keeps_rules; assumption?)

subsection \<open>A prepared frame\<close>

lemma opposite_Inr:
  "opposite side = Inr target \<longleftrightarrow> side = FORWARD_SIDE_CALLER \<and> target = FORWARD_SIDE_NEXT_HOP \<or>
     side = FORWARD_SIDE_NEXT_HOP \<and> target = FORWARD_SIDE_CALLER"
  by (auto simp: opposite_def FORWARD_SIDE_CALLER_def FORWARD_SIDE_NEXT_HOP_def)

lemma dir_of_upd:
  assumes "opposite side = Inr target"
  shows "dir_of side (upd_dir side f c) = f (dir_of side c)" "dir_of target (upd_dir side f c) = dir_of target c"
    "dir_of side (upd_dir target f c) = dir_of side c" "dir_of target (upd_dir target f c) = f (dir_of target c)"
  using assms
  by (auto simp: opposite_Inr dir_of_def upd_dir_def FORWARD_SIDE_CALLER_def FORWARD_SIDE_NEXT_HOP_def)

lemma decoded_frame_fields:
  assumes "decodeDispatchFrame v cp = Inr frame"
  shows "\<exists>b. getf frame ''body'' = JBytes b" "getf frame ''sequence'' = JBig (bigf frame ''sequence'')"
proof -
  obtain bs where "v = JBytes bs"
    using assms by (cases v) (auto simp: decodeDispatchFrame_def asBuffer_def)
  then obtain n rid s q where frame: "frame = JObj (frame_of_wire bs @ [(''body'', JBytes (drop 45 bs))])"
    using assms by (auto simp: decodeDispatchFrame_Inr)
  show "\<exists>b. getf frame ''body'' = JBytes b" "getf frame ''sequence'' = JBig (bigf frame ''sequence'')"
    by (simp_all add: frame frame_of_wire_def)
qed

text \<open>The frame a relay sends is the frame it received, on the stream of the other side.\<close>

lemma outbound_decodes:
  assumes "decodeDispatchFrame v cp = Inr frame" "encodeDispatchFrame (outbound_frame frame sid) = Inr out"
  obtains g where "decodeDispatchFrame (JBytes out) True = Inr g"
    "getf g ''operationId'' = getf frame ''operationId''" "getf g ''sequence'' = getf frame ''sequence''"
    "getf g ''body'' = getf frame ''body''" "getf g ''streamId'' = JBig sid" "decodeActiveBody g = decodeActiveBody frame"
    "getf g ''frameKind'' = JNum FRAME_KIND_STREAM" "getf g ''familyId'' = JNum FAMILY_FORWARD"
proof -
  let ?g = "JObj (canonical_frame (outbound_frame frame sid))"
  from decoded_frame_fields [OF assms(1)] obtain b where b: "getf frame ''body'' = JBytes b"
    and q: "getf frame ''sequence'' = JBig (bigf frame ''sequence'')" by blast
  have f: "getf ?g ''operationId'' = getf frame ''operationId''" "getf ?g ''sequence'' = getf frame ''sequence''"
    "getf ?g ''body'' = getf frame ''body''" "getf ?g ''streamId'' = JBig sid"
    "getf ?g ''frameKind'' = JNum FRAME_KIND_STREAM" "getf ?g ''familyId'' = JNum FAMILY_FORWARD"
    using b q by (simp_all add: canonical_frame_def outbound_frame_def)
  then have a: "decodeActiveBody ?g = decodeActiveBody frame" by (simp only: decodeActiveBody_def)
  show thesis by (rule that [OF dispatch_redecode [OF assms(2), of True] f(1-4) a f(5,6)])
qed

text \<open>The payload that a frame carries on the stream of its sender.\<close>

definition payload :: "jsval \<Rightarrow> bytes" where
  "payload frame = (if getf frame ''operationId'' = JNum OPERATION_FORWARD_DATA
     then (case decodeActiveBody frame of Inr body \<Rightarrow> bytesf body ''bytes'' | Inl _ \<Rightarrow> []) else [])"

definition data_offset :: "jsval \<Rightarrow> int" where
  "data_offset frame = (case decodeActiveBody frame of Inr body \<Rightarrow> bigf body ''offset'' | Inl _ \<Rightarrow> 0)"

definition is_data :: "jsval \<Rightarrow> bool" where
  "is_data frame = (getf frame ''operationId'' = JNum OPERATION_FORWARD_DATA)"

definition same_ids :: "circuit \<Rightarrow> circuit \<Rightarrow> bool" where
  "same_ids c d = (ci_scope d = ci_scope c \<and> ci_callerStreamId d = ci_callerStreamId c \<and>
     ci_nextStreamId d = ci_nextStreamId c \<and> ci_callerQueue d = ci_callerQueue c \<and>
     ci_nextQueue d = ci_nextQueue c \<and> ci_attached d = ci_attached c \<and> ci_written d = ci_written c)"

text \<open>The counters of both directions after an accepted body: \<open>n\<close> more bytes from \<open>side\<close>.\<close>

definition advances :: "int \<Rightarrow> int \<Rightarrow> circuit \<Rightarrow> circuit \<Rightarrow> bool" where
  "advances side n c d = (same_ids c d \<and>
     (\<forall>t. nextSequence (dir_of t d) = nextSequence (dir_of t c)) \<and>
     (\<forall>t. nextOffset (dir_of t d) =
        nextOffset (dir_of t c) + (if (t = FORWARD_SIDE_CALLER) = (side = FORWARD_SIDE_CALLER) then n else 0)))"

lemma prepare_data_Inr:
  assumes "prepare_data E ready side body r = (Inr x, q)"
  shows "bigf body ''offset'' = nextOffset (dir_of side (rl_circuit r))" "\<not> fin (dir_of side (rl_circuit r))"
    "advances side (int (length (bytesf body ''bytes''))) (rl_circuit r) (rl_circuit q)"
  using assms
  by (auto simp: prepare_data_def Let_def on_plane_bind on_circuit_bind advances_def same_ids_def upd_dir_def dir_of_def
      split: if_splits prod.splits sum.splits)

lemma prepare_window_Inr:
  assumes "prepare_window E ready target body r = (Inr x, q)"
  shows "advances side 0 (rl_circuit r) (rl_circuit q)"
  using assms
  by (auto simp: prepare_window_def Let_def on_plane_bind on_circuit_bind advances_def same_ids_def upd_dir_def dir_of_def
      split: if_splits prod.splits sum.splits)

lemma prepare_close_Inr:
  assumes "prepare_close E ready side body r = (Inr x, q)"
  shows "advances side 0 (rl_circuit r) (rl_circuit q)"
  using assms
  by (auto simp: prepare_close_def Let_def on_plane_bind on_circuit_bind advances_def same_ids_def upd_dir_def dir_of_def
      split: if_splits prod.splits sum.splits)

lemma relay_frame_Inr:
  assumes "relay_frame E ready side target c frame r = (Inr pr, q)" "decodeDispatchFrame v True = Inr frame"
  obtains g where "pr_side pr = side" "pr_targetSide pr = target"
    "decodeDispatchFrame (JBytes (pr_outbound pr)) True = Inr g" "getf g ''streamId'' = JBig (stream_of target c)"
    "getf g ''operationId'' = getf frame ''operationId''" "getf g ''sequence'' = getf frame ''sequence''"
    "getf g ''body'' = getf frame ''body''"
    "is_data g \<Longrightarrow> data_offset g = nextOffset (dir_of side (rl_circuit r)) \<and> \<not> fin (dir_of side (rl_circuit r))"
    "advances side (int (length (payload g))) (rl_circuit r) (rl_circuit q)"
proof -
  from assms(1) obtain body x where body: "decodeActiveBody frame = Inr body"
    and branch: "(if is_data frame then prepare_data E ready side body
        else if getf frame ''operationId'' = JNum OPERATION_FORWARD_WINDOW then prepare_window E ready target body
        else prepare_close E ready side body) r = (Inr x, q)"
    and enc: "encodeDispatchFrame (outbound_frame frame (stream_of target c)) = Inr (pr_outbound pr)"
    and pr: "pr_side pr = side" "pr_targetSide pr = target"
    by (auto simp: relay_frame_def abind_Inr_iff is_data_def split: if_splits)
  from outbound_decodes [OF assms(2) enc] obtain g where g:
    "decodeDispatchFrame (JBytes (pr_outbound pr)) True = Inr g" "getf g ''operationId'' = getf frame ''operationId''"
    "getf g ''sequence'' = getf frame ''sequence''" "getf g ''body'' = getf frame ''body''"
    "getf g ''streamId'' = JBig (stream_of target c)" "decodeActiveBody g = decodeActiveBody frame"
    by blast
  have data: "is_data g = is_data frame" by (simp add: is_data_def g)
  have len: "payload g = (if is_data frame then bytesf body ''bytes'' else [])"
    by (simp add: payload_def g body is_data_def)
  have "advances side (int (length (payload g))) (rl_circuit r) (rl_circuit q)"
    using branch prepare_data_Inr(3) prepare_window_Inr prepare_close_Inr by (auto simp: len split: if_splits)
  moreover have "data_offset g = nextOffset (dir_of side (rl_circuit r)) \<and> \<not> fin (dir_of side (rl_circuit r))" if "is_data g"
    using that branch prepare_data_Inr(1,2) by (auto simp: data data_offset_def g body)
  ultimately show thesis using that [OF pr g(1,5,2,3,4)] by blast
qed

lemma prepare_Inr:
  assumes "prepare E ready side v r = (Inr pr, q)"
  obtains target frame p u where "opposite side = Inr target" "decodeDispatchFrame v True = Inr frame"
    "\<not> ss_closed (scope_at (ci_scope (rl_circuit r)) (rl_plane r))"
    "getf frame ''streamId'' = JBig (stream_of side (rl_circuit r))"
    "getf frame ''sequence'' = JBig (nextSequence (dir_of side (rl_circuit r)))"
    "u = r\<lparr>rl_plane := p, rl_circuit := upd_dir side (\<lambda>s. s\<lparr>nextSequence := nextSequence s + 1\<rparr>) (rl_circuit r)\<rparr>"
    "relay_frame E ready side target (rl_circuit r) frame u = (Inr pr, q)"
proof -
  obtain x p where a: "assertActive E ready (ci_scope (rl_circuit r)) (rl_plane r) = (x, p)" by force
  with assms obtain now where x: "x = Inr now"
    by (cases x) (auto simp: prepare_def on_plane_bind)
  have closed: "\<not> ss_closed (scope_at (ci_scope (rl_circuit r)) (rl_plane r))"
    using a unfolding x by (rule assertActive_Inr(1))
  from assms a x obtain target frame where "opposite side = Inr target" "decodeDispatchFrame v True = Inr frame"
    "getf frame ''streamId'' = JBig (stream_of side (rl_circuit r))"
    "getf frame ''sequence'' = JBig (nextSequence (dir_of side (rl_circuit r)))"
    "relay_frame E ready side target (rl_circuit r) frame
      (r\<lparr>rl_plane := p, rl_circuit := upd_dir side (\<lambda>s. s\<lparr>nextSequence := nextSequence s + 1\<rparr>) (rl_circuit r)\<rparr>) = (Inr pr, q)"
    by (auto simp: prepare_def on_plane_bind abind_lift on_circuit_bind split: if_splits sum.splits)
  with closed that show thesis by blast
qed

subsection \<open>What each step keeps\<close>

lemma ids_on_plane: "keeps (\<lambda>r. same_ids c (rl_circuit r)) (on_plane m)"
  by (simp add: keeps_def)

lemma ids_upd_dir: "keeps (\<lambda>r. same_ids c (rl_circuit r)) (on_circuit (upd_dir side f))"
  by (simp add: keeps_def on_circuit_def same_ids_def upd_dir_def)

lemma ids_prepare: "keeps (\<lambda>r. same_ids c (rl_circuit r)) (prepare E ready side v)"
  unfolding prepare_def relay_frame_def prepare_data_def prepare_window_def prepare_close_def Let_def
  by (intro keeps_bind keeps_pure keeps_if keeps_case_prod ids_on_plane ids_upd_dir)

lemma same_ids_refl [simp]: "same_ids c c"
  by (simp add: same_ids_def)

lemma prepare_ids: "prepare E ready side v r = (x, q) \<Longrightarrow> same_ids (rl_circuit r) (rl_circuit q)"
  using keepsD [OF ids_prepare, of "rl_circuit r" r E ready side v] by simp

lemma release_keeps_plane:
  "ok_with n p \<Longrightarrow> ok_with n (release_reservation pr p)"
  "closed_at i p \<Longrightarrow> closed_at i (release_reservation pr p)"
  using releaseBuffer_ok by (auto simp: release_reservation_def ok_with_def closed_releaseBuffer split: option.split)

lemma close_keeps_plane: "ok_with n p \<Longrightarrow> i < n \<Longrightarrow> ok_with n (scope_close i reason p)"
  by (simp add: ok_with_def scope_close_ok)

text \<open>Delivering touches the plane, the queue of one side and the list of written frames only.\<close>

lemma deliver_one_result:
  assumes "deliver_one failure pr r = (x, q)" "relay_ok n r"
  shows "relay_ok n q" "closed_at i (rl_plane r) \<Longrightarrow> closed_at i (rl_plane q)"
    "rl_circuit q = (if has_port (pr_targetSide pr) (rl_circuit r)
       then (rl_circuit r)\<lparr>ci_written := ci_written (rl_circuit r) @ [(pr_targetSide pr, pr_outbound pr)]\<rparr>
       else rl_circuit r)"
    "\<not> has_port (pr_targetSide pr) (rl_circuit r) \<Longrightarrow> closed_at (ci_scope (rl_circuit r)) (rl_plane q)"
proof -
  let ?i = "ci_scope (rl_circuit r)"
  have ok: "ok_with n (rl_plane r)" "?i < n" using assms(2) by (simp_all add: relay_ok_def)
  show "relay_ok n q"
    using assms ok release_keeps_plane(1) close_keeps_plane
    by (auto simp: deliver_one_def Let_def relay_ok_def split: if_splits)
  show "closed_at i (rl_plane q)" if "closed_at i (rl_plane r)"
    using assms that release_keeps_plane(2) closed_at_close
    by (auto simp: deliver_one_def Let_def split: if_splits)
  show "rl_circuit q = (if has_port (pr_targetSide pr) (rl_circuit r)
       then (rl_circuit r)\<lparr>ci_written := ci_written (rl_circuit r) @ [(pr_targetSide pr, pr_outbound pr)]\<rparr>
       else rl_circuit r)"
    using assms by (auto simp: deliver_one_def Let_def split: if_splits)
  show "closed_at ?i (rl_plane q)" if "\<not> has_port (pr_targetSide pr) (rl_circuit r)"
  proof -
    have "ok_with n (release_reservation pr (rl_plane r))" by (rule release_keeps_plane(1) [OF ok(1)])
    then have "closed_at ?i (scope_close ?i ''forward-target-unattached'' (release_reservation pr (rl_plane r)))"
      using ok(2) scope_close_closed by (auto simp: closed_at_def ok_with_def)
    then show ?thesis using assms(1) that by (auto simp: deliver_one_def Let_def)
  qed
qed

lemma attach_result:
  assumes "attachCaller E ready r = (x, q)" "relay_ok n r"
  shows "relay_ok n q" "closed_at i (rl_plane r) \<Longrightarrow> closed_at i (rl_plane q)"
    "rl_circuit q = rl_circuit r \<or>
       rl_circuit q = (rl_circuit r)\<lparr>ci_attached := True\<rparr> \<and> \<not> closed_at (ci_scope (rl_circuit r)) (rl_plane r)"
proof -
  let ?i = "ci_scope (rl_circuit r)"
  obtain y p where a: "assertActive E ready ?i (rl_plane r) = (y, p)" by force
  have "ok_with n p" "closed_at i (rl_plane r) \<Longrightarrow> closed_at i p"
    using keepsD [OF assertActive_keeps, of ?i n "rl_plane r" E ready] assms(2)
      keepsD [OF closed_scope_actions(2), of i "rl_plane r" E ready ?i] a
    by (auto simp: relay_ok_def)
  with assms a show "relay_ok n q" "closed_at i (rl_plane r) \<Longrightarrow> closed_at i (rl_plane q)"
    by (auto simp: attachCaller_def on_plane_bind on_circuit_def relay_ok_def split: sum.splits if_splits)
  show "rl_circuit q = rl_circuit r \<or>
       rl_circuit q = (rl_circuit r)\<lparr>ci_attached := True\<rparr> \<and> \<not> closed_at ?i (rl_plane r)"
    using assms a assertActive_Inr(1) [of E ready ?i "rl_plane r"]
    by (auto simp: attachCaller_def on_plane_bind on_circuit_def closed_at_def split: sum.splits if_splits)
qed

lemma reject_result:
  assumes "receive E ready side v r = (Inl e, q)" "relay_ok n r"
  shows "relay_ok n q" "same_ids (rl_circuit r) (rl_circuit q)" "closed_at (ci_scope (rl_circuit r)) (rl_plane q)"
proof -
  from assms(1) obtain u where u: "prepare E ready side v r = (Inl e, u)"
    and q: "q = u\<lparr>rl_plane := scope_close (ci_scope (rl_circuit u)) ''malformed-forward-frame'' (rl_plane u)\<rparr>"
    by (auto simp: receive_def split: prod.splits sum.splits)
  have ids: "same_ids (rl_circuit r) (rl_circuit u)" by (rule prepare_ids [OF u])
  have ok: "relay_ok n u" using keepsD [OF relay_prepare assms(2), of E ready side v] u by simp
  show "relay_ok n q" using ok close_keeps_plane by (simp add: q relay_ok_def)
  show "same_ids (rl_circuit r) (rl_circuit q)" using ids by (simp add: q)
  show "closed_at (ci_scope (rl_circuit r)) (rl_plane q)"
    using ok ids scope_close_closed by (auto simp: q relay_ok_def ok_with_def closed_at_def same_ids_def)
qed

end
