(* ===== verification/Forward_Circuit_Runs.thy ===== *)
theory Forward_Circuit_Runs
  imports Forward_Circuit_Laws "HOL-Library.Sublist"
begin

text \<open>
  Runs of a live circuit: any interleaving of received frames, deliveries, the caller's
  attachment and calls on the stream plane.  The invariants of a run give the credit window,
  the order of the frames and the delivery of every accepted frame.
\<close>

subsection \<open>Runs of a circuit\<close>

inductive circuit_run :: "stream_env \<Rightarrow> ready_hook \<Rightarrow> platform \<Rightarrow> relay \<Rightarrow> prepared_frame list \<Rightarrow> relay \<Rightarrow> bool"
  for E ready S r0 where
  run_start: "circuit_run E ready S r0 [] r0"
| run_receive: "circuit_run E ready S r0 log r \<Longrightarrow> receive E ready side v r = (Inr pr, q) \<Longrightarrow>
    circuit_run E ready S r0 (log @ [pr]) q"
| run_reject: "circuit_run E ready S r0 log r \<Longrightarrow> receive E ready side v r = (Inl e, q) \<Longrightarrow>
    circuit_run E ready S r0 log q"
| run_deliver: "circuit_run E ready S r0 log r \<Longrightarrow> deliver failure side r = (x, q) \<Longrightarrow>
    circuit_run E ready S r0 log q"
| run_attach: "circuit_run E ready S r0 log r \<Longrightarrow> attachCaller E ready r = (x, q) \<Longrightarrow>
    circuit_run E ready S r0 log q"
| run_plane: "circuit_run E ready S r0 log r \<Longrightarrow>
    circuit_run E ready S r0 log (r\<lparr>rl_plane := plane_step E ready S oper (rl_plane r)\<rparr>)"

subsection \<open>The plane and the identifiers\<close>

definition fixed_ids :: "circuit \<Rightarrow> circuit \<Rightarrow> bool" where
  "fixed_ids c d = (ci_scope d = ci_scope c \<and> stream_of FORWARD_SIDE_CALLER d = stream_of FORWARD_SIDE_CALLER c \<and>
     stream_of FORWARD_SIDE_NEXT_HOP d = stream_of FORWARD_SIDE_NEXT_HOP c)"

lemma fixed_ids_simps [simp]:
  "fixed_ids c c" "fixed_ids c (d\<lparr>ci_written := w\<rparr>) = fixed_ids c d" "fixed_ids c (d\<lparr>ci_attached := a\<rparr>) = fixed_ids c d"
  "fixed_ids c (upd_queue side f d) = fixed_ids c d"
  by (simp_all add: fixed_ids_def upd_queue_def stream_of_def)

lemma same_fixed_ids: "same_ids d e \<Longrightarrow> fixed_ids c d \<Longrightarrow> fixed_ids c e"
  by (auto simp: same_ids_def fixed_ids_def stream_of_def)

lemma receive_accepts:
  assumes "receive E ready side v r = (Inr pr, q)"
  obtains u where "prepare E ready side v r = (Inr pr, u)"
    "q = u\<lparr>rl_circuit := upd_queue side (\<lambda>ps. ps @ [pr]) (rl_circuit u)\<rparr>"
  using assms by (auto simp: receive_def split: prod.splits sum.splits)

lemma deliver_cases:
  assumes "deliver failure side r = (x, q)"
  obtains "queue_of side (rl_circuit r) = []" "q = r"
  | pr prs where "queue_of side (rl_circuit r) = pr # prs"
    "deliver_one failure pr (r\<lparr>rl_circuit := upd_queue side (\<lambda>_. prs) (rl_circuit r)\<rparr>) = (x, q)"
  using assms by (auto simp: deliver_def split: list.splits)

lemma popped_ok: "relay_ok n r \<Longrightarrow> relay_ok n (r\<lparr>rl_circuit := upd_queue side f (rl_circuit r)\<rparr>)"
  by (simp add: relay_ok_def upd_queue_def)

lemma run_ok:
  assumes "circuit_run E ready S r0 log r" "relay_ok n r0"
  shows "relay_ok n r \<and> fixed_ids (rl_circuit r0) (rl_circuit r)"
  using assms(1)
proof induction
  case run_start
  then show ?case using assms(2) by simp
next
  case (run_receive log r side v pr q)
  from run_receive.hyps(2) obtain u where u: "prepare E ready side v r = (Inr pr, u)"
    "q = u\<lparr>rl_circuit := upd_queue side (\<lambda>ps. ps @ [pr]) (rl_circuit u)\<rparr>" by (rule receive_accepts)
  have "relay_ok n u" using keepsD [OF relay_prepare, of n r E ready side v] run_receive.IH u by simp
  moreover have "fixed_ids (rl_circuit r0) (rl_circuit u)"
    using same_fixed_ids [OF prepare_ids [OF u(1)]] run_receive.IH by blast
  ultimately show ?case by (simp add: u popped_ok)
next
  case (run_reject log r side v e q)
  then show ?case using reject_result(1,2) same_fixed_ids by blast
next
  case (run_deliver log r failure side x q)
  from run_deliver.hyps(2) show ?case
  proof (cases rule: deliver_cases)
    case (2 pr prs)
    note d = deliver_one_result [OF 2(2) popped_ok [OF conjunct1 [OF run_deliver.IH]]]
    then show ?thesis using run_deliver.IH by simp
  qed (use run_deliver.IH in simp)
next
  case (run_attach log r x q)
  then show ?case using attach_result(1,3) [OF run_attach.hyps(2)] by (metis fixed_ids_simps(3))
next
  case (run_plane log r oper)
  then show ?case by (simp add: relay_ok_def plane_step_ok)
qed

subsection \<open>Credit\<close>

lemma credit_simps [simp]:
  "credit_ok (c\<lparr>ci_written := w\<rparr>) = credit_ok c" "credit_ok (c\<lparr>ci_attached := a\<rparr>) = credit_ok c"
  "credit_ok (upd_queue side f c) = credit_ok c"
  by (simp_all add: credit_ok_def upd_queue_def)

lemma run_credit:
  assumes "circuit_run E ready S r0 log r" "relay_ok n r0" "credit r0"
  shows "credit r"
  using assms(1)
proof induction
  case (run_receive log r side v pr q)
  then show ?case using keepsD [OF credit_prepare, of r E ready side v] by (auto elim!: receive_accepts)
next
  case (run_reject log r side v e q)
  then show ?case using keepsD [OF credit_prepare, of r E ready side v]
    by (auto simp: receive_def split: prod.splits sum.splits)
next
  case (run_deliver log r failure side x q)
  note ok = conjunct1 [OF run_ok [OF run_deliver.hyps(1) assms(2)]]
  from run_deliver.hyps(2) show ?case
  proof (cases rule: deliver_cases)
    case (2 pr prs)
    then show ?thesis using deliver_one_result(3) [OF 2(2) popped_ok [OF ok]] run_deliver.IH by simp
  qed (use run_deliver.IH in simp)
next
  case (run_attach log r x q)
  note ok = conjunct1 [OF run_ok [OF run_attach.hyps(1) assms(2)]]
  from attach_result(3) [OF run_attach.hyps(2) ok] run_attach.IH show ?case by (metis credit_simps(2))
qed (use assms in simp_all)

subsection \<open>Order\<close>

definition decoded :: "bytes \<Rightarrow> jsval" where
  "decoded bs = (case decodeDispatchFrame (JBytes bs) True of Inr frame \<Rightarrow> frame | Inl _ \<Rightarrow> JUndef)"

definition sent :: "int \<Rightarrow> prepared_frame list \<Rightarrow> bytes list" where
  "sent side log = map pr_outbound (filter (\<lambda>pr. pr_side pr = side) log)"

definition written_to :: "int \<Rightarrow> circuit \<Rightarrow> bytes list" where
  "written_to side c = map snd (filter (\<lambda>w. fst w = side) (ci_written c))"

text \<open>
  The frames of one stream, with consecutive sequence numbers from \<open>q\<close> on, in which every
  DATA frame starts at the byte offset where the DATA frames before it end.
\<close>

fun in_order :: "int \<Rightarrow> int \<Rightarrow> int \<Rightarrow> jsval list \<Rightarrow> bool" where
  "in_order sid q off [] = True"
| "in_order sid q off (frame # frames) = (getf frame ''streamId'' = JBig sid \<and> getf frame ''sequence'' = JBig q \<and>
     (is_data frame \<longrightarrow> data_offset frame = off) \<and> in_order sid (q + 1) (off + int (length (payload frame))) frames)"

definition stream_bytes :: "jsval list \<Rightarrow> bytes" where
  "stream_bytes frames = concat (map payload frames)"

lemma stream_bytes_simps [simp]:
  "stream_bytes [] = []" "stream_bytes (f # fs) = payload f @ stream_bytes fs"
  "stream_bytes (fs @ gs) = stream_bytes fs @ stream_bytes gs"
  by (simp_all add: stream_bytes_def)

lemma in_order_append:
  "in_order sid q off (fs @ gs) \<longleftrightarrow>
     in_order sid q off fs \<and> in_order sid (q + int (length fs)) (off + int (length (stream_bytes fs))) gs"
  by (induction fs arbitrary: q off) (simp_all add: algebra_simps)

lemma sent_snoc [simp]: "sent side (log @ [pr]) = sent side log @ (if pr_side pr = side then [pr_outbound pr] else [])"
  by (simp add: sent_def)

lemma sides_distinct [simp]: "FORWARD_SIDE_CALLER \<noteq> FORWARD_SIDE_NEXT_HOP" "FORWARD_SIDE_NEXT_HOP \<noteq> FORWARD_SIDE_CALLER"
  by (simp_all add: FORWARD_SIDE_CALLER_def FORWARD_SIDE_NEXT_HOP_def)

text \<open>An accepted frame continues the stream of its side and leaves the other side alone.\<close>

lemma accepted_frame:
  assumes "prepare E ready side v r = (Inr pr, u)" "c = rl_circuit r" "d = rl_circuit u" "g = decoded (pr_outbound pr)"
  obtains target where "opposite side = Inr target" "pr_side pr = side" "pr_targetSide pr = target"
    "\<not> ss_closed (scope_at (ci_scope c) (rl_plane r))"
    "in_order (stream_of target c) (nextSequence (dir_of side c)) (nextOffset (dir_of side c)) [g]"
    "nextSequence (dir_of side d) = nextSequence (dir_of side c) + 1"
    "nextOffset (dir_of side d) = nextOffset (dir_of side c) + int (length (payload g))"
    "nextSequence (dir_of target d) = nextSequence (dir_of target c)"
    "nextOffset (dir_of target d) = nextOffset (dir_of target c)"
proof -
  let ?next = "\<lambda>s. s\<lparr>nextSequence := nextSequence s + 1\<rparr>"
  obtain target frame p w where
    opp: "opposite side = Inr target" and dec: "decodeDispatchFrame v True = Inr frame"
    and opened: "\<not> ss_closed (scope_at (ci_scope c) (rl_plane r))"
    and "getf frame ''streamId'' = JBig (stream_of side c)"
    and seq: "getf frame ''sequence'' = JBig (nextSequence (dir_of side c))"
    and w: "w = r\<lparr>rl_plane := p, rl_circuit := upd_dir side ?next c\<rparr>"
    and rf: "relay_frame E ready side target c frame w = (Inr pr, u)"
    by (rule prepare_Inr [OF assms(1), folded assms(2)])
  have wc: "dir_of side (rl_circuit w) = ?next (dir_of side c)" "dir_of target (rl_circuit w) = dir_of target c"
    by (simp_all add: w dir_of_upd [OF opp])
  have other: "(target = FORWARD_SIDE_CALLER) \<noteq> (side = FORWARD_SIDE_CALLER)" using opp by (auto simp: opposite_Inr)
  show thesis
  proof (rule relay_frame_Inr [OF rf dec])
    fix h
    assume pr: "pr_side pr = side" "pr_targetSide pr = target"
      and h: "decodeDispatchFrame (JBytes (pr_outbound pr)) True = Inr h" "getf h ''streamId'' = JBig (stream_of target c)"
        "getf h ''sequence'' = getf frame ''sequence''"
        "is_data h \<Longrightarrow> data_offset h = nextOffset (dir_of side (rl_circuit w)) \<and> \<not> fin (dir_of side (rl_circuit w))"
      and adv: "advances side (int (length (payload h))) (rl_circuit w) (rl_circuit u)"
    have g: "g = h" by (simp add: assms(4) decoded_def h)
    have ord: "in_order (stream_of target c) (nextSequence (dir_of side c)) (nextOffset (dir_of side c)) [g]"
      using h seq by (simp add: g wc)
    have "nextSequence (dir_of side d) = nextSequence (dir_of side c) + 1"
      "nextOffset (dir_of side d) = nextOffset (dir_of side c) + int (length (payload g))"
      "nextSequence (dir_of target d) = nextSequence (dir_of target c)"
      "nextOffset (dir_of target d) = nextOffset (dir_of target c)"
      using adv other by (simp_all add: advances_def wc g assms(3))
    from that [OF opp pr opened ord this] show thesis .
  qed
qed

definition flow :: "int \<Rightarrow> int \<Rightarrow> prepared_frame list \<Rightarrow> relay \<Rightarrow> bool" where
  "flow side target log r = (let c = rl_circuit r; frames = map decoded (sent side log) in
     in_order (stream_of target c) 0 0 frames \<and>
     (closed_at (ci_scope c) (rl_plane r) \<or> nextSequence (dir_of side c) = int (length frames) \<and>
        nextOffset (dir_of side c) = int (length (stream_bytes frames))))"

lemma flow_other_fields:
  assumes "flow side target log r" "stream_of target (rl_circuit q) = stream_of target (rl_circuit r)"
    "ci_scope (rl_circuit q) = ci_scope (rl_circuit r)" "dir_of side (rl_circuit q) = dir_of side (rl_circuit r)"
    "closed_at (ci_scope (rl_circuit r)) (rl_plane r) \<Longrightarrow> closed_at (ci_scope (rl_circuit r)) (rl_plane q)"
  shows "flow side target log q"
  using assms by (auto simp: flow_def Let_def)

lemma dir_simps [simp]:
  "dir_of side (c\<lparr>ci_written := w\<rparr>) = dir_of side c" "dir_of side (c\<lparr>ci_attached := a\<rparr>) = dir_of side c"
  "dir_of side (upd_queue t f c) = dir_of side c" "stream_of side (c\<lparr>ci_written := w\<rparr>) = stream_of side c"
  "stream_of side (c\<lparr>ci_attached := a\<rparr>) = stream_of side c" "stream_of side (upd_queue t f c) = stream_of side c"
  "ci_scope (upd_queue t f c) = ci_scope c" "ci_attached (upd_queue t f c) = ci_attached c"
  "ci_written (upd_queue t f c) = ci_written c"
  by (simp_all add: dir_of_def stream_of_def upd_queue_def)

lemma same_ids_stream: "same_ids c d \<Longrightarrow> stream_of side d = stream_of side c \<and> ci_scope d = ci_scope c"
  by (simp add: same_ids_def stream_of_def)

lemma flow_receive:
  assumes "prepare E ready s v r = (Inr pr, u)" "relay_ok n r" "flow side target log r" "opposite side = Inr target"
  shows "flow side target (log @ [pr]) (u\<lparr>rl_circuit := upd_queue s f (rl_circuit u)\<rparr>)"
proof -
  note ids = same_ids_stream [OF prepare_ids [OF assms(1)]]
  from accepted_frame [OF assms(1) refl refl refl] obtain t where t: "opposite s = Inr t" "pr_side pr = s"
    and opened: "\<not> ss_closed (scope_at (ci_scope (rl_circuit r)) (rl_plane r))"
    and step: "in_order (stream_of t (rl_circuit r)) (nextSequence (dir_of s (rl_circuit r)))
        (nextOffset (dir_of s (rl_circuit r))) [decoded (pr_outbound pr)]"
      "nextSequence (dir_of s (rl_circuit u)) = nextSequence (dir_of s (rl_circuit r)) + 1"
      "nextOffset (dir_of s (rl_circuit u)) =
         nextOffset (dir_of s (rl_circuit r)) + int (length (payload (decoded (pr_outbound pr))))"
    and same: "nextSequence (dir_of t (rl_circuit u)) = nextSequence (dir_of t (rl_circuit r))"
      "nextOffset (dir_of t (rl_circuit u)) = nextOffset (dir_of t (rl_circuit r))"
    by metis
  have exact: "nextSequence (dir_of side (rl_circuit r)) = int (length (sent side log))"
    "nextOffset (dir_of side (rl_circuit r)) = int (length (stream_bytes (map decoded (sent side log))))"
    using assms(3) opened by (simp_all add: flow_def Let_def closed_at_def)
  consider "s = side" "t = target" | "s \<noteq> side" "t = side"
    using t assms(4) by (auto simp: opposite_Inr)
  then show ?thesis
  proof cases
    case 1
    then show ?thesis using assms(3) step exact t ids by (simp add: flow_def Let_def in_order_append)
  next
    case 2
    then show ?thesis using assms(3) same exact t ids by (simp add: flow_def Let_def)
  qed
qed

lemma run_flow:
  assumes "circuit_run E ready S r0 log r" "relay_ok n r0" "flow side target [] r0" "opposite side = Inr target"
  shows "flow side target log r"
  using assms(1)
proof induction
  case (run_receive log r s v pr q)
  note ok = conjunct1 [OF run_ok [OF run_receive.hyps(1) assms(2)]]
  from run_receive.hyps(2) obtain u where "prepare E ready s v r = (Inr pr, u)"
    "q = u\<lparr>rl_circuit := upd_queue s (\<lambda>ps. ps @ [pr]) (rl_circuit u)\<rparr>" by (rule receive_accepts)
  then show ?case using flow_receive [OF _ ok run_receive.IH assms(4)] by simp
next
  case (run_reject log r s v e q)
  note ok = conjunct1 [OF run_ok [OF run_reject.hyps(1) assms(2)]]
  note rej = reject_result(2,3) [OF run_reject.hyps(2) ok]
  then show ?case using run_reject.IH same_ids_stream [OF rej(1)] by (simp add: flow_def Let_def)
next
  case (run_deliver log r failure s x q)
  note ok = conjunct1 [OF run_ok [OF run_deliver.hyps(1) assms(2)]]
  from run_deliver.hyps(2) show ?case
  proof (cases rule: deliver_cases)
    case (2 pr prs)
    note d = deliver_one_result(2,3) [OF 2(2) popped_ok [OF ok]]
    show ?thesis by (rule flow_other_fields [OF run_deliver.IH]) (use d in simp_all)
  qed (use run_deliver.IH in simp)
next
  case (run_attach log r x q)
  note ok = conjunct1 [OF run_ok [OF run_attach.hyps(1) assms(2)]]
  note a = attach_result(2,3) [OF run_attach.hyps(2) ok]
  show ?case by (rule flow_other_fields [OF run_attach.IH]) (use a in auto)
next
  case (run_plane log r oper)
  show ?case by (rule flow_other_fields [OF run_plane.IH]) (simp_all add: closed_plane_step)
qed (use assms in simp)

subsection \<open>Delivery\<close>

text \<open>
  Every accepted frame of one side is written to the other side or still queued, unless the
  circuit closed before the other side had a port.
\<close>

definition delivery :: "int \<Rightarrow> int \<Rightarrow> prepared_frame list \<Rightarrow> relay \<Rightarrow> bool" where
  "delivery side target log r = (let c = rl_circuit r in
     (\<forall>pr\<in>set (queue_of side c). pr_side pr = side \<and> pr_targetSide pr = target) \<and>
     (\<not> has_port target c \<longrightarrow> written_to target c = []) \<and>
     (written_to target c @ map pr_outbound (queue_of side c) = sent side log \<or>
      \<not> has_port target c \<and> closed_at (ci_scope c) (rl_plane r)))"

lemma queue_of_simps [simp]:
  "queue_of side (upd_queue side f c) = f (queue_of side c)"
  "queue_of s (c\<lparr>ci_written := w\<rparr>) = queue_of s c" "queue_of s (c\<lparr>ci_attached := a\<rparr>) = queue_of s c"
  by (simp_all add: queue_of_def upd_queue_def)

lemma queue_of_other: "opposite s = Inr t \<Longrightarrow> queue_of t (upd_queue s f c) = queue_of t c"
  by (auto simp: opposite_Inr queue_of_def upd_queue_def)

lemma has_port_simps [simp]:
  "has_port t (c\<lparr>ci_written := w\<rparr>) = has_port t c" "has_port t (upd_queue s f c) = has_port t c"
  "has_port t c \<Longrightarrow> has_port t (c\<lparr>ci_attached := True\<rparr>)"
  by (auto simp: has_port_def)

lemma written_to_simps [simp]:
  "written_to t (c\<lparr>ci_attached := a\<rparr>) = written_to t c" "written_to t (upd_queue s f c) = written_to t c"
  "written_to t (d\<lparr>ci_written := ci_written c @ [(s, out)]\<rparr>) = written_to t c @ (if s = t then [out] else [])"
  by (simp_all add: written_to_def)

lemma same_ids_delivery:
  "same_ids c d \<Longrightarrow> queue_of s d = queue_of s c \<and> written_to s d = written_to s c \<and> has_port s d = has_port s c"
  by (auto simp: same_ids_def queue_of_def written_to_def has_port_def)

lemma delivery_receive:
  assumes "prepare E ready s v r = (Inr pr, u)" "delivery side target log r" "opposite side = Inr target"
    "\<not> closed_at (ci_scope (rl_circuit r)) (rl_plane r)"
  shows "delivery side target (log @ [pr]) (u\<lparr>rl_circuit := upd_queue s (\<lambda>ps. ps @ [pr]) (rl_circuit u)\<rparr>)"
proof -
  note ids = same_ids_delivery [OF prepare_ids [OF assms(1)]]
  obtain t where t: "opposite s = Inr t" "pr_side pr = s" "pr_targetSide pr = t"
    by (rule accepted_frame [OF assms(1) refl refl refl])
  consider "s = side" "t = target" | "s \<noteq> side" "t = side" "opposite s = Inr side"
    using t assms(3) by (auto simp: opposite_Inr)
  then show ?thesis
  proof cases
    case 1
    then show ?thesis using assms(2,4) ids t by (auto simp: delivery_def Let_def)
  next
    case 2
    then show ?thesis using assms(2,4) ids t queue_of_other [OF 2(3)] by (auto simp: delivery_def Let_def)
  qed
qed

lemma delivery_deliver:
  assumes "queue_of s (rl_circuit r) = pr # prs" "relay_ok n r" "delivery side target log r" "opposite side = Inr target"
    "pr_targetSide pr = t" "opposite s = Inr t"
    "deliver_one failure pr (r\<lparr>rl_circuit := upd_queue s (\<lambda>_. prs) (rl_circuit r)\<rparr>) = (x, q)"
  shows "delivery side target log q"
proof -
  note d = deliver_one_result [OF assms(7) popped_ok [OF assms(2)]]
  consider "s = side" "t = target" | "t = side" "t \<noteq> target" "opposite s = Inr side"
    using assms(4,6) by (auto simp: opposite_Inr)
  then show ?thesis
  proof cases
    case 1
    then show ?thesis using assms(1,3,5) d(2,3,4) by (auto simp: delivery_def Let_def)
  next
    case 2
    then show ?thesis using assms(1,3,5) d(2,3) queue_of_other [OF 2(3)] by (auto simp: delivery_def Let_def)
  qed
qed

lemma run_delivery:
  assumes "circuit_run E ready S r0 log r" "relay_ok n r0"
    "\<And>s t. opposite s = Inr t \<Longrightarrow> delivery s t [] r0" "opposite side = Inr target"
  shows "delivery side target log r"
  using assms(1) assms(4)
proof (induction arbitrary: side target)
  case (run_receive log r s v pr q)
  from run_receive.hyps(2) obtain u where u: "prepare E ready s v r = (Inr pr, u)"
    "q = u\<lparr>rl_circuit := upd_queue s (\<lambda>ps. ps @ [pr]) (rl_circuit u)\<rparr>" by (rule receive_accepts)
  have "\<not> closed_at (ci_scope (rl_circuit r)) (rl_plane r)"
    by (rule accepted_frame [OF u(1) refl refl refl]) (simp add: closed_at_def)
  with delivery_receive [OF u(1) run_receive.IH [OF run_receive.prems] run_receive.prems] show ?case by (simp add: u(2))
next
  case (run_reject log r s v e q)
  note ok = conjunct1 [OF run_ok [OF run_reject.hyps(1) assms(2)]]
  note rej = reject_result(2,3) [OF run_reject.hyps(2) ok]
  then show ?case
    using run_reject.IH [OF run_reject.prems] same_ids_stream [OF rej(1)] same_ids_delivery [OF rej(1)]
    by (auto simp: delivery_def Let_def)
next
  case (run_deliver log r failure s x q)
  note ok = conjunct1 [OF run_ok [OF run_deliver.hyps(1) assms(2)]]
  from run_deliver.hyps(2) show ?case
  proof (cases rule: deliver_cases)
    case (2 pr prs)
    show ?thesis
    proof (cases "s = FORWARD_SIDE_CALLER")
      case True
      then have o: "opposite s = Inr FORWARD_SIDE_NEXT_HOP" by (simp add: opposite_Inr)
      with run_deliver.IH [OF o] 2(1) have "pr_targetSide pr = FORWARD_SIDE_NEXT_HOP" by (simp add: delivery_def Let_def)
      then show ?thesis
        using delivery_deliver [OF 2(1) ok run_deliver.IH [OF run_deliver.prems] run_deliver.prems _ o 2(2)] by simp
    next
      case False
      have q: "queue_of FORWARD_SIDE_NEXT_HOP (rl_circuit r) = pr # prs" and
        d: "deliver_one failure pr (r\<lparr>rl_circuit := upd_queue FORWARD_SIDE_NEXT_HOP (\<lambda>_. prs) (rl_circuit r)\<rparr>) = (x, q)"
        using 2 False by (simp_all add: queue_of_def upd_queue_def)
      have o: "opposite FORWARD_SIDE_NEXT_HOP = Inr FORWARD_SIDE_CALLER" by (simp add: opposite_Inr)
      with run_deliver.IH [OF o] q have "pr_targetSide pr = FORWARD_SIDE_CALLER" by (simp add: delivery_def Let_def)
      then show ?thesis
        using delivery_deliver [OF q ok run_deliver.IH [OF run_deliver.prems] run_deliver.prems _ o d] by simp
    qed
  qed (use run_deliver.IH [OF run_deliver.prems] in simp)
next
  case (run_attach log r x q)
  note ok = conjunct1 [OF run_ok [OF run_attach.hyps(1) assms(2)]]
  from attach_result(2,3) [OF run_attach.hyps(2) ok] run_attach.IH [OF run_attach.prems]
  show ?case by (auto simp: delivery_def Let_def)
next
  case (run_plane log r oper)
  from run_plane.IH [OF run_plane.prems] show ?case using closed_plane_step by (auto simp: delivery_def Let_def)
qed (use assms in simp)

subsection \<open>A circuit as it is built\<close>

lemma FORWARD_CIRCUIT_CLASS_window:
  "FORWARD_CIRCUIT_CLASS k = Some limits \<Longrightarrow>
     0 \<le> cc_grantedInitialWindow limits \<and> cc_grantedInitialWindow limits \<le> DISPATCH_LIMITS_MAX_FORWARD_WINDOW_BYTES"
  by (auto simp: FORWARD_CIRCUIT_CLASS_def DISPATCH_LIMITS_MAX_FORWARD_WINDOW_BYTES_def split: if_splits)

lemma ForwardCircuit_start:
  assumes "ForwardCircuit i options = Inr c" "rl_circuit r = c"
  shows "credit r" "flow side target [] r" "delivery side target [] r" "ci_scope c = i"
proof -
  from assms(1) obtain limits where "FORWARD_CIRCUIT_CLASS (numf options ''circuitClass'') = Some limits"
    "ci_callerState c = streamState (cc_grantedInitialWindow limits)"
    "ci_nextState c = streamState (cc_grantedInitialWindow limits)"
    "ci_callerQueue c = []" "ci_nextQueue c = []" "ci_written c = []" "ci_scope c = i"
    by (auto simp: ForwardCircuit_def rbind_Inr_iff split: if_splits option.splits)
  with FORWARD_CIRCUIT_CLASS_window assms(2)
  show "credit r" "flow side target [] r" "delivery side target [] r" "ci_scope c = i"
    by (auto simp: credit_ok_def dir_ok_def streamState_def flow_def delivery_def Let_def sent_def dir_of_def
        queue_of_def written_to_def)
qed

text \<open>A new circuit on an existing scope of a plane that was used in any way before.\<close>

definition fresh_relay :: "stream_env \<Rightarrow> ready_hook \<Rightarrow> platform \<Rightarrow> relay \<Rightarrow> bool" where
  "fresh_relay E ready S r = (\<exists>plane_options p opers i options.
     StreamSessionPlane E plane_options = Inr p \<and> rl_plane r = fold (plane_step E ready S) opers p \<and>
     i < length (pl_scopes (rl_plane r)) \<and> ForwardCircuit i options = Inr (rl_circuit r))"

lemma fresh_relay_start:
  assumes "fresh_relay E ready S r"
  shows "relay_ok (Suc (ci_scope (rl_circuit r))) r" "credit r" "flow side target [] r" "delivery side target [] r"
proof -
  from assms obtain plane_options p opers i options where p: "StreamSessionPlane E plane_options = Inr p"
    "rl_plane r = fold (plane_step E ready S) opers p" and i: "i < length (pl_scopes (rl_plane r))"
    and c: "ForwardCircuit i options = Inr (rl_circuit r)"
    by (auto simp: fresh_relay_def)
  note start = ForwardCircuit_start [OF c refl]
  have "ok_with 0 (rl_plane r)" unfolding p(2) by (rule plane_machine.run_inv) (use p(1) in blast)
  then show "relay_ok (Suc (ci_scope (rl_circuit r))) r" using i start(4) by (simp add: relay_ok_def ok_with_def Suc_le_eq)
  show "credit r" "flow side target [] r" "delivery side target [] r" by (rule start)+
qed

subsection \<open>A closed circuit\<close>

lemma receive_closed:
  assumes "closed_at (ci_scope (rl_circuit r)) (rl_plane r)"
  shows "fst (receive E ready side v r) = Inl RETRY_TERMINAL"
  using assms by (simp add: receive_def prepare_def on_plane_bind closed_at_def assertActive_def)

lemma run_closed:
  assumes "circuit_run E ready S q log r" "relay_ok n q" "closed_at (ci_scope (rl_circuit q)) (rl_plane q)"
  shows "log = [] \<and> closed_at (ci_scope (rl_circuit r)) (rl_plane r)"
  using assms(1)
proof induction
  case (run_receive log r side v pr t)
  then show ?case using receive_closed [of r E ready side v] by simp
next
  case (run_reject log r side v e t)
  note ok = conjunct1 [OF run_ok [OF run_reject.hyps(1) assms(2)]]
  then show ?case using reject_result(2,3) [OF run_reject.hyps(2) ok] run_reject.IH same_ids_stream by auto
next
  case (run_deliver log r failure side x t)
  note ok = conjunct1 [OF run_ok [OF run_deliver.hyps(1) assms(2)]]
  from run_deliver.hyps(2) show ?case
  proof (cases rule: deliver_cases)
    case (2 pr prs)
    then show ?thesis using deliver_one_result(2,3) [OF 2(2) popped_ok [OF ok]] run_deliver.IH by simp
  qed (use run_deliver.IH in simp)
next
  case (run_attach log r x t)
  note ok = conjunct1 [OF run_ok [OF run_attach.hyps(1) assms(2)]]
  then show ?case using attach_result(2,3) [OF run_attach.hyps(2) ok] run_attach.IH by auto
next
  case (run_plane log r oper)
  then show ?case by (simp add: closed_plane_step)
qed (use assms in simp)

end
