(* ===== verification/Daemon_Samples.thy ===== *)
theory Daemon_Samples
  imports Forward_Circuit_Runs "HOL-Library.Code_Target_Nat"
begin

text \<open>
  A concrete stream plane and circuit: a clock that advances by one millisecond at each
  reading, an entropy source that never repeats itself early, one session of the forward
  family and a circuit that relays one DATA frame.
\<close>

definition sample_stream_env :: stream_env where
  "sample_stream_env = \<lparr>env_now = (\<lambda>n. JBig (1000 + int n)),
     env_random = (\<lambda>n. JBytes (word_of_int (int n + 1) # replicate 31 1)), env_rounds = 2\<rparr>"

definition always_ready :: ready_hook where
  "always_ready n sc now = True"

definition sample_platform :: platform where
  "sample_platform = \<lparr>crypto_generichash = (\<lambda>bs. replicate 31 6 @ [word_of_int (int (length bs))]), is_nfc = (\<lambda>_. True),
     parse_url = (\<lambda>_. None)\<rparr>"

subsection \<open>A plane with one session\<close>

definition sample_plane_options :: jsval where
  "sample_plane_options = JObj [(''maxStreams'', JNum 2)]"

definition sample_session :: jsval where
  "sample_session = JObj [(''family'', JNum 5), (''streamId'', JBig 7), (''maxBytes'', JBig 1000),
     (''maxBufferedBytes'', JNum 100), (''idleMillis'', JNum 5000), (''lifetimeMillis'', JNum 60000),
     (''readiness'', JObj [(''descriptorSequence'', JBig 3), (''descriptorHash'', JBytes (replicate 32 9)),
       (''expiresMonotonicMillis'', JBig 100000)])]"

definition sample_scope :: stream_scope where
  "sample_scope = \<lparr>ss_family = 5, ss_streamId = 7, ss_key = ''5:7'', ss_maxBytes = 1000, ss_maxBuffered = 100,
     ss_idleMillis = 5000, ss_lifetimeMillis = 60000,
     ss_readiness = \<lparr>rd_descriptorSequence = 3, rd_descriptorHash = replicate 32 9, rd_expires = 100000\<rparr>,
     ss_opened = 1001, ss_lastActivity = 1001, ss_totalBytes = 0, ss_buffered = 0, ss_reservations = [],
     ss_closed = False, ss_closeReason = None, ss_closeStarted = False, ss_timer = Some 4999\<rparr>"

definition plane_with :: "scope_ref tickets \<Rightarrow> (string \<times> scope_ref) list \<Rightarrow> stream_scope list \<Rightarrow> plane" where
  "plane_with t ss scs = \<lparr>pl_maxStreams = 2, pl_maxBuffered = 67108864, pl_maxPerStream = 1114111, pl_sessions = ss,
     pl_buffered = 0, pl_closing = False, pl_tickets = t, pl_scopes = scs, pl_reservations = [], pl_closes = []\<rparr>"

definition sample_tickets :: "nat \<Rightarrow> 'p tickets" where
  "sample_tickets n = \<lparr>maxTickets = 1024, ttlMillis = 2000, ticket_records = [], now_calls = n, random_calls = 0\<rparr>"

definition plane_start :: plane where
  "plane_start = plane_with (sample_tickets 1) [] []"

definition plane_open :: plane where
  "plane_open = plane_with (sample_tickets 3) [(''5:7'', 0)] [sample_scope]"

lemma plane_start_constructed: "StreamSessionPlane sample_stream_env sample_plane_options = Inr plane_start"
  by code_simp

lemma session_created: "createSession sample_stream_env sample_session plane_start = (Inr 0, plane_open)"
  by code_simp

subsection \<open>A circuit on it\<close>

definition sample_circuit_options :: jsval where
  "sample_circuit_options = JObj [(''circuitNonce'', JBytes (replicate 32 5)), (''callerStreamId'', JBig 7),
     (''nextStreamId'', JBig 8), (''wireClass'', JNum 1), (''circuitClass'', JNum 1)]"

definition sample_circuit :: circuit where
  "sample_circuit = \<lparr>ci_scope = 0, ci_nonce = replicate 32 5, ci_callerStreamId = 7, ci_nextStreamId = 8,
     ci_maxDataBytes = 4096, ci_callerState = streamState 65536, ci_nextState = streamState 65536,
     ci_callerQueue = [], ci_nextQueue = [], ci_attached = False, ci_written = []\<rparr>"

definition relay_start :: relay where
  "relay_start = \<lparr>rl_plane = plane_open, rl_circuit = sample_circuit\<rparr>"

lemma sample_circuit_constructed: "ForwardCircuit 0 sample_circuit_options = Inr sample_circuit"
  by code_simp

text \<open>A DATA frame with two bytes, on stream \<open>s\<close>, with a sequence number and an offset.\<close>

definition data_frame :: "int \<Rightarrow> int \<Rightarrow> int \<Rightarrow> bytes" where
  "data_frame s q off = be_bytes 4 85 @ [1, 4, 5, 2, 0] @ replicate 16 0 @ be_bytes 8 s @ be_bytes 8 q @ be_bytes 4 44 @
     [1] @ replicate 32 5 @ be_bytes 8 off @ [2, 65, 66]"

definition sample_prepared :: prepared_frame where
  "sample_prepared = \<lparr>pr_side = 1, pr_targetSide = 2, pr_outbound = data_frame 8 0 0, pr_reservation = Some 0,
     pr_abortAfterDelivery = False\<rparr>"

definition circuit_received :: circuit where
  "circuit_received = sample_circuit\<lparr>ci_callerState := \<lparr>nextSequence = 1, nextOffset = 2, consumedThrough = 0,
     availableCredit = 65534, fin = False\<rparr>, ci_callerQueue := [sample_prepared]\<rparr>"

definition relay_received :: relay where
  "relay_received = \<lparr>rl_plane = plane_open\<lparr>pl_buffered := 2, pl_tickets := sample_tickets 8,
       pl_scopes := [sample_scope\<lparr>ss_lastActivity := 1005, ss_totalBytes := 2, ss_buffered := 2, ss_reservations := [0]\<rparr>],
       pl_reservations := [\<lparr>rs_scope = 0, rs_length = 2, rs_active = True\<rparr>]\<rparr>,
     rl_circuit = circuit_received\<rparr>"

definition relay_delivered :: relay where
  "relay_delivered = \<lparr>rl_plane = plane_open\<lparr>pl_tickets := sample_tickets 8,
       pl_scopes := [sample_scope\<lparr>ss_lastActivity := 1005, ss_totalBytes := 2\<rparr>],
       pl_reservations := [\<lparr>rs_scope = 0, rs_length = 2, rs_active = False\<rparr>]\<rparr>,
     rl_circuit = circuit_received\<lparr>ci_callerQueue := [], ci_written := [(2, data_frame 8 0 0)]\<rparr>\<rparr>"

lemma relay_receives:
  "receive sample_stream_env always_ready 1 (JBytes (data_frame 7 0 0)) relay_start = (Inr sample_prepared, relay_received)"
  by code_simp

lemma relay_delivers: "deliver None 1 relay_received = (Inr (), relay_delivered)"
  by code_simp

text \<open>A frame out of sequence.\<close>

definition relay_rejected :: relay where
  "relay_rejected = \<lparr>rl_plane = plane_with (sample_tickets 4) []
       [sample_scope\<lparr>ss_closed := True, ss_closeReason := Some ''malformed-forward-frame'', ss_closeStarted := True,
         ss_timer := None\<rparr>]\<lparr>pl_closes := [(0, ''malformed-forward-frame'')]\<rparr>,
     rl_circuit = sample_circuit\<rparr>"

lemma relay_rejects:
  "receive sample_stream_env always_ready 1 (JBytes (data_frame 7 1 0)) relay_start = (Inl BAD_ENCODING, relay_rejected)"
  by code_simp

lemma sample_run:
  "circuit_run sample_stream_env always_ready S relay_start [sample_prepared] relay_delivered"
proof -
  note run = circuit_run.intros [where E = sample_stream_env and ready = always_ready and S = S and ?r0.0 = relay_start]
  have "circuit_run sample_stream_env always_ready S relay_start ([] @ [sample_prepared]) relay_received"
    by (rule run(2) [OF run(1) relay_receives])
  from run(4) [OF this relay_delivers] show ?thesis by simp
qed

end
