(* ===== verification/Daemon_Properties.thy ===== *)
theory Daemon_Properties
  imports Resource_Budget_Laws Daemon_Samples
begin

text \<open>Properties of the daemon's stateful components.\<close>

subsection \<open>Resource budget\<close>

text \<open>The budget of the package's own test: four items, a quota of one item for one operation.\<close>

definition sample_budget_options :: jsval where
  "sample_budget_options = JObj [(''maxItems'', JNum 4), (''maxBytes'', JNum 1000), (''reservePercent'', JNum 25),
     (''operationQuotas'', JArr [JObj [(''familyId'', JNum 2), (''operationId'', JNum 2),
        (''maxItems'', JNum 1), (''maxBytes'', JNum 500)]])]"

definition sample_budget :: budget where
  "sample_budget = \<lparr>maxItems = 4, maxBytes = 1000, reservePercent = 25, reservedItems = 1, reservedBytes = 250,
     generalItemLimit = 3, generalByteLimit = 750,
     quotas = [((2, 2), \<lparr>quota_maxItems = 1, quota_maxBytes = 500\<rparr>)],
     budget_items = 0, budget_bytes = 0, byOperation = [], counters = [], reservations = []\<rparr>"

definition sample_request :: "int \<Rightarrow> int \<Rightarrow> int \<Rightarrow> bool \<Rightarrow> jsval" where
  "sample_request f i n critical = JObj [(''familyId'', JNum f), (''operationId'', JNum i),
     (''bytes'', JNum n), (''critical'', JBool critical)]"

lemma sample_budget_constructed: "ResourceBudget sample_budget_options = Inr sample_budget"
  by code_simp

definition sample_calls :: "budget_op list" where
  "sample_calls = [Acquire (sample_request 2 2 350 False), Acquire (sample_request 2 2 1 False),
     Acquire (sample_request 1 1 300 False), Release 0, Release 0]"

lemma sample_budget_limits:
  "maxItems sample_budget = 4" "maxBytes sample_budget = 1000" "reservedBytes sample_budget = 250"
  "map_of (quotas sample_budget) (2, 2) = Some \<lparr>quota_maxItems = 1, quota_maxBytes = 500\<rparr>"
  "map_of (quotas sample_budget) (1, 1) = None"
  by (simp_all add: sample_budget_def)

lemma sample_request_wanted:
  "wanted (sample_request 1 1 200 True) = Some ((1, 1), 200, True)"
  "wanted (sample_request 2 2 7 False) = Some ((2, 2), 7, False)"
  by code_simp+

text \<open>
  C7. Refinement: after any sequence of \<^verbatim>\<open>acquire\<close> and \<^verbatim>\<open>release\<close> calls on a budget, the
  counters are the item and byte sums of the reservations that are still held, the
  reservations are those of a ledger without counters, and \<^verbatim>\<open>acquire\<close> admits a well-formed
  request exactly when the sums of the ledger leave room for it, and answers BUSY otherwise.
\<close>

theorem budget_refines_ledger:
  assumes "ResourceBudget options = Inr b" "b' = fold budget_step opers b"
  shows "budget_view b' = fold spec_step opers (budget_view b) \<and>
    budget_items b' = held_items any_lease (ledger_of b') \<and>
    budget_bytes b' = held_bytes any_lease (ledger_of b') \<and>
    (wanted input = Some (key, n, critical) \<longrightarrow>
      acquire b' input =
        (if spec_admits b' (ledger_of b') key n critical then Inr (grant b' key n) else Inl BUSY))"
proof -
  have "budget_inv b'" "budget_view b' = fold spec_step opers (budget_view b)"
    using assms budget_machine.run_inv [of b opers] budget_machine.view_run [of b opers] by auto
  then show ?thesis
    using acquire_eq [of b'] budget_okD(1,2) [of b'] by (auto simp: budget_inv_def)
qed

theorem budget_refines_ledger_witness:
  "budget_items (fold budget_step sample_calls sample_budget) =
     held_items any_lease (ledger_of (fold budget_step sample_calls sample_budget)) \<and>
   budget_items (fold budget_step sample_calls sample_budget) = 1 \<and>
   acquire sample_budget (sample_request 2 2 7 False) = Inr (grant sample_budget (2, 2) 7)"
proof -
  have "spec_admits sample_budget (ledger_of sample_budget) (2, 2) 7 False"
    by (simp add: spec_admits_def sample_budget_def ledger_of_def held_items_def held_bytes_def)
  moreover have "budget_items (fold budget_step sample_calls sample_budget) = 1" by code_simp
  ultimately show ?thesis
    using budget_refines_ledger [OF sample_budget_constructed refl, of sample_calls]
      budget_refines_ledger [OF sample_budget_constructed refl, of "[]"
        "sample_request 2 2 7 False" "(2, 2)" 7 False] sample_request_wanted(2)
    by simp
qed

text \<open>
  C20. Bounds: whatever calls are made, a budget never holds more items or bytes than its
  maximum, nor more than the quota of an operation, and its counters are never negative.
\<close>

theorem budget_limits:
  assumes "ResourceBudget options = Inr b" "b' = fold budget_step opers b"
  shows "0 \<le> budget_items b' \<and> budget_items b' \<le> maxItems b \<and>
    0 \<le> budget_bytes b' \<and> budget_bytes b' \<le> maxBytes b \<and>
    (\<forall>q. map_of (quotas b) key = Some q \<longrightarrow>
      held_items (for_key key) (ledger_of b') \<le> quota_maxItems q \<and>
      held_bytes (for_key key) (ledger_of b') \<le> quota_maxBytes q)"
proof -
  have inv: "budget_inv b'" using assms budget_machine.run_inv [of b opers] by auto
  note same = limits_run [OF assms(2)]
  have "within_quota b' (ledger_of b') key"
    using inv unfolding budget_inv_def within_limits_def by blast
  with inv show ?thesis
    using held_bytes_nonneg [of b' "ledger_of b'"]
    by (simp add: budget_inv_def within_limits_def within_quota_def budget_okD(1,2) same
        held_items_nonneg split: option.splits)
qed

theorem budget_limits_witness:
  "budget_items (fold budget_step sample_calls sample_budget) \<le> 4 \<and>
   budget_bytes (fold budget_step sample_calls sample_budget) \<le> 1000 \<and>
   held_items (for_key (2, 2)) (ledger_of (fold budget_step sample_calls sample_budget)) \<le> 1"
  using budget_limits [OF sample_budget_constructed refl, of sample_calls "(2, 2)"]
  by (simp add: sample_budget_limits)

text \<open>
  C21. Liveness: as long as only ordinary requests were admitted, a critical request that asks
  for at most the reserved bytes, for an operation without a quota, is granted.
\<close>

theorem budget_reserve_available:
  assumes "ResourceBudget options = Inr b" "list_all ordinary opers" "b' = fold budget_step opers b"
    and "wanted input = Some (key, n, True)" "n \<le> reservedBytes b" "map_of (quotas b) key = None"
  shows "acquire b' input = Inr (grant b' key n)"
proof -
  have start: "budget_inv b" "config_ok b" "ledger_of b = []"
    using assms(1) budget_machine.start_inv [of b] ResourceBudget_start by auto
  then have "below_reserve b (ledger_of b)"
    by (simp add: below_reserve_def held_items_def held_bytes_def config_ok_def)
  then have below: "below_reserve b' (ledger_of b')"
    using reserve_run [OF assms(2) start(1)] assms(3) by simp
  have inv: "budget_inv b'" using assms(1,3) budget_machine.run_inv [of b opers] by auto
  note same = limits_run [OF assms(3)]
  have "spec_admits b' (ledger_of b') key n True"
    using below inv assms(5,6) unfolding spec_admits_def same below_reserve_def
    by (auto simp: budget_inv_def config_ok_def same)
  then show ?thesis using inv by (simp add: acquire_eq [OF _ assms(4)] budget_inv_def)
qed

theorem budget_reserve_available_witness:
  "acquire (fold budget_step [Acquire (sample_request 2 2 350 False)] sample_budget)
     (sample_request 1 1 200 True) =
   Inr (grant (fold budget_step [Acquire (sample_request 2 2 350 False)] sample_budget) (1, 1) 200)"
  by (rule budget_reserve_available [OF sample_budget_constructed _ refl sample_request_wanted(1)])
    (simp_all add: sample_budget_limits sample_request_def)

subsection \<open>Stream tickets\<close>


definition sample_token :: bytes where
  "sample_token = 1 # replicate 31 1"

definition sample_ticket :: "nat ticket" where
  "sample_ticket = \<lparr>tk_bindingHash = replicate 32 4, tk_scopeId = ''5:7'', tk_payload = 0, tk_expires = 3000\<rparr>"

definition tickets_issued :: "nat tickets" where
  "tickets_issued = (sample_tickets 1)\<lparr>ticket_records := [(sample_token, sample_ticket)], random_calls := 1\<rparr>"

lemma sample_issue:
  "issue sample_stream_env (JBytes (replicate 32 4)) ''5:7'' 0 (JBig 9000) (sample_tickets 0) =
     (Inr sample_token, tickets_issued)"
  by code_simp






text \<open>
  C19. Round trip: a ticket that was issued at time \<open>now\<close> and is presented before the earlier of
  the caller's expiry and the ticket lifetime gives back the payload it was issued for, and
  with any other binding it is refused.
\<close>

theorem ticket_issue_consume:
  assumes "issue E binding sc p x s = (Inr token, t)"
    and "env_now E (now_calls s) = JBig now" "session_u64 x = Inr y"
    and "env_now E (now_calls t) = JBig later" "0 \<le> later" "later \<le> MAX_U64" "later < min y (now + ttlMillis s)"
  shows "fst (consume E (JBytes token) binding t) = Inr p \<and>
    (fixed32 other \<noteq> fixed32 binding \<longrightarrow> isl (fst (consume E (JBytes token) other t)))"
proof -
  from assms(1-3) obtain h k where h: "fixed32 binding = Inr h" "k = min y (now + ttlMillis s)"
    and tok: "length token = 32" "map_of (ticket_records (sweep now s)) token = None"
    and t: "ticket_records t = ticket_records (sweep now s) @ [(token, new_ticket h sc p k)]"
    by (auto elim!: issue_Inr)
  have known: "map_of (ticket_records t) token = Some (new_ticket h sc p k)"
    using tok(2) by (simp add: t map_add_def)
  have key: "session_bytes (JBytes token) 32 32 = Inr token" using tok(1) by (simp add: session_bytes_def hBuffer_def)
  have "consume E (JBytes token) binding t =
      (Inr p, t\<lparr>ticket_records := AList.delete token (ticket_records t), now_calls := Suc (now_calls t)\<rparr>)"
    using consume_known [OF key _ known, of binding E later] assms(4-7) h by (simp add: new_ticket_def)
  moreover have "isl (fst (consume E (JBytes token) other t))" if "fixed32 other \<noteq> fixed32 binding"
    using that h key known assms(4-7)
    by (auto simp: consume_def abind_def currentMonotonic_def new_ticket_def split: sum.splits)
  ultimately show ?thesis by simp
qed

theorem ticket_issue_consume_witness:
  "fst (consume sample_stream_env (JBytes sample_token) (JBytes (replicate 32 4)) tickets_issued) = Inr 0"
  using ticket_issue_consume [OF sample_issue, of 1000 9000 1001]
  by (simp add: sample_stream_env_def sample_tickets_def tickets_issued_def session_u64_def MAX_U64_def)

text \<open>
  C18. Termination: with a clock in range, room in the table, a well-formed request and an
  entropy source whose draws are usable and distinct, the loop that looks for an unused token
  ends after at most one draw more than there are tickets, and \<^verbatim>\<open>issue\<close> returns a ticket.
\<close>

theorem ticket_issue_terminates:
  assumes "env_now E (now_calls s) = JBig now" "0 \<le> now" "now \<le> MAX_U64"
    and "int (length (ticket_records (sweep now s))) < maxTickets s"
    and "fixed32 binding = Inr h" "1 \<le> length sc" "length sc \<le> 128"
    and "session_u64 x = Inr y" "now < y" "1 \<le> ttlMillis s"
    and "\<And>j. j \<le> length (ticket_records (sweep now s)) \<Longrightarrow> good_draw E (random_calls s + j) (tok j)"
    and "inj_on tok {.. length (ticket_records (sweep now s))}"
    and "length (ticket_records (sweep now s)) < env_rounds E"
  shows "\<exists>k t. k \<le> length (ticket_records (sweep now s)) \<and> issue E binding sc p x s = (Inr (tok k), t) \<and>
    random_calls t = random_calls s + k + 1"
proof -
  let ?u = "sweep now (s\<lparr>now_calls := Suc (now_calls s)\<rparr>)"
  have "\<exists>k. k \<le> length (ticket_records ?u) \<and> map_of (ticket_records ?u) (tok k) = None \<and>
    fresh_token E (env_rounds E) ?u = (Inr (tok k), ?u\<lparr>random_calls := random_calls ?u + k + 1\<rparr>)"
    by (rule fresh_token_returns) (use assms(11-13) in auto)
  then obtain k where k: "k \<le> length (ticket_records (sweep now s))"
    and fresh: "fresh_token E (env_rounds E) ?u = (Inr (tok k), ?u\<lparr>random_calls := random_calls ?u + k + 1\<rparr>)"
    by auto
  have clock: "currentMonotonic E s = (Inr now, s\<lparr>now_calls := Suc (now_calls s)\<rparr>)"
    using assms(1-3) by (simp add: currentMonotonic_Inr)
  have "\<exists>t. issue E binding sc p x s = (Inr (tok k), t) \<and> random_calls t = random_calls s + k + 1"
    using assms(4-10) fresh clock by (simp add: issue_def abind_simps(1) Let_def Suc_le_eq)
  with k show ?thesis by blast
qed

theorem ticket_issue_terminates_witness:
  "\<exists>t. issue sample_stream_env (JBytes (replicate 32 4)) ''5:7'' (0 :: nat) (JBig 9000) (sample_tickets 0) =
     (Inr sample_token, t)"
proof -
  have "good_draw sample_stream_env 0 sample_token" by code_simp
  then show ?thesis
    using ticket_issue_terminates [of sample_stream_env "sample_tickets 0" 1000 "JBytes (replicate 32 4)" "replicate 32 4"
        "''5:7''" "JBig 9000" 9000 "\<lambda>_. sample_token" 0]
    by (auto simp: sample_stream_env_def sample_tickets_def sweep_def fixed32_def session_bytes_def hBuffer_def
        session_u64_def MAX_U64_def)
qed

subsection \<open>Stream sessions\<close>

text \<open>
  C8. Invariant: after any sequence of calls on a stream plane, its byte counter is the sum of
  the buffer reservations that are still held and never exceeds the plane's cap; there are at
  most the allowed number of sessions, one per stream key, and they are the open scopes; no
  scope exceeds its own buffer and byte caps; a closed scope holds no bytes, has started its
  close callback exactly once, and no ticket leads to it.
\<close>

theorem stream_plane_accounting:
  assumes "StreamSessionPlane E options = Inr p0" "p = fold (plane_step E ready S) opers p0"
  shows "pl_buffered p = (\<Sum>j\<in>held_reservations p. rs_length (pl_reservations p ! j)) \<and>
    pl_buffered p \<le> pl_maxBuffered p \<and>
    distinct (map fst (pl_sessions p)) \<and> int (length (pl_sessions p)) \<le> pl_maxStreams p \<and>
    (\<forall>i < length (pl_scopes p). let sc = scope_at i p in
       0 \<le> ss_buffered sc \<and> ss_buffered sc \<le> ss_maxBuffered sc \<and>
       0 \<le> ss_totalBytes sc \<and> ss_totalBytes sc \<le> ss_maxBytes sc \<and>
       ((ss_key sc, i) \<in> set (pl_sessions p) \<longleftrightarrow> \<not> ss_closed sc) \<and>
       (ss_closed sc \<longrightarrow> ss_buffered sc = 0 \<and> count_list (map fst (pl_closes p)) i = 1 \<and>
          i \<notin> (\<lambda>(_, r). tk_payload r) ` set (ticket_records (pl_tickets p))))"
proof -
  have "ok_with 0 p" unfolding assms(2) by (rule plane_machine.run_inv) (use assms(1) in blast)
  then have ok: "plane_ok p" by (simp add: ok_with_def)
  note s = sessions_okD [OF plane_okD(1) [OF ok]]
  have "pl_buffered p \<le> pl_maxBuffered p" using plane_okD(2) [OF ok] by (simp add: buffers_ok_def)
  moreover have "(ss_key (scope_at i p), i) \<in> set (pl_sessions p) \<longleftrightarrow> \<not> ss_closed (scope_at i p)"
    if "i < length (pl_scopes p)" for i
    using that s(2) [of "ss_key (scope_at i p)" i] s(4) [of i] by (auto simp: open_at_def)
  moreover have "count_list (map fst (pl_closes p)) i = 1 \<and>
      i \<notin> (\<lambda>(_, r). tk_payload r) ` set (ticket_records (pl_tickets p))"
    if "i < length (pl_scopes p)" "ss_closed (scope_at i p)" for i
  proof -
    have "i \<in> set (map fst (pl_closes p))" using that s(8) by auto
    with s(7) have "count_list (map fst (pl_closes p)) i = 1" by (simp add: count_list_distinct)
    then show ?thesis using closed_unreachable(2) [OF ok, of i] that by (simp add: closed_at_def)
  qed
  ultimately show ?thesis
    using buffered_sum [OF ok] s(1,6) scope_accounts [OF ok] by (simp add: Let_def)
qed

theorem stream_plane_accounting_witness:
  "pl_buffered plane_open \<le> pl_maxBuffered plane_open \<and> int (length (pl_sessions plane_open)) \<le> 2 \<and>
   ss_buffered (scope_at 0 plane_open) \<le> 100"
  using stream_plane_accounting [OF plane_start_constructed refl,
      of always_ready sample_platform "[CreateSession sample_session]"]
  by (simp add: session_created) (simp add: plane_open_def plane_with_def sample_scope_def)

text \<open>
  C15. Safety: a fence closes exactly the open scopes whose readiness matches it and leaves the
  other open scopes as they were; whatever is called afterwards, a fenced scope refuses every
  use, and neither the session table nor any ticket leads to it.
\<close>

theorem stream_fence_final:
  assumes "StreamSessionPlane E options = Inr p0" "p = fold (plane_step E ready S) before p0"
    and "fence event p = (Inr (), q)" "r = fold (plane_step E ready S) after q"
    and "optionally session_u64 (fe_descriptorSequence event) = Inr s"
    and "optionally fixed32 (fe_descriptorHash event) = Inr h"
  shows "(open_at q i \<longleftrightarrow> open_at p i \<and> \<not> fence_matches s h (scope_at i p)) \<and>
    (open_at q i \<longrightarrow> scope_at i q = scope_at i p) \<and>
    (open_at p i \<longrightarrow> fence_matches s h (scope_at i p) \<longrightarrow>
       assertActive E ready i r = (Inl RETRY_TERMINAL, r) \<and> i \<notin> snd ` set (pl_sessions r) \<and>
       i \<notin> (\<lambda>(_, t). tk_payload t) ` set (ticket_records (pl_tickets r)))"
proof -
  have p: "ok_with 0 p" unfolding assms(2) by (rule plane_machine.run_inv) (use assms(1) in blast)
  then have "ok_with 0 q" using keepsD [OF fence_keeps, of 0 p event] assms(3) by simp
  then have "ok_with 0 r" unfolding assms(4) by (rule plane_machine.fold_inv)
  then have r: "plane_ok r" by (simp add: ok_with_def)
  note f = fence_result [OF p assms(3,5,6)]
  have "closed_at i r" if "open_at p i" "fence_matches s h (scope_at i p)"
    unfolding assms(4) by (rule closed_plane_run [OF f(1) [OF that]])
  then show ?thesis
    using f(2,3) [of i] closed_refused [of i r E ready] closed_unreachable [OF r, of i] by blast
qed

definition sample_fence :: fence_event where
  "sample_fence = \<lparr>fe_reason = Some ''draining'', fe_descriptorSequence = JBig 3, fe_descriptorHash = JUndef\<rparr>"

theorem stream_fence_final_witness:
  "\<not> open_at (snd (fence sample_fence plane_open)) 0 \<and>
   assertActive sample_stream_env always_ready 0 (snd (fence sample_fence plane_open)) =
     (Inl RETRY_TERMINAL, snd (fence sample_fence plane_open))"
proof -
  have "fst (fence sample_fence plane_open) = Inr ()" by code_simp
  then have f: "fence sample_fence plane_open = (Inr (), snd (fence sample_fence plane_open))" by (simp add: prod_eq_iff)
  have o: "open_at plane_open 0" "fence_matches (Some 3) None (scope_at 0 plane_open)" by code_simp+
  have arg: "optionally session_u64 (fe_descriptorSequence sample_fence) = Inr (Some 3)"
    "optionally fixed32 (fe_descriptorHash sample_fence) = Inr None" by code_simp+
  have p: "plane_open = fold (plane_step sample_stream_env always_ready sample_platform) [CreateSession sample_session] plane_start"
    by (simp add: session_created)
  show ?thesis
    using stream_fence_final [OF plane_start_constructed p f _ arg, of "snd (fence sample_fence plane_open)" "[]" 0] o by simp
qed

subsection \<open>Forward circuits\<close>

lemma relay_start_fresh: "fresh_relay sample_stream_env always_ready sample_platform relay_start"
  unfolding fresh_relay_def
proof (intro exI conjI)
  show "StreamSessionPlane sample_stream_env sample_plane_options = Inr plane_start" by (rule plane_start_constructed)
  show "rl_plane relay_start =
      fold (plane_step sample_stream_env always_ready sample_platform) [CreateSession sample_session] plane_start"
    by (simp add: session_created relay_start_def)
  show "ForwardCircuit 0 sample_circuit_options = Inr (rl_circuit relay_start)"
    by (simp add: sample_circuit_constructed relay_start_def)
qed (simp add: relay_start_def plane_open_def plane_with_def)

lemmas sample_circuit_run = sample_run [of sample_platform]

lemma caller_opposite: "opposite FORWARD_SIDE_CALLER = Inr FORWARD_SIDE_NEXT_HOP"
  by (simp add: opposite_Inr)

text \<open>
  C10. Bounds: in every run of a forward circuit, in both directions, the credit is never
  negative, no more bytes are acknowledged than were sent, and the credit together with the
  bytes in flight never exceeds the window limit of one mebibyte.
\<close>

theorem circuit_credit:
  assumes "fresh_relay E ready S r0" "circuit_run E ready S r0 log r" "d = dir_of side (rl_circuit r)"
  shows "0 \<le> availableCredit d \<and> 0 \<le> consumedThrough d \<and> consumedThrough d \<le> nextOffset d \<and>
    availableCredit d + (nextOffset d - consumedThrough d) \<le> 1048576"
proof -
  have "credit r" by (rule run_credit [OF assms(2) fresh_relay_start(1,2) [OF assms(1)]])
  then have "dir_ok d" unfolding assms(3) by (rule credit_dir)
  then show ?thesis by (simp add: dir_ok_def DISPATCH_LIMITS_MAX_FORWARD_WINDOW_BYTES_def)
qed

theorem circuit_credit_witness:
  "availableCredit (dir_of FORWARD_SIDE_CALLER (rl_circuit relay_delivered)) +
     nextOffset (dir_of FORWARD_SIDE_CALLER (rl_circuit relay_delivered)) \<le> 1048576"
  using circuit_credit [OF relay_start_fresh sample_circuit_run refl, of FORWARD_SIDE_CALLER]
  by (simp add: relay_delivered_def circuit_received_def dir_of_def)

text \<open>
  C17. Functional correctness of the relay: a frame that is accepted from one side is sent to
  the other side unchanged in operation, sequence number and body, under the stream number
  of that side.
\<close>

theorem circuit_forwards_exact:
  assumes "receive E ready side v r = (Inr pr, q)"
  shows "\<exists>target frame g. opposite side = Inr target \<and> pr_targetSide pr = target \<and>
    decodeDispatchFrame v True = Inr frame \<and> getf frame ''streamId'' = JBig (stream_of side (rl_circuit r)) \<and>
    decodeDispatchFrame (JBytes (pr_outbound pr)) True = Inr g \<and> getf g ''streamId'' = JBig (stream_of target (rl_circuit r)) \<and>
    getf g ''operationId'' = getf frame ''operationId'' \<and> getf g ''sequence'' = getf frame ''sequence'' \<and>
    getf g ''body'' = getf frame ''body''"
proof -
  from assms obtain u where "prepare E ready side v r = (Inr pr, u)" by (rule receive_accepts)
  then obtain target frame p w where f: "opposite side = Inr target" "decodeDispatchFrame v True = Inr frame"
    "\<not> ss_closed (scope_at (ci_scope (rl_circuit r)) (rl_plane r))"
    "getf frame ''streamId'' = JBig (stream_of side (rl_circuit r))"
    "getf frame ''sequence'' = JBig (nextSequence (dir_of side (rl_circuit r)))"
    "w = r\<lparr>rl_plane := p, rl_circuit := upd_dir side (\<lambda>s. s\<lparr>nextSequence := nextSequence s + 1\<rparr>) (rl_circuit r)\<rparr>"
    "relay_frame E ready side target (rl_circuit r) frame w = (Inr pr, u)"
    by (rule prepare_Inr)
  show ?thesis
  proof (rule relay_frame_Inr [OF f(7,2)])
    fix g
    assume "pr_targetSide pr = target" "decodeDispatchFrame (JBytes (pr_outbound pr)) True = Inr g"
      "getf g ''streamId'' = JBig (stream_of target (rl_circuit r))" "getf g ''operationId'' = getf frame ''operationId''"
      "getf g ''sequence'' = getf frame ''sequence''" "getf g ''body'' = getf frame ''body''"
    then show ?thesis using f(1,2,4) by blast
  qed
qed

theorem circuit_forwards_exact_witness:
  "\<exists>g. decodeDispatchFrame (JBytes (pr_outbound sample_prepared)) True = Inr g \<and>
     getf g ''streamId'' = JBig (stream_of FORWARD_SIDE_NEXT_HOP sample_circuit)"
proof -
  have "FORWARD_SIDE_CALLER = 1" by (simp add: FORWARD_SIDE_CALLER_def)
  with circuit_forwards_exact [OF relay_receives] caller_opposite show ?thesis by (auto simp: relay_start_def)
qed

text \<open>
  C6. Safety: in every run, the frames that a circuit has written to one side carry that side's
  stream number and the sequence numbers 0, 1, 2, ..., and each DATA frame among them starts
  at the byte offset where the ones before it end.
\<close>

theorem circuit_in_order:
  assumes "fresh_relay E ready S r0" "circuit_run E ready S r0 log r" "opposite side = Inr target"
  shows "in_order (stream_of target (rl_circuit r0)) 0 0 (map decoded (written_to target (rl_circuit r)))"
proof -
  note start = fresh_relay_start [OF assms(1)]
  have "fixed_ids (rl_circuit r0) (rl_circuit r)" using run_ok [OF assms(2) start(1)] by blast
  then have same: "stream_of target (rl_circuit r) = stream_of target (rl_circuit r0)"
    using assms(3) by (auto simp: fixed_ids_def opposite_Inr)
  have "flow side target log r" by (rule run_flow [OF assms(2) start(1) start(3) assms(3)])
  then have "in_order (stream_of target (rl_circuit r0)) 0 0 (map decoded (sent side log))"
    by (simp add: flow_def Let_def same)
  moreover have "delivery side target log r" by (rule run_delivery [OF assms(2) start(1) start(4) assms(3)])
  then obtain rest where "sent side log = written_to target (rl_circuit r) @ rest \<or> written_to target (rl_circuit r) = []"
    by (metis delivery_def)
  ultimately show ?thesis by (auto simp: in_order_append)
qed

theorem circuit_in_order_witness:
  "in_order 8 0 0 (map decoded (written_to FORWARD_SIDE_NEXT_HOP (rl_circuit relay_delivered)))"
  using circuit_in_order [OF relay_start_fresh sample_circuit_run caller_opposite]
  by (simp add: relay_start_def sample_circuit_def stream_of_def)

text \<open>
  C5. Liveness of the relay: the frames written to a side are a prefix of the frames accepted
  from the other side, in the order of acceptance; while the circuit is open, or once the
  receiving side has a port, every accepted frame is written or waits in the queue.
\<close>

theorem circuit_delivers:
  assumes "fresh_relay E ready S r0" "circuit_run E ready S r0 log r" "opposite side = Inr target"
  shows "prefix (written_to target (rl_circuit r)) (sent side log) \<and>
    (\<not> closed_at (ci_scope (rl_circuit r)) (rl_plane r) \<or> has_port target (rl_circuit r) \<longrightarrow>
      written_to target (rl_circuit r) @ map pr_outbound (queue_of side (rl_circuit r)) = sent side log)"
proof -
  note start = fresh_relay_start [OF assms(1)]
  have "delivery side target log r" by (rule run_delivery [OF assms(2) start(1) start(4) assms(3)])
  then have "\<not> has_port target (rl_circuit r) \<longrightarrow> written_to target (rl_circuit r) = []"
    and *: "written_to target (rl_circuit r) @ map pr_outbound (queue_of side (rl_circuit r)) = sent side log \<or>
      \<not> has_port target (rl_circuit r) \<and> closed_at (ci_scope (rl_circuit r)) (rl_plane r)"
    by (simp_all add: delivery_def Let_def)
  then have "prefix (written_to target (rl_circuit r)) (sent side log)" by (metis Nil_prefix prefixI)
  with * show ?thesis by blast
qed

theorem circuit_delivers_witness:
  "prefix (written_to FORWARD_SIDE_NEXT_HOP (rl_circuit relay_delivered)) (sent FORWARD_SIDE_CALLER [sample_prepared]) \<and>
   written_to FORWARD_SIDE_NEXT_HOP (rl_circuit relay_delivered) = [data_frame 8 0 0]"
proof -
  have "written_to FORWARD_SIDE_NEXT_HOP (rl_circuit relay_delivered) = [data_frame 8 0 0]"
    by (simp add: written_to_def relay_delivered_def FORWARD_SIDE_NEXT_HOP_def)
  then show ?thesis using circuit_delivers [OF relay_start_fresh sample_circuit_run caller_opposite] by blast
qed

text \<open>
  C16. Errors: a frame that a circuit rejects, for whatever reason, closes the circuit; in
  every continuation no frame from either side is accepted any more.
\<close>

theorem circuit_rejects_for_good:
  assumes "fresh_relay E ready S r0" "circuit_run E ready S r0 log r"
    and "receive E ready side v r = (Inl e, q)" "circuit_run E ready S q rest q'"
  shows "rest = [] \<and> closed_at (ci_scope (rl_circuit q')) (rl_plane q') \<and>
    fst (receive E ready other w q') = Inl RETRY_TERMINAL"
proof -
  have "relay_ok (Suc (ci_scope (rl_circuit r0))) r" using run_ok [OF assms(2) fresh_relay_start(1) [OF assms(1)]] by blast
  note rej = reject_result [OF assms(3) this]
  have "closed_at (ci_scope (rl_circuit q)) (rl_plane q)" using rej(3) same_ids_stream [OF rej(2)] by simp
  from run_closed [OF assms(4) rej(1) this] show ?thesis using receive_closed by blast
qed

theorem circuit_rejects_for_good_witness:
  "fst (receive sample_stream_env always_ready FORWARD_SIDE_CALLER (JBytes (data_frame 7 0 0)) relay_rejected) =
     Inl RETRY_TERMINAL"
  using circuit_rejects_for_good [OF relay_start_fresh run_start relay_rejects run_start] by blast

end
