(* ===== verification/Spec2Isabelle.thy ===== *)
theory Spec2Isabelle
  imports Message_Properties Dispatch_Properties Commitment_Properties Daemon_Properties
begin

text \<open>
  HiveRelay: the blind protocol (\<^verbatim>\<open>src/packages/blind-protocol\<close>) and the stateful core of the
  relay daemon that speaks it (\<^verbatim>\<open>src/packages/blind-daemon\<close>).

  A blind relay stores opaque cells, inboxes and cores and forwards circuits without seeing what
  they mean.  Everything it exchanges is a message of a frozen wire schema, in a canonical binary
  encoding; requests and results are bound to relays by domain-separated hashes and signatures;
  messages travel in dispatch frames, and frames in padded envelopes of six sizes.  In the daemon,
  a resource budget admits operations, a stream plane holds the sessions, their one-use tickets
  and their buffers, and a forward circuit relays the frames of two sides through a session.

  Parts and theories.
  \<^item> \<^verbatim>\<open>Prelude\<close>, \<^verbatim>\<open>Js_Value\<close>: bytes, errors as values (\<open>Inl\<close> a code of \<^verbatim>\<open>errors.js\<close>, or
    \<open>TYPE_ERROR\<close> where JavaScript throws by itself), the JavaScript values a codec meets,
    32-bit operators; the platform's hash, NFC test and URL parser are the record \<open>platform\<close>.
  \<^item> \<^verbatim>\<open>Codec\<close> (\<^verbatim>\<open>codec.js\<close>): a codec is a record of the three passes \<^verbatim>\<open>preencode\<close>, \<^verbatim>\<open>encode\<close>,
    \<^verbatim>\<open>decode\<close> over an explicit state with buffer and offsets.  \<^verbatim>\<open>Codec_Laws\<close> states the contract
    of a codec as the locale \<open>canonical_codec\<close>, proves its consequences once, and interprets it on
    the primitive codecs; \<^verbatim>\<open>Codec_Combinators\<close> shows that every combinator keeps it.
  \<^item> \<^verbatim>\<open>Wire_Authority\<close> (\<^verbatim>\<open>wire-runtime-authority.js\<close>): constants, class tables, domain registry,
    error and operation profiles.
  \<^item> \<^verbatim>\<open>Hashes\<close> (\<^verbatim>\<open>hashes.js\<close>), \<^verbatim>\<open>Forward_Route_Scope\<close> (\<^verbatim>\<open>forward-route-scope.js\<close>): hash recipes, each
    with its hash input as a function of its own; \<^verbatim>\<open>Binding\<close>: what equal inputs imply.
  \<^item> \<^verbatim>\<open>Result_Binding\<close> (\<^verbatim>\<open>result-binding.js\<close>), \<^verbatim>\<open>Schema_Common\<close>, \<^verbatim>\<open>Schema_Cell\<close>,
    \<^verbatim>\<open>Schema_Inbox\<close>, \<^verbatim>\<open>Schema_Describe\<close>, \<^verbatim>\<open>Schema_Stream\<close> (\<^verbatim>\<open>schemas.js\<close>), \<^verbatim>\<open>Schema_Durability\<close>
    (\<^verbatim>\<open>durability-schemas.js\<close>), \<^verbatim>\<open>Schema_Catalog\<close> (\<^verbatim>\<open>schema-codecs.js\<close> and the catalog table): the
    wire schemas with their validators, each an interpretation of the codec contract.
  \<^item> \<^verbatim>\<open>Dispatch\<close> (\<^verbatim>\<open>dispatch.js\<close>) and \<^verbatim>\<open>Dispatch_Laws\<close>: frames, and the sequence guard as a
    transition system with its history; \<^verbatim>\<open>Outer_Envelope\<close> (\<^verbatim>\<open>outer-envelope.js\<close>).
  \<^item> \<^verbatim>\<open>Stateful\<close>: actions with state and exceptions, rules for what an action keeps, and the
    locales \<open>machine\<close> and \<open>refined_machine\<close> for sequences of calls.
  \<^item> \<^verbatim>\<open>Resource_Budget\<close> (\<^verbatim>\<open>resource-budget.js\<close>): the counters with the closures that share them;
    \<^verbatim>\<open>Resource_Budget_Laws\<close> shows that it refines a ledger without counters.
  \<^item> \<^verbatim>\<open>Stream_Tickets\<close>, \<^verbatim>\<open>Stream_Session\<close> (\<^verbatim>\<open>stream-session.js\<close>): the ticket table, the scopes and
    the plane, with the clock, the entropy source and the readiness hook as parameters;
    \<^verbatim>\<open>Stream_Tickets_Laws\<close>, \<^verbatim>\<open>Stream_Session_Laws\<close>, \<^verbatim>\<open>Stream_Closing\<close>: traces of the table, the
    invariant of the plane for every operation, and the end of a scope.
  \<^item> \<^verbatim>\<open>Forward_Circuit\<close> (\<^verbatim>\<open>ForwardCircuit\<close> of \<^verbatim>\<open>forward-stream.js\<close>) with \<^verbatim>\<open>Forward_Circuit_Laws\<close> and
    \<^verbatim>\<open>Forward_Circuit_Runs\<close>: a circuit on a plane, and its runs as an inductive relation over any
    interleaving of frames, deliveries, attachment and calls on the plane.
  \<^item> \<^verbatim>\<open>Schema_Samples\<close>, \<^verbatim>\<open>Sample_Messages\<close>, \<^verbatim>\<open>Daemon_Samples\<close>: concrete messages and states.  \<^verbatim>\<open>Message_Properties\<close>,
    \<^verbatim>\<open>Dispatch_Properties\<close>, \<^verbatim>\<open>Commitment_Properties\<close>, \<^verbatim>\<open>Daemon_Properties\<close> and this
    theory hold the properties.

  What is shown: for all wire schemas, that decoding is canonical (one encoding per value, no
  trailing bytes) and that the counting pass makes the writing pass succeed; for frames and
  envelopes, both round trips and exact sizes; for the guard, boundedness, monotone sequences and
  refinement of the history; for single messages, what acceptance guarantees; for commitments and
  signatures, that equal hash inputs mean equal fields, with no assumption on the hash.  For the budget: its
  counters are the sums of the reservations held, admission is exactly what these sums allow, and
  the reserve stays available to critical work.  For the stream plane: tickets are used at most
  once, byte counters equal the reservations held and respect every cap, closed scopes stay closed
  and fences are final.  For a circuit: credit stays in the window, frames of a side leave in order
  with contiguous offsets, nothing accepted is lost while the circuit is open, and a rejected frame
  ends the circuit.

  Fuel: only the loop of \<^verbatim>\<open>issue\<close> that draws tokens until one is unused may run forever, on a
  bad entropy source.  It is followed for \<open>env_rounds\<close> rounds; with distinct draws, one round more
  than there are tickets is shown to be enough.  Every other loop runs over a list or a length.

  Not modelled: \<^verbatim>\<open>ForwardStreamService\<close>, which negotiates hops over the network, and the writes to
  ports, which are parameters of a delivery; the storage engines, journals, admission and
  transports of the daemon; the wire profiles of versions 2 and 3; the evidence and
  client-internal schemas, which are further records over the modelled combinators; clients,
  services, scripts and the open relay node, which are I/O around these parts.
\<close>

section \<open>Canonical wire schemas\<close>

subsection \<open>Sample messages\<close>

definition window_bytes :: bytes where
  "window_bytes = [1] @ replicate 32 7 @ be_bytes 8 5 @ be_bytes 4 9"

definition window_value :: jsval where
  "window_value = JObj [(''version'', JNum 1), (''circuitNonce'', JBytes (replicate 32 7)),
     (''consumedThrough'', JBig 5), (''creditIncrement'', JNum 9)]"

lemma window_decodes: "decodeCanonical blindForwardWindowV1 (JBytes window_bytes) True = Inr window_value"
  by code_simp

lemma window_listed: "(''BlindForwardWindowV1'', blindForwardWindowV1) \<in> set (WIRE_SCHEMA_CODECS E)"
  by (simp add: WIRE_SCHEMA_CODECS_def)

text \<open>
  C1. Canonical decoding: whatever bytes the codec of a wire schema decodes, encoding the
  decoded value gives the same bytes back, for each of the 71 wire schemas.
\<close>

theorem wire_decode_encode:
  assumes "(n, c) \<in> set (WIRE_SCHEMA_CODECS E)" "decodeCanonical c (JBytes bs) cp = Inr v"
  shows "encodeCanonical c v = Inr bs"
  using assms canonical_codec.decode_encode wire_schema_canonical by blast

theorem wire_decode_encode_witness: "encodeCanonical blindForwardWindowV1 window_value = Inr window_bytes"
  by (rule wire_decode_encode [OF window_listed [of sample_platform] window_decodes])



text \<open>
  C12. No trailing bytes: if a byte string decodes under the codec of a wire schema, every
  proper extension of it is rejected, so no encoding is a prefix of another.
\<close>

theorem wire_prefix_free:
  assumes "(n, c) \<in> set (WIRE_SCHEMA_CODECS E)" "decodeCanonical c (JBytes bs) cp = Inr v" "xs \<noteq> []"
  shows "decodeCanonical c (JBytes (bs @ xs)) cp' = Inl BAD_ENCODING"
  using assms canonical_codec.decode_prefix_free wire_schema_canonical by blast

theorem wire_prefix_free_witness:
  "decodeCanonical blindForwardWindowV1 (JBytes (window_bytes @ [0])) False = Inl BAD_ENCODING"
  by (rule wire_prefix_free [OF window_listed [of sample_platform] window_decodes]) simp

text \<open>
  C3. The counting pass is exact: if \<^verbatim>\<open>preencode\<close> of a wire schema accepts a value, encoding it
  succeeds, and the counted length is the length of the bytes written, so the write pass never
  runs out of the buffer it was given and leaves none of it.
\<close>

theorem wire_encode_total:
  assumes "(n, c) \<in> set (WIRE_SCHEMA_CODECS E)" "preencode c st v JUndef = Inr st1"
  shows "\<exists>bs. encodeCanonical c v = Inr bs \<and> st_end st1 = st_end st + length bs"
  by (rule canonical_codec.encodeCanonical_length [OF wire_schema_canonical [OF assms(1)] assms(2)])

lemma window_preencode:
  "preencode blindForwardWindowV1 \<lparr>st_start = 0, st_end = 0, st_buffer = [], st_copyBytes = False\<rparr> window_value JUndef
     = Inr \<lparr>st_start = 0, st_end = 45, st_buffer = [], st_copyBytes = False\<rparr>"
  by code_simp

theorem wire_encode_total_witness:
  "\<exists>bs. encodeCanonical blindForwardWindowV1 window_value = Inr bs \<and> (45 :: nat) = 0 + length bs"
  using wire_encode_total [OF window_listed [of sample_platform] window_preencode] by simp

section \<open>A request through all layers\<close>

text \<open>
  C2. Layers compose: every frame that encodes can be enveloped, the envelope has a class size, and
  decoding the envelope with any options gives back the frame in normal form, whatever the padding.
\<close>

theorem request_reaches_peer:
  assumes "encodeDispatchFrame w = Inr inner" "keeps_length randomFill"
  shows "\<exists>out cls. encodeOuterEnvelope (Some randomFill) (JObj [(''innerDispatch'', JBytes inner)]) = Inr out \<and>
    OUTER_CLASS cls = Some (length out) \<and>
    decodeOuterEnvelope (JBytes out) ci cb = Inr (JObj [(''version'', JNum 1), (''outerClass'', JNum cls),
      (''innerDispatch'', JBytes inner), (''frame'', JObj (canonical_frame w))])"
proof -
  let ?v = "JObj [(''innerDispatch'', JBytes inner)]"
  from envelope_total [OF assms(1)] obtain out where out: "encodeOuterEnvelope (Some randomFill) ?v = Inr out" ..
  from envelope_redecode [OF out assms(2), of cb ci] obtain cls where
    d: "decodeOuterEnvelope (JBytes out) ci cb = Inr (JObj [(''version'', JNum 1), (''outerClass'', JNum cls),
      (''innerDispatch'', JBytes inner), (''frame'', JObj (canonical_frame w))])"
    using dispatch_redecode [OF assms(1), of cb] by auto
  from decodeOuterEnvelope_Inr [OF d] have "OUTER_CLASS cls = Some (length out)" by auto
  with out d show ?thesis by blast
qed

theorem request_reaches_peer_witness:
  "\<exists>out cls. OUTER_CLASS cls = Some (length out) \<and>
    decodeOuterEnvelope (JBytes out) True True = Inr (JObj [(''version'', JNum 1), (''outerClass'', JNum cls),
      (''innerDispatch'', JBytes get_bytes), (''frame'', JObj (canonical_frame get_frame))])"
  using request_reaches_peer [OF get_encodes keeps_length_id] by blast

end
